(* ===== verification/Obs_Prelude.thy ===== *)
theory Obs_Prelude
  imports Main "HOL-Library.Word" "HOL-Library.AList" "HOL-Library.Multiset"
    "HOL-Library.Option_ord"
begin

text \<open>
  Shared vocabulary of the development: the machine integers of the Rust sources, \<open>Result\<close> as a
  sum with the error on the left, the saturating arithmetic and the slice accesses the sources use,
  the collections of rewrite rules, and two interfaces every event consumer of the library
  implements. \<open>event_sink\<close> is a component that folds events into a state and keeps an invariant;
  \<open>monotone_fact\<close> is a fact of such a state that each event can only join information to, so that
  the fact depends on which events were applied and not on their order or multiplicity.
\<close>

type_synonym u8 = "8 word"
type_synonym u16 = "16 word"
type_synonym u32 = "32 word"
type_synonym u64 = "64 word"
type_synonym u128 = "128 word"

text \<open>A \<open>usize\<close> is a natural number; the targets have 64-bit addresses.\<close>

abbreviation usize_max :: nat where
  "usize_max \<equiv> 2 ^ 64 - 1"

named_theorems result_simps \<open>rewrite rules for the error monad\<close>
named_theorems hm_simps \<open>lookup laws of hash maps\<close>

subsection \<open>Results\<close>

definition and_then :: "'e + 'a \<Rightarrow> ('a \<Rightarrow> 'e + 'b) \<Rightarrow> 'e + 'b" where
  "and_then r f = (case r of Inl e \<Rightarrow> Inl e | Inr x \<Rightarrow> f x)"

definition map_ok :: "('a \<Rightarrow> 'b) \<Rightarrow> 'e + 'a \<Rightarrow> 'e + 'b" where
  "map_ok f r = (case r of Inl e \<Rightarrow> Inl e | Inr x \<Rightarrow> Inr (f x))"

definition map_err :: "('e \<Rightarrow> 'd) \<Rightarrow> 'e + 'a \<Rightarrow> 'd + 'a" where
  "map_err f r = (case r of Inl e \<Rightarrow> Inl (f e) | Inr x \<Rightarrow> Inr x)"

definition ok_or :: "'e \<Rightarrow> 'a option \<Rightarrow> 'e + 'a" where
  "ok_or e x = (case x of None \<Rightarrow> Inl e | Some y \<Rightarrow> Inr y)"

definition result_ok :: "'e + 'a \<Rightarrow> 'a option" where
  "result_ok r = (case r of Inl _ \<Rightarrow> None | Inr x \<Rightarrow> Some x)"

lemma and_then_simps [simp, result_simps]:
  "and_then (Inl e) f = Inl e"
  "and_then (Inr x) f = f x"
  by (simp_all add: and_then_def)

lemma map_ok_simps [simp, result_simps]:
  "map_ok g (Inl e) = Inl e"
  "map_ok g (Inr x) = Inr (g x)"
  by (simp_all add: map_ok_def)

lemma map_err_simps [simp, result_simps]:
  "map_err g (Inl e) = Inl (g e)"
  "map_err g (Inr x) = Inr x"
  by (simp_all add: map_err_def)

lemma ok_or_simps [simp, result_simps]:
  "ok_or e None = Inl e"
  "ok_or e (Some x) = Inr x"
  by (simp_all add: ok_or_def)

lemma result_ok_simps [simp, result_simps]:
  "result_ok (Inl e) = None"
  "result_ok (Inr x) = Some x"
  by (simp_all add: result_ok_def)

lemma and_then_eq_Inr:
  "and_then r f = Inr y \<longleftrightarrow> (\<exists>x. r = Inr x \<and> f x = Inr y)"
  by (cases r) auto

lemma map_ok_eq_Inr: "map_ok f r = Inr y \<longleftrightarrow> (\<exists>x. r = Inr x \<and> y = f x)"
  by (cases r) auto

lemma map_err_eq_Inr: "map_err f r = Inr y \<longleftrightarrow> r = Inr y"
  by (cases r) auto

lemma ok_or_eq_Inr: "ok_or e x = Inr y \<longleftrightarrow> x = Some y"
  by (cases x) auto

lemmas result_eq_Inr = and_then_eq_Inr map_ok_eq_Inr map_err_eq_Inr ok_or_eq_Inr

subsection \<open>Slices\<close>

text \<open>\<open>data.get(i)\<close>, \<open>data.get(from..to)\<close> and \<open>iter().position(p)\<close> of a Rust slice.\<close>

definition slice_get :: "'a list \<Rightarrow> nat \<Rightarrow> 'a option" where
  "slice_get xs i = (if i < length xs then Some (xs ! i) else None)"

definition slice_range :: "'a list \<Rightarrow> nat \<Rightarrow> nat \<Rightarrow> 'a list option" where
  "slice_range xs a b =
     (if a \<le> b \<and> b \<le> length xs then Some (take (b - a) (drop a xs)) else None)"

fun position :: "('a \<Rightarrow> bool) \<Rightarrow> 'a list \<Rightarrow> nat option" where
  "position p [] = None"
| "position p (x # xs) = (if p x then Some 0 else map_option Suc (position p xs))"

lemma position_None_iff: "position p xs = None \<longleftrightarrow> (\<forall>x\<in>set xs. \<not> p x)"
  by (induction xs) auto

lemma position_SomeD:
  "position p xs = Some i \<Longrightarrow>
     i < length xs \<and> p (xs ! i) \<and> (\<forall>x\<in>set (take i xs). \<not> p x)"
  by (induction xs arbitrary: i) (auto split: if_splits)

lemma position_Some_ex: "position p xs = Some i \<Longrightarrow> \<exists>x\<in>set xs. p x"
  by (metis option.distinct(1) position_None_iff)

lemma take_position_eq_takeWhile:
  "take (case position p xs of None \<Rightarrow> length xs | Some i \<Rightarrow> i) xs = takeWhile (\<lambda>x. \<not> p x) xs"
  by (induction xs) (auto split: option.splits)

subsection \<open>Saturating arithmetic\<close>

definition saturating_add :: "'a::len word \<Rightarrow> 'a word \<Rightarrow> 'a word" where
  "saturating_add x y = (if x + y < x then -1 else x + y)"

definition saturating_sub :: "'a::len word \<Rightarrow> 'a word \<Rightarrow> 'a word" where
  "saturating_sub x y = (if x < y then 0 else x - y)"

definition usize_saturating_add :: "nat \<Rightarrow> nat \<Rightarrow> nat" where
  "usize_saturating_add x y = min (x + y) usize_max"

lemma unat_max_word: "unat (-1 :: 'a::len word) = 2 ^ LENGTH('a) - 1"
  by (simp add: unat_eq_nat_uint unsigned_minus_1_eq_mask mask_eq_exp_minus_1 nat_diff_distrib
      nat_power_eq)

lemma unat_saturating_add:
  "unat (saturating_add x y) = min (unat x + unat y) (2 ^ LENGTH('a) - 1)"
  for x y :: "'a::len word"
proof (cases "unat x + unat y < 2 ^ LENGTH('a)")
  case True
  then have "unat (x + y) = unat x + unat y"
    by (simp add: unat_word_ariths)
  with True show ?thesis
    by (simp add: saturating_add_def word_less_nat_alt)
next
  case False
  have "unat x < 2 ^ LENGTH('a)" "unat y < 2 ^ LENGTH('a)"
    by (rule unsigned_less)+
  then have "unat x + unat y - 2 ^ LENGTH('a) < 2 ^ LENGTH('a)"
    using False by linarith
  with False have "(unat x + unat y) mod 2 ^ LENGTH('a) = unat x + unat y - 2 ^ LENGTH('a)"
    by (simp add: le_mod_geq)
  then have "unat (x + y) = unat x + unat y - 2 ^ LENGTH('a)"
    by (simp add: unat_word_ariths)
  with False \<open>unat y < 2 ^ LENGTH('a)\<close> have "x + y < x"
    unfolding word_less_nat_alt by linarith
  with False show ?thesis
    by (simp add: saturating_add_def unat_max_word)
qed

lemma saturating_add_ge: "x \<le> saturating_add x y"
  by (auto simp: saturating_add_def not_less)

lemma unat_saturating_sub: "unat (saturating_sub x y) = unat x - unat y"
  by (auto simp: saturating_sub_def word_less_nat_alt word_le_nat_alt unat_sub not_less)

subsection \<open>Runs of an event consumer\<close>

text \<open>
  A component that consumes events one at a time. \<open>ok\<close> is what the component may assume of an
  event (the type invariants of the event's fields), \<open>inv\<close> its own representation invariant.
\<close>

locale event_sink =
  fixes step :: "'s \<Rightarrow> 'e \<Rightarrow> 's"
    and inv :: "'s \<Rightarrow> bool"
    and ok :: "'e \<Rightarrow> bool"
  assumes inv_step: "inv s \<Longrightarrow> ok e \<Longrightarrow> inv (step s e)"
begin

lemma inv_run: "inv s \<Longrightarrow> list_all ok es \<Longrightarrow> inv (foldl step s es)"
  by (induction es arbitrary: s) (auto intro: inv_step)

end

text \<open>
  A fact of the consumer's state to which an event joins its own contribution. \<open>join\<close> is a
  semilattice operation, so a run depends on the set of applied events only.
\<close>

locale monotone_fact = semilattice join
  for join :: "'f \<Rightarrow> 'f \<Rightarrow> 'f" +
  fixes step :: "'s \<Rightarrow> 'e \<Rightarrow> 's"
    and fact :: "'s \<Rightarrow> 'f"
    and contribution :: "'e \<Rightarrow> 'f"
  assumes fact_step: "fact (step s e) = join (fact s) (contribution e)"
begin

lemma fact_run: "fact (foldl step s es) = foldl join (fact s) (map contribution es)"
  by (induction es arbitrary: s) (simp_all add: fact_step)

lemma join_foldl: "foldl join (join a b) xs = join (foldl join a xs) b"
proof (induction xs arbitrary: a)
  case (Cons x xs)
  have "join (join a b) x = join (join a x) b"
    by (simp add: ac_simps)
  with Cons.IH [of "join a x"] show ?case
    by simp
qed simp

lemma foldl_absorbs: "x \<in> set xs \<Longrightarrow> join (foldl join a xs) x = foldl join a xs"
proof (induction xs arbitrary: a)
  case Nil
  then show ?case by simp
next
  case (Cons y ys)
  show ?case
  proof (cases "x \<in> set ys")
    case True
    then show ?thesis
      by (simp add: Cons.IH)
  next
    case False
    with Cons.prems have "x = y"
      by simp
    then show ?thesis
      by (simp add: join_foldl assoc)
  qed
qed

lemma foldl_absorbs_all:
  "set ys \<subseteq> set xs \<Longrightarrow> foldl join (foldl join a xs) ys = foldl join a xs"
  by (induction ys) (auto simp: foldl_absorbs)

lemma foldl_swap: "foldl join (foldl join a xs) ys = foldl join (foldl join a ys) xs"
  by (induction xs arbitrary: a) (simp_all add: join_foldl)

lemma foldl_join_set_cong:
  assumes "set xs = set ys"
  shows "foldl join a xs = foldl join a ys"
proof -
  have "foldl join a xs = foldl join (foldl join a xs) ys"
    using assms by (simp add: foldl_absorbs_all)
  also have "\<dots> = foldl join (foldl join a ys) xs"
    by (rule foldl_swap)
  also have "\<dots> = foldl join a ys"
    using assms by (simp add: foldl_absorbs_all)
  finally show ?thesis .
qed

text \<open>Reordering and duplicating events does not change the fact.\<close>

lemma fact_order_independent:
  "set es = set es' \<Longrightarrow> fact (foldl step s es) = fact (foldl step s es')"
  unfolding fact_run by (rule foldl_join_set_cong) simp

text \<open>No later event removes what a fact already records.\<close>

lemma fact_retained: "join (fact (foldl step s es)) (fact s) = fact (foldl step s es)"
proof -
  have "join (fact (foldl step s es)) (fact s) = foldl join (join (fact s) (fact s)) (map contribution es)"
    unfolding fact_run by (rule join_foldl [symmetric])
  then show ?thesis
    by (simp add: fact_run)
qed

end

text \<open>
  A slot of the consumer's state that keeps the offer with the greatest timestamp; of two equal
  timestamps the one applied later stays.
\<close>

locale latest_wins = event_sink step inv ok
  for step :: "'s \<Rightarrow> 'e \<Rightarrow> 's" and inv and ok +
  fixes slot :: "'s \<Rightarrow> 'x option"
    and offer :: "'e \<Rightarrow> 'x option"
    and stamp :: "'x \<Rightarrow> u64"
  assumes slot_step: "inv s \<Longrightarrow> ok e \<Longrightarrow> slot (step s e) =
      (case offer e of
         None \<Rightarrow> slot s
       | Some x \<Rightarrow> (case slot s of None \<Rightarrow> Some x
                   | Some y \<Rightarrow> if stamp y \<le> stamp x then Some x else Some y))"
begin

lemma slot_run_None:
  "inv s \<Longrightarrow> list_all ok es \<Longrightarrow>
     slot (foldl step s es) = None \<longleftrightarrow> slot s = None \<and> (\<forall>e\<in>set es. offer e = None)"
  by (induction es arbitrary: s) (auto simp: inv_step slot_step split: option.splits if_splits)

lemma slot_run_Some:
  "inv s \<Longrightarrow> list_all ok es \<Longrightarrow> slot (foldl step s es) = Some x \<Longrightarrow>
     (slot s = Some x \<or> (\<exists>e\<in>set es. offer e = Some x)) \<and>
     (\<forall>y. slot s = Some y \<longrightarrow> stamp y \<le> stamp x) \<and>
     (\<forall>e\<in>set es. \<forall>y. offer e = Some y \<longrightarrow> stamp y \<le> stamp x)"
proof (induction es arbitrary: s)
  case (Cons e es)
  then have IH: "(slot (step s e) = Some x \<or> (\<exists>e\<in>set es. offer e = Some x)) \<and>
      (\<forall>y. slot (step s e) = Some y \<longrightarrow> stamp y \<le> stamp x) \<and>
      (\<forall>e\<in>set es. \<forall>y. offer e = Some y \<longrightarrow> stamp y \<le> stamp x)"
    using Cons.IH [of "step s e"] by (simp add: inv_step)
  with Cons.prems(1,2) show ?case
    by (auto simp: slot_step split: option.splits if_splits)
qed simp

text \<open>Starting from an empty slot: the slot holds an offered value of greatest timestamp.\<close>

lemma slot_run_greatest:
  "inv s \<Longrightarrow> list_all ok es \<Longrightarrow> slot s = None \<Longrightarrow> slot (foldl step s es) = Some x \<Longrightarrow>
     (\<exists>e\<in>set es. offer e = Some x) \<and>
     (\<forall>e\<in>set es. \<forall>y. offer e = Some y \<longrightarrow> stamp y \<le> stamp x)"
  using slot_run_Some by fastforce

lemma slot_run_stays:
  "inv s \<Longrightarrow> list_all ok es \<Longrightarrow> slot s = Some x \<Longrightarrow>
     \<forall>e\<in>set es. \<forall>y. offer e = Some y \<longrightarrow> stamp y < stamp x \<Longrightarrow>
     slot (foldl step s es) = Some x"
proof (induction es arbitrary: s)
  case (Cons e es)
  then have "slot (step s e) = Some x"
    by (auto simp: slot_step split: option.splits)
  with Cons show ?case
    by (simp add: inv_step)
qed simp

text \<open>An offer no later offer exceeds is the one kept.\<close>

lemma slot_run_last:
  assumes "inv s" "list_all ok (es @ e # es')" "offer e = Some x"
    and "\<forall>y. slot s = Some y \<longrightarrow> stamp y \<le> stamp x"
    and "\<forall>e\<in>set es. \<forall>y. offer e = Some y \<longrightarrow> stamp y \<le> stamp x"
    and "\<forall>e\<in>set es'. \<forall>y. offer e = Some y \<longrightarrow> stamp y < stamp x"
  shows "slot (foldl step s (es @ e # es')) = Some x"
proof -
  let ?s1 = "foldl step s es"
  have inv1: "inv ?s1"
    using assms(1,2) by (simp add: inv_run)
  have "stamp y \<le> stamp x" if "slot ?s1 = Some y" for y
    using slot_run_Some [OF assms(1) _ that] assms(2,4,5) by auto
  then have "slot (step ?s1 e) = Some x"
    using assms(2,3) inv1 by (auto simp: slot_step split: option.splits)
  with assms(2,6) inv1 show ?thesis
    by (simp add: inv_step slot_run_stays)
qed

end

text \<open>Optional facts under a join: absence is the neutral element.\<close>

definition opt_join :: "('a \<Rightarrow> 'a \<Rightarrow> 'a) \<Rightarrow> 'a option \<Rightarrow> 'a option \<Rightarrow> 'a option" where
  "opt_join f x y = (case x of None \<Rightarrow> y | Some a \<Rightarrow> (case y of None \<Rightarrow> x | Some b \<Rightarrow> Some (f a b)))"

lemma opt_join_simps [simp]:
  "opt_join f None y = y"
  "opt_join f x None = x"
  "opt_join f (Some a) (Some b) = Some (f a b)"
  by (simp_all add: opt_join_def split: option.splits)

lemma semilattice_opt_join: "semilattice f \<Longrightarrow> semilattice (opt_join f)"
proof -
  assume "semilattice f"
  then have laws: "f (f a b) c = f a (f b c)" "f a b = f b a" "f a a = a" for a b c
    unfolding semilattice_def semilattice_axioms_def abel_semigroup_def
      abel_semigroup_axioms_def semigroup_def by blast+
  have "f a (f b c) = f b (f a c)" for a b c
    by (metis laws)
  with laws show ?thesis
    by unfold_locales (auto simp: opt_join_def split: option.splits)
qed

lemma foldl_opt_join_None:
  "foldl (opt_join f) x ys = None \<longleftrightarrow> x = None \<and> (\<forall>y\<in>set ys. y = None)"
  by (induction ys arbitrary: x) (auto simp: opt_join_def split: option.splits)

end
