(* ===== verification/Captured_Bytes.thy ===== *)
theory Captured_Bytes
  imports Obs_Prelude
begin

text \<open>
  \<open>src/event/string.rs\<close>: byte strings captured from the kernel, tagged with their origin. The
  origin trait is a record of its associated constants, the tag of \<open>CapturedBytes<K>\<close> a phantom
  type parameter. \<open>captured_new\<close> is the only constructor of the source, and \<open>captured_ok\<close> the
  invariant it establishes. The locale \<open>c_string_origin\<close> is what the wire decoder relies on when
  it reads a NUL-terminated field of a given size.
\<close>

datatype omission_policy = NotSupported | FullCapacity

record captured_bytes_origin =
  ALLOWS_NUL :: bool
  MAXIMUM_LEN :: nat
  OMISSION_POLICY :: omission_policy
  DEBUG_NAME :: string
  DISPLAY_PREFIX :: string

datatype pathname_origin = PathnameOrigin
datatype command_origin = CommandOrigin
datatype abstract_unix_socket_name_origin = AbstractUnixSocketNameOrigin

definition pathname_consts :: captured_bytes_origin where
  "pathname_consts = \<lparr>ALLOWS_NUL = False, MAXIMUM_LEN = 256, OMISSION_POLICY = FullCapacity,
     DEBUG_NAME = ''CapturedPath'', DISPLAY_PREFIX = ''''\<rparr>"

definition command_consts :: captured_bytes_origin where
  "command_consts = \<lparr>ALLOWS_NUL = False, MAXIMUM_LEN = 15, OMISSION_POLICY = NotSupported,
     DEBUG_NAME = ''CapturedCommand'', DISPLAY_PREFIX = ''''\<rparr>"

definition abstract_name_consts :: captured_bytes_origin where
  "abstract_name_consts = \<lparr>ALLOWS_NUL = True, MAXIMUM_LEN = 107, OMISSION_POLICY = NotSupported,
     DEBUG_NAME = ''CapturedAbstractUnixSocketName'', DISPLAY_PREFIX = ''@''\<rparr>"

datatype captured_bytes_error =
    InteriorNul nat
  | TooLong nat nat
  | OmissionNotSupported
  | OmissionRequiresFullCapacity nat nat

datatype (dead 'k) captured_bytes =
  CapturedBytes (as_bytes: "u8 list") (bytes_omitted: bool)

type_synonym captured_path = "pathname_origin captured_bytes"
type_synonym captured_command = "command_origin captured_bytes"
type_synonym captured_abstract_name = "abstract_unix_socket_name_origin captured_bytes"

text \<open>The omission test that follows the NUL and length tests.\<close>

definition captured_omission ::
  "captured_bytes_origin \<Rightarrow> u8 list \<Rightarrow> bool \<Rightarrow> captured_bytes_error + unit" where
  "captured_omission K bytes omitted =
     (if omitted then
        (case OMISSION_POLICY K of
           NotSupported \<Rightarrow> Inl OmissionNotSupported
         | FullCapacity \<Rightarrow>
             (if length bytes \<noteq> MAXIMUM_LEN K
              then Inl (OmissionRequiresFullCapacity (length bytes) (MAXIMUM_LEN K))
              else Inr ()))
      else Inr ())"

definition captured_new ::
  "captured_bytes_origin \<Rightarrow> u8 list \<Rightarrow> bool \<Rightarrow> captured_bytes_error + 'k captured_bytes" where
  "captured_new K bytes omitted =
     and_then
       (if \<not> ALLOWS_NUL K
        then (case position (\<lambda>byte. byte = 0) bytes of
                Some p \<Rightarrow> Inl (InteriorNul p) | None \<Rightarrow> Inr ())
        else Inr ())
       (\<lambda>_. if length bytes > MAXIMUM_LEN K
            then Inl (TooLong (length bytes) (MAXIMUM_LEN K))
            else and_then (captured_omission K bytes omitted)
                   (\<lambda>_. Inr (CapturedBytes bytes omitted)))"

definition captured_ok :: "captured_bytes_origin \<Rightarrow> 'k captured_bytes \<Rightarrow> bool" where
  "captured_ok K c \<longleftrightarrow>
     (ALLOWS_NUL K \<or> 0 \<notin> set (as_bytes c)) \<and>
     length (as_bytes c) \<le> MAXIMUM_LEN K \<and>
     (bytes_omitted c \<longrightarrow> OMISSION_POLICY K = FullCapacity \<and> length (as_bytes c) = MAXIMUM_LEN K)"

abbreviation path_ok :: "captured_path \<Rightarrow> bool" where
  "path_ok \<equiv> captured_ok pathname_consts"

abbreviation command_ok :: "captured_command \<Rightarrow> bool" where
  "command_ok \<equiv> captured_ok command_consts"

abbreviation abstract_name_ok :: "captured_abstract_name \<Rightarrow> bool" where
  "abstract_name_ok \<equiv> captured_ok abstract_name_consts"

lemmas origin_consts_defs = pathname_consts_def command_consts_def abstract_name_consts_def

lemma captured_omission_ok_iff:
  "captured_omission K bytes omitted = Inr () \<longleftrightarrow>
     (omitted \<longrightarrow> OMISSION_POLICY K = FullCapacity \<and> length bytes = MAXIMUM_LEN K)"
  by (auto simp: captured_omission_def split: omission_policy.splits)

lemma captured_new_ok_iff:
  "captured_new K bytes omitted = Inr c \<longleftrightarrow> c = CapturedBytes bytes omitted \<and> captured_ok K c"
  by (auto simp: captured_new_def captured_ok_def captured_omission_ok_iff result_eq_Inr
      position_None_iff split: option.splits dest!: position_Some_ex)

text \<open>An interior NUL is reported at its first position, before the other tests.\<close>

lemma captured_new_interior_nul:
  "captured_new K bytes omitted = Inl (InteriorNul p) \<longleftrightarrow>
     \<not> ALLOWS_NUL K \<and> position (\<lambda>b. b = 0) bytes = Some p"
  by (auto simp: captured_new_def captured_omission_def and_then_def
      split: option.splits if_splits omission_policy.splits sum.splits)

subsection \<open>NUL-terminated fields\<close>

text \<open>
  An origin whose bytes are read from a NUL-terminated field of \<open>field_size\<close> bytes: NUL never
  belongs to the value, and every value of the origin fits the field.
\<close>

locale c_string_origin =
  fixes K :: captured_bytes_origin
    and field_size :: nat
  assumes no_nul: "\<not> ALLOWS_NUL K"
    and fits: "MAXIMUM_LEN K \<le> field_size"
begin

text \<open>Reading a terminated field back gives the value, whatever follows the terminator.\<close>

lemma terminated_prefix:
  assumes "captured_ok K c"
  shows "takeWhile (\<lambda>b. b \<noteq> 0) (take field_size (as_bytes c @ 0 # junk)) = as_bytes c"
proof -
  have nz: "\<forall>b\<in>set (as_bytes c). b \<noteq> 0" and len: "length (as_bytes c) \<le> field_size"
    using assms no_nul fits by (auto simp: captured_ok_def)
  have "take field_size (as_bytes c @ 0 # junk)
      = as_bytes c @ take (field_size - length (as_bytes c)) (0 # junk)"
    using len by simp
  then show ?thesis
    using nz by (cases "field_size - length (as_bytes c)") (simp_all add: takeWhile_append2)
qed

end

interpretation path_field: c_string_origin pathname_consts 256
  by unfold_locales (simp_all add: pathname_consts_def)

interpretation command_field: c_string_origin command_consts 16
  by unfold_locales (simp_all add: command_consts_def)

end
