(* ===== verification/Access_Masks.thy ===== *)
theory Access_Masks
  imports Obs_Prelude
begin

text \<open>
  The access masks of \<open>src/event/mod.rs\<close> (the macro \<open>access_type!\<close>), the generated name tables of
  \<open>src/event/access_names.rs\<close>, and the request categories with the classification of filesystem
  blockers. The macro body is modelled once over the table it is instantiated with; the locale
  \<open>access_table\<close> states what a table has to satisfy, and is interpreted on the three tables.
\<close>

unbundle bit_operations_syntax

type_synonym access_names = "(u64 \<times> string) list"

definition FILESYSTEM_ACCESS_NAMES :: access_names where
  "FILESYSTEM_ACCESS_NAMES =
    [(push_bit 0 1, ''execute''), (push_bit 1 1, ''write_file''), (push_bit 2 1, ''read_file''),
     (push_bit 3 1, ''read_dir''), (push_bit 4 1, ''remove_dir''), (push_bit 5 1, ''remove_file''),
     (push_bit 6 1, ''make_char''), (push_bit 7 1, ''make_dir''), (push_bit 8 1, ''make_reg''),
     (push_bit 9 1, ''make_sock''), (push_bit 10 1, ''make_fifo''), (push_bit 11 1, ''make_block''),
     (push_bit 12 1, ''make_sym''), (push_bit 13 1, ''refer''), (push_bit 14 1, ''truncate''),
     (push_bit 15 1, ''ioctl_dev''), (push_bit 16 1, ''resolve_unix'')]"

definition NETWORK_ACCESS_NAMES :: access_names where
  "NETWORK_ACCESS_NAMES =
    [(push_bit 0 1, ''bind_tcp''), (push_bit 1 1, ''connect_tcp''), (push_bit 2 1, ''bind_udp''),
     (push_bit 3 1, ''connect_send_udp'')]"

definition SCOPE_NAMES :: access_names where
  "SCOPE_NAMES = [(push_bit 0 1, ''abstract_unix_socket''), (push_bit 1 1, ''signal'')]"

subsection \<open>Masks over a table\<close>

definition table_bits :: "access_names \<Rightarrow> u64" where
  "table_bits table = foldl (\<lambda>bits (b, _). bits OR b) 0 table"

definition known_bits :: "access_names \<Rightarrow> u64 \<Rightarrow> u64" where
  "known_bits table m = m AND table_bits table"

definition unknown_bits :: "access_names \<Rightarrow> u64 \<Rightarrow> u64" where
  "unknown_bits table m = m AND NOT (table_bits table)"

definition known_names :: "access_names \<Rightarrow> u64 \<Rightarrow> (u64 \<times> string) list" where
  "known_names table m = filter (\<lambda>(b, _). m AND b \<noteq> 0) table"

definition all_known_names :: "access_names \<Rightarrow> (u64 \<times> string) list" where
  "all_known_names table = table"

datatype filesystem_access = FilesystemAccess (fs_bits: u64)
datatype network_access = NetworkAccess (net_bits: u64)
datatype scope_access = ScopeAccess (scope_bits: u64)

definition fs_known_names :: "filesystem_access \<Rightarrow> string list" where
  "fs_known_names a = map snd (known_names FILESYSTEM_ACCESS_NAMES (fs_bits a))"

definition fs_unknown_bits :: "filesystem_access \<Rightarrow> u64" where
  "fs_unknown_bits a = unknown_bits FILESYSTEM_ACCESS_NAMES (fs_bits a)"

definition net_known_names :: "network_access \<Rightarrow> string list" where
  "net_known_names a = map snd (known_names NETWORK_ACCESS_NAMES (net_bits a))"

definition net_unknown_bits :: "network_access \<Rightarrow> u64" where
  "net_unknown_bits a = unknown_bits NETWORK_ACCESS_NAMES (net_bits a)"

definition scope_known_names :: "scope_access \<Rightarrow> string list" where
  "scope_known_names a = map snd (known_names SCOPE_NAMES (scope_bits a))"

definition scope_unknown_bits :: "scope_access \<Rightarrow> u64" where
  "scope_unknown_bits a = unknown_bits SCOPE_NAMES (scope_bits a)"

subsection \<open>Request categories\<close>

datatype blocker_type = BlockerType (raw: u32)

definition BT_PTRACE :: blocker_type where "BT_PTRACE = BlockerType 1"
definition BT_FS_CHANGE_TOPOLOGY :: blocker_type where "BT_FS_CHANGE_TOPOLOGY = BlockerType 2"
definition BT_FS_ACCESS :: blocker_type where "BT_FS_ACCESS = BlockerType 3"
definition BT_NET_ACCESS :: blocker_type where "BT_NET_ACCESS = BlockerType 4"
definition BT_SCOPE_ABSTRACT_UNIX_SOCKET :: blocker_type where
  "BT_SCOPE_ABSTRACT_UNIX_SOCKET = BlockerType 5"
definition BT_SCOPE_SIGNAL :: blocker_type where "BT_SCOPE_SIGNAL = BlockerType 6"

lemmas blocker_type_defs = BT_PTRACE_def BT_FS_CHANGE_TOPOLOGY_def BT_FS_ACCESS_def
  BT_NET_ACCESS_def BT_SCOPE_ABSTRACT_UNIX_SOCKET_def BT_SCOPE_SIGNAL_def

datatype filesystem_blockers =
    FsAccess filesystem_access
  | FsChangeTopology
  | FsOther blocker_type filesystem_access

definition classify :: "blocker_type \<Rightarrow> filesystem_access \<Rightarrow> filesystem_blockers" where
  "classify request_type access =
     (if raw request_type = raw BT_FS_ACCESS then FsAccess access
      else if raw request_type = raw BT_FS_CHANGE_TOPOLOGY \<and> fs_bits access = 0
      then FsChangeTopology
      else FsOther request_type access)"

subsection \<open>The contract of a name table\<close>

text \<open>Every entry names one bit, and no bit is named twice.\<close>

locale access_table =
  fixes table :: access_names
  assumes single_bit: "\<forall>b\<in>set (map fst table). b \<in> set (map (\<lambda>n. push_bit n 1) [0..<64])"
    and distinct_bits: "distinct (map fst table)"
begin

lemma known_or_unknown: "known_bits table m OR unknown_bits table m = m"
  unfolding known_bits_def unknown_bits_def
  by (simp flip: bit.conj_disj_distrib)

lemma known_and_unknown: "known_bits table m AND unknown_bits table m = 0"
  unfolding known_bits_def unknown_bits_def
  by (rule bit_word_eqI) (auto simp: bit_simps)

lemma single_bit_and:
  assumes "(bt, name) \<in> set table"
  shows "m AND bt = (if m AND bt \<noteq> 0 then bt else 0)"
proof -
  from single_bit assms obtain n where n: "bt = push_bit n 1" "n < 64" by force
  have "m AND bt = (if bit m n then bt else 0)"
    by (rule bit_word_eqI) (auto simp: n bit_simps)
  moreover have "bt \<noteq> 0"
    using n by (auto simp: bit_eq_iff bit_simps)
  ultimately show ?thesis by auto
qed

lemma foldl_or: "foldl (\<lambda>bits (b, _). bits OR b) a t = a OR foldl (\<lambda>bits (b, _). bits OR b) 0 t"
  for a :: u64 and t :: access_names
proof (induction t arbitrary: a)
  case (Cons x t)
  obtain b n where x: "x = (b, n)" by (cases x)
  show ?case
    using Cons.IH [of "a OR b"] Cons.IH [of b] by (simp add: x or.assoc)
qed simp

lemma table_bits_Cons: "table_bits ((b, n) # t) = b OR table_bits t"
  by (simp add: table_bits_def foldl_or [of b])

lemma known_names_bits_sub:
  "set t \<subseteq> set table \<Longrightarrow> table_bits (known_names t m) = m AND table_bits t"
proof (induction t)
  case Nil
  then show ?case by (simp add: known_names_def table_bits_def)
next
  case (Cons x t)
  obtain b n where x: "x = (b, n)" by (cases x)
  with Cons.prems have "m AND b = (if m AND b \<noteq> 0 then b else 0)"
    by (intro single_bit_and) auto
  moreover have IH: "table_bits (known_names t m) = m AND table_bits t"
    using Cons by simp
  moreover have "known_names (x # t) m =
      (if m AND b \<noteq> 0 then x # known_names t m else known_names t m)"
    by (simp add: known_names_def x)
  ultimately show ?case
    by (auto simp: x table_bits_Cons bit.conj_disj_distrib)
qed

text \<open>The reported names account for exactly the known bits.\<close>

lemma known_names_bits: "table_bits (known_names table m) = known_bits table m"
  unfolding known_bits_def by (rule known_names_bits_sub) simp

lemma known_names_injective:
  "map fst (known_names table m) = map fst (known_names table m') \<Longrightarrow>
     unknown_bits table m = unknown_bits table m' \<Longrightarrow> m = m'"
proof -
  assume names: "map fst (known_names table m) = map fst (known_names table m')"
    and unknown: "unknown_bits table m = unknown_bits table m'"
  have "table_bits t = foldl (OR) 0 (map fst t)" for t
    by (simp add: table_bits_def foldl_map case_prod_unfold)
  with names have "known_bits table m = known_bits table m'"
    by (simp flip: known_names_bits)
  with unknown show ?thesis
    using known_or_unknown by metis
qed

end

interpretation fs_table: access_table FILESYSTEM_ACCESS_NAMES
  by unfold_locales code_simp+

interpretation net_table: access_table NETWORK_ACCESS_NAMES
  by unfold_locales code_simp+

interpretation scope_table: access_table SCOPE_NAMES
  by unfold_locales code_simp+

end
