(* ===== verification/Events.thy ===== *)
theory Events
  imports Captured_Bytes Access_Masks
begin

text \<open>
  The semantic values and events of \<open>src/event/mod.rs\<close>. Identifiers carry their kind as a phantom
  type, as \<open>LandlockId<K>\<close> does; the constructors that validate their argument return a sum. The
  typestate builders of the source only collect every field once before \<open>build\<close>, so a built value
  is a record literal and an accessor a record selector. The predicates \<open>\<dots>_ok\<close> are the invariants
  the private fields of the source types carry; \<open>event_ok\<close> collects them for an event.
\<close>

subsection \<open>Identifiers and timestamps\<close>

definition MIN_LANDLOCK_ID :: u64 where
  "MIN_LANDLOCK_ID = 0x100000000"

datatype domain_kind = DomainKind
datatype ruleset_kind = RulesetKind

datatype invalid_landlock_id_error = InvalidLandlockIdError u64

datatype (dead 'k) landlock_id = LandlockId (id_get: u64)

type_synonym domain_id = "domain_kind landlock_id"
type_synonym ruleset_id = "ruleset_kind landlock_id"

text \<open>\<open>NonZeroU64::new\<close> fails at zero only; the guard then compares with the minimum.\<close>

definition landlock_id_new :: "u64 \<Rightarrow> invalid_landlock_id_error + 'k landlock_id" where
  "landlock_id_new v =
     (if v \<noteq> 0 \<and> v \<ge> MIN_LANDLOCK_ID then Inr (LandlockId v) else Inl (InvalidLandlockIdError v))"

text \<open>\<open>Ord\<close> compares the numbers; it makes the identifiers a linear order.\<close>

definition landlock_id_le :: "'k landlock_id \<Rightarrow> 'k landlock_id \<Rightarrow> bool" where
  "landlock_id_le a b \<longleftrightarrow> id_get a \<le> id_get b"

instantiation landlock_id :: (type) linorder
begin

definition less_eq_landlock_id :: "'a landlock_id \<Rightarrow> 'a landlock_id \<Rightarrow> bool" where
  "less_eq_landlock_id a b \<longleftrightarrow> landlock_id_le a b"

definition less_landlock_id :: "'a landlock_id \<Rightarrow> 'a landlock_id \<Rightarrow> bool" where
  "less_landlock_id a b \<longleftrightarrow> id_get a < id_get b"

instance
  by standard (auto simp: less_eq_landlock_id_def landlock_id_le_def less_landlock_id_def landlock_id.expand)

end

datatype invalid_task_id_error = InvalidTaskIdError u32

datatype process_id = ProcessId (pid_get: u32)
datatype thread_id = ThreadId (tid_get: u32)

definition process_id_new :: "u32 \<Rightarrow> invalid_task_id_error + process_id" where
  "process_id_new v = (if v \<noteq> 0 then Inr (ProcessId v) else Inl (InvalidTaskIdError v))"

definition thread_id_new :: "u32 \<Rightarrow> invalid_task_id_error + thread_id" where
  "thread_id_new v = (if v \<noteq> 0 then Inr (ThreadId v) else Inl (InvalidTaskIdError v))"

datatype kernel_timestamp = KernelTimestamp (as_nanoseconds: u64)

datatype domain_membership = Unsandboxed | Sandboxed domain_id

fun membership_domain_id :: "domain_membership \<Rightarrow> domain_id option" where
  "membership_domain_id Unsandboxed = None"
| "membership_domain_id (Sandboxed i) = Some i"

fun membership_from :: "domain_id option \<Rightarrow> domain_membership" where
  "membership_from (Some i) = Sandboxed i"
| "membership_from None = Unsandboxed"

subsection \<open>Facts shared by denials\<close>

record hierarchy_snapshot =
  h_domain_id :: domain_id
  h_parent_id :: "domain_id option"
  h_creator_tgid :: process_id
  h_creator_comm :: captured_command

record denial_context =
  hierarchy :: hierarchy_snapshot
  cumulative_denial_count :: u64
  same_exec :: bool
  logged :: bool

subsection \<open>Events\<close>

record create_ruleset_event =
  cr_timestamp :: kernel_timestamp
  cr_ruleset_id :: ruleset_id
  cr_ruleset_version :: u64
  cr_handled_fs :: filesystem_access
  cr_handled_net :: network_access
  cr_scoped :: scope_access

record add_rule_path_beneath_event =
  ap_timestamp :: kernel_timestamp
  ap_ruleset_id :: ruleset_id
  ap_ruleset_version :: u64
  ap_access_rights :: filesystem_access
  ap_device :: u32
  ap_inode :: u64
  ap_pathname :: captured_path

record add_rule_net_port_event =
  an_timestamp :: kernel_timestamp
  an_ruleset_id :: ruleset_id
  an_ruleset_version :: u64
  an_access_rights :: network_access
  an_port :: u64

record create_domain_event =
  cd_timestamp :: kernel_timestamp
  cd_ruleset_id :: ruleset_id
  cd_ruleset_version :: u64
  cd_domain_id :: domain_id
  cd_parent_id :: "domain_id option"
  cd_creator_tgid :: process_id
  cd_creator_comm :: captured_command

record deny_access_fs_event =
  df_timestamp :: kernel_timestamp
  df_context :: denial_context
  df_blockers_type :: blocker_type
  df_blockers_access :: filesystem_access
  df_device :: u32
  df_inode :: u64
  df_pathname :: captured_path

definition df_blockers :: "deny_access_fs_event \<Rightarrow> filesystem_blockers" where
  "df_blockers e = classify (df_blockers_type e) (df_blockers_access e)"

record deny_access_net_event =
  dn_timestamp :: kernel_timestamp
  dn_context :: denial_context
  dn_blockers_type :: blocker_type
  dn_blockers_access :: network_access
  dn_source_port :: u64
  dn_destination_port :: u64

record deny_ptrace_event =
  dp_timestamp :: kernel_timestamp
  dp_context :: denial_context
  dp_tracee_domain :: domain_membership
  dp_tracee_pid :: process_id
  dp_tracee_comm :: captured_command

record deny_scope_signal_event =
  ds_timestamp :: kernel_timestamp
  ds_context :: denial_context
  ds_target_domain :: domain_membership
  ds_target_pid :: process_id
  ds_target_comm :: captured_command

record deny_scope_abstract_unix_socket_event =
  du_timestamp :: kernel_timestamp
  du_context :: denial_context
  du_peer_domain :: domain_membership
  du_peer_pid :: "process_id option"
  du_abstract_name :: captured_abstract_name

record free_domain_event =
  fd_timestamp :: kernel_timestamp
  fd_domain_id :: domain_id
  fd_denial_count :: u64

record free_ruleset_event =
  fr_timestamp :: kernel_timestamp
  fr_ruleset_id :: ruleset_id
  fr_ruleset_version :: u64

record enforce_domain_event =
  ed_timestamp :: kernel_timestamp
  ed_domain_id :: domain_id
  ed_enforcing_tid :: thread_id
  ed_complete :: bool
  ed_process_wide :: bool
  ed_no_new_privs :: bool

datatype event =
    CreateRuleset create_ruleset_event
  | AddRulePathBeneath add_rule_path_beneath_event
  | AddRuleNetPort add_rule_net_port_event
  | CreateDomain create_domain_event
  | DenyAccessFs deny_access_fs_event
  | DenyAccessNet deny_access_net_event
  | DenyPtrace deny_ptrace_event
  | DenyScopeSignal deny_scope_signal_event
  | DenyScopeAbstractUnixSocket deny_scope_abstract_unix_socket_event
  | FreeDomain free_domain_event
  | FreeRuleset free_ruleset_event
  | EnforceDomain enforce_domain_event

fun timestamp :: "event \<Rightarrow> kernel_timestamp" where
  "timestamp (CreateRuleset e) = cr_timestamp e"
| "timestamp (AddRulePathBeneath e) = ap_timestamp e"
| "timestamp (AddRuleNetPort e) = an_timestamp e"
| "timestamp (CreateDomain e) = cd_timestamp e"
| "timestamp (DenyAccessFs e) = df_timestamp e"
| "timestamp (DenyAccessNet e) = dn_timestamp e"
| "timestamp (DenyPtrace e) = dp_timestamp e"
| "timestamp (DenyScopeSignal e) = ds_timestamp e"
| "timestamp (DenyScopeAbstractUnixSocket e) = du_timestamp e"
| "timestamp (FreeDomain e) = fd_timestamp e"
| "timestamp (FreeRuleset e) = fr_timestamp e"
| "timestamp (EnforceDomain e) = ed_timestamp e"

subsection \<open>The invariants of the private fields\<close>

definition id_ok :: "'k landlock_id \<Rightarrow> bool" where
  "id_ok i \<longleftrightarrow> MIN_LANDLOCK_ID \<le> id_get i"

definition pid_ok :: "process_id \<Rightarrow> bool" where
  "pid_ok p \<longleftrightarrow> pid_get p \<noteq> 0"

definition tid_ok :: "thread_id \<Rightarrow> bool" where
  "tid_ok t \<longleftrightarrow> tid_get t \<noteq> 0"

definition membership_ok :: "domain_membership \<Rightarrow> bool" where
  "membership_ok m \<longleftrightarrow> pred_option id_ok (membership_domain_id m)"

definition hierarchy_ok :: "hierarchy_snapshot \<Rightarrow> bool" where
  "hierarchy_ok h \<longleftrightarrow>
     id_ok (h_domain_id h) \<and> pred_option id_ok (h_parent_id h) \<and>
     pid_ok (h_creator_tgid h) \<and> command_ok (h_creator_comm h)"

definition context_ok :: "denial_context \<Rightarrow> bool" where
  "context_ok c \<longleftrightarrow> hierarchy_ok (hierarchy c)"

fun event_ok :: "event \<Rightarrow> bool" where
  "event_ok (CreateRuleset e) = id_ok (cr_ruleset_id e)"
| "event_ok (AddRulePathBeneath e) = (id_ok (ap_ruleset_id e) \<and> path_ok (ap_pathname e))"
| "event_ok (AddRuleNetPort e) = id_ok (an_ruleset_id e)"
| "event_ok (CreateDomain e) =
     (id_ok (cd_ruleset_id e) \<and> id_ok (cd_domain_id e) \<and> pred_option id_ok (cd_parent_id e) \<and>
      pid_ok (cd_creator_tgid e) \<and> command_ok (cd_creator_comm e))"
| "event_ok (DenyAccessFs e) = (context_ok (df_context e) \<and> path_ok (df_pathname e))"
| "event_ok (DenyAccessNet e) = context_ok (dn_context e)"
| "event_ok (DenyPtrace e) =
     (context_ok (dp_context e) \<and> membership_ok (dp_tracee_domain e) \<and>
      pid_ok (dp_tracee_pid e) \<and> command_ok (dp_tracee_comm e))"
| "event_ok (DenyScopeSignal e) =
     (context_ok (ds_context e) \<and> membership_ok (ds_target_domain e) \<and>
      pid_ok (ds_target_pid e) \<and> command_ok (ds_target_comm e))"
| "event_ok (DenyScopeAbstractUnixSocket e) =
     (context_ok (du_context e) \<and> membership_ok (du_peer_domain e) \<and>
      pred_option pid_ok (du_peer_pid e) \<and> abstract_name_ok (du_abstract_name e))"
| "event_ok (FreeDomain e) = id_ok (fd_domain_id e)"
| "event_ok (FreeRuleset e) = id_ok (fr_ruleset_id e)"
| "event_ok (EnforceDomain e) = (id_ok (ed_domain_id e) \<and> tid_ok (ed_enforcing_tid e))"

subsection \<open>Validating constructors\<close>

lemma MIN_LANDLOCK_ID_pos: "MIN_LANDLOCK_ID \<le> v \<Longrightarrow> v \<noteq> 0"
  by (auto simp: MIN_LANDLOCK_ID_def)

lemma landlock_id_new_ok_iff: "landlock_id_new v = Inr i \<longleftrightarrow> i = LandlockId v \<and> id_ok i"
  using MIN_LANDLOCK_ID_pos [of v] by (auto simp: landlock_id_new_def id_ok_def)

lemma process_id_new_ok_iff: "process_id_new v = Inr p \<longleftrightarrow> p = ProcessId v \<and> pid_ok p"
  by (auto simp: process_id_new_def pid_ok_def)

lemma thread_id_new_ok_iff: "thread_id_new v = Inr t \<longleftrightarrow> t = ThreadId v \<and> tid_ok t"
  by (auto simp: thread_id_new_def tid_ok_def)

lemmas new_ok_iffs = landlock_id_new_ok_iff process_id_new_ok_iff thread_id_new_ok_iff
  captured_new_ok_iff

lemma id_ok_nonzero: "id_ok i \<Longrightarrow> id_get i \<noteq> 0"
  by (auto simp: id_ok_def MIN_LANDLOCK_ID_def)

lemma membership_from_domain_id: "membership_from (membership_domain_id m) = m"
  by (cases m) simp_all

lemma finite_landlock_ids: "finite (UNIV :: 'k landlock_id set)"
  by (rule finite_imageD [of id_get]) (auto intro: finite_subset [of _ UNIV] inj_onI landlock_id.expand)

text \<open>There are fewer valid identifiers than a \<open>usize\<close> can count.\<close>

lemma card_valid_ids: "card {i :: 'k landlock_id. id_ok i} \<le> usize_max"
proof -
  have "{i :: 'k landlock_id. id_ok i} \<subseteq> LandlockId ` (UNIV - {0})"
    by (auto intro!: image_eqI [where x = "id_get i" for i] dest: id_ok_nonzero)
  then have "card {i :: 'k landlock_id. id_ok i} \<le> card (LandlockId ` (UNIV - {0 :: u64}) :: 'k landlock_id set)"
    by (intro card_mono) auto
  also have "\<dots> \<le> card (UNIV - {0 :: u64})"
    by (intro card_image_le) simp
  also have "\<dots> = usize_max"
    by (simp add: card_Diff_singleton card_word)
  finally show ?thesis .
qed

end
