(* ===== verification/Hash_Map.thy ===== *)
theory Hash_Map
  imports Obs_Prelude
begin

text \<open>
  The \<open>std::collections::HashMap\<close> operations the sources use, on association lists with distinct
  keys. The list order stands for the iteration order, which Rust leaves unspecified; results that
  a component exposes are shown not to depend on it. The locale \<open>hash_map\<close> is the contract the
  components rely on: lookups after each operation, the number of entries and the multiset of
  values, all in terms of the lookup function alone.
\<close>

type_synonym ('k, 'v) hashmap = "('k \<times> 'v) list"

definition hm_get :: "('k, 'v) hashmap \<Rightarrow> 'k \<Rightarrow> 'v option" where
  "hm_get m k = map_of m k"

definition hm_contains_key :: "('k, 'v) hashmap \<Rightarrow> 'k \<Rightarrow> bool" where
  "hm_contains_key m k = (hm_get m k \<noteq> None)"

definition hm_insert :: "'k \<Rightarrow> 'v \<Rightarrow> ('k, 'v) hashmap \<Rightarrow> ('k, 'v) hashmap" where
  "hm_insert k v m = AList.update k v m"

definition hm_remove :: "'k \<Rightarrow> ('k, 'v) hashmap \<Rightarrow> ('k, 'v) hashmap" where
  "hm_remove k m = AList.delete k m"

text \<open>\<open>entry(k).or_insert(d)\<close>: the entry is created only when the key is vacant.\<close>

definition hm_or_insert :: "'k \<Rightarrow> 'v \<Rightarrow> ('k, 'v) hashmap \<Rightarrow> ('k, 'v) hashmap" where
  "hm_or_insert k d m = (if hm_contains_key m k then m else m @ [(k, d)])"

text \<open>Mutation through \<open>get_mut(k)\<close> or \<open>and_modify\<close>: nothing happens at a vacant key.\<close>

definition hm_modify :: "'k \<Rightarrow> ('v \<Rightarrow> 'v) \<Rightarrow> ('k, 'v) hashmap \<Rightarrow> ('k, 'v) hashmap" where
  "hm_modify k f m = AList.map_entry k f m"

text \<open>\<open>let v = entry(k).or_insert_with(|| d); f(v)\<close>\<close>

definition hm_upsert :: "'k \<Rightarrow> 'v \<Rightarrow> ('v \<Rightarrow> 'v) \<Rightarrow> ('k, 'v) hashmap \<Rightarrow> ('k, 'v) hashmap" where
  "hm_upsert k d f m = hm_modify k f (hm_or_insert k d m)"

definition hm_values :: "('k, 'v) hashmap \<Rightarrow> 'v list" where
  "hm_values m = map snd m"

definition hm_keys :: "('k, 'v) hashmap \<Rightarrow> 'k list" where
  "hm_keys m = map fst m"

definition hm_len :: "('k, 'v) hashmap \<Rightarrow> nat" where
  "hm_len m = length m"

definition hm_wf :: "('k, 'v) hashmap \<Rightarrow> bool" where
  "hm_wf m = distinct (map fst m)"

subsection \<open>The contract of a hash map\<close>

locale hash_map =
  fixes get :: "'m \<Rightarrow> 'k \<Rightarrow> 'v option"
    and insert :: "'k \<Rightarrow> 'v \<Rightarrow> 'm \<Rightarrow> 'm"
    and remove :: "'k \<Rightarrow> 'm \<Rightarrow> 'm"
    and or_insert :: "'k \<Rightarrow> 'v \<Rightarrow> 'm \<Rightarrow> 'm"
    and modify :: "'k \<Rightarrow> ('v \<Rightarrow> 'v) \<Rightarrow> 'm \<Rightarrow> 'm"
    and vals :: "'m \<Rightarrow> 'v list"
    and len :: "'m \<Rightarrow> nat"
    and wf :: "'m \<Rightarrow> bool"
  assumes get_insert: "get (insert k v m) = (get m)(k \<mapsto> v)"
    and get_remove: "get (remove k m) = (get m)(k := None)"
    and get_or_insert:
      "get (or_insert k v m) = (get m)(k \<mapsto> (case get m k of None \<Rightarrow> v | Some w \<Rightarrow> w))"
    and get_modify: "get (modify k f m) = (get m)(k := map_option f (get m k))"
    and wf_insert: "wf m \<Longrightarrow> wf (insert k v m)"
    and wf_remove: "wf m \<Longrightarrow> wf (remove k m)"
    and wf_or_insert: "wf m \<Longrightarrow> wf (or_insert k v m)"
    and wf_modify: "wf m \<Longrightarrow> wf (modify k f m)"
    and finite_dom: "finite (dom (get m))"
    and len_vals: "len m = length (vals m)"
    and mset_vals: "wf m \<Longrightarrow> mset (vals m) = image_mset (\<lambda>k. the (get m k)) (mset_set (dom (get m)))"
begin

lemma set_vals: "wf m \<Longrightarrow> set (vals m) = ran (get m)"
proof -
  assume "wf m"
  then have "set_mset (mset (vals m)) = (\<lambda>k. the (get m k)) ` dom (get m)"
    by (simp add: mset_vals finite_dom)
  also have "\<dots> = ran (get m)"
    by (auto simp: ran_def dom_def image_iff) (metis option.sel)
  finally show ?thesis by simp
qed

lemma len_card: "wf m \<Longrightarrow> len m = card (dom (get m))"
proof -
  assume "wf m"
  then have "size (mset (vals m)) = size (mset_set (dom (get m)))"
    by (simp add: mset_vals)
  then show ?thesis
    by (simp add: len_vals)
qed

lemma length_filter_vals:
  "wf m \<Longrightarrow> length (filter P (vals m)) = card {k. \<exists>v. get m k = Some v \<and> P v}"
proof -
  assume "wf m"
  have "length (filter P (vals m)) = size (filter_mset P (mset (vals m)))"
    by (metis mset_filter size_mset)
  also have "\<dots> = size (filter_mset (\<lambda>k. P (the (get m k))) (mset_set (dom (get m))))"
    using \<open>wf m\<close> by (simp add: mset_vals filter_mset_image_mset comp_def)
  also have "filter_mset (\<lambda>k. P (the (get m k))) (mset_set (dom (get m)))
      = mset_set {k \<in> dom (get m). P (the (get m k))}"
    using finite_dom by (rule filter_mset_mset_set)
  also have "{k \<in> dom (get m). P (the (get m k))} = {k. \<exists>v. get m k = Some v \<and> P v}"
    by auto
  finally show ?thesis by simp
qed

text \<open>\<open>entry(k).or_insert_with(d)\<close> followed by a mutation of the entry.\<close>

lemma get_upsert:
  "get (modify k f (or_insert k d m)) =
     (get m)(k \<mapsto> f (case get m k of None \<Rightarrow> d | Some v \<Rightarrow> v))"
  by (simp add: get_modify get_or_insert)

lemma wf_upsert: "wf m \<Longrightarrow> wf (modify k f (or_insert k d m))"
  by (intro wf_modify wf_or_insert)

lemma len_insert_present: "wf m \<Longrightarrow> get m k = Some w \<Longrightarrow> len (insert k v m) = len m"
  by (simp add: len_card wf_insert get_insert insert_absorb domI)

lemma len_insert_vacant: "wf m \<Longrightarrow> get m k = None \<Longrightarrow> len (insert k v m) = Suc (len m)"
  by (simp add: len_card wf_insert get_insert finite_dom domIff)

lemma len_or_insert:
  "wf m \<Longrightarrow> len (or_insert k v m) = (if get m k = None then Suc (len m) else len m)"
  by (auto simp: len_card wf_or_insert get_or_insert finite_dom domIff insert_absorb)

lemma len_modify: "wf m \<Longrightarrow> len (modify k f m) = len m"
  by (cases "get m k") (auto simp: len_card wf_modify get_modify insert_absorb domI fun_upd_idem)

lemma len_remove_present:
  "wf m \<Longrightarrow> get m k = Some w \<Longrightarrow> Suc (len (remove k m)) = len m"
proof -
  assume "wf m" "get m k = Some w"
  then have "k \<in> dom (get m)" by (simp add: domI)
  then have "Suc (card (dom (get m) - {k})) = card (dom (get m))"
    using finite_dom by (rule card_Suc_Diff1 [rotated])
  with \<open>wf m\<close> show ?thesis
    by (simp add: len_card wf_remove get_remove)
qed

end

subsection \<open>Association lists implement it\<close>

lemma map_of_or_insert:
  "map_of (hm_or_insert k v m) = (map_of m)(k \<mapsto> (case map_of m k of None \<Rightarrow> v | Some w \<Rightarrow> w))"
  by (auto simp: hm_or_insert_def hm_contains_key_def hm_get_def fun_eq_iff map_add_def
      split: option.splits)

lemma mset_values_map_of:
  "distinct (map fst m) \<Longrightarrow>
     mset (map snd m) = image_mset (\<lambda>k. the (map_of m k)) (mset_set (dom (map_of m)))"
proof -
  assume d: "distinct (map fst m)"
  have "map snd m = map (\<lambda>k. the (map_of m k)) (map fst m)"
    using d by auto
  then have "mset (map snd m) = image_mset (\<lambda>k. the (map_of m k)) (mset (map fst m))"
    by (simp only: mset_map)
  also have "mset (map fst m) = mset_set (dom (map_of m))"
    using d by (simp add: dom_map_of_conv_image_fst mset_set_set flip: set_map)
  finally show ?thesis .
qed

interpretation hm: hash_map hm_get hm_insert hm_remove hm_or_insert hm_modify hm_values hm_len hm_wf
proof unfold_locales
  fix m :: "('a, 'b) hashmap" and k :: 'a and v :: 'b and f :: "'b \<Rightarrow> 'b"
  show "hm_get (hm_insert k v m) = (hm_get m)(k \<mapsto> v)"
    by (simp add: hm_get_def hm_insert_def update_conv' fun_eq_iff)
  show "hm_get (hm_remove k m) = (hm_get m)(k := None)"
    by (simp add: hm_get_def hm_remove_def delete_conv' fun_eq_iff)
  show "hm_get (hm_or_insert k v m)
      = (hm_get m)(k \<mapsto> (case hm_get m k of None \<Rightarrow> v | Some w \<Rightarrow> w))"
    using map_of_or_insert [of k v m] by (simp add: hm_get_def fun_eq_iff)
  show "hm_get (hm_modify k f m) = (hm_get m)(k := map_option f (hm_get m k))"
    by (auto simp: hm_get_def hm_modify_def map_of_map_entry fun_eq_iff split: option.splits)
  show "hm_wf m \<Longrightarrow> hm_wf (hm_insert k v m)"
    by (simp add: hm_wf_def hm_insert_def distinct_update)
  show "hm_wf m \<Longrightarrow> hm_wf (hm_remove k m)"
    by (simp add: hm_wf_def hm_remove_def distinct_delete)
  show "hm_wf m \<Longrightarrow> hm_wf (hm_or_insert k v m)"
    by (auto simp: hm_wf_def hm_or_insert_def hm_contains_key_def hm_get_def map_of_eq_None_iff)
  show "hm_wf m \<Longrightarrow> hm_wf (hm_modify k f m)"
    by (simp add: hm_wf_def hm_modify_def distinct_map_entry)
  show "finite (dom (hm_get m))"
    by (simp add: hm_get_def [abs_def] finite_dom_map_of)
  show "hm_len m = length (hm_values m)"
    by (simp add: hm_len_def hm_values_def)
  show "hm_wf m \<Longrightarrow>
      mset (hm_values m) = image_mset (\<lambda>k. the (hm_get m k)) (mset_set (dom (hm_get m)))"
    using mset_values_map_of [of m]
    by (simp add: hm_wf_def hm_values_def hm_get_def [abs_def])
qed

lemma hm_get_Nil [simp, hm_simps]: "hm_get [] k = None"
  by (simp add: hm_get_def)

lemma hm_wf_Nil [simp]: "hm_wf []"
  by (simp add: hm_wf_def)

lemma hm_get_upsert [hm_simps]:
  "hm_get (hm_upsert k d f m) =
     (hm_get m)(k \<mapsto> f (case hm_get m k of None \<Rightarrow> d | Some v \<Rightarrow> v))"
  unfolding hm_upsert_def by (rule hm.get_upsert)

lemma hm_wf_upsert: "hm_wf m \<Longrightarrow> hm_wf (hm_upsert k d f m)"
  unfolding hm_upsert_def by (rule hm.wf_upsert)

lemmas hm_wf_intros [intro] =
  hm.wf_insert hm.wf_remove hm.wf_or_insert hm.wf_modify hm_wf_upsert

lemmas hm_get_simps [hm_simps] =
  hm.get_insert hm.get_remove hm.get_or_insert hm.get_modify

lemma hm_get_eq_Some_iff: "hm_wf m \<Longrightarrow> hm_get m k = Some v \<longleftrightarrow> (k, v) \<in> set m"
  by (simp add: hm_wf_def hm_get_def map_of_eq_Some_iff)

lemma hm_contains_key_iff: "hm_contains_key m k \<longleftrightarrow> (\<exists>v. hm_get m k = Some v)"
  by (auto simp: hm_contains_key_def)

end
