(* ===== verification/Recon_State.thy ===== *)
theory Recon_State
  imports Events Hash_Map
begin

text \<open>
  \<open>src/state.rs\<close>: partial ruleset and domain state reconstructed from an event stream. The state is
  two hash maps; \<open>apply\<close> has one definition per arm of the source's \<open>match\<close>, each an
  \<open>entry(\<dots>).or_insert_with(\<dots>)\<close> followed by updates of the entry.
\<close>

unbundle bit_operations_syntax

subsection \<open>Data\<close>

datatype lifecycle_state = Allocated | Deallocated

datatype domain_parent = ParentRoot | ParentDomain domain_id

record ruleset_version =
  rv_ruleset_id :: ruleset_id
  rv_ruleset_version :: u64

record filesystem_rule_state =
  fsr_device :: u32
  fsr_inode :: u64
  fsr_access_rights :: filesystem_access
  fsr_pathname :: captured_path
  fsr_pathname_timestamp :: kernel_timestamp

record network_rule_state =
  nr_port :: u64
  nr_access_rights :: network_access

record ruleset_state =
  rs_id :: ruleset_id
  rs_lifecycle :: lifecycle_state
  rs_creation_timestamp :: "kernel_timestamp option"
  rs_handled_fs :: "filesystem_access option"
  rs_handled_net :: "network_access option"
  rs_scoped :: "scope_access option"
  rs_max_observed_version :: u64
  rs_final_version :: "u64 option"
  rs_free_timestamp :: "kernel_timestamp option"
  rs_filesystem_rules :: "(u32 \<times> u64, filesystem_rule_state) hashmap"
  rs_network_rules :: "(u64, network_rule_state) hashmap"

record domain_state =
  dom_id :: domain_id
  dom_lifecycle :: lifecycle_state
  dom_creation_timestamp :: "kernel_timestamp option"
  dom_parent :: "domain_parent option"
  dom_creator_tgid :: "process_id option"
  dom_creator_comm :: "captured_command option"
  dom_ruleset :: "ruleset_version option"
  dom_cumulative_denial_count :: "u64 option"
  dom_final_denial_count :: "u64 option"
  dom_free_timestamp :: "kernel_timestamp option"
  dom_enforcement_events :: "(thread_id, enforce_domain_event) hashmap"
  dom_any_process_wide_enforcement :: bool

record state =
  st_rulesets :: "(ruleset_id, ruleset_state) hashmap"
  st_domains :: "(domain_id, domain_state) hashmap"

subsection \<open>Helpers\<close>

definition timestamp_value :: "kernel_timestamp \<Rightarrow> u64" where
  "timestamp_value t = as_nanoseconds t"

definition is_none_or :: "('a \<Rightarrow> bool) \<Rightarrow> 'a option \<Rightarrow> bool" where
  "is_none_or p x = (case x of None \<Rightarrow> True | Some y \<Rightarrow> p y)"

definition update_latest_timestamp ::
  "kernel_timestamp option \<Rightarrow> kernel_timestamp \<Rightarrow> kernel_timestamp option" where
  "update_latest_timestamp current candidate =
     (if is_none_or (\<lambda>v. timestamp_value candidate \<ge> timestamp_value v) current
      then Some candidate else current)"

definition update_max :: "'a::linorder option \<Rightarrow> 'a \<Rightarrow> 'a option" where
  "update_max current candidate =
     (if is_none_or (\<lambda>v. candidate \<ge> v) current then Some candidate else current)"

subsection \<open>Rulesets\<close>

definition ruleset_state_new :: "ruleset_id \<Rightarrow> lifecycle_state \<Rightarrow> u64 \<Rightarrow> ruleset_state" where
  "ruleset_state_new i lc version =
     \<lparr>rs_id = i, rs_lifecycle = lc, rs_creation_timestamp = None, rs_handled_fs = None,
      rs_handled_net = None, rs_scoped = None, rs_max_observed_version = version,
      rs_final_version = None, rs_free_timestamp = None, rs_filesystem_rules = [],
      rs_network_rules = []\<rparr>"

definition rs_mark_allocated :: "ruleset_state \<Rightarrow> ruleset_state" where
  "rs_mark_allocated s =
     (if rs_lifecycle s \<noteq> Deallocated then s\<lparr>rs_lifecycle := Allocated\<rparr> else s)"

definition rs_update_version :: "u64 \<Rightarrow> ruleset_state \<Rightarrow> ruleset_state" where
  "rs_update_version version s =
     s\<lparr>rs_max_observed_version := max (rs_max_observed_version s) version\<rparr>"

definition filesystem_rule :: "ruleset_state \<Rightarrow> u32 \<Rightarrow> u64 \<Rightarrow> filesystem_rule_state option" where
  "filesystem_rule s device inode = hm_get (rs_filesystem_rules s) (device, inode)"

definition filesystem_rule_count :: "ruleset_state \<Rightarrow> nat" where
  "filesystem_rule_count s = hm_len (rs_filesystem_rules s)"

definition network_rule :: "ruleset_state \<Rightarrow> u64 \<Rightarrow> network_rule_state option" where
  "network_rule s port = hm_get (rs_network_rules s) port"

definition network_rule_count :: "ruleset_state \<Rightarrow> nat" where
  "network_rule_count s = hm_len (rs_network_rules s)"

subsection \<open>Domains\<close>

definition domain_state_new :: "domain_id \<Rightarrow> lifecycle_state \<Rightarrow> domain_state" where
  "domain_state_new i lc =
     \<lparr>dom_id = i, dom_lifecycle = lc, dom_creation_timestamp = None, dom_parent = None,
      dom_creator_tgid = None, dom_creator_comm = None, dom_ruleset = None,
      dom_cumulative_denial_count = None, dom_final_denial_count = None,
      dom_free_timestamp = None, dom_enforcement_events = [],
      dom_any_process_wide_enforcement = False\<rparr>"

definition dom_mark_allocated :: "domain_state \<Rightarrow> domain_state" where
  "dom_mark_allocated s =
     (if dom_lifecycle s \<noteq> Deallocated then s\<lparr>dom_lifecycle := Allocated\<rparr> else s)"

definition enforcement_event :: "domain_state \<Rightarrow> thread_id \<Rightarrow> enforce_domain_event option" where
  "enforcement_event s tid = hm_get (dom_enforcement_events s) tid"

definition enforcement_event_count :: "domain_state \<Rightarrow> nat" where
  "enforcement_event_count s = hm_len (dom_enforcement_events s)"

definition no_new_privs :: "domain_state \<Rightarrow> bool option" where
  "no_new_privs s =
     (if dom_enforcement_events s \<noteq> []
      then Some (list_all ed_no_new_privs (hm_values (dom_enforcement_events s))) else None)"

subsection \<open>Applying an event\<close>

definition state_new :: state where
  "state_new = \<lparr>st_rulesets = [], st_domains = []\<rparr>"

definition update_ruleset ::
  "ruleset_id \<Rightarrow> ruleset_state \<Rightarrow> (ruleset_state \<Rightarrow> ruleset_state) \<Rightarrow> state \<Rightarrow> state" where
  "update_ruleset i d f s = s\<lparr>st_rulesets := hm_upsert i d f (st_rulesets s)\<rparr>"

definition update_domain ::
  "domain_id \<Rightarrow> domain_state \<Rightarrow> (domain_state \<Rightarrow> domain_state) \<Rightarrow> state \<Rightarrow> state" where
  "update_domain i d f s = s\<lparr>st_domains := hm_upsert i d f (st_domains s)\<rparr>"

text \<open>\<open>self.domains.entry(id).or_insert_with(|| DomainState::new(id, Allocated));\<close>\<close>

definition touch_domain :: "domain_id \<Rightarrow> state \<Rightarrow> state" where
  "touch_domain i s =
     s\<lparr>st_domains := hm_or_insert i (domain_state_new i Allocated) (st_domains s)\<rparr>"

definition touch_opt :: "domain_id option \<Rightarrow> state \<Rightarrow> state" where
  "touch_opt i s = (case i of None \<Rightarrow> s | Some j \<Rightarrow> touch_domain j s)"

definition use_ruleset :: "u64 \<Rightarrow> ruleset_state \<Rightarrow> ruleset_state" where
  "use_ruleset version s = rs_update_version version (rs_mark_allocated s)"

definition create_ruleset_entry :: "create_ruleset_event \<Rightarrow> ruleset_state \<Rightarrow> ruleset_state" where
  "create_ruleset_entry e s0 =
     (let s = use_ruleset (cr_ruleset_version e) s0 in
      if is_none_or (\<lambda>t. timestamp_value (cr_timestamp e) \<ge> timestamp_value t)
           (rs_creation_timestamp s)
      then s\<lparr>rs_creation_timestamp := Some (cr_timestamp e),
             rs_handled_fs := Some (cr_handled_fs e),
             rs_handled_net := Some (cr_handled_net e),
             rs_scoped := Some (cr_scoped e)\<rparr>
      else s)"

definition apply_create_ruleset :: "create_ruleset_event \<Rightarrow> state \<Rightarrow> state" where
  "apply_create_ruleset e =
     update_ruleset (cr_ruleset_id e)
       (ruleset_state_new (cr_ruleset_id e) Allocated (cr_ruleset_version e))
       (create_ruleset_entry e)"

definition merge_filesystem_rule ::
  "add_rule_path_beneath_event \<Rightarrow> filesystem_rule_state \<Rightarrow> filesystem_rule_state" where
  "merge_filesystem_rule e r0 =
     (let r = r0\<lparr>fsr_access_rights :=
           FilesystemAccess (fs_bits (fsr_access_rights r0) OR fs_bits (ap_access_rights e))\<rparr> in
      if timestamp_value (ap_timestamp e) \<ge> timestamp_value (fsr_pathname_timestamp r)
      then r\<lparr>fsr_pathname := ap_pathname e, fsr_pathname_timestamp := ap_timestamp e\<rparr>
      else r)"

definition new_filesystem_rule :: "add_rule_path_beneath_event \<Rightarrow> filesystem_rule_state" where
  "new_filesystem_rule e =
     \<lparr>fsr_device = ap_device e, fsr_inode = ap_inode e, fsr_access_rights = ap_access_rights e,
      fsr_pathname = ap_pathname e, fsr_pathname_timestamp = ap_timestamp e\<rparr>"

definition add_path_beneath_entry ::
  "add_rule_path_beneath_event \<Rightarrow> ruleset_state \<Rightarrow> ruleset_state" where
  "add_path_beneath_entry e s0 =
     (let s = use_ruleset (ap_ruleset_version e) s0; key = (ap_device e, ap_inode e) in
      case hm_get (rs_filesystem_rules s) key of
        Some _ \<Rightarrow> s\<lparr>rs_filesystem_rules :=
          hm_modify key (merge_filesystem_rule e) (rs_filesystem_rules s)\<rparr>
      | None \<Rightarrow> s\<lparr>rs_filesystem_rules :=
          hm_insert key (new_filesystem_rule e) (rs_filesystem_rules s)\<rparr>)"

definition apply_add_rule_path_beneath :: "add_rule_path_beneath_event \<Rightarrow> state \<Rightarrow> state" where
  "apply_add_rule_path_beneath e =
     update_ruleset (ap_ruleset_id e)
       (ruleset_state_new (ap_ruleset_id e) Allocated (ap_ruleset_version e))
       (add_path_beneath_entry e)"

definition merge_network_rule ::
  "add_rule_net_port_event \<Rightarrow> network_rule_state \<Rightarrow> network_rule_state" where
  "merge_network_rule e r =
     r\<lparr>nr_access_rights :=
        NetworkAccess (net_bits (nr_access_rights r) OR net_bits (an_access_rights e))\<rparr>"

definition add_net_port_entry ::
  "add_rule_net_port_event \<Rightarrow> ruleset_state \<Rightarrow> ruleset_state" where
  "add_net_port_entry e s0 =
     (let s = use_ruleset (an_ruleset_version e) s0 in
      s\<lparr>rs_network_rules :=
         hm_or_insert (an_port e)
           \<lparr>nr_port = an_port e, nr_access_rights = an_access_rights e\<rparr>
           (hm_modify (an_port e) (merge_network_rule e) (rs_network_rules s))\<rparr>)"

definition apply_add_rule_net_port :: "add_rule_net_port_event \<Rightarrow> state \<Rightarrow> state" where
  "apply_add_rule_net_port e =
     update_ruleset (an_ruleset_id e)
       (ruleset_state_new (an_ruleset_id e) Allocated (an_ruleset_version e))
       (add_net_port_entry e)"

definition parent_of_option :: "domain_id option \<Rightarrow> domain_parent" where
  "parent_of_option p = (case p of Some i \<Rightarrow> ParentDomain i | None \<Rightarrow> ParentRoot)"

definition create_domain_entry :: "create_domain_event \<Rightarrow> domain_state \<Rightarrow> domain_state" where
  "create_domain_entry e s0 =
     (let s1 = dom_mark_allocated s0;
          s = s1\<lparr>dom_cumulative_denial_count :=
                   update_max (dom_cumulative_denial_count s1) 0\<rparr> in
      if is_none_or (\<lambda>t. timestamp_value (cd_timestamp e) \<ge> timestamp_value t)
           (dom_creation_timestamp s)
      then s\<lparr>dom_creation_timestamp := Some (cd_timestamp e),
             dom_parent := Some (parent_of_option (cd_parent_id e)),
             dom_creator_tgid := Some (cd_creator_tgid e),
             dom_creator_comm := Some (cd_creator_comm e),
             dom_ruleset := Some \<lparr>rv_ruleset_id = cd_ruleset_id e,
                                  rv_ruleset_version = cd_ruleset_version e\<rparr>\<rparr>
      else s)"

definition apply_create_domain :: "create_domain_event \<Rightarrow> state \<Rightarrow> state" where
  "apply_create_domain e s =
     update_domain (cd_domain_id e) (domain_state_new (cd_domain_id e) Allocated)
       (create_domain_entry e)
       (touch_opt (cd_parent_id e)
         (update_ruleset (cd_ruleset_id e)
           (ruleset_state_new (cd_ruleset_id e) Allocated (cd_ruleset_version e))
           (use_ruleset (cd_ruleset_version e)) s))"

definition denial_entry :: "denial_context \<Rightarrow> domain_state \<Rightarrow> domain_state" where
  "denial_entry c s0 =
     (let h = hierarchy c;
          s1 = dom_mark_allocated s0;
          s2 = (if dom_parent s1 = None
                then s1\<lparr>dom_parent := Some (parent_of_option (h_parent_id h))\<rparr> else s1);
          s3 = (if dom_creator_tgid s2 = None \<and> dom_creator_comm s2 = None
                then s2\<lparr>dom_creator_tgid := Some (h_creator_tgid h),
                        dom_creator_comm := Some (h_creator_comm h)\<rparr> else s2)
      in s3\<lparr>dom_cumulative_denial_count :=
              update_max (dom_cumulative_denial_count s3) (cumulative_denial_count c)\<rparr>)"

definition apply_denial :: "denial_context \<Rightarrow> domain_membership option \<Rightarrow> state \<Rightarrow> state" where
  "apply_denial c membership s =
     (let did = h_domain_id (hierarchy c);
          s1 = update_domain did (domain_state_new did Allocated) (denial_entry c) s;
          s2 = touch_opt (h_parent_id (hierarchy c)) s1
      in case membership of
           Some (Sandboxed other) \<Rightarrow> touch_domain other s2
         | _ \<Rightarrow> s2)"

definition free_domain_entry :: "free_domain_event \<Rightarrow> domain_state \<Rightarrow> domain_state" where
  "free_domain_entry e s =
     s\<lparr>dom_lifecycle := Deallocated,
       dom_free_timestamp := update_latest_timestamp (dom_free_timestamp s) (fd_timestamp e),
       dom_final_denial_count := update_max (dom_final_denial_count s) (fd_denial_count e),
       dom_cumulative_denial_count :=
         update_max (dom_cumulative_denial_count s) (fd_denial_count e)\<rparr>"

definition apply_free_domain :: "free_domain_event \<Rightarrow> state \<Rightarrow> state" where
  "apply_free_domain e =
     update_domain (fd_domain_id e) (domain_state_new (fd_domain_id e) Deallocated)
       (free_domain_entry e)"

definition free_ruleset_entry :: "free_ruleset_event \<Rightarrow> ruleset_state \<Rightarrow> ruleset_state" where
  "free_ruleset_entry e s =
     rs_update_version (fr_ruleset_version e)
       (s\<lparr>rs_lifecycle := Deallocated,
          rs_free_timestamp := update_latest_timestamp (rs_free_timestamp s) (fr_timestamp e),
          rs_final_version := update_max (rs_final_version s) (fr_ruleset_version e)\<rparr>)"

definition apply_free_ruleset :: "free_ruleset_event \<Rightarrow> state \<Rightarrow> state" where
  "apply_free_ruleset e =
     update_ruleset (fr_ruleset_id e)
       (ruleset_state_new (fr_ruleset_id e) Deallocated (fr_ruleset_version e))
       (free_ruleset_entry e)"

definition replace_enforcement ::
  "enforce_domain_event \<Rightarrow> enforce_domain_event \<Rightarrow> enforce_domain_event" where
  "replace_enforcement e current =
     (if timestamp_value (ed_timestamp e) \<ge> timestamp_value (ed_timestamp current)
      then e else current)"

definition enforce_domain_entry :: "enforce_domain_event \<Rightarrow> domain_state \<Rightarrow> domain_state" where
  "enforce_domain_entry e s0 =
     (let s = dom_mark_allocated s0 in
      s\<lparr>dom_any_process_wide_enforcement :=
          dom_any_process_wide_enforcement s \<or> ed_process_wide e,
        dom_enforcement_events :=
          hm_or_insert (ed_enforcing_tid e) e
            (hm_modify (ed_enforcing_tid e) (replace_enforcement e) (dom_enforcement_events s))\<rparr>)"

definition apply_enforce_domain :: "enforce_domain_event \<Rightarrow> state \<Rightarrow> state" where
  "apply_enforce_domain e =
     update_domain (ed_domain_id e) (domain_state_new (ed_domain_id e) Allocated)
       (enforce_domain_entry e)"

fun apply_event :: "state \<Rightarrow> event \<Rightarrow> state" where
  "apply_event s (CreateRuleset e) = apply_create_ruleset e s"
| "apply_event s (AddRulePathBeneath e) = apply_add_rule_path_beneath e s"
| "apply_event s (AddRuleNetPort e) = apply_add_rule_net_port e s"
| "apply_event s (CreateDomain e) = apply_create_domain e s"
| "apply_event s (DenyAccessFs e) = apply_denial (df_context e) None s"
| "apply_event s (DenyAccessNet e) = apply_denial (dn_context e) None s"
| "apply_event s (DenyPtrace e) = apply_denial (dp_context e) (Some (dp_tracee_domain e)) s"
| "apply_event s (DenyScopeSignal e) = apply_denial (ds_context e) (Some (ds_target_domain e)) s"
| "apply_event s (DenyScopeAbstractUnixSocket e) =
     apply_denial (du_context e) (Some (du_peer_domain e)) s"
| "apply_event s (FreeDomain e) = apply_free_domain e s"
| "apply_event s (FreeRuleset e) = apply_free_ruleset e s"
| "apply_event s (EnforceDomain e) = apply_enforce_domain e s"

definition ruleset :: "state \<Rightarrow> ruleset_id \<Rightarrow> ruleset_state option" where
  "ruleset s i = hm_get (st_rulesets s) i"

definition ruleset_count :: "state \<Rightarrow> nat" where
  "ruleset_count s = hm_len (st_rulesets s)"

definition domain :: "state \<Rightarrow> domain_id \<Rightarrow> domain_state option" where
  "domain s i = hm_get (st_domains s) i"

definition domain_count :: "state \<Rightarrow> nat" where
  "domain_count s = hm_len (st_domains s)"

end
