(* ===== verification/Recon_Facts.thy ===== *)
theory Recon_Facts
  imports Recon_State
begin

text \<open>
  Correctness of the reconstructed state. \<open>ruleset_step\<close> and \<open>domain_step\<close> are the abstract
  specification: what one event does to one object, independent of every other object; the lookup
  functions refine them (\<open>ruleset_apply\<close>, \<open>domain_apply\<close>). \<open>ruleset_inv\<close> and \<open>domain_inv\<close> are the
  representation invariants of one object, kept by every step.
\<close>

subsection \<open>The effect of an event on one object\<close>

fun ruleset_step :: "ruleset_id \<Rightarrow> ruleset_state option \<Rightarrow> event \<Rightarrow> ruleset_state option" where
  "ruleset_step r x (CreateRuleset e) =
     (if cr_ruleset_id e = r
      then Some (create_ruleset_entry e (case x of Some s \<Rightarrow> s
        | None \<Rightarrow> ruleset_state_new r Allocated (cr_ruleset_version e))) else x)"
| "ruleset_step r x (AddRulePathBeneath e) =
     (if ap_ruleset_id e = r
      then Some (add_path_beneath_entry e (case x of Some s \<Rightarrow> s
        | None \<Rightarrow> ruleset_state_new r Allocated (ap_ruleset_version e))) else x)"
| "ruleset_step r x (AddRuleNetPort e) =
     (if an_ruleset_id e = r
      then Some (add_net_port_entry e (case x of Some s \<Rightarrow> s
        | None \<Rightarrow> ruleset_state_new r Allocated (an_ruleset_version e))) else x)"
| "ruleset_step r x (CreateDomain e) =
     (if cd_ruleset_id e = r
      then Some (use_ruleset (cd_ruleset_version e) (case x of Some s \<Rightarrow> s
        | None \<Rightarrow> ruleset_state_new r Allocated (cd_ruleset_version e))) else x)"
| "ruleset_step r x (FreeRuleset e) =
     (if fr_ruleset_id e = r
      then Some (free_ruleset_entry e (case x of Some s \<Rightarrow> s
        | None \<Rightarrow> ruleset_state_new r Deallocated (fr_ruleset_version e))) else x)"
| "ruleset_step r x _ = x"

definition touch_step :: "domain_id \<Rightarrow> domain_state option \<Rightarrow> domain_state option" where
  "touch_step d x = Some (case x of Some s \<Rightarrow> s | None \<Rightarrow> domain_state_new d Allocated)"

definition denial_step ::
  "domain_id \<Rightarrow> domain_state option \<Rightarrow> denial_context \<Rightarrow> domain_membership option \<Rightarrow>
     domain_state option" where
  "denial_step d x c m =
     (let x1 = (if h_domain_id (hierarchy c) = d
                then Some (denial_entry c (case x of Some s \<Rightarrow> s
                  | None \<Rightarrow> domain_state_new d Allocated)) else x);
          x2 = (if h_parent_id (hierarchy c) = Some d then touch_step d x1 else x1)
      in if m = Some (Sandboxed d) then touch_step d x2 else x2)"

fun domain_step :: "domain_id \<Rightarrow> domain_state option \<Rightarrow> event \<Rightarrow> domain_state option" where
  "domain_step d x (CreateDomain e) =
     (let x1 = (if cd_parent_id e = Some d then touch_step d x else x)
      in if cd_domain_id e = d
         then Some (create_domain_entry e (case x1 of Some s \<Rightarrow> s
           | None \<Rightarrow> domain_state_new d Allocated)) else x1)"
| "domain_step d x (DenyAccessFs e) = denial_step d x (df_context e) None"
| "domain_step d x (DenyAccessNet e) = denial_step d x (dn_context e) None"
| "domain_step d x (DenyPtrace e) = denial_step d x (dp_context e) (Some (dp_tracee_domain e))"
| "domain_step d x (DenyScopeSignal e) = denial_step d x (ds_context e) (Some (ds_target_domain e))"
| "domain_step d x (DenyScopeAbstractUnixSocket e) =
     denial_step d x (du_context e) (Some (du_peer_domain e))"
| "domain_step d x (FreeDomain e) =
     (if fd_domain_id e = d
      then Some (free_domain_entry e (case x of Some s \<Rightarrow> s
        | None \<Rightarrow> domain_state_new d Deallocated)) else x)"
| "domain_step d x (EnforceDomain e) =
     (if ed_domain_id e = d
      then Some (enforce_domain_entry e (case x of Some s \<Rightarrow> s
        | None \<Rightarrow> domain_state_new d Allocated)) else x)"
| "domain_step d x _ = x"

lemma ruleset_update_ruleset:
  "ruleset (update_ruleset i d f s) r =
     (if r = i then Some (f (case ruleset s r of None \<Rightarrow> d | Some x \<Rightarrow> x)) else ruleset s r)"
  by (simp add: ruleset_def update_ruleset_def hm_simps)

lemma domain_update_domain:
  "domain (update_domain i d f s) j =
     (if j = i then Some (f (case domain s j of None \<Rightarrow> d | Some x \<Rightarrow> x)) else domain s j)"
  by (simp add: domain_def update_domain_def hm_simps)

lemma domain_touch_domain:
  "domain (touch_domain i s) j = (if j = i then touch_step j (domain s j) else domain s j)"
  by (auto simp: domain_def touch_domain_def touch_step_def hm_simps split: option.splits)

lemma domain_touch_opt:
  "domain (touch_opt i s) j = (if i = Some j then touch_step j (domain s j) else domain s j)"
  by (auto simp: touch_opt_def domain_touch_domain split: option.splits)

lemma frame_lookups [simp]:
  "ruleset (update_domain i d f s) r = ruleset s r"
  "ruleset (touch_domain i s) r = ruleset s r"
  "ruleset (touch_opt oi s) r = ruleset s r"
  "domain (update_ruleset k dr g s) j = domain s j"
  by (simp_all add: ruleset_def domain_def update_domain_def update_ruleset_def touch_domain_def
      touch_opt_def split: option.splits)

lemma ruleset_apply_denial [simp]: "ruleset (apply_denial c m s) r = ruleset s r"
  by (simp add: apply_denial_def Let_def split: option.splits domain_membership.splits)

lemma domain_apply_denial: "domain (apply_denial c m s) d = denial_step d (domain s d) c m"
  by (auto simp: apply_denial_def denial_step_def Let_def domain_update_domain domain_touch_domain
      domain_touch_opt split: option.splits domain_membership.splits)

lemmas apply_arm_defs = apply_create_ruleset_def apply_add_rule_path_beneath_def
  apply_add_rule_net_port_def apply_create_domain_def apply_free_domain_def apply_free_ruleset_def
  apply_enforce_domain_def

lemma ruleset_apply: "ruleset (apply_event s e) r = ruleset_step r (ruleset s r) e"
  by (cases e) (auto simp: apply_arm_defs ruleset_update_ruleset split: option.splits)

lemma domain_apply: "domain (apply_event s e) d = domain_step d (domain s d) e"
  by (cases e) (auto simp: apply_arm_defs domain_update_domain domain_touch_opt domain_apply_denial
      Let_def split: option.splits)

lemma ruleset_run: "ruleset (foldl apply_event s es) r = foldl (ruleset_step r) (ruleset s r) es"
  by (induction es arbitrary: s) (simp_all add: ruleset_apply)

lemma domain_run: "domain (foldl apply_event s es) d = foldl (domain_step d) (domain s d) es"
  by (induction es arbitrary: s) (simp_all add: domain_apply)

lemma state_new_lookups [simp]: "ruleset state_new r = None" "domain state_new d = None"
  by (simp_all add: ruleset_def domain_def state_new_def)

subsection \<open>The representation invariant of one object\<close>

definition ruleset_inv :: "ruleset_id \<Rightarrow> ruleset_state \<Rightarrow> bool" where
  "ruleset_inv r x \<longleftrightarrow>
     rs_id x = r \<and>
     (rs_handled_fs x = None \<longleftrightarrow> rs_creation_timestamp x = None) \<and>
     (rs_handled_net x = None \<longleftrightarrow> rs_creation_timestamp x = None) \<and>
     (rs_scoped x = None \<longleftrightarrow> rs_creation_timestamp x = None) \<and>
     (rs_final_version x \<noteq> None \<longleftrightarrow> rs_lifecycle x = Deallocated) \<and>
     (rs_free_timestamp x \<noteq> None \<longleftrightarrow> rs_lifecycle x = Deallocated) \<and>
     (\<forall>v. rs_final_version x = Some v \<longrightarrow> v \<le> rs_max_observed_version x) \<and>
     hm_wf (rs_filesystem_rules x) \<and>
     (\<forall>k f. hm_get (rs_filesystem_rules x) k = Some f \<longrightarrow> k = (fsr_device f, fsr_inode f)) \<and>
     hm_wf (rs_network_rules x) \<and>
     (\<forall>p n. hm_get (rs_network_rules x) p = Some n \<longrightarrow> p = nr_port n)"

definition creation_inv :: "domain_state \<Rightarrow> bool" where
  "creation_inv x \<longleftrightarrow>
     (dom_creator_tgid x = None \<longleftrightarrow> dom_creator_comm x = None) \<and>
     (dom_creation_timestamp x = None \<longleftrightarrow> dom_ruleset x = None) \<and>
     (dom_creation_timestamp x \<noteq> None \<longrightarrow> dom_parent x \<noteq> None \<and> dom_creator_tgid x \<noteq> None)"

definition counters_inv :: "domain_state \<Rightarrow> bool" where
  "counters_inv x \<longleftrightarrow>
     (dom_final_denial_count x = None \<longleftrightarrow> dom_lifecycle x = Allocated) \<and>
     (dom_free_timestamp x = None \<longleftrightarrow> dom_lifecycle x = Allocated) \<and>
     (\<forall>v. dom_final_denial_count x = Some v \<longrightarrow>
        (\<exists>w. dom_cumulative_denial_count x = Some w \<and> v \<le> w))"

definition enforcement_inv :: "domain_id \<Rightarrow> domain_state \<Rightarrow> bool" where
  "enforcement_inv d x \<longleftrightarrow>
     hm_wf (dom_enforcement_events x) \<and>
     (\<forall>t e. hm_get (dom_enforcement_events x) t = Some e \<longrightarrow>
        ed_enforcing_tid e = t \<and> ed_domain_id e = d \<and>
        (ed_process_wide e \<longrightarrow> dom_any_process_wide_enforcement x))"

definition domain_inv :: "domain_id \<Rightarrow> domain_state \<Rightarrow> bool" where
  "domain_inv d x \<longleftrightarrow> dom_id x = d \<and> creation_inv x \<and> counters_inv x \<and> enforcement_inv d x"

lemma update_max_Some: "update_max x v = Some (case x of None \<Rightarrow> v | Some w \<Rightarrow> max w v)"
  by (auto simp: update_max_def is_none_or_def max_def split: option.splits)

lemma update_latest_timestamp_ne [simp]: "\<exists>t. update_latest_timestamp x v = Some t"
  by (auto simp: update_latest_timestamp_def is_none_or_def split: option.splits)

lemmas entry_defs = create_ruleset_entry_def add_path_beneath_entry_def add_net_port_entry_def
  free_ruleset_entry_def create_domain_entry_def denial_entry_def free_domain_entry_def
  enforce_domain_entry_def use_ruleset_def rs_mark_allocated_def dom_mark_allocated_def
  rs_update_version_def

lemma ruleset_inv_new: "ruleset_inv r (ruleset_state_new r Allocated v)"
  by (simp add: ruleset_inv_def ruleset_state_new_def)

lemma ruleset_inv_use: "ruleset_inv r x \<Longrightarrow> ruleset_inv r (use_ruleset v x)"
  by (auto simp: ruleset_inv_def use_ruleset_def rs_mark_allocated_def rs_update_version_def
      max_def split: if_splits)

lemma ruleset_inv_create: "ruleset_inv r x \<Longrightarrow> ruleset_inv r (create_ruleset_entry e x)"
  using ruleset_inv_use [of r x "cr_ruleset_version e"]
  by (auto simp: create_ruleset_entry_def Let_def ruleset_inv_def)

lemma ruleset_inv_path: "ruleset_inv r x \<Longrightarrow> ruleset_inv r (add_path_beneath_entry e x)"
  using ruleset_inv_use [of r x "ap_ruleset_version e"]
  by (auto simp: add_path_beneath_entry_def Let_def ruleset_inv_def hm_simps merge_filesystem_rule_def
      new_filesystem_rule_def split: option.splits if_splits)

lemma ruleset_inv_port: "ruleset_inv r x \<Longrightarrow> ruleset_inv r (add_net_port_entry e x)"
  using ruleset_inv_use [of r x "an_ruleset_version e"]
  by (auto simp: add_net_port_entry_def Let_def ruleset_inv_def hm_simps merge_network_rule_def
      split: option.splits if_splits)

lemma ruleset_inv_free:
  "ruleset_inv r x \<or> x = ruleset_state_new r Deallocated v \<Longrightarrow> ruleset_inv r (free_ruleset_entry e x)"
  by (auto simp: free_ruleset_entry_def rs_update_version_def ruleset_inv_def ruleset_state_new_def
      update_max_Some max_def split: option.splits)

lemma ruleset_step_inv:
  "pred_option (ruleset_inv r) x \<Longrightarrow> pred_option (ruleset_inv r) (ruleset_step r x e)"
  by (cases e) (auto simp: pred_option_def ruleset_inv_new split: option.splits
      intro!: ruleset_inv_create ruleset_inv_path ruleset_inv_port ruleset_inv_use ruleset_inv_free)

lemma domain_inv_new: "domain_inv d (domain_state_new d Allocated)"
  by (simp add: domain_inv_def creation_inv_def counters_inv_def enforcement_inv_def
      domain_state_new_def)

lemma lifecycle_not_Deallocated [simp]: "x \<noteq> Deallocated \<longleftrightarrow> x = Allocated"
  by (cases x) simp_all

lemma dom_mark_allocated_id [simp]: "dom_mark_allocated x = x"
  by (simp add: dom_mark_allocated_def)

lemma rs_mark_allocated_id [simp]: "rs_mark_allocated x = x"
  by (simp add: rs_mark_allocated_def)

lemma domain_inv_create: "domain_inv d x \<Longrightarrow> domain_inv d (create_domain_entry e x)"
  by (auto simp: create_domain_entry_def Let_def domain_inv_def creation_inv_def counters_inv_def
      enforcement_inv_def update_max_Some le_max_iff_disj split: option.splits)

lemma domain_inv_denial: "domain_inv d x \<Longrightarrow> domain_inv d (denial_entry c x)"
  by (auto simp: denial_entry_def Let_def domain_inv_def creation_inv_def counters_inv_def
      enforcement_inv_def update_max_Some le_max_iff_disj split: option.splits)

lemma domain_inv_free:
  "domain_inv d x \<or> x = domain_state_new d Deallocated \<Longrightarrow> domain_inv d (free_domain_entry e x)"
  by (auto simp: free_domain_entry_def domain_inv_def creation_inv_def counters_inv_def
      enforcement_inv_def domain_state_new_def update_max_Some le_max_iff_disj split: option.splits)

lemma domain_inv_enforce:
  "domain_inv d x \<Longrightarrow> ed_domain_id e = d \<Longrightarrow> domain_inv d (enforce_domain_entry e x)"
  by (auto simp: enforce_domain_entry_def Let_def domain_inv_def creation_inv_def counters_inv_def
      enforcement_inv_def hm_simps replace_enforcement_def split: option.splits if_splits)

lemma domain_inv_touch:
  "pred_option (domain_inv d) x \<Longrightarrow> pred_option (domain_inv d) (touch_step d x)"
  by (auto simp: touch_step_def domain_inv_new split: option.splits)

lemma domain_inv_denial_step:
  "pred_option (domain_inv d) x \<Longrightarrow> pred_option (domain_inv d) (denial_step d x c m)"
proof -
  assume x: "pred_option (domain_inv d) x"
  have "pred_option (domain_inv d) (Some (denial_entry c (case x of Some s \<Rightarrow> s
      | None \<Rightarrow> domain_state_new d Allocated)))"
    using x by (auto intro!: domain_inv_denial simp: domain_inv_new split: option.splits)
  with x show ?thesis
    unfolding denial_step_def Let_def by (simp add: domain_inv_touch)
qed

lemma domain_step_inv:
  assumes "pred_option (domain_inv d) x"
  shows "pred_option (domain_inv d) (domain_step d x e)"
proof (cases e)
  case (CreateDomain c)
  let ?x1 = "if cd_parent_id c = Some d then touch_step d x else x"
  have "pred_option (domain_inv d) ?x1"
    using assms by (simp add: domain_inv_touch)
  then show ?thesis
    using CreateDomain
    by (auto simp: Let_def domain_inv_new simp del: option.case_eq_if
        intro!: domain_inv_create split: option.splits)
qed (use assms in \<open>auto simp: domain_inv_new domain_inv_denial_step
    intro!: domain_inv_free domain_inv_enforce split: option.splits\<close>)

end
