(* ===== verification/Recon_Invariant.thy ===== *)
theory Recon_Invariant
  imports Recon_Facts
begin

text \<open>
  The representation invariant of the reconstructed state: well-formed maps, valid identifiers,
  each object's own invariant, and the referential integrity between objects, namely that the
  parent of a domain is a domain of the state and that the ruleset version a domain was created
  from is a version observed for a ruleset of the state. \<open>apply_event\<close> is an \<open>event_sink\<close> for it.
\<close>

definition references_inv :: "state \<Rightarrow> domain_state \<Rightarrow> bool" where
  "references_inv s x \<longleftrightarrow>
     (\<forall>p. dom_parent x = Some (ParentDomain p) \<longrightarrow> domain s p \<noteq> None) \<and>
     (\<forall>rv. dom_ruleset x = Some rv \<longrightarrow>
        (\<exists>y. ruleset s (rv_ruleset_id rv) = Some y \<and>
             rv_ruleset_version rv \<le> rs_max_observed_version y))"

definition state_inv :: "state \<Rightarrow> bool" where
  "state_inv s \<longleftrightarrow>
     hm_wf (st_rulesets s) \<and> hm_wf (st_domains s) \<and>
     (\<forall>r x. ruleset s r = Some x \<longrightarrow> id_ok r \<and> ruleset_inv r x) \<and>
     (\<forall>d x. domain s d = Some x \<longrightarrow> id_ok d \<and> domain_inv d x \<and> references_inv s x)"

subsection \<open>Presence of objects\<close>

lemma ruleset_step_valid:
  "event_ok e \<Longrightarrow> ruleset_step r x e = Some y \<Longrightarrow> x \<noteq> None \<or> id_ok r"
  by (cases e) (auto split: if_splits)

lemma denial_step_valid:
  "denial_step d x c m = Some y \<Longrightarrow> context_ok c \<Longrightarrow> pred_option membership_ok m \<Longrightarrow>
     \<not> id_ok d \<Longrightarrow> \<exists>z. x = Some z"
  by (auto simp: denial_step_def context_ok_def hierarchy_ok_def membership_ok_def touch_step_def
      Let_def split: if_splits)

lemma domain_step_valid: "event_ok e \<Longrightarrow> domain_step d x e = Some y \<Longrightarrow> x \<noteq> None \<or> id_ok d"
  by (cases e) (auto simp: touch_step_def Let_def dest: denial_step_valid split: if_splits)

lemma denial_step_present: "denial_step d (Some x) c m \<noteq> None"
  by (simp add: denial_step_def touch_step_def Let_def)

lemma domain_step_present: "\<exists>y. domain_step d (Some x) e = Some y"
  using denial_step_present by (cases e) (auto simp: touch_step_def Let_def)

lemma rs_max_observed_version_step:
  "\<exists>y. ruleset_step r (Some x) e = Some y \<and> rs_max_observed_version x \<le> rs_max_observed_version y"
  by (cases e) (auto simp: entry_defs Let_def split: option.splits)

subsection \<open>Which references an event introduces\<close>

definition event_parent :: "event \<Rightarrow> domain_id option" where
  "event_parent e = (case e of CreateDomain c \<Rightarrow> cd_parent_id c
     | DenyAccessFs c \<Rightarrow> h_parent_id (hierarchy (df_context c))
     | DenyAccessNet c \<Rightarrow> h_parent_id (hierarchy (dn_context c))
     | DenyPtrace c \<Rightarrow> h_parent_id (hierarchy (dp_context c))
     | DenyScopeSignal c \<Rightarrow> h_parent_id (hierarchy (ds_context c))
     | DenyScopeAbstractUnixSocket c \<Rightarrow> h_parent_id (hierarchy (du_context c))
     | _ \<Rightarrow> None)"

lemma touch_step_Some: "\<exists>y. touch_step d x = Some y"
  by (simp add: touch_step_def)

lemma event_parent_present: "event_parent e = Some p \<Longrightarrow> \<exists>y. domain_step p x e = Some y"
  using touch_step_Some
  by (cases e) (auto simp: event_parent_def denial_step_def Let_def split: option.splits)

lemma touch_step_references:
  "touch_step d x = Some y \<Longrightarrow> x = Some y \<or> (dom_parent y = None \<and> dom_ruleset y = None)"
  by (auto simp: touch_step_def domain_state_new_def split: option.splits)

lemma denial_step_parent:
  "denial_step d x c m = Some y \<Longrightarrow> dom_parent y = Some (ParentDomain p) \<Longrightarrow>
     h_parent_id (hierarchy c) = Some p \<or> (\<exists>x'. x = Some x' \<and> dom_parent x' = dom_parent y)"
  by (auto simp: denial_step_def touch_step_def denial_entry_def domain_state_new_def
      parent_of_option_def Let_def split: if_splits option.splits)

lemma denial_step_ruleset:
  "denial_step d x c m = Some y \<Longrightarrow> dom_ruleset y = Some rv \<Longrightarrow>
     \<exists>x'. x = Some x' \<and> dom_ruleset x' = Some rv"
  by (auto simp: denial_step_def touch_step_def denial_entry_def domain_state_new_def
      Let_def split: if_splits option.splits)

lemma domain_step_parent:
  "domain_step d x e = Some y \<Longrightarrow> dom_parent y = Some (ParentDomain p) \<Longrightarrow>
     event_parent e = Some p \<or> (\<exists>x'. x = Some x' \<and> dom_parent x' = Some (ParentDomain p))"
  by (cases e) (auto simp: event_parent_def touch_step_def create_domain_entry_def
      free_domain_entry_def enforce_domain_entry_def domain_state_new_def parent_of_option_def
      Let_def dest!: denial_step_parent split: if_splits option.splits)

definition event_creation_ruleset :: "event \<Rightarrow> ruleset_version option" where
  "event_creation_ruleset e = (case e of
     CreateDomain c \<Rightarrow> Some \<lparr>rv_ruleset_id = cd_ruleset_id c, rv_ruleset_version = cd_ruleset_version c\<rparr>
   | _ \<Rightarrow> None)"

lemma event_creation_ruleset_present:
  "event_creation_ruleset e = Some rv \<Longrightarrow>
     \<exists>y. ruleset_step (rv_ruleset_id rv) x e = Some y \<and>
         rv_ruleset_version rv \<le> rs_max_observed_version y"
  by (cases e) (auto simp: event_creation_ruleset_def entry_defs)

lemma domain_step_ruleset:
  "domain_step d x e = Some y \<Longrightarrow> dom_ruleset y = Some rv \<Longrightarrow>
     event_creation_ruleset e = Some rv \<or> (\<exists>x'. x = Some x' \<and> dom_ruleset x' = Some rv)"
  by (cases e) (auto simp: event_creation_ruleset_def touch_step_def create_domain_entry_def
      free_domain_entry_def enforce_domain_entry_def domain_state_new_def
      Let_def dest!: denial_step_ruleset split: if_splits option.splits)

subsection \<open>Preservation\<close>

lemma apply_event_wf:
  "hm_wf (st_rulesets s) \<Longrightarrow> hm_wf (st_rulesets (apply_event s e))"
  "hm_wf (st_domains s) \<Longrightarrow> hm_wf (st_domains (apply_event s e))"
  by (cases e; auto simp: apply_arm_defs apply_denial_def Let_def update_ruleset_def
      update_domain_def touch_opt_def touch_domain_def split: option.splits domain_membership.splits)+

lemma references_inv_apply:
  assumes inv: "state_inv s" and y: "domain (apply_event s e) d = Some y"
  shows "references_inv (apply_event s e) y"
proof -
  have step: "domain_step d (domain s d) e = Some y"
    using y by (simp add: domain_apply)
  have "domain (apply_event s e) p \<noteq> None" if p: "dom_parent y = Some (ParentDomain p)" for p
    using domain_step_parent [OF step p]
  proof
    assume "event_parent e = Some p"
    then show ?thesis
      using event_parent_present by (fastforce simp: domain_apply)
  next
    assume "\<exists>x'. domain s d = Some x' \<and> dom_parent x' = Some (ParentDomain p)"
    then obtain x' z where "domain s d = Some x'" "domain s p = Some z"
      using inv by (fastforce simp: state_inv_def references_inv_def)
    then show ?thesis
      using domain_step_present by (fastforce simp: domain_apply)
  qed
  moreover have "\<exists>z. ruleset (apply_event s e) (rv_ruleset_id rv) = Some z \<and>
      rv_ruleset_version rv \<le> rs_max_observed_version z" if rv: "dom_ruleset y = Some rv" for rv
    using domain_step_ruleset [OF step rv]
  proof
    assume "event_creation_ruleset e = Some rv"
    then show ?thesis
      by (simp add: ruleset_apply event_creation_ruleset_present)
  next
    assume "\<exists>x'. domain s d = Some x' \<and> dom_ruleset x' = Some rv"
    then obtain x' z where "domain s d = Some x'" "ruleset s (rv_ruleset_id rv) = Some z"
        "rv_ruleset_version rv \<le> rs_max_observed_version z"
      using inv by (fastforce simp: state_inv_def references_inv_def)
    then show ?thesis
      using rs_max_observed_version_step [of "rv_ruleset_id rv" z e]
      by (auto simp: ruleset_apply)
  qed
  ultimately show ?thesis
    by (simp add: references_inv_def)
qed

lemma state_inv_new: "state_inv state_new"
  by (simp add: state_inv_def) (simp add: state_new_def)

lemma state_inv_apply:
  assumes inv: "state_inv s" and ok: "event_ok e"
  shows "state_inv (apply_event s e)"
proof -
  have "id_ok r \<and> ruleset_inv r y" if "ruleset (apply_event s e) r = Some y" for r y
    using that inv ruleset_step_inv [of r "ruleset s r" e] ruleset_step_valid [OF ok]
    by (fastforce simp: ruleset_apply state_inv_def pred_option_def)
  moreover have "id_ok d \<and> domain_inv d y" if "domain (apply_event s e) d = Some y" for d y
    using that inv domain_step_inv [of d "domain s d" e] domain_step_valid [OF ok]
    by (fastforce simp: domain_apply state_inv_def pred_option_def)
  moreover have "hm_wf (st_rulesets (apply_event s e))" "hm_wf (st_domains (apply_event s e))"
    using inv by (simp_all add: state_inv_def apply_event_wf)
  ultimately show ?thesis
    using references_inv_apply [OF inv] by (simp add: state_inv_def)
qed

interpretation recon: event_sink apply_event state_inv event_ok
  by unfold_locales (rule state_inv_apply)

end
