(* ===== verification/Recon_Order.thy ===== *)
theory Recon_Order
  imports Recon_Invariant
begin

text \<open>
  What the reconstructed state says after a run of events, independent of the order in which the
  ring buffer delivered them. Lifecycles, versions, counters, free timestamps and accumulated
  rights are \<open>monotone_fact\<close>s: a run has the join of the contributions of its events, whatever
  their order and multiplicity. Creation facts, the latest enforcement event of a thread and the
  pathname of a filesystem rule are \<open>latest_wins\<close> slots: a run keeps the fact of greatest kernel
  timestamp.
\<close>

unbundle bit_operations_syntax

subsection \<open>The order of lifecycle states\<close>

text \<open>An object is allocated before it is deallocated; \<open>PartialOrd\<close> is not derived in the sources.\<close>

instantiation lifecycle_state :: linorder
begin

definition less_eq_lifecycle_state :: "lifecycle_state \<Rightarrow> lifecycle_state \<Rightarrow> bool" where
  "x \<le> y \<longleftrightarrow> x = Allocated \<or> y = Deallocated"

definition less_lifecycle_state :: "lifecycle_state \<Rightarrow> lifecycle_state \<Rightarrow> bool" where
  "x < y \<longleftrightarrow> x = Allocated \<and> y = Deallocated"

instance
proof
  fix x y z :: lifecycle_state
  show "x < y \<longleftrightarrow> x \<le> y \<and> \<not> y \<le> x" "x \<le> x" "x \<le> y \<Longrightarrow> y \<le> z \<Longrightarrow> x \<le> z"
    "x \<le> y \<Longrightarrow> y \<le> x \<Longrightarrow> x = y" "x \<le> y \<or> y \<le> x"
    by (cases x; cases y; auto simp: less_eq_lifecycle_state_def less_lifecycle_state_def)+
qed

end

lemma lifecycle_max [simp]:
  "max Deallocated x = Deallocated" "max x Deallocated = Deallocated"
  "max Allocated x = x" "max x Allocated = x"
  by (auto simp: max_def less_eq_lifecycle_state_def)

subsection \<open>Joins\<close>

lemma semilattice_max: "semilattice (max :: 'a::linorder \<Rightarrow> 'a \<Rightarrow> 'a)"
  by (rule max.semilattice_axioms)

lemma semilattice_or_word: "semilattice ((OR) :: 'a::len word \<Rightarrow> 'a word \<Rightarrow> 'a word)"
  by unfold_locales (auto simp: ac_simps)

lemma semilattice_disj: "semilattice (\<or>)"
  by unfold_locales auto

lemmas opt_semilattices = semilattice_max [THEN semilattice_opt_join]
  semilattice_or_word [THEN semilattice_opt_join] semilattice_disj [THEN semilattice_opt_join]

lemma update_max_join: "update_max x v = opt_join max x (Some v)"
  by (auto simp: update_max_Some split: option.splits)

lemma update_latest_timestamp_join:
  "map_option timestamp_value (update_latest_timestamp x t) =
     opt_join max (map_option timestamp_value x) (Some (timestamp_value t))"
  by (auto simp: update_latest_timestamp_def is_none_or_def max_def split: option.splits)

lemma finite_these_set [simp]: "finite (Option.these (set xs))"
  by (simp add: Option.these_def)

lemma foldl_opt_join_max_Some:
  "foldl (opt_join max) (Some a) xs = Some (Max (insert a (Option.these (set xs))))"
proof (induction xs rule: rev_induct)
  case (snoc x xs)
  show ?case
    using snoc.IH by (cases x) (simp_all add: max.commute insert_commute [of a]
      del: Max_insert, simp add: Max_insert [symmetric] insert_commute del: Max_insert)
qed simp

text \<open>The join of optional contributions from nothing is their maximum.\<close>

lemma foldl_opt_join_max:
  "foldl (opt_join max) None xs =
     (if Option.these (set xs) = {} then None else Some (Max (Option.these (set xs))))"
proof (induction xs)
  case (Cons x xs)
  then show ?case
    by (cases x) (simp_all add: foldl_opt_join_max_Some)
qed simp

subsection \<open>Contributions to the facts of a ruleset\<close>

fun ruleset_version_of :: "ruleset_id \<Rightarrow> event \<Rightarrow> u64 option" where
  "ruleset_version_of r (CreateRuleset e) =
     (if cr_ruleset_id e = r then Some (cr_ruleset_version e) else None)"
| "ruleset_version_of r (AddRulePathBeneath e) =
     (if ap_ruleset_id e = r then Some (ap_ruleset_version e) else None)"
| "ruleset_version_of r (AddRuleNetPort e) =
     (if an_ruleset_id e = r then Some (an_ruleset_version e) else None)"
| "ruleset_version_of r (CreateDomain e) =
     (if cd_ruleset_id e = r then Some (cd_ruleset_version e) else None)"
| "ruleset_version_of r (FreeRuleset e) =
     (if fr_ruleset_id e = r then Some (fr_ruleset_version e) else None)"
| "ruleset_version_of r _ = None"

definition freed_ruleset :: "ruleset_id \<Rightarrow> event \<Rightarrow> free_ruleset_event option" where
  "freed_ruleset r e = (case e of
     FreeRuleset f \<Rightarrow> if fr_ruleset_id f = r then Some f else None | _ \<Rightarrow> None)"

definition ruleset_lifecycle_of :: "ruleset_id \<Rightarrow> event \<Rightarrow> lifecycle_state option" where
  "ruleset_lifecycle_of r e =
     (if freed_ruleset r e \<noteq> None then Some Deallocated
      else map_option (\<lambda>_. Allocated) (ruleset_version_of r e))"

definition network_rights_of :: "ruleset_id \<Rightarrow> u64 \<Rightarrow> event \<Rightarrow> u64 option" where
  "network_rights_of r p e = (case e of
     AddRuleNetPort n \<Rightarrow> if an_ruleset_id n = r \<and> an_port n = p
                          then Some (net_bits (an_access_rights n)) else None
   | _ \<Rightarrow> None)"

definition filesystem_rights_of :: "ruleset_id \<Rightarrow> u32 \<Rightarrow> u64 \<Rightarrow> event \<Rightarrow> u64 option" where
  "filesystem_rights_of r dev ino e = (case e of
     AddRulePathBeneath f \<Rightarrow> if ap_ruleset_id f = r \<and> ap_device f = dev \<and> ap_inode f = ino
                              then Some (fs_bits (ap_access_rights f)) else None
   | _ \<Rightarrow> None)"

lemmas ruleset_step_defs = ruleset_state_new_def entry_defs Let_def
  freed_ruleset_def ruleset_lifecycle_of_def

interpretation rs_life: monotone_fact "opt_join max" apply_event
  "\<lambda>s. map_option rs_lifecycle (ruleset s r)" "ruleset_lifecycle_of r" for r
  by (intro monotone_fact.intro opt_semilattices monotone_fact_axioms.intro,
      unfold ruleset_apply, case_tac e)
    (auto simp: ruleset_step_defs opt_join_def split: option.splits)

interpretation rs_version: monotone_fact "opt_join max" apply_event
  "\<lambda>s. map_option rs_max_observed_version (ruleset s r)" "ruleset_version_of r" for r
  by (intro monotone_fact.intro opt_semilattices monotone_fact_axioms.intro,
      unfold ruleset_apply, case_tac e)
    (auto simp: ruleset_step_defs opt_join_def split: option.splits)

interpretation rs_final: monotone_fact "opt_join max" apply_event
  "\<lambda>s. Option.bind (ruleset s r) rs_final_version"
  "\<lambda>e. map_option fr_ruleset_version (freed_ruleset r e)" for r
  by (intro monotone_fact.intro opt_semilattices monotone_fact_axioms.intro,
      unfold ruleset_apply, case_tac e)
    (auto simp: ruleset_step_defs update_max_join split: option.splits)

interpretation rs_free_time: monotone_fact "opt_join max" apply_event
  "\<lambda>s. map_option timestamp_value (Option.bind (ruleset s r) rs_free_timestamp)"
  "\<lambda>e. map_option (\<lambda>f. timestamp_value (fr_timestamp f)) (freed_ruleset r e)" for r
  by (intro monotone_fact.intro opt_semilattices monotone_fact_axioms.intro,
      unfold ruleset_apply, case_tac e)
    (auto simp: ruleset_step_defs update_latest_timestamp_join split: option.splits)

interpretation rs_net: monotone_fact "opt_join (OR)" apply_event
  "\<lambda>s. map_option (\<lambda>n. net_bits (nr_access_rights n))
         (Option.bind (ruleset s r) (\<lambda>x. network_rule x p))"
  "network_rights_of r p" for r p
  by (intro monotone_fact.intro opt_semilattices monotone_fact_axioms.intro,
      unfold ruleset_apply, case_tac e)
    (auto simp: ruleset_step_defs network_rights_of_def network_rule_def merge_network_rule_def
      hm_simps split: option.splits)

interpretation rs_fs: monotone_fact "opt_join (OR)" apply_event
  "\<lambda>s. map_option (\<lambda>f. fs_bits (fsr_access_rights f))
         (Option.bind (ruleset s r) (\<lambda>x. filesystem_rule x dev ino))"
  "filesystem_rights_of r dev ino" for r dev ino
  by (intro monotone_fact.intro opt_semilattices monotone_fact_axioms.intro,
      unfold ruleset_apply, case_tac e)
    (auto simp: ruleset_step_defs filesystem_rights_of_def filesystem_rule_def
      merge_filesystem_rule_def new_filesystem_rule_def hm_simps split: option.splits)

subsection \<open>Contributions to the facts of a domain\<close>

text \<open>An event mentions a domain when applying it to an empty state creates the domain.\<close>

definition mentions_domain :: "domain_id \<Rightarrow> event \<Rightarrow> bool" where
  "mentions_domain d e \<longleftrightarrow> domain_step d None e \<noteq> None"

definition freed_domain :: "domain_id \<Rightarrow> event \<Rightarrow> free_domain_event option" where
  "freed_domain d e = (case e of
     FreeDomain f \<Rightarrow> if fd_domain_id f = d then Some f else None | _ \<Rightarrow> None)"

definition enforced_domain :: "domain_id \<Rightarrow> event \<Rightarrow> enforce_domain_event option" where
  "enforced_domain d e = (case e of
     EnforceDomain f \<Rightarrow> if ed_domain_id f = d then Some f else None | _ \<Rightarrow> None)"

definition event_denial :: "event \<Rightarrow> denial_context option" where
  "event_denial e = (case e of
     DenyAccessFs f \<Rightarrow> Some (df_context f) | DenyAccessNet f \<Rightarrow> Some (dn_context f)
   | DenyPtrace f \<Rightarrow> Some (dp_context f) | DenyScopeSignal f \<Rightarrow> Some (ds_context f)
   | DenyScopeAbstractUnixSocket f \<Rightarrow> Some (du_context f) | _ \<Rightarrow> None)"

definition domain_lifecycle_of :: "domain_id \<Rightarrow> event \<Rightarrow> lifecycle_state option" where
  "domain_lifecycle_of d e =
     (if freed_domain d e \<noteq> None then Some Deallocated
      else if mentions_domain d e then Some Allocated else None)"

definition denial_count_of :: "domain_id \<Rightarrow> event \<Rightarrow> u64 option" where
  "denial_count_of d e = (case e of
     CreateDomain c \<Rightarrow> if cd_domain_id c = d then Some 0 else None
   | FreeDomain f \<Rightarrow> if fd_domain_id f = d then Some (fd_denial_count f) else None
   | _ \<Rightarrow> (case event_denial e of
            Some c \<Rightarrow> if h_domain_id (hierarchy c) = d
                       then Some (cumulative_denial_count c) else None
          | None \<Rightarrow> None))"

definition process_wide_of :: "domain_id \<Rightarrow> event \<Rightarrow> bool option" where
  "process_wide_of d e =
     (if mentions_domain d e
      then Some (case enforced_domain d e of None \<Rightarrow> False | Some f \<Rightarrow> ed_process_wide f) else None)"

lemmas domain_step_defs = domain_state_new_def entry_defs Let_def denial_step_def touch_step_def
  freed_domain_def enforced_domain_def event_denial_def mentions_domain_def

interpretation dom_life: monotone_fact "opt_join max" apply_event
  "\<lambda>s. map_option dom_lifecycle (domain s d)" "domain_lifecycle_of d" for d
  by (intro monotone_fact.intro opt_semilattices monotone_fact_axioms.intro,
      unfold domain_apply, case_tac e)
    (auto simp: domain_step_defs domain_lifecycle_of_def opt_join_def split: option.splits)

interpretation dom_denials: monotone_fact "opt_join max" apply_event
  "\<lambda>s. Option.bind (domain s d) dom_cumulative_denial_count" "denial_count_of d" for d
  by (intro monotone_fact.intro opt_semilattices monotone_fact_axioms.intro,
      unfold domain_apply, case_tac e)
    (auto simp: domain_step_defs denial_count_of_def update_max_join split: option.splits)

interpretation dom_final: monotone_fact "opt_join max" apply_event
  "\<lambda>s. Option.bind (domain s d) dom_final_denial_count"
  "\<lambda>e. map_option fd_denial_count (freed_domain d e)" for d
  by (intro monotone_fact.intro opt_semilattices monotone_fact_axioms.intro,
      unfold domain_apply, case_tac e)
    (auto simp: domain_step_defs update_max_join split: option.splits)

interpretation dom_free_time: monotone_fact "opt_join max" apply_event
  "\<lambda>s. map_option timestamp_value (Option.bind (domain s d) dom_free_timestamp)"
  "\<lambda>e. map_option (\<lambda>f. timestamp_value (fd_timestamp f)) (freed_domain d e)" for d
  by (intro monotone_fact.intro opt_semilattices monotone_fact_axioms.intro,
      unfold domain_apply, case_tac e)
    (auto simp: domain_step_defs update_latest_timestamp_join split: option.splits)

interpretation dom_process_wide: monotone_fact "opt_join (\<or>)" apply_event
  "\<lambda>s. map_option dom_any_process_wide_enforcement (domain s d)" "process_wide_of d" for d
  by (intro monotone_fact.intro opt_semilattices monotone_fact_axioms.intro,
      unfold domain_apply, case_tac e)
    (auto simp: domain_step_defs process_wide_of_def opt_join_def split: option.splits)

subsection \<open>Slots that keep the latest fact\<close>

type_synonym ruleset_creation =
  "kernel_timestamp \<times> filesystem_access \<times> network_access \<times> scope_access"

definition ruleset_creation :: "ruleset_state \<Rightarrow> ruleset_creation option" where
  "ruleset_creation x = (case (rs_creation_timestamp x, rs_handled_fs x, rs_handled_net x, rs_scoped x) of
     (Some t, Some a, Some b, Some c) \<Rightarrow> Some (t, a, b, c) | _ \<Rightarrow> None)"

definition ruleset_creation_of :: "ruleset_id \<Rightarrow> event \<Rightarrow> ruleset_creation option" where
  "ruleset_creation_of r e = (case e of
     CreateRuleset c \<Rightarrow> if cr_ruleset_id c = r
       then Some (cr_timestamp c, cr_handled_fs c, cr_handled_net c, cr_scoped c) else None
   | _ \<Rightarrow> None)"

lemma ruleset_creation_step:
  "pred_option (ruleset_inv r) x \<Longrightarrow>
   Option.bind (ruleset_step r x e) ruleset_creation =
     (case ruleset_creation_of r e of
        None \<Rightarrow> Option.bind x ruleset_creation
      | Some c \<Rightarrow> (case Option.bind x ruleset_creation of
          None \<Rightarrow> Some c
        | Some c' \<Rightarrow> if timestamp_value (fst c') \<le> timestamp_value (fst c)
                      then Some c else Some c'))"
  by (cases e; cases x) (auto simp: ruleset_creation_of_def ruleset_creation_def ruleset_state_new_def
      ruleset_inv_def entry_defs Let_def is_none_or_def split: option.splits)

interpretation rs_created: latest_wins apply_event state_inv event_ok
  "\<lambda>s. Option.bind (ruleset s r) ruleset_creation" "ruleset_creation_of r"
  "\<lambda>c. timestamp_value (fst c)" for r
  by unfold_locales
    (auto simp: ruleset_apply state_inv_def pred_option_def intro!: ruleset_creation_step)

type_synonym domain_creation =
  "kernel_timestamp \<times> domain_parent \<times> process_id \<times> captured_command \<times> ruleset_version"

definition domain_creation :: "domain_state \<Rightarrow> domain_creation option" where
  "domain_creation x = (case (dom_creation_timestamp x, dom_parent x, dom_creator_tgid x,
       dom_creator_comm x, dom_ruleset x) of
     (Some t, Some p, Some i, Some c, Some rv) \<Rightarrow> Some (t, p, i, c, rv) | _ \<Rightarrow> None)"

definition domain_creation_of :: "domain_id \<Rightarrow> event \<Rightarrow> domain_creation option" where
  "domain_creation_of d e = (case e of
     CreateDomain c \<Rightarrow> if cd_domain_id c = d
       then Some (cd_timestamp c, parent_of_option (cd_parent_id c), cd_creator_tgid c,
              cd_creator_comm c, \<lparr>rv_ruleset_id = cd_ruleset_id c,
                rv_ruleset_version = cd_ruleset_version c\<rparr>) else None
   | _ \<Rightarrow> None)"

lemma domain_creation_new [simp]: "domain_creation (domain_state_new d l) = None"
  by (simp add: domain_creation_def domain_state_new_def)

lemma domain_creation_touch: "Option.bind (touch_step d x) domain_creation = Option.bind x domain_creation"
  by (simp add: touch_step_def split: option.splits)

lemma creation_inv_cases:
  assumes "creation_inv x"
  obtains (never) "dom_creation_timestamp x = None" "dom_ruleset x = None" "domain_creation x = None"
  | (created) t p i c rv where "dom_creation_timestamp x = Some t" "dom_parent x = Some p"
      "dom_creator_tgid x = Some i" "dom_creator_comm x = Some c" "dom_ruleset x = Some rv"
      "domain_creation x = Some (t, p, i, c, rv)"
  using assms by (cases "dom_creation_timestamp x"; cases "dom_parent x"; cases "dom_creator_tgid x";
      cases "dom_creator_comm x"; cases "dom_ruleset x") (auto simp: creation_inv_def domain_creation_def)

lemma domain_creation_denial_entry:
  "creation_inv x \<Longrightarrow> domain_creation (denial_entry c x) = domain_creation x"
  by (erule creation_inv_cases) (auto simp: denial_entry_def domain_creation_def Let_def)

lemma domain_creation_denial_step:
  assumes "pred_option (domain_inv d) x"
  shows "Option.bind (denial_step d x c m) domain_creation = Option.bind x domain_creation"
proof -
  have "creation_inv (domain_state_new d Allocated)"
    by (simp add: creation_inv_def domain_state_new_def)
  with assms have "Option.bind (Some (denial_entry c (case x of Some s \<Rightarrow> s
      | None \<Rightarrow> domain_state_new d Allocated))) domain_creation = Option.bind x domain_creation"
    by (auto simp: domain_creation_denial_entry domain_inv_def split: option.splits)
  then show ?thesis
    by (simp add: denial_step_def Let_def domain_creation_touch)
qed

lemma domain_creation_create_entry:
  "creation_inv x \<Longrightarrow> cd_domain_id c = d \<Longrightarrow> domain_creation (create_domain_entry c x) =
     (case domain_creation x of
        None \<Rightarrow> domain_creation_of d (CreateDomain c)
      | Some y \<Rightarrow> if timestamp_value (fst y) \<le> timestamp_value (cd_timestamp c)
                  then domain_creation_of d (CreateDomain c) else Some y)"
  by (erule creation_inv_cases)
    (auto simp: create_domain_entry_def domain_creation_def domain_creation_of_def is_none_or_def Let_def)

lemma domain_creation_step:
  assumes inv: "pred_option (domain_inv d) x"
  shows "Option.bind (domain_step d x e) domain_creation =
     (case domain_creation_of d e of
        None \<Rightarrow> Option.bind x domain_creation
      | Some c \<Rightarrow> (case Option.bind x domain_creation of
          None \<Rightarrow> Some c
        | Some c' \<Rightarrow> if timestamp_value (fst c') \<le> timestamp_value (fst c)
                      then Some c else Some c'))"
proof (cases e)
  case (CreateDomain c)
  let ?x1 = "if cd_parent_id c = Some d then touch_step d x else x"
  have x1: "pred_option (domain_inv d) ?x1" "Option.bind ?x1 domain_creation = Option.bind x domain_creation"
    using inv by (simp_all add: domain_inv_touch domain_creation_touch)
  show ?thesis
  proof (cases "cd_domain_id c = d")
    case True
    have "creation_inv (case ?x1 of Some s \<Rightarrow> s | None \<Rightarrow> domain_state_new d Allocated)"
      using x1(1) domain_inv_new [of d] by (auto simp: domain_inv_def split: option.splits)
    note entry = domain_creation_create_entry [OF this True]
    have "domain_creation (case ?x1 of Some s \<Rightarrow> s | None \<Rightarrow> domain_state_new d Allocated)
        = Option.bind x domain_creation"
      using x1(2) by (cases ?x1) auto
    then show ?thesis
      using entry True CreateDomain
      by (simp add: Let_def domain_creation_of_def split: option.splits)
  next
    case False
    then show ?thesis
      using CreateDomain x1(2) by (simp add: domain_creation_of_def)
  qed
qed (use inv in \<open>auto simp: domain_creation_denial_step domain_creation_of_def free_domain_entry_def
      enforce_domain_entry_def domain_creation_def Let_def domain_state_new_def split: option.splits\<close>)

interpretation dom_created: latest_wins apply_event state_inv event_ok
  "\<lambda>s. Option.bind (domain s d) domain_creation" "domain_creation_of d"
  "\<lambda>c. timestamp_value (fst c)" for d
  by unfold_locales
    (auto simp: domain_apply state_inv_def pred_option_def intro!: domain_creation_step)

definition enforcement_of :: "domain_id \<Rightarrow> thread_id \<Rightarrow> event \<Rightarrow> enforce_domain_event option" where
  "enforcement_of d t e =
     Option.bind (enforced_domain d e) (\<lambda>f. if ed_enforcing_tid f = t then Some f else None)"

interpretation dom_enforced: latest_wins apply_event state_inv event_ok
  "\<lambda>s. Option.bind (domain s d) (\<lambda>x. enforcement_event x t)" "enforcement_of d t"
  "\<lambda>f. timestamp_value (ed_timestamp f)" for d t
  by (unfold_locales, unfold domain_apply, case_tac e)
    (auto simp: domain_step_defs enforcement_of_def enforcement_event_def hm_simps
      replace_enforcement_def split: option.splits)

definition pathname_of ::
  "ruleset_id \<Rightarrow> u32 \<Rightarrow> u64 \<Rightarrow> event \<Rightarrow> (captured_path \<times> kernel_timestamp) option" where
  "pathname_of r dev ino e = (case e of
     AddRulePathBeneath f \<Rightarrow> if ap_ruleset_id f = r \<and> ap_device f = dev \<and> ap_inode f = ino
                              then Some (ap_pathname f, ap_timestamp f) else None
   | _ \<Rightarrow> None)"

interpretation rs_pathname: latest_wins apply_event state_inv event_ok
  "\<lambda>s. map_option (\<lambda>f. (fsr_pathname f, fsr_pathname_timestamp f))
         (Option.bind (ruleset s r) (\<lambda>x. filesystem_rule x dev ino))"
  "pathname_of r dev ino" "\<lambda>x. timestamp_value (snd x)" for r dev ino
  by (unfold_locales, unfold ruleset_apply, case_tac e)
    (auto simp: ruleset_step_defs pathname_of_def filesystem_rule_def merge_filesystem_rule_def
      new_filesystem_rule_def hm_simps split: option.splits)

end
