(* ===== verification/Recon_Properties.thy ===== *)
theory Recon_Properties
  imports Recon_Order
begin

text \<open>
  The properties of the reconstructed state, over runs of the event stream from the empty state.
  The run is the fold of \<open>apply_event\<close>, which is how the batch and interactive front ends and the
  library's users feed decoded events in.
\<close>

unbundle bit_operations_syntax

subsection \<open>Sample events\<close>

definition sample_id :: "u64 \<Rightarrow> 'k landlock_id" where
  "sample_id n = LandlockId (MIN_LANDLOCK_ID + n)"

definition sample_creation :: "u64 \<Rightarrow> u64 \<Rightarrow> domain_id option \<Rightarrow> event" where
  "sample_creation t d p = CreateDomain \<lparr>cd_timestamp = KernelTimestamp t, cd_ruleset_id = sample_id 9,
     cd_ruleset_version = t, cd_domain_id = sample_id d, cd_parent_id = p,
     cd_creator_tgid = ProcessId 7, cd_creator_comm = CapturedBytes [98, 97] False\<rparr>"

definition sample_free :: "u64 \<Rightarrow> u64 \<Rightarrow> u64 \<Rightarrow> event" where
  "sample_free t d n = FreeDomain \<lparr>fd_timestamp = KernelTimestamp t, fd_domain_id = sample_id d,
     fd_denial_count = n\<rparr>"

definition sample_enforcement :: "u64 \<Rightarrow> u64 \<Rightarrow> u32 \<Rightarrow> bool \<Rightarrow> event" where
  "sample_enforcement t d i nnp = EnforceDomain \<lparr>ed_timestamp = KernelTimestamp t,
     ed_domain_id = sample_id d, ed_enforcing_tid = ThreadId i, ed_complete = True,
     ed_process_wide = False, ed_no_new_privs = nnp\<rparr>"

lemmas sample_defs = sample_id_def sample_creation_def sample_free_def sample_enforcement_def
  MIN_LANDLOCK_ID_def

text \<open>A domain, its child, the child's enforcement by two threads, and the child's end.\<close>

definition sample_run :: "event list" where
  "sample_run = [sample_creation 5 1 None, sample_creation 6 2 (Some (sample_id 1)),
     sample_enforcement 7 2 40 True, sample_enforcement 8 2 41 False, sample_free 9 2 3]"

lemma sample_run_ok: "list_all event_ok sample_run"
  by (simp add: sample_run_def sample_defs id_ok_def pid_ok_def tid_ok_def captured_ok_def
      command_consts_def)

subsection \<open>Safety\<close>

text \<open>C3. After any sequence of well-typed events the reconstructed state satisfies its invariant:
  no duplicate entries, valid identifiers, facts of an object present together or not at all, an
  object deallocated exactly when its free facts are known, final counters bounded by the observed
  maxima, every parent a known domain and every creation version an observed ruleset version.\<close>

theorem run_state_inv: "list_all event_ok es \<Longrightarrow> state_inv (foldl apply_event state_new es)"
  by (rule recon.inv_run [OF state_inv_new])

theorem run_state_inv_witness:
  "list_all event_ok sample_run \<and> state_inv (foldl apply_event state_new sample_run)"
  using run_state_inv [OF sample_run_ok] sample_run_ok by blast

subsection \<open>Order and multiplicity of events\<close>

lemma map_option_eq_pair:
  "map_option f x = map_option f y \<Longrightarrow> map_option g x = map_option g y \<Longrightarrow>
     map_option (\<lambda>a. (f a, g a)) x = map_option (\<lambda>a. (f a, g a)) y"
  by (cases x; cases y) auto

lemma map_option_eq_of_bind:
  "map_option f x = map_option f y \<Longrightarrow> Option.bind x g = Option.bind y g \<Longrightarrow>
     map_option g x = map_option g y"
  by (cases x; cases y) auto

lemma map_option_map_bind:
  "map_option h (Option.bind x g) = Option.bind x (\<lambda>a. map_option h (g a))"
  by (cases x) auto

text \<open>C10. Delivery order and duplicates do not matter for the monotone facts of a ruleset: two runs
  with the same set of events agree on its presence, lifecycle, greatest observed version, final
  version and free timestamp.\<close>

theorem ruleset_facts_order_independent:
  assumes "set es = set es'"
  shows "map_option (\<lambda>x. (rs_lifecycle x, rs_max_observed_version x, rs_final_version x,
             map_option timestamp_value (rs_free_timestamp x)))
           (ruleset (foldl apply_event s es) r)
       = map_option (\<lambda>x. (rs_lifecycle x, rs_max_observed_version x, rs_final_version x,
             map_option timestamp_value (rs_free_timestamp x)))
           (ruleset (foldl apply_event s es') r)"
proof -
  note eqs = rs_life.fact_order_independent [OF assms, where r = r and s = s]
    rs_version.fact_order_independent [OF assms, where r = r and s = s]
    rs_final.fact_order_independent [OF assms, where r = r and s = s]
    rs_free_time.fact_order_independent [OF assms, where r = r and s = s]
  show ?thesis
    using eqs by (intro map_option_eq_pair map_option_eq_of_bind [OF eqs(1)])
      (simp_all add: map_option_map_bind)
qed

theorem ruleset_facts_order_independent_witness:
  "set sample_run = set (rev sample_run @ sample_run) \<and>
   map_option (\<lambda>x. (rs_lifecycle x, rs_max_observed_version x, rs_final_version x,
       map_option timestamp_value (rs_free_timestamp x)))
     (ruleset (foldl apply_event state_new sample_run) (sample_id 9))
   = map_option (\<lambda>x. (rs_lifecycle x, rs_max_observed_version x, rs_final_version x,
       map_option timestamp_value (rs_free_timestamp x)))
     (ruleset (foldl apply_event state_new (rev sample_run @ sample_run)) (sample_id 9))"
  using ruleset_facts_order_independent [of sample_run "rev sample_run @ sample_run" state_new "sample_id 9"]
  by simp

text \<open>C7. The same for the monotone facts of a domain: presence, lifecycle, cumulative and final
  denial counts, free timestamp and whether any enforcement was process wide.\<close>

theorem domain_facts_order_independent:
  assumes "set es = set es'"
  shows "map_option (\<lambda>x. (dom_lifecycle x, dom_cumulative_denial_count x, dom_final_denial_count x,
             map_option timestamp_value (dom_free_timestamp x), dom_any_process_wide_enforcement x))
           (domain (foldl apply_event s es) d)
       = map_option (\<lambda>x. (dom_lifecycle x, dom_cumulative_denial_count x, dom_final_denial_count x,
             map_option timestamp_value (dom_free_timestamp x), dom_any_process_wide_enforcement x))
           (domain (foldl apply_event s es') d)"
proof -
  note eqs = dom_life.fact_order_independent [OF assms, where d = d and s = s]
    dom_denials.fact_order_independent [OF assms, where d = d and s = s]
    dom_final.fact_order_independent [OF assms, where d = d and s = s]
    dom_free_time.fact_order_independent [OF assms, where d = d and s = s]
    dom_process_wide.fact_order_independent [OF assms, where d = d and s = s]
  show ?thesis
    using eqs by (intro map_option_eq_pair map_option_eq_of_bind [OF eqs(1)])
      (simp_all add: map_option_map_bind)
qed

theorem domain_facts_order_independent_witness:
  "set sample_run = set (rev sample_run) \<and>
   map_option (\<lambda>x. (dom_lifecycle x, dom_cumulative_denial_count x, dom_final_denial_count x,
       map_option timestamp_value (dom_free_timestamp x), dom_any_process_wide_enforcement x))
     (domain (foldl apply_event state_new sample_run) (sample_id 2))
   = map_option (\<lambda>x. (dom_lifecycle x, dom_cumulative_denial_count x, dom_final_denial_count x,
       map_option timestamp_value (dom_free_timestamp x), dom_any_process_wide_enforcement x))
     (domain (foldl apply_event state_new (rev sample_run)) (sample_id 2))"
  using domain_facts_order_independent [of sample_run "rev sample_run" state_new "sample_id 2"]
  by simp

subsection \<open>Closed forms of a run\<close>

lemma these_map: "Option.these (set (map f es)) = {v. \<exists>e\<in>set es. f e = Some v}"
  by (auto simp: Option.these_def image_iff) (metis option.sel)+

lemma finite_contributions [simp]: "finite {v. \<exists>e\<in>set es. f e = Some v}"
  using finite_these_set [of "map f es"] by (simp only: these_map)

text \<open>The lifecycle of a domain after a run: deallocated if and only if an event freed it
  (also when other events about the domain are delivered later), allocated if it was only
  mentioned, and unknown otherwise.\<close>

theorem domain_lifecycle_run:
  "map_option dom_lifecycle (domain (foldl apply_event state_new es) d) =
     (if \<exists>e\<in>set es. freed_domain d e \<noteq> None then Some Deallocated
      else if \<exists>e\<in>set es. mentions_domain d e then Some Allocated else None)"
proof (induction es rule: rev_induct)
  case (snoc e es)
  show ?case
    using snoc.IH dom_life.fact_step [where d = d and s = "foldl apply_event state_new es" and e = e]
    by (auto simp: domain_lifecycle_of_def simp del: map_option_eq_Some split: if_splits)
qed simp

text \<open>The cumulative denial count of a domain after a run is the greatest count any event
  reported for it (zero counts for a creation), and unknown when no event reported one.\<close>

theorem cumulative_denial_count_run:
  "Option.bind (domain (foldl apply_event state_new es) d) dom_cumulative_denial_count =
     (let counts = {v. \<exists>e\<in>set es. denial_count_of d e = Some v}
      in if counts = {} then None else Some (Max counts))"
  unfolding dom_denials.fact_run by (simp add: foldl_opt_join_max these_map Let_def del: set_map)

lemma bit_foldl_or:
  "foldl (opt_join (OR)) x ys = Some w \<Longrightarrow>
     bit w k \<longleftrightarrow> (\<exists>y \<in> insert x (set ys). \<exists>v. y = Some v \<and> bit v k)"
  for w :: "'a::len word"
proof (induction ys arbitrary: x)
  case (Cons y ys)
  then have "bit w k \<longleftrightarrow> (\<exists>z \<in> insert (opt_join (OR) x y) (set ys). \<exists>v. z = Some v \<and> bit v k)"
    by simp
  then show ?case
    by (cases x; cases y) (auto simp: bit_or_iff)
qed simp

text \<open>A network rule accumulates rights: after a run its access mask has a right exactly when
  some event added a rule of that ruleset and port with the right.\<close>

theorem network_rule_rights_run:
  assumes "ruleset (foldl apply_event state_new es) r = Some x" "network_rule x p = Some n"
  shows "bit (net_bits (nr_access_rights n)) k \<longleftrightarrow>
     (\<exists>e\<in>set es. \<exists>v. network_rights_of r p e = Some v \<and> bit v k)"
  using bit_foldl_or [of None "map (network_rights_of r p) es" "net_bits (nr_access_rights n)" k]
    rs_net.fact_run [where r = r and p = p and s = state_new and es = es] assms by auto

theorem network_rule_rights_run_witness:
  "\<exists>x n. ruleset (foldl apply_event state_new
       [AddRuleNetPort \<lparr>an_timestamp = KernelTimestamp 1, an_ruleset_id = sample_id 1,
          an_ruleset_version = 1, an_access_rights = NetworkAccess 1, an_port = 80\<rparr>,
        AddRuleNetPort \<lparr>an_timestamp = KernelTimestamp 2, an_ruleset_id = sample_id 1,
          an_ruleset_version = 2, an_access_rights = NetworkAccess 2, an_port = 80\<rparr>]) (sample_id 1) = Some x \<and>
     network_rule x 80 = Some n \<and> bit (net_bits (nr_access_rights n)) 0"
proof -
  let ?es = "[AddRuleNetPort \<lparr>an_timestamp = KernelTimestamp 1, an_ruleset_id = sample_id 1,
          an_ruleset_version = 1, an_access_rights = NetworkAccess 1, an_port = 80\<rparr>,
        AddRuleNetPort \<lparr>an_timestamp = KernelTimestamp 2, an_ruleset_id = sample_id 1,
          an_ruleset_version = 2, an_access_rights = NetworkAccess 2, an_port = 80\<rparr>]"
  have "Option.bind (ruleset (foldl apply_event state_new ?es) (sample_id 1)) (\<lambda>x. network_rule x 80)
      \<noteq> None"
    by code_simp
  then obtain x n where "ruleset (foldl apply_event state_new ?es) (sample_id 1) = Some x"
      "network_rule x 80 = Some n"
    by (auto simp: bind_eq_Some_conv)
  with network_rule_rights_run [OF this, of 0] show ?thesis
    by (auto simp: network_rights_of_def)
qed

subsection \<open>Facts that follow the kernel clock\<close>

lemma domain_creation_eq_Some:
  "domain_creation x = Some (t, p, i, c, rv) \<longleftrightarrow>
     dom_creation_timestamp x = Some t \<and> dom_parent x = Some p \<and> dom_creator_tgid x = Some i \<and>
     dom_creator_comm x = Some c \<and> dom_ruleset x = Some rv"
  by (simp add: domain_creation_def split: option.splits)

text \<open>C25. The latest creation of a domain wins: when one creation event carries a timestamp that no
  other creation of the domain exceeds and that those delivered after it do not reach, the state
  has that event's timestamp, parent, creator and ruleset version, whatever else is delivered and
  in whatever order.\<close>

theorem latest_domain_creation:
  assumes "list_all event_ok (es @ CreateDomain c # es')"
    and "\<forall>e\<in>set es. \<forall>y. domain_creation_of (cd_domain_id c) e = Some y \<longrightarrow>
           timestamp_value (fst y) \<le> timestamp_value (cd_timestamp c)"
    and "\<forall>e\<in>set es'. \<forall>y. domain_creation_of (cd_domain_id c) e = Some y \<longrightarrow>
           timestamp_value (fst y) < timestamp_value (cd_timestamp c)"
  shows "\<exists>x. domain (foldl apply_event state_new (es @ CreateDomain c # es')) (cd_domain_id c) = Some x \<and>
     dom_creation_timestamp x = Some (cd_timestamp c) \<and>
     dom_parent x = Some (parent_of_option (cd_parent_id c)) \<and>
     dom_creator_tgid x = Some (cd_creator_tgid c) \<and>
     dom_creator_comm x = Some (cd_creator_comm c) \<and>
     dom_ruleset x = Some \<lparr>rv_ruleset_id = cd_ruleset_id c, rv_ruleset_version = cd_ruleset_version c\<rparr>"
proof -
  have "Option.bind (domain (foldl apply_event state_new (es @ CreateDomain c # es')) (cd_domain_id c))
      domain_creation = domain_creation_of (cd_domain_id c) (CreateDomain c)"
    using dom_created.slot_run_last [OF state_inv_new assms(1), where d = "cd_domain_id c"] assms(2,3)
    by (simp add: domain_creation_of_def)
  then show ?thesis
    by (auto simp: domain_creation_of_def domain_creation_eq_Some bind_eq_Some_conv)
qed

theorem latest_domain_creation_witness:
  "\<exists>x. domain (foldl apply_event state_new [sample_creation 5 1 None, sample_creation 7 1 None,
       sample_creation 6 1 None]) (sample_id 1) = Some x \<and>
     dom_creation_timestamp x = Some (KernelTimestamp 7)"
  using latest_domain_creation [of "[sample_creation 5 1 None]"
      "\<lparr>cd_timestamp = KernelTimestamp 7, cd_ruleset_id = sample_id 9,
         cd_ruleset_version = 7, cd_domain_id = sample_id 1, cd_parent_id = None,
         cd_creator_tgid = ProcessId 7, cd_creator_comm = CapturedBytes [98, 97] False\<rparr>"
      "[sample_creation 6 1 None]"]
  by (auto simp: sample_defs domain_creation_of_def timestamp_value_def id_ok_def pid_ok_def
      captured_ok_def command_consts_def)

text \<open>
  The latest enforcement of a domain by a thread, on the events themselves: the one of greatest kernel
  timestamp, and of those the one delivered last.
\<close>

abbreviation enforced_at :: "enforce_domain_event \<Rightarrow> u64" where
  "enforced_at f \<equiv> timestamp_value (ed_timestamp f)"

definition latest_enforcement ::
  "domain_id \<Rightarrow> thread_id \<Rightarrow> event list \<Rightarrow> enforce_domain_event \<Rightarrow> bool" where
  "latest_enforcement d t es f \<longleftrightarrow>
     (\<exists>xs e ys. es = xs @ e # ys \<and> enforcement_of d t e = Some f \<and>
        (\<forall>e'\<in>set xs. \<forall>g. enforcement_of d t e' = Some g \<longrightarrow> enforced_at g \<le> enforced_at f) \<and>
        (\<forall>e'\<in>set ys. \<forall>g. enforcement_of d t e' = Some g \<longrightarrow> enforced_at g < enforced_at f))"

lemma latest_enforcement_greatest:
  assumes "latest_enforcement d t es f"
  shows "\<exists>e\<in>set es. enforcement_of d t e = Some f"
    "e \<in> set es \<Longrightarrow> enforcement_of d t e = Some g \<Longrightarrow> enforced_at g \<le> enforced_at f"
  using assms unfolding latest_enforcement_def by (auto, blast intro: less_imp_le)

lemma latest_enforcement_Cons:
  assumes "latest_enforcement d t es f"
  shows "\<exists>h. latest_enforcement d t (e # es) h"
proof (cases "\<exists>h. enforcement_of d t e = Some h \<and> enforced_at f < enforced_at h")
  case True
  then obtain h where h: "enforcement_of d t e = Some h" "enforced_at f < enforced_at h"
    by blast
  have "\<forall>e'\<in>set es. \<forall>g. enforcement_of d t e' = Some g \<longrightarrow> enforced_at g < enforced_at h"
    using latest_enforcement_greatest(2) [OF assms] h(2) by (blast intro: le_less_trans)
  with h(1) have "latest_enforcement d t (e # es) h"
    unfolding latest_enforcement_def by (intro exI [of _ "[]"] exI [of _ e] exI [of _ es]) simp
  then show ?thesis ..
next
  case False
  obtain xs e0 ys where "es = xs @ e0 # ys" "enforcement_of d t e0 = Some f"
    "\<forall>e'\<in>set xs. \<forall>g. enforcement_of d t e' = Some g \<longrightarrow> enforced_at g \<le> enforced_at f"
    "\<forall>e'\<in>set ys. \<forall>g. enforcement_of d t e' = Some g \<longrightarrow> enforced_at g < enforced_at f"
    using assms unfolding latest_enforcement_def by blast
  with False have "latest_enforcement d t (e # es) f"
    unfolding latest_enforcement_def
    by (intro exI [of _ "e # xs"] exI [of _ e0] exI [of _ ys]) (auto simp: not_less)
  then show ?thesis ..
qed

lemma latest_enforcement_exists:
  "\<exists>e\<in>set es. enforcement_of d t e \<noteq> None \<Longrightarrow> \<exists>f. latest_enforcement d t es f"
proof (induction es)
  case (Cons e es)
  show ?case
  proof (cases "\<exists>e\<in>set es. enforcement_of d t e \<noteq> None")
    case True
    from Cons.IH [OF this] show ?thesis
      using latest_enforcement_Cons by blast
  next
    case False
    with Cons.prems obtain g where "enforcement_of d t e = Some g"
      by auto
    with False have "latest_enforcement d t (e # es) g"
      unfolding latest_enforcement_def by (intro exI [of _ "[]"] exI [of _ e] exI [of _ es]) auto
    then show ?thesis ..
  qed
qed simp

text \<open>It is the enforcement the state keeps for the thread.\<close>

lemma latest_enforcement_kept:
  assumes "list_all event_ok es" "domain (foldl apply_event state_new es) d = Some x"
    "latest_enforcement d t es f"
  shows "enforcement_event x t = Some f"
proof -
  obtain xs e ys where es: "es = xs @ e # ys" "enforcement_of d t e = Some f"
    "\<forall>e'\<in>set xs. \<forall>g. enforcement_of d t e' = Some g \<longrightarrow> enforced_at g \<le> enforced_at f"
    "\<forall>e'\<in>set ys. \<forall>g. enforcement_of d t e' = Some g \<longrightarrow> enforced_at g < enforced_at f"
    using assms(3) unfolding latest_enforcement_def by blast
  have "Option.bind (domain (foldl apply_event state_new (xs @ e # ys)) d) (\<lambda>x. enforcement_event x t) = Some f"
    by (rule dom_enforced.slot_run_last [OF state_inv_new _ es(2) _ es(3,4)])
      (use assms(1) in \<open>simp_all add: es(1)\<close>)
  then show ?thesis
    using assms(2) by (simp add: es(1))
qed

lemma enforcement_event_latest:
  assumes "list_all event_ok es" "domain (foldl apply_event state_new es) d = Some x"
  shows "enforcement_event x t = Some f \<longleftrightarrow> latest_enforcement d t es f"
proof
  assume f: "enforcement_event x t = Some f"
  then have "\<exists>e\<in>set es. enforcement_of d t e \<noteq> None"
    using dom_enforced.slot_run_None [OF state_inv_new assms(1), of d t] assms(2) by auto
  then obtain h where "latest_enforcement d t es h"
    using latest_enforcement_exists by blast
  with latest_enforcement_kept [OF assms this] f show "latest_enforcement d t es f"
    by simp
qed (rule latest_enforcement_kept [OF assms])

text \<open>C26. \<open>no_new_privs\<close> reports the weakest thread: it is unknown exactly when no enforcement of the domain
  was delivered, and otherwise true exactly when the latest enforcement event of every enforcing thread
  had the flag. The latest is the one of greatest kernel timestamp among the delivered events, of those
  the last delivered, and it is the event the state reports for that thread.\<close>

theorem no_new_privs_weakest:
  assumes "list_all event_ok es" "domain (foldl apply_event state_new es) d = Some x"
  shows "no_new_privs x =
     (if \<exists>e\<in>set es. enforced_domain d e \<noteq> None
      then Some (\<forall>t f. latest_enforcement d t es f \<longrightarrow> ed_no_new_privs f) else None) \<and>
   (\<forall>t f. enforcement_event x t = Some f \<longleftrightarrow> latest_enforcement d t es f)"
proof -
  note latest = enforcement_event_latest [OF assms]
  have wf: "hm_wf (dom_enforcement_events x)"
    using recon.inv_run [OF state_inv_new assms(1)] assms(2)
    by (auto simp: state_inv_def domain_inv_def enforcement_inv_def)
  have "enforced_domain d e \<noteq> None \<longleftrightarrow> (\<exists>t. enforcement_of d t e \<noteq> None)" for e
    by (cases "enforced_domain d e") (auto simp: enforcement_of_def)
  then have "(\<exists>e\<in>set es. enforced_domain d e \<noteq> None) \<longleftrightarrow> (\<exists>e\<in>set es. \<exists>t. enforcement_of d t e \<noteq> None)"
    by blast
  also have "\<dots> \<longleftrightarrow> (\<exists>t. enforcement_event x t \<noteq> None)"
    using dom_enforced.slot_run_None [OF state_inv_new assms(1), where d = d] assms(2) by simp blast
  also have "\<dots> \<longleftrightarrow> dom_enforcement_events x \<noteq> []"
    by (cases "dom_enforcement_events x") (auto simp: enforcement_event_def hm_get_def)
  finally have known: "(\<exists>e\<in>set es. enforced_domain d e \<noteq> None) \<longleftrightarrow> dom_enforcement_events x \<noteq> []" .
  have "list_all ed_no_new_privs (hm_values (dom_enforcement_events x)) \<longleftrightarrow>
      (\<forall>t f. enforcement_event x t = Some f \<longrightarrow> ed_no_new_privs f)"
    using hm.set_vals [OF wf] by (auto simp: list_all_iff enforcement_event_def ran_def)
  with known latest show ?thesis
    by (simp add: no_new_privs_def)
qed

text \<open>One thread enforces a domain again with the flag; an older event without it is delivered last.\<close>

definition reenforced_run :: "event list" where
  "reenforced_run = [sample_enforcement 7 2 40 False, sample_enforcement 8 2 40 True, sample_enforcement 6 2 40 False]"

lemma reenforced_latest:
  assumes "latest_enforcement (sample_id 2) t reenforced_run f"
  shows "ed_no_new_privs f"
proof -
  obtain e where e: "e \<in> set reenforced_run" "enforcement_of (sample_id 2) t e = Some f"
    using latest_enforcement_greatest(1) [OF assms] by blast
  obtain g where g: "enforcement_of (sample_id 2) t (sample_enforcement 8 2 40 True) = Some g"
    "enforced_at g = 8"
    using e by (auto simp: reenforced_run_def sample_defs enforcement_of_def enforced_domain_def
        timestamp_value_def split: if_splits)
  have "(8::u64) \<le> enforced_at f"
    using latest_enforcement_greatest(2) [OF assms _ g(1)] g(2) by (simp add: reenforced_run_def)
  with e show ?thesis
    by (auto simp: reenforced_run_def sample_defs enforcement_of_def enforced_domain_def timestamp_value_def
        split: if_splits)
qed

theorem no_new_privs_weakest_witness:
  "\<exists>x. domain (foldl apply_event state_new reenforced_run) (sample_id 2) = Some x \<and> no_new_privs x = Some True"
proof -
  have "domain (foldl apply_event state_new reenforced_run) (sample_id 2) \<noteq> None"
    by code_simp
  then obtain x where x: "domain (foldl apply_event state_new reenforced_run) (sample_id 2) = Some x"
    by blast
  have "\<exists>e\<in>set reenforced_run. enforced_domain (sample_id 2) e \<noteq> None"
    by (simp add: reenforced_run_def sample_defs enforced_domain_def)
  moreover have "list_all event_ok reenforced_run"
    by (simp add: reenforced_run_def sample_defs id_ok_def tid_ok_def)
  ultimately show ?thesis
    using no_new_privs_weakest [OF _ x] x reenforced_latest by auto
qed

text \<open>The number of reconstructed domains is the number of distinct domains the events mention:
  nothing is invented, merged or dropped.\<close>

theorem domain_count_run:
  assumes "list_all event_ok es"
  shows "domain_count (foldl apply_event state_new es) =
     card {d. \<exists>e\<in>set es. mentions_domain d e}"
proof -
  let ?s = "foldl apply_event state_new es"
  have "hm_wf (st_domains ?s)"
    using recon.inv_run [OF state_inv_new assms] by (simp add: state_inv_def)
  then have "domain_count ?s = card (dom (domain ?s))"
    by (simp add: domain_count_def hm.len_card domain_def [abs_def])
  moreover have "domain ?s d \<noteq> None \<longleftrightarrow> (\<exists>e\<in>set es. mentions_domain d e)" for d
  proof -
    have "domain ?s d \<noteq> None \<longleftrightarrow> (\<exists>e\<in>set es. domain_lifecycle_of d e \<noteq> None)"
      using dom_life.fact_run [where d = d and s = state_new and es = es]
        foldl_opt_join_None [of max None "map (domain_lifecycle_of d) es"] by force
    moreover have "domain_lifecycle_of d e \<noteq> None \<longleftrightarrow> mentions_domain d e" for e
      by (cases e) (simp_all add: domain_lifecycle_of_def freed_domain_def mentions_domain_def)
    ultimately show ?thesis
      by blast
  qed
  then have "dom (domain ?s) = {d. \<exists>e\<in>set es. mentions_domain d e}"
    by blast
  ultimately show ?thesis
    by simp
qed

theorem domain_count_run_witness:
  "domain_count (foldl apply_event state_new sample_run) =
     card {d. \<exists>e\<in>set sample_run. mentions_domain d e}"
  using domain_count_run [OF sample_run_ok] .

end
