(* ===== verification/Wire.thy ===== *)
theory Wire
  imports Events
begin

text \<open>
  \<open>src/wire.rs\<close>: the decoder of the private 352-byte producer record, and the record itself as the
  C structure \<open>landlock_observability_event\<close> of \<open>src/bpf/event.h\<close> lays it out. The byte order is
  that of the target, so it is an argument. \<open>encode\<close> writes an event into the structure; the
  padding bytes, the bytes behind a terminator and the structure fields the decoder never reads
  come from an arbitrary \<open>pad\<close>, so that statements about \<open>encode\<close> show they cannot matter.
\<close>

datatype endian = LittleEndian | BigEndian

definition RECORD_SIZE :: nat where "RECORD_SIZE = 352"
definition TIMESTAMP_OFFSET :: nat where "TIMESTAMP_OFFSET = 0"
definition TYPE_OFFSET :: nat where "TYPE_OFFSET = 8"
definition UNION_OFFSET :: nat where "UNION_OFFSET = 16"
definition COMM_SIZE :: nat where "COMM_SIZE = 16"
definition PATH_SIZE :: nat where "PATH_SIZE = 256"
definition ABSTRACT_UNIX_SOCKET_NAME_MAX_LEN :: nat where
  "ABSTRACT_UNIX_SOCKET_NAME_MAX_LEN = 107"

lemmas wire_consts = RECORD_SIZE_def TIMESTAMP_OFFSET_def TYPE_OFFSET_def UNION_OFFSET_def
  COMM_SIZE_def PATH_SIZE_def ABSTRACT_UNIX_SOCKET_NAME_MAX_LEN_def

datatype decode_error =
    LengthError nat nat
  | BooleanError string u8
  | CapturedBytesError string captured_bytes_error
  | AbstractUnixSocketNameLengthError u32 nat
  | IdError string u64
  | TaskIdError string
  | EventKindError u8
  | FieldError string

subsection \<open>Machine words in memory\<close>

fun le_value :: "u8 list \<Rightarrow> nat" where
  "le_value [] = 0"
| "le_value (b # bs) = unat b + 256 * le_value bs"

fun le_bytes :: "nat \<Rightarrow> nat \<Rightarrow> u8 list" where
  "le_bytes 0 v = []"
| "le_bytes (Suc n) v = of_nat (v mod 256) # le_bytes n (v div 256)"

definition ne_order :: "endian \<Rightarrow> u8 list \<Rightarrow> u8 list" where
  "ne_order en bs = (case en of LittleEndian \<Rightarrow> bs | BigEndian \<Rightarrow> rev bs)"

definition from_ne_bytes :: "endian \<Rightarrow> u8 list \<Rightarrow> 'a::len word" where
  "from_ne_bytes en bs = of_nat (le_value (ne_order en bs))"

definition to_ne_bytes :: "endian \<Rightarrow> nat \<Rightarrow> 'a::len word \<Rightarrow> u8 list" where
  "to_ne_bytes en n v = ne_order en (le_bytes n (unat v))"

subsection \<open>Field readers\<close>

definition slice_at :: "u8 list \<Rightarrow> nat \<Rightarrow> nat \<Rightarrow> string \<Rightarrow> decode_error + u8 list" where
  "slice_at data offset sz field =
     and_then (if offset + sz \<le> usize_max then Inr (offset + sz) else Inl (FieldError field))
       (\<lambda>end. ok_or (FieldError field) (slice_range data offset end))"

definition bytes_at :: "nat \<Rightarrow> u8 list \<Rightarrow> nat \<Rightarrow> string \<Rightarrow> decode_error + u8 list" where
  "bytes_at N data offset field =
     and_then (slice_at data offset N field)
       (\<lambda>s. if length s = N then Inr s else Inl (FieldError field))"

definition u32_at :: "endian \<Rightarrow> u8 list \<Rightarrow> nat \<Rightarrow> string \<Rightarrow> decode_error + u32" where
  "u32_at en data offset field = map_ok (from_ne_bytes en) (bytes_at 4 data offset field)"

definition u64_at :: "endian \<Rightarrow> u8 list \<Rightarrow> nat \<Rightarrow> string \<Rightarrow> decode_error + u64" where
  "u64_at en data offset field = map_ok (from_ne_bytes en) (bytes_at 8 data offset field)"

definition boolean_at :: "u8 list \<Rightarrow> nat \<Rightarrow> string \<Rightarrow> decode_error + bool" where
  "boolean_at data offset field =
     and_then (ok_or (FieldError field) (slice_get data offset))
       (\<lambda>v. if v = 0 then Inr False else if v = 1 then Inr True else Inl (BooleanError field v))"

definition captured_c_string ::
  "captured_bytes_origin \<Rightarrow> u8 list \<Rightarrow> bool \<Rightarrow> string \<Rightarrow> decode_error + 'k captured_bytes" where
  "captured_c_string K value omitted field =
     (let end = (case position (\<lambda>byte. byte = 0) value of Some p \<Rightarrow> p | None \<Rightarrow> length value)
      in and_then (ok_or (FieldError field) (slice_range value 0 end))
           (\<lambda>v. map_err (CapturedBytesError field) (captured_new K v omitted)))"

definition captured_at ::
  "captured_bytes_origin \<Rightarrow> u8 list \<Rightarrow> nat \<Rightarrow> nat \<Rightarrow> nat \<Rightarrow> string \<Rightarrow> string \<Rightarrow>
     decode_error + 'k captured_bytes" where
  "captured_at K data offset sz omitted_offset field omitted_field =
     and_then (slice_at data offset sz field)
       (\<lambda>value. and_then (boolean_at data omitted_offset omitted_field)
         (\<lambda>omitted. captured_c_string K value omitted field))"

definition abstract_unix_socket_name_at ::
  "endian \<Rightarrow> u8 list \<Rightarrow> nat \<Rightarrow> nat \<Rightarrow> decode_error + captured_abstract_name" where
  "abstract_unix_socket_name_at en data length_offset name_offset =
     and_then (u32_at en data length_offset ''abstract_unix_socket_name_length'')
       (\<lambda>len. if len > of_nat ABSTRACT_UNIX_SOCKET_NAME_MAX_LEN
         then Inl (AbstractUnixSocketNameLengthError len ABSTRACT_UNIX_SOCKET_NAME_MAX_LEN)
         else and_then (slice_at data name_offset (unat len) ''abstract_unix_socket_name'')
           (\<lambda>value. map_err (CapturedBytesError ''abstract_unix_socket_name'')
             (captured_new abstract_name_consts value False)))"

definition command_at :: "u8 list \<Rightarrow> nat \<Rightarrow> string \<Rightarrow> decode_error + captured_command" where
  "command_at data offset field =
     and_then (slice_at data offset COMM_SIZE field)
       (\<lambda>value. captured_c_string command_consts value False field)"

definition wire_id :: "u64 \<Rightarrow> string \<Rightarrow> decode_error + 'k landlock_id" where
  "wire_id v field = map_err (\<lambda>_. IdError field v) (landlock_id_new v)"

definition wire_process_id :: "u32 \<Rightarrow> string \<Rightarrow> decode_error + process_id" where
  "wire_process_id v field = map_err (\<lambda>_. TaskIdError field) (process_id_new v)"

definition wire_thread_id :: "u32 \<Rightarrow> string \<Rightarrow> decode_error + thread_id" where
  "wire_thread_id v field = map_err (\<lambda>_. TaskIdError field) (thread_id_new v)"

definition optional_process_id :: "u32 \<Rightarrow> process_id option" where
  "optional_process_id v = result_ok (process_id_new v)"

definition wire_parent :: "u64 \<Rightarrow> string \<Rightarrow> decode_error + domain_id option" where
  "wire_parent v field = (if v = 0 then Inr None else map_ok Some (wire_id v field))"

definition wire_domain_membership :: "u64 \<Rightarrow> string \<Rightarrow> decode_error + domain_membership" where
  "wire_domain_membership v field =
     (if v = 0 then Inr Unsandboxed else map_ok Sandboxed (wire_id v field))"

text \<open>\<open>id(u64_at(data, offset, field)?, field)\<close> and its kin.\<close>

definition id_at :: "endian \<Rightarrow> u8 list \<Rightarrow> nat \<Rightarrow> string \<Rightarrow> decode_error + 'k landlock_id" where
  "id_at en data offset field = and_then (u64_at en data offset field) (\<lambda>v. wire_id v field)"

definition parent_at :: "endian \<Rightarrow> u8 list \<Rightarrow> nat \<Rightarrow> string \<Rightarrow> decode_error + domain_id option" where
  "parent_at en data offset field = and_then (u64_at en data offset field) (\<lambda>v. wire_parent v field)"

definition membership_at ::
  "endian \<Rightarrow> u8 list \<Rightarrow> nat \<Rightarrow> string \<Rightarrow> decode_error + domain_membership" where
  "membership_at en data offset field =
     and_then (u64_at en data offset field) (\<lambda>v. wire_domain_membership v field)"

definition process_id_at :: "endian \<Rightarrow> u8 list \<Rightarrow> nat \<Rightarrow> string \<Rightarrow> decode_error + process_id" where
  "process_id_at en data offset field =
     and_then (u32_at en data offset field) (\<lambda>v. wire_process_id v field)"

definition thread_id_at :: "endian \<Rightarrow> u8 list \<Rightarrow> nat \<Rightarrow> string \<Rightarrow> decode_error + thread_id" where
  "thread_id_at en data offset field =
     and_then (u32_at en data offset field) (\<lambda>v. wire_thread_id v field)"

subsection \<open>Decoding\<close>

definition wire_denial_context :: "endian \<Rightarrow> u8 list \<Rightarrow> decode_error + denial_context" where
  "wire_denial_context en data =
     and_then (id_at en data UNION_OFFSET ''domain_id'') (\<lambda>domain.
     and_then (parent_at en data 24 ''parent_id'') (\<lambda>par.
     and_then (process_id_at en data 32 ''creator_tgid'') (\<lambda>tgid.
     and_then (command_at data 36 ''creator_comm'') (\<lambda>comm.
     and_then (u64_at en data 56 ''cumulative_denial_count'') (\<lambda>count.
     and_then (boolean_at data 72 ''same_exec'') (\<lambda>same.
     and_then (boolean_at data 73 ''logged'') (\<lambda>lg.
       Inr \<lparr>hierarchy = \<lparr>h_domain_id = domain, h_parent_id = par, h_creator_tgid = tgid,
              h_creator_comm = comm\<rparr>,
            cumulative_denial_count = count, same_exec = same, logged = lg\<rparr>)))))))"

definition decode_create_ruleset ::
  "endian \<Rightarrow> u8 list \<Rightarrow> kernel_timestamp \<Rightarrow> decode_error + create_ruleset_event" where
  "decode_create_ruleset en data ts =
     and_then (id_at en data 16 ''ruleset_id'') (\<lambda>rid.
     and_then (u64_at en data 24 ''ruleset_version'') (\<lambda>version.
     and_then (u64_at en data 32 ''handled_fs'') (\<lambda>fs.
     and_then (u64_at en data 40 ''handled_net'') (\<lambda>net.
     and_then (u64_at en data 48 ''scoped'') (\<lambda>scope.
       Inr \<lparr>cr_timestamp = ts, cr_ruleset_id = rid, cr_ruleset_version = version,
            cr_handled_fs = FilesystemAccess fs, cr_handled_net = NetworkAccess net,
            cr_scoped = ScopeAccess scope\<rparr>)))))"

definition decode_add_rule_path_beneath ::
  "endian \<Rightarrow> u8 list \<Rightarrow> kernel_timestamp \<Rightarrow> decode_error + add_rule_path_beneath_event" where
  "decode_add_rule_path_beneath en data ts =
     and_then (id_at en data 16 ''ruleset_id'') (\<lambda>rid.
     and_then (u64_at en data 24 ''ruleset_version'') (\<lambda>version.
     and_then (u64_at en data 32 ''access_rights'') (\<lambda>rights.
     and_then (u32_at en data 40 ''device'') (\<lambda>dev.
     and_then (u64_at en data 48 ''inode'') (\<lambda>ino.
     and_then (captured_at pathname_consts data 56 PATH_SIZE 44 ''pathname''
                 ''pathname_bytes_omitted'') (\<lambda>path.
       Inr \<lparr>ap_timestamp = ts, ap_ruleset_id = rid, ap_ruleset_version = version,
            ap_access_rights = FilesystemAccess rights, ap_device = dev, ap_inode = ino,
            ap_pathname = path\<rparr>))))))"

definition decode_add_rule_net_port ::
  "endian \<Rightarrow> u8 list \<Rightarrow> kernel_timestamp \<Rightarrow> decode_error + add_rule_net_port_event" where
  "decode_add_rule_net_port en data ts =
     and_then (id_at en data 16 ''ruleset_id'') (\<lambda>rid.
     and_then (u64_at en data 24 ''ruleset_version'') (\<lambda>version.
     and_then (u64_at en data 32 ''access_rights'') (\<lambda>rights.
     and_then (u64_at en data 40 ''port'') (\<lambda>port.
       Inr \<lparr>an_timestamp = ts, an_ruleset_id = rid, an_ruleset_version = version,
            an_access_rights = NetworkAccess rights, an_port = port\<rparr>))))"

definition decode_create_domain ::
  "endian \<Rightarrow> u8 list \<Rightarrow> kernel_timestamp \<Rightarrow> decode_error + create_domain_event" where
  "decode_create_domain en data ts =
     and_then (id_at en data 16 ''ruleset_id'') (\<lambda>rid.
     and_then (u64_at en data 24 ''ruleset_version'') (\<lambda>version.
     and_then (id_at en data 32 ''domain_id'') (\<lambda>did.
     and_then (parent_at en data 40 ''parent_id'') (\<lambda>par.
     and_then (process_id_at en data 48 ''creator_tgid'') (\<lambda>tgid.
     and_then (command_at data 52 ''creator_comm'') (\<lambda>comm.
       Inr \<lparr>cd_timestamp = ts, cd_ruleset_id = rid, cd_ruleset_version = version,
            cd_domain_id = did, cd_parent_id = par, cd_creator_tgid = tgid,
            cd_creator_comm = comm\<rparr>))))))"

definition decode_deny_access_fs ::
  "endian \<Rightarrow> u8 list \<Rightarrow> kernel_timestamp \<Rightarrow> decode_error + deny_access_fs_event" where
  "decode_deny_access_fs en data ts =
     and_then (wire_denial_context en data) (\<lambda>ctx.
     and_then (u32_at en data 52 ''blockers_type'') (\<lambda>bt.
     and_then (u64_at en data 64 ''blockers_access'') (\<lambda>ba.
     and_then (u32_at en data 80 ''device'') (\<lambda>dev.
     and_then (u64_at en data 88 ''inode'') (\<lambda>ino.
     and_then (captured_at pathname_consts data 96 PATH_SIZE 84 ''pathname''
                 ''pathname_bytes_omitted'') (\<lambda>path.
       Inr \<lparr>df_timestamp = ts, df_context = ctx, df_blockers_type = BlockerType bt,
            df_blockers_access = FilesystemAccess ba, df_device = dev, df_inode = ino,
            df_pathname = path\<rparr>))))))"

definition decode_deny_access_net ::
  "endian \<Rightarrow> u8 list \<Rightarrow> kernel_timestamp \<Rightarrow> decode_error + deny_access_net_event" where
  "decode_deny_access_net en data ts =
     and_then (wire_denial_context en data) (\<lambda>ctx.
     and_then (u32_at en data 52 ''blockers_type'') (\<lambda>bt.
     and_then (u64_at en data 64 ''blockers_access'') (\<lambda>ba.
     and_then (u64_at en data 80 ''source_port'') (\<lambda>sport.
     and_then (u64_at en data 88 ''destination_port'') (\<lambda>dport.
       Inr \<lparr>dn_timestamp = ts, dn_context = ctx, dn_blockers_type = BlockerType bt,
            dn_blockers_access = NetworkAccess ba, dn_source_port = sport,
            dn_destination_port = dport\<rparr>)))))"

definition decode_deny_ptrace ::
  "endian \<Rightarrow> u8 list \<Rightarrow> kernel_timestamp \<Rightarrow> decode_error + deny_ptrace_event" where
  "decode_deny_ptrace en data ts =
     and_then (wire_denial_context en data) (\<lambda>ctx.
     and_then (membership_at en data 80 ''tracee_domain'') (\<lambda>dom.
     and_then (process_id_at en data 88 ''tracee_pid'') (\<lambda>pid.
     and_then (command_at data 92 ''tracee_comm'') (\<lambda>comm.
       Inr \<lparr>dp_timestamp = ts, dp_context = ctx, dp_tracee_domain = dom, dp_tracee_pid = pid,
            dp_tracee_comm = comm\<rparr>))))"

definition decode_deny_scope_signal ::
  "endian \<Rightarrow> u8 list \<Rightarrow> kernel_timestamp \<Rightarrow> decode_error + deny_scope_signal_event" where
  "decode_deny_scope_signal en data ts =
     and_then (wire_denial_context en data) (\<lambda>ctx.
     and_then (membership_at en data 80 ''target_domain'') (\<lambda>dom.
     and_then (process_id_at en data 88 ''target_pid'') (\<lambda>pid.
     and_then (command_at data 92 ''target_comm'') (\<lambda>comm.
       Inr \<lparr>ds_timestamp = ts, ds_context = ctx, ds_target_domain = dom, ds_target_pid = pid,
            ds_target_comm = comm\<rparr>))))"

definition decode_deny_scope_abstract_unix_socket ::
  "endian \<Rightarrow> u8 list \<Rightarrow> kernel_timestamp \<Rightarrow> decode_error + deny_scope_abstract_unix_socket_event" where
  "decode_deny_scope_abstract_unix_socket en data ts =
     and_then (wire_denial_context en data) (\<lambda>ctx.
     and_then (membership_at en data 80 ''peer_domain'') (\<lambda>dom.
     and_then (u32_at en data 88 ''peer_pid'') (\<lambda>pid.
     and_then (abstract_unix_socket_name_at en data 92 96) (\<lambda>name.
       Inr \<lparr>du_timestamp = ts, du_context = ctx, du_peer_domain = dom,
            du_peer_pid = optional_process_id pid, du_abstract_name = name\<rparr>))))"

definition decode_free_domain ::
  "endian \<Rightarrow> u8 list \<Rightarrow> kernel_timestamp \<Rightarrow> decode_error + free_domain_event" where
  "decode_free_domain en data ts =
     and_then (id_at en data 16 ''domain_id'') (\<lambda>did.
     and_then (u64_at en data 24 ''denial_count'') (\<lambda>count.
       Inr \<lparr>fd_timestamp = ts, fd_domain_id = did, fd_denial_count = count\<rparr>))"

definition decode_free_ruleset ::
  "endian \<Rightarrow> u8 list \<Rightarrow> kernel_timestamp \<Rightarrow> decode_error + free_ruleset_event" where
  "decode_free_ruleset en data ts =
     and_then (id_at en data 16 ''ruleset_id'') (\<lambda>rid.
     and_then (u64_at en data 24 ''ruleset_version'') (\<lambda>version.
       Inr \<lparr>fr_timestamp = ts, fr_ruleset_id = rid, fr_ruleset_version = version\<rparr>))"

definition decode_enforce_domain ::
  "endian \<Rightarrow> u8 list \<Rightarrow> kernel_timestamp \<Rightarrow> decode_error + enforce_domain_event" where
  "decode_enforce_domain en data ts =
     and_then (id_at en data 16 ''domain_id'') (\<lambda>did.
     and_then (thread_id_at en data 24 ''enforcing_tid'') (\<lambda>tid.
     and_then (boolean_at data 28 ''complete'') (\<lambda>complete.
     and_then (boolean_at data 29 ''process_wide'') (\<lambda>pw.
     and_then (boolean_at data 30 ''no_new_privs'') (\<lambda>nnp.
       Inr \<lparr>ed_timestamp = ts, ed_domain_id = did, ed_enforcing_tid = tid, ed_complete = complete,
            ed_process_wide = pw, ed_no_new_privs = nnp\<rparr>)))))"

definition decode_body :: "endian \<Rightarrow> u8 list \<Rightarrow> u8 \<Rightarrow> kernel_timestamp \<Rightarrow> decode_error + event" where
  "decode_body en data event_type ts =
     (if event_type = 1 then map_ok CreateRuleset (decode_create_ruleset en data ts)
      else if event_type = 2 then map_ok AddRulePathBeneath (decode_add_rule_path_beneath en data ts)
      else if event_type = 3 then map_ok AddRuleNetPort (decode_add_rule_net_port en data ts)
      else if event_type = 4 then map_ok CreateDomain (decode_create_domain en data ts)
      else if event_type = 5 then map_ok DenyAccessFs (decode_deny_access_fs en data ts)
      else if event_type = 6 then map_ok DenyAccessNet (decode_deny_access_net en data ts)
      else if event_type = 7 then map_ok DenyPtrace (decode_deny_ptrace en data ts)
      else if event_type = 8 then map_ok DenyScopeSignal (decode_deny_scope_signal en data ts)
      else if event_type = 9 then
        map_ok DenyScopeAbstractUnixSocket (decode_deny_scope_abstract_unix_socket en data ts)
      else if event_type = 10 then map_ok FreeDomain (decode_free_domain en data ts)
      else if event_type = 11 then map_ok FreeRuleset (decode_free_ruleset en data ts)
      else if event_type = 12 then map_ok EnforceDomain (decode_enforce_domain en data ts)
      else Inl (EventKindError event_type))"

definition decode :: "endian \<Rightarrow> u8 list \<Rightarrow> decode_error + event" where
  "decode en data =
     (if length data \<noteq> RECORD_SIZE then Inl (LengthError RECORD_SIZE (length data))
      else and_then (ok_or (FieldError ''event_type'') (slice_get data TYPE_OFFSET)) (\<lambda>event_type.
        and_then (u64_at en data TIMESTAMP_OFFSET ''timestamp'') (\<lambda>ts.
          decode_body en data event_type (KernelTimestamp ts))))"

end
