(* ===== verification/Wire_Layout.thy ===== *)
theory Wire_Layout
  imports Wire
begin

text \<open>
  The producer's side of the wire format: \<open>struct landlock_observability_event\<close> of
  \<open>src/bpf/event.h\<close> as bytes, and the correctness of \<open>decode\<close> against it. The decoder returns
  every event the structure can hold (round trip) and only values that satisfy the invariants of
  the event types (well-formedness), whatever bytes it is given.
\<close>

subsection \<open>The C structure\<close>

definition pad_bytes :: "(nat \<Rightarrow> u8) \<Rightarrow> nat \<Rightarrow> nat \<Rightarrow> u8 list" where
  "pad_bytes pad offset n = map pad [offset..<offset + n]"

definition c_u8 :: "u8 \<Rightarrow> u8 list" where
  "c_u8 v = [v]"

definition c_bool :: "bool \<Rightarrow> u8 list" where
  "c_bool b = c_u8 (if b then 1 else 0)"

definition c_u32 :: "endian \<Rightarrow> u32 \<Rightarrow> u8 list" where
  "c_u32 en v = to_ne_bytes en 4 v"

definition c_u64 :: "endian \<Rightarrow> u64 \<Rightarrow> u8 list" where
  "c_u64 en v = to_ne_bytes en 8 v"

text \<open>A \<open>char[n]\<close> field holding a string, with its terminator when there is room for one.\<close>

definition c_chars :: "(nat \<Rightarrow> u8) \<Rightarrow> nat \<Rightarrow> nat \<Rightarrow> 'k captured_bytes \<Rightarrow> u8 list" where
  "c_chars pad offset n s = take n (as_bytes s @ 0 # pad_bytes pad offset n)"

definition c_id :: "endian \<Rightarrow> 'k landlock_id \<Rightarrow> u8 list" where
  "c_id en i = c_u64 en (id_get i)"

definition c_opt_id :: "endian \<Rightarrow> 'k landlock_id option \<Rightarrow> u8 list" where
  "c_opt_id en i = c_u64 en (case i of None \<Rightarrow> 0 | Some j \<Rightarrow> id_get j)"

definition c_opt_pid :: "endian \<Rightarrow> process_id option \<Rightarrow> u8 list" where
  "c_opt_pid en p = c_u32 en (case p of None \<Rightarrow> 0 | Some q \<Rightarrow> pid_get q)"

definition c_header :: "endian \<Rightarrow> (nat \<Rightarrow> u8) \<Rightarrow> kernel_timestamp \<Rightarrow> u8 \<Rightarrow> u8 list" where
  "c_header en pad ts type = c_u64 en (as_nanoseconds ts) @ c_u8 type @ pad_bytes pad 9 7"

text \<open>
  The denial header of every \<open>deny_\<dots>\<close> variant; \<open>cnt\<close> are the four bytes at offset 52 and
  \<open>access\<close> the eight bytes at offset 64.
\<close>

definition c_denial ::
  "endian \<Rightarrow> (nat \<Rightarrow> u8) \<Rightarrow> denial_context \<Rightarrow> u8 list \<Rightarrow> u8 list \<Rightarrow> u8 list" where
  "c_denial en pad c cnt access =
     c_id en (h_domain_id (hierarchy c)) @ c_opt_id en (h_parent_id (hierarchy c)) @
     c_u32 en (pid_get (h_creator_tgid (hierarchy c))) @
     c_chars pad 36 16 (h_creator_comm (hierarchy c)) @
     cnt @ c_u64 en (cumulative_denial_count c) @ access @
     c_bool (same_exec c) @ c_bool (logged c) @ pad_bytes pad 74 6"

fun c_union :: "endian \<Rightarrow> (nat \<Rightarrow> u8) \<Rightarrow> event \<Rightarrow> u8 list" where
  "c_union en pad (CreateRuleset e) =
     c_id en (cr_ruleset_id e) @ c_u64 en (cr_ruleset_version e) @
     c_u64 en (fs_bits (cr_handled_fs e)) @ c_u64 en (net_bits (cr_handled_net e)) @
     c_u64 en (scope_bits (cr_scoped e)) @ pad_bytes pad 56 296"
| "c_union en pad (AddRulePathBeneath e) =
     c_id en (ap_ruleset_id e) @ c_u64 en (ap_ruleset_version e) @
     c_u64 en (fs_bits (ap_access_rights e)) @ c_u32 en (ap_device e) @
     c_bool (bytes_omitted (ap_pathname e)) @ pad_bytes pad 45 3 @ c_u64 en (ap_inode e) @
     c_chars pad 56 256 (ap_pathname e) @ pad_bytes pad 312 40"
| "c_union en pad (AddRuleNetPort e) =
     c_id en (an_ruleset_id e) @ c_u64 en (an_ruleset_version e) @
     c_u64 en (net_bits (an_access_rights e)) @ c_u64 en (an_port e) @ pad_bytes pad 48 304"
| "c_union en pad (CreateDomain e) =
     c_id en (cd_ruleset_id e) @ c_u64 en (cd_ruleset_version e) @ c_id en (cd_domain_id e) @
     c_opt_id en (cd_parent_id e) @ c_u32 en (pid_get (cd_creator_tgid e)) @
     c_chars pad 52 16 (cd_creator_comm e) @ pad_bytes pad 68 284"
| "c_union en pad (DenyAccessFs e) =
     c_denial en pad (df_context e) (c_u32 en (raw (df_blockers_type e)))
       (c_u64 en (fs_bits (df_blockers_access e))) @
     c_u32 en (df_device e) @ c_bool (bytes_omitted (df_pathname e)) @ pad_bytes pad 85 3 @
     c_u64 en (df_inode e) @ c_chars pad 96 256 (df_pathname e)"
| "c_union en pad (DenyAccessNet e) =
     c_denial en pad (dn_context e) (c_u32 en (raw (dn_blockers_type e)))
       (c_u64 en (net_bits (dn_blockers_access e))) @
     c_u64 en (dn_source_port e) @ c_u64 en (dn_destination_port e) @ pad_bytes pad 96 256"
| "c_union en pad (DenyPtrace e) =
     c_denial en pad (dp_context e) (pad_bytes pad 52 4) (pad_bytes pad 64 8) @
     c_opt_id en (membership_domain_id (dp_tracee_domain e)) @
     c_u32 en (pid_get (dp_tracee_pid e)) @ c_chars pad 92 16 (dp_tracee_comm e) @
     pad_bytes pad 108 244"
| "c_union en pad (DenyScopeSignal e) =
     c_denial en pad (ds_context e) (pad_bytes pad 52 4) (pad_bytes pad 64 8) @
     c_opt_id en (membership_domain_id (ds_target_domain e)) @
     c_u32 en (pid_get (ds_target_pid e)) @ c_chars pad 92 16 (ds_target_comm e) @
     pad_bytes pad 108 244"
| "c_union en pad (DenyScopeAbstractUnixSocket e) =
     c_denial en pad (du_context e) (pad_bytes pad 52 4) (pad_bytes pad 64 8) @
     c_opt_id en (membership_domain_id (du_peer_domain e)) @ c_opt_pid en (du_peer_pid e) @
     c_u32 en (of_nat (length (as_bytes (du_abstract_name e)))) @
     as_bytes (du_abstract_name e) @
     pad_bytes pad (96 + length (as_bytes (du_abstract_name e)))
       (256 - length (as_bytes (du_abstract_name e)))"
| "c_union en pad (FreeDomain e) =
     c_id en (fd_domain_id e) @ c_u64 en (fd_denial_count e) @ pad_bytes pad 32 320"
| "c_union en pad (FreeRuleset e) =
     c_id en (fr_ruleset_id e) @ c_u64 en (fr_ruleset_version e) @ pad_bytes pad 32 320"
| "c_union en pad (EnforceDomain e) =
     c_id en (ed_domain_id e) @ c_u32 en (tid_get (ed_enforcing_tid e)) @
     c_bool (ed_complete e) @ c_bool (ed_process_wide e) @ c_bool (ed_no_new_privs e) @
     pad_bytes pad 31 321"

fun event_type_code :: "event \<Rightarrow> u8" where
  "event_type_code (CreateRuleset _) = 1"
| "event_type_code (AddRulePathBeneath _) = 2"
| "event_type_code (AddRuleNetPort _) = 3"
| "event_type_code (CreateDomain _) = 4"
| "event_type_code (DenyAccessFs _) = 5"
| "event_type_code (DenyAccessNet _) = 6"
| "event_type_code (DenyPtrace _) = 7"
| "event_type_code (DenyScopeSignal _) = 8"
| "event_type_code (DenyScopeAbstractUnixSocket _) = 9"
| "event_type_code (FreeDomain _) = 10"
| "event_type_code (FreeRuleset _) = 11"
| "event_type_code (EnforceDomain _) = 12"

definition encode :: "endian \<Rightarrow> (nat \<Rightarrow> u8) \<Rightarrow> event \<Rightarrow> u8 list" where
  "encode en pad e = c_header en pad (timestamp e) (event_type_code e) @ c_union en pad e"

subsection \<open>Words\<close>

lemma length_le_bytes [simp]: "length (le_bytes n v) = n"
  by (induction n arbitrary: v) auto

lemma le_value_le_bytes: "v < 256 ^ n \<Longrightarrow> le_value (le_bytes n v) = v"
proof (induction n arbitrary: v)
  case (Suc n)
  then have "v div 256 < 256 ^ n"
    by (simp add: less_mult_imp_div_less mult.commute)
  with Suc.IH have "le_value (le_bytes n (v div 256)) = v div 256"
    by blast
  then show ?case
    by (simp add: unat_of_nat)
qed simp

lemma ne_order_ne_order [simp]: "ne_order en (ne_order en bs) = bs"
  by (cases en) (simp_all add: ne_order_def)

lemma length_ne_order [simp]: "length (ne_order en bs) = length bs"
  by (cases en) (simp_all add: ne_order_def)

lemma from_to_ne_bytes:
  "LENGTH('a) = 8 * n \<Longrightarrow> from_ne_bytes en (to_ne_bytes en n v) = (v :: 'a::len word)"
proof -
  assume "LENGTH('a) = 8 * n"
  then have "(256 :: nat) ^ n = 2 ^ LENGTH('a)"
    by (simp add: power_mult)
  then have "unat v < 256 ^ n"
    using unsigned_less [of v] by simp
  then show ?thesis
    by (simp add: from_ne_bytes_def to_ne_bytes_def le_value_le_bytes)
qed

lemma from_c_u32 [simp]: "from_ne_bytes en (c_u32 en v) = v"
  by (simp add: c_u32_def from_to_ne_bytes)

lemma from_c_u64 [simp]: "from_ne_bytes en (c_u64 en v) = v"
  by (simp add: c_u64_def from_to_ne_bytes)

subsection \<open>Field lengths\<close>

lemma c_lengths [simp]:
  "length (pad_bytes pad off n) = n"
  "length (c_u8 v) = 1"
  "length (c_bool b) = 1"
  "length (c_u32 en w) = 4"
  "length (c_u64 en x) = 8"
  "length (c_id en i) = 8"
  "length (c_opt_id en oi) = 8"
  "length (c_opt_pid en op) = 4"
  "length (c_header en pad ts t) = 16"
  by (simp_all add: pad_bytes_def c_u8_def c_bool_def c_u32_def c_u64_def c_id_def c_opt_id_def
      c_opt_pid_def c_header_def to_ne_bytes_def)

lemma length_c_chars [simp]: "length (c_chars pad off n s) = n"
  by (simp add: c_chars_def)

lemma length_c_denial [simp]:
  "length cnt = 4 \<Longrightarrow> length access = 8 \<Longrightarrow> length (c_denial en pad c cnt access) = 64"
  by (simp add: c_denial_def)

lemma length_encode: "event_ok e \<Longrightarrow> length (encode en pad e) = RECORD_SIZE"
  by (cases e) (auto simp: encode_def RECORD_SIZE_def captured_ok_def abstract_name_consts_def)

subsection \<open>Reading a field of a concatenation\<close>

lemma slice_at_skip:
  "length xs \<le> off \<Longrightarrow> off + n \<le> usize_max \<Longrightarrow>
     slice_at (xs @ ys) off n f = slice_at ys (off - length xs) n f"
  by (auto simp: slice_at_def slice_range_def)

lemma slice_at_hit: "length xs = n \<Longrightarrow> n \<le> usize_max \<Longrightarrow> slice_at (xs @ ys) 0 n f = Inr xs"
  by (auto simp: slice_at_def slice_range_def)

lemma slice_at_last: "length xs = n \<Longrightarrow> n \<le> usize_max \<Longrightarrow> slice_at xs 0 n f = Inr xs"
  by (auto simp: slice_at_def slice_range_def)

lemma slice_get_skip: "length xs \<le> i \<Longrightarrow> slice_get (xs @ ys) i = slice_get ys (i - length xs)"
  by (auto simp: slice_get_def nth_append)

lemma slice_get_hit: "slice_get (c_u8 v @ ys) 0 = Some v"
  by (simp add: slice_get_def c_u8_def)

lemma boolean_at_skip:
  "length xs \<le> i \<Longrightarrow> boolean_at (xs @ ys) i f = boolean_at ys (i - length xs) f"
  by (simp add: boolean_at_def slice_get_skip)

lemma boolean_at_hit: "boolean_at (c_bool b @ ys) 0 f = Inr b"
  by (simp add: boolean_at_def c_bool_def slice_get_hit)

lemma bytes_at_skip:
  "length xs \<le> off \<Longrightarrow> off + n \<le> usize_max \<Longrightarrow>
     bytes_at n (xs @ ys) off f = bytes_at n ys (off - length xs) f"
  by (simp add: bytes_at_def slice_at_skip)

lemma bytes_at_hit: "length xs = n \<Longrightarrow> n \<le> usize_max \<Longrightarrow> bytes_at n (xs @ ys) 0 f = Inr xs"
  by (simp add: bytes_at_def slice_at_hit)

lemma u32_at_skip:
  "length xs \<le> off \<Longrightarrow> off + 4 \<le> usize_max \<Longrightarrow>
     u32_at en (xs @ ys) off f = u32_at en ys (off - length xs) f"
  by (simp add: u32_at_def bytes_at_skip)

lemma u64_at_skip:
  "length xs \<le> off \<Longrightarrow> off + 8 \<le> usize_max \<Longrightarrow>
     u64_at en (xs @ ys) off f = u64_at en ys (off - length xs) f"
  by (simp add: u64_at_def bytes_at_skip)

lemma u32_at_hit: "u32_at en (c_u32 en v @ ys) 0 f = Inr v"
  by (simp add: u32_at_def bytes_at_hit)

lemma u64_at_hit: "u64_at en (c_u64 en v @ ys) 0 f = Inr v"
  by (simp add: u64_at_def bytes_at_hit)

lemma id_at_skip:
  "length xs \<le> off \<Longrightarrow> off + 8 \<le> usize_max \<Longrightarrow>
     id_at en (xs @ ys) off f = id_at en ys (off - length xs) f"
  by (simp add: id_at_def u64_at_skip)

lemma wire_id_ok: "id_ok i \<Longrightarrow> wire_id (id_get i) f = Inr i"
  by (cases i) (simp add: wire_id_def landlock_id_new_def id_ok_def MIN_LANDLOCK_ID_pos)

lemma id_at_hit: "id_ok i \<Longrightarrow> id_at en (c_id en i @ ys) 0 f = Inr i"
  by (simp add: id_at_def c_id_def u64_at_hit wire_id_ok)

lemma parent_at_skip:
  "length xs \<le> off \<Longrightarrow> off + 8 \<le> usize_max \<Longrightarrow>
     parent_at en (xs @ ys) off f = parent_at en ys (off - length xs) f"
  by (simp add: parent_at_def u64_at_skip)

lemma parent_at_hit: "pred_option id_ok i \<Longrightarrow> parent_at en (c_opt_id en i @ ys) 0 f = Inr i"
  by (cases i) (simp_all add: parent_at_def c_opt_id_def u64_at_hit wire_parent_def wire_id_ok
      id_ok_nonzero)

lemma membership_at_skip:
  "length xs \<le> off \<Longrightarrow> off + 8 \<le> usize_max \<Longrightarrow>
     membership_at en (xs @ ys) off f = membership_at en ys (off - length xs) f"
  by (simp add: membership_at_def u64_at_skip)

lemma membership_at_hit:
  "membership_ok m \<Longrightarrow> membership_at en (c_opt_id en (membership_domain_id m) @ ys) 0 f = Inr m"
  by (cases m) (simp_all add: membership_at_def c_opt_id_def u64_at_hit wire_domain_membership_def
      wire_id_ok id_ok_nonzero membership_ok_def)

lemma process_id_at_skip:
  "length xs \<le> off \<Longrightarrow> off + 4 \<le> usize_max \<Longrightarrow>
     process_id_at en (xs @ ys) off f = process_id_at en ys (off - length xs) f"
  by (simp add: process_id_at_def u32_at_skip)

lemma process_id_at_hit: "pid_ok p \<Longrightarrow> process_id_at en (c_u32 en (pid_get p) @ ys) 0 f = Inr p"
  by (simp add: process_id_at_def u32_at_hit wire_process_id_def process_id_new_def pid_ok_def)

lemma thread_id_at_skip:
  "length xs \<le> off \<Longrightarrow> off + 4 \<le> usize_max \<Longrightarrow>
     thread_id_at en (xs @ ys) off f = thread_id_at en ys (off - length xs) f"
  by (simp add: thread_id_at_def u32_at_skip)

lemma thread_id_at_hit: "tid_ok t \<Longrightarrow> thread_id_at en (c_u32 en (tid_get t) @ ys) 0 f = Inr t"
  by (simp add: thread_id_at_def u32_at_hit wire_thread_id_def thread_id_new_def tid_ok_def)

lemma optional_process_id_c_opt_pid:
  "pred_option pid_ok p \<Longrightarrow>
     u32_at en (c_opt_pid en p @ ys) 0 f = Inr v \<Longrightarrow> optional_process_id v = p"
  by (cases p) (auto simp: c_opt_pid_def u32_at_hit optional_process_id_def process_id_new_def
      pid_ok_def)

lemma slice_range_prefix:
  "slice_range v 0 (case position (\<lambda>b. b = 0) v of Some p \<Rightarrow> p | None \<Rightarrow> length v)
     = Some (takeWhile (\<lambda>b. b \<noteq> 0) v)"
  using take_position_eq_takeWhile [where p = "\<lambda>b. b = 0" and xs = v]
  by (auto simp: slice_range_def split: option.splits dest: position_SomeD)

lemma captured_c_string_eq:
  "captured_c_string K v omitted f =
     map_err (CapturedBytesError f) (captured_new K (takeWhile (\<lambda>b. b \<noteq> 0) v) omitted)"
  by (simp add: captured_c_string_def Let_def slice_range_prefix)

lemma captured_new_self: "captured_ok K c \<Longrightarrow> captured_new K (as_bytes c) (bytes_omitted c) = Inr c"
  by (simp add: captured_new_ok_iff)

lemma captured_c_string_path:
  "path_ok c \<Longrightarrow> captured_c_string pathname_consts (c_chars pad off 256 c) (bytes_omitted c) f = Inr c"
  unfolding captured_c_string_eq c_chars_def
  by (simp add: path_field.terminated_prefix captured_new_self del: take_append)

lemma captured_c_string_command:
  "command_ok c \<Longrightarrow> captured_c_string command_consts (c_chars pad off 16 c) False f = Inr c"
proof -
  assume c: "command_ok c"
  then have "bytes_omitted c = False"
    by (auto simp: captured_ok_def command_consts_def)
  then show ?thesis
    using captured_new_self [OF c]
    unfolding captured_c_string_eq c_chars_def
    by (simp add: command_field.terminated_prefix c del: take_append)
qed

lemma command_at_skip:
  "length xs \<le> off \<Longrightarrow> off + 16 \<le> usize_max \<Longrightarrow>
     command_at (xs @ ys) off f = command_at ys (off - length xs) f"
  by (simp add: command_at_def COMM_SIZE_def slice_at_skip)

lemma command_at_hit: "command_ok c \<Longrightarrow> command_at (c_chars pad off 16 c @ ys) 0 f = Inr c"
  by (simp add: command_at_def COMM_SIZE_def slice_at_hit captured_c_string_command)

lemmas field_skips = slice_at_skip boolean_at_skip u32_at_skip u64_at_skip id_at_skip parent_at_skip
  membership_at_skip process_id_at_skip thread_id_at_skip command_at_skip slice_get_skip

lemmas field_hits = slice_at_hit slice_at_last boolean_at_hit u32_at_hit u64_at_hit id_at_hit
  parent_at_hit membership_at_hit process_id_at_hit thread_id_at_hit command_at_hit slice_get_hit

subsection \<open>The round trip\<close>

lemma wire_denial_context_hit:
  assumes "context_ok c" "length cnt = 4" "length access = 8"
  shows "wire_denial_context en (c_header en pad ts t @ c_denial en pad c cnt access @ ys) = Inr c"
  using assms
  by (simp add: wire_denial_context_def c_denial_def UNION_OFFSET_def context_ok_def hierarchy_ok_def
      field_skips field_hits)

lemma decode_encode_frame:
  assumes "length (encode en pad e) = RECORD_SIZE"
  shows "decode en (encode en pad e) =
    decode_body en (encode en pad e) (event_type_code e) (timestamp e)"
  using assms
  by (simp add: decode_def)
    (simp add: encode_def c_header_def wire_consts field_skips field_hits)

lemma decode_captured_path:
  assumes "path_ok c"
    and "slice_at data off 256 f = Inr (c_chars pad off' 256 c)"
    and "boolean_at data ooff g = Inr (bytes_omitted c)"
  shows "captured_at pathname_consts data off PATH_SIZE ooff f g = Inr c"
  using assms by (simp add: captured_at_def PATH_SIZE_def captured_c_string_path)

lemma decode_body_create_ruleset:
  "event_ok e \<Longrightarrow> e = CreateRuleset x \<Longrightarrow>
     decode_body en (encode en pad e) (event_type_code e) (timestamp e) = Inr e"
  by (simp add: decode_body_def decode_create_ruleset_def encode_def field_skips field_hits)

lemma decode_body_add_rule_path_beneath:
  "event_ok e \<Longrightarrow> e = AddRulePathBeneath x \<Longrightarrow>
     decode_body en (encode en pad e) (event_type_code e) (timestamp e) = Inr e"
  by (simp add: decode_body_def decode_add_rule_path_beneath_def encode_def captured_at_def PATH_SIZE_def
      captured_c_string_path field_skips field_hits)

lemma decode_body_add_rule_net_port:
  "event_ok e \<Longrightarrow> e = AddRuleNetPort x \<Longrightarrow>
     decode_body en (encode en pad e) (event_type_code e) (timestamp e) = Inr e"
  by (simp add: decode_body_def decode_add_rule_net_port_def encode_def field_skips field_hits)

lemma decode_body_create_domain:
  "event_ok e \<Longrightarrow> e = CreateDomain x \<Longrightarrow>
     decode_body en (encode en pad e) (event_type_code e) (timestamp e) = Inr e"
  by (simp add: decode_body_def decode_create_domain_def encode_def field_skips field_hits)

lemma decode_body_deny_access_fs:
  "event_ok e \<Longrightarrow> e = DenyAccessFs x \<Longrightarrow>
     decode_body en (encode en pad e) (event_type_code e) (timestamp e) = Inr e"
  by (simp add: decode_body_def decode_deny_access_fs_def encode_def captured_at_def PATH_SIZE_def
      captured_c_string_path wire_denial_context_hit)
    (simp add: c_denial_def captured_c_string_path field_skips field_hits)

lemma decode_body_deny_access_net:
  "event_ok e \<Longrightarrow> e = DenyAccessNet x \<Longrightarrow>
     decode_body en (encode en pad e) (event_type_code e) (timestamp e) = Inr e"
  by (simp add: decode_body_def decode_deny_access_net_def encode_def wire_denial_context_hit)
    (simp add: c_denial_def field_skips field_hits)

lemma decode_body_deny_ptrace:
  "event_ok e \<Longrightarrow> e = DenyPtrace x \<Longrightarrow>
     decode_body en (encode en pad e) (event_type_code e) (timestamp e) = Inr e"
  by (simp add: decode_body_def decode_deny_ptrace_def encode_def wire_denial_context_hit
      field_skips field_hits)

lemma decode_body_deny_scope_signal:
  "event_ok e \<Longrightarrow> e = DenyScopeSignal x \<Longrightarrow>
     decode_body en (encode en pad e) (event_type_code e) (timestamp e) = Inr e"
  by (simp add: decode_body_def decode_deny_scope_signal_def encode_def wire_denial_context_hit
      field_skips field_hits)

lemma abstract_name_at_hit:
  assumes "abstract_name_ok n"
    and "u32_at en data off ''abstract_unix_socket_name_length'' = Inr (of_nat (length (as_bytes n)))"
    and "\<And>f. slice_at data noff (length (as_bytes n)) f = Inr (as_bytes n)"
  shows "abstract_unix_socket_name_at en data off noff = Inr n"
proof -
  have len: "length (as_bytes n) \<le> 107" and om: "\<not> bytes_omitted n"
    using assms(1) by (auto simp: captured_ok_def abstract_name_consts_def)
  have "unat (of_nat (length (as_bytes n)) :: u32) = length (as_bytes n)"
    using len by (simp add: unat_of_nat)
  then have "\<not> (of_nat (length (as_bytes n)) :: u32) > of_nat 107"
    using len by (simp add: word_less_nat_alt)
  with \<open>unat (of_nat (length (as_bytes n)) :: u32) = length (as_bytes n)\<close> show ?thesis
    using assms captured_new_self [OF assms(1)] om
    by (simp add: abstract_unix_socket_name_at_def ABSTRACT_UNIX_SOCKET_NAME_MAX_LEN_def)
qed

lemma decode_body_deny_scope_abstract_unix_socket:
  assumes "event_ok e" "e = DenyScopeAbstractUnixSocket x"
  shows "decode_body en (encode en pad e) (event_type_code e) (timestamp e) = Inr e"
proof -
  let ?d = "encode en pad e"
  have ok: "abstract_name_ok (du_abstract_name x)" "pred_option pid_ok (du_peer_pid x)"
    using assms by simp_all
  have name: "abstract_unix_socket_name_at en ?d 92 96 = Inr (du_abstract_name x)"
  proof (rule abstract_name_at_hit [OF ok(1)])
    show "u32_at en ?d 92 ''abstract_unix_socket_name_length''
        = Inr (of_nat (length (as_bytes (du_abstract_name x))))"
      using assms by (simp add: encode_def field_skips field_hits)
    show "slice_at ?d 96 (length (as_bytes (du_abstract_name x))) f
        = Inr (as_bytes (du_abstract_name x))" for f
      using assms ok(1) by (simp add: encode_def captured_ok_def abstract_name_consts_def
          field_skips field_hits)
  qed
  have "u32_at en ?d 88 ''peer_pid''
      = Inr (case du_peer_pid x of None \<Rightarrow> 0 | Some q \<Rightarrow> pid_get q)"
    using assms by (simp add: encode_def field_skips) (simp add: c_opt_pid_def u32_at_hit)
  moreover have "optional_process_id (case du_peer_pid x of None \<Rightarrow> 0 | Some q \<Rightarrow> pid_get q)
      = du_peer_pid x"
    using ok(2) by (cases "du_peer_pid x")
      (simp_all add: optional_process_id_def process_id_new_def pid_ok_def)
  moreover have "wire_denial_context en ?d = Inr (du_context x)"
    using assms by (simp add: encode_def wire_denial_context_hit)
  moreover have "membership_at en ?d 80 ''peer_domain'' = Inr (du_peer_domain x)"
    using assms by (simp add: encode_def field_skips field_hits)
  ultimately show ?thesis
    using name assms by (simp add: decode_body_def decode_deny_scope_abstract_unix_socket_def)
qed

lemma decode_body_free_domain:
  "event_ok e \<Longrightarrow> e = FreeDomain x \<Longrightarrow>
     decode_body en (encode en pad e) (event_type_code e) (timestamp e) = Inr e"
  by (simp add: decode_body_def decode_free_domain_def encode_def field_skips field_hits)

lemma decode_body_free_ruleset:
  "event_ok e \<Longrightarrow> e = FreeRuleset x \<Longrightarrow>
     decode_body en (encode en pad e) (event_type_code e) (timestamp e) = Inr e"
  by (simp add: decode_body_def decode_free_ruleset_def encode_def field_skips field_hits)

lemma decode_body_enforce_domain:
  "event_ok e \<Longrightarrow> e = EnforceDomain x \<Longrightarrow>
     decode_body en (encode en pad e) (event_type_code e) (timestamp e) = Inr e"
  by (simp add: decode_body_def decode_enforce_domain_def encode_def field_skips field_hits)

lemmas decode_bodies = decode_body_create_ruleset decode_body_add_rule_path_beneath
  decode_body_add_rule_net_port decode_body_create_domain decode_body_deny_access_fs
  decode_body_deny_access_net decode_body_deny_ptrace decode_body_deny_scope_signal
  decode_body_deny_scope_abstract_unix_socket decode_body_free_domain decode_body_free_ruleset
  decode_body_enforce_domain

lemma decode_encode_event: "event_ok e \<Longrightarrow> decode en (encode en pad e) = Inr e"
  unfolding decode_encode_frame [OF length_encode]
  by (cases e) (erule decode_bodies, assumption)+

subsection \<open>Decoded values satisfy the invariants of their types\<close>

lemma wire_id_Inr: "wire_id v f = Inr i \<Longrightarrow> id_ok i"
  by (auto simp: wire_id_def result_eq_Inr new_ok_iffs)

lemma id_at_Inr: "id_at en data off f = Inr i \<Longrightarrow> id_ok i"
  by (auto simp: id_at_def result_eq_Inr dest: wire_id_Inr)

lemma parent_at_Inr: "parent_at en data off f = Inr i \<Longrightarrow> pred_option id_ok i"
  by (auto simp: parent_at_def wire_parent_def result_eq_Inr split: if_splits dest: wire_id_Inr)

lemma membership_at_Inr: "membership_at en data off f = Inr m \<Longrightarrow> membership_ok m"
  by (auto simp: membership_at_def wire_domain_membership_def membership_ok_def result_eq_Inr
      split: if_splits dest: wire_id_Inr)

lemma process_id_at_Inr: "process_id_at en data off f = Inr p \<Longrightarrow> pid_ok p"
  by (auto simp: process_id_at_def wire_process_id_def result_eq_Inr new_ok_iffs)

lemma thread_id_at_Inr: "thread_id_at en data off f = Inr t \<Longrightarrow> tid_ok t"
  by (auto simp: thread_id_at_def wire_thread_id_def result_eq_Inr new_ok_iffs)

lemma captured_c_string_Inr: "captured_c_string K v om f = Inr c \<Longrightarrow> captured_ok K c"
  by (auto simp: captured_c_string_eq result_eq_Inr new_ok_iffs)

lemma captured_at_Inr: "captured_at K data off n ooff f g = Inr c \<Longrightarrow> captured_ok K c"
  by (auto simp: captured_at_def result_eq_Inr dest: captured_c_string_Inr)

lemma command_at_Inr: "command_at data off f = Inr c \<Longrightarrow> command_ok c"
  by (auto simp: command_at_def result_eq_Inr dest: captured_c_string_Inr)

lemma abstract_name_at_Inr:
  "abstract_unix_socket_name_at en data off noff = Inr c \<Longrightarrow> abstract_name_ok c"
  by (auto simp: abstract_unix_socket_name_at_def result_eq_Inr new_ok_iffs split: if_splits)

lemma optional_process_id_ok: "pred_option pid_ok (optional_process_id v)"
  by (simp add: optional_process_id_def process_id_new_def pid_ok_def)

lemma wire_denial_context_Inr: "wire_denial_context en data = Inr c \<Longrightarrow> context_ok c"
  by (auto simp: wire_denial_context_def result_eq_Inr context_ok_def hierarchy_ok_def
      dest: id_at_Inr parent_at_Inr process_id_at_Inr command_at_Inr)

lemmas wire_Inr = id_at_Inr parent_at_Inr membership_at_Inr process_id_at_Inr thread_id_at_Inr
  captured_at_Inr command_at_Inr abstract_name_at_Inr wire_denial_context_Inr

lemmas decode_arm_defs = decode_create_ruleset_def decode_add_rule_path_beneath_def
  decode_add_rule_net_port_def decode_create_domain_def decode_deny_access_fs_def
  decode_deny_access_net_def decode_deny_ptrace_def decode_deny_scope_signal_def
  decode_deny_scope_abstract_unix_socket_def decode_free_domain_def decode_free_ruleset_def
  decode_enforce_domain_def

lemma decode_body_ok: "decode_body en data t ts = Inr e \<Longrightarrow> event_ok e"
  unfolding decode_body_def
  by (auto simp: map_ok_eq_Inr split: if_splits)
    (auto simp: decode_arm_defs result_eq_Inr optional_process_id_ok dest: wire_Inr)

lemma decode_ok: "decode en data = Inr e \<Longrightarrow> event_ok e"
  by (auto simp: decode_def result_eq_Inr split: if_splits dest: decode_body_ok)

end
