(* ===== verification/Wire_Properties.thy ===== *)
theory Wire_Properties
  imports Wire_Layout
begin

text \<open>
  The properties of the decoder: it inverts the layout of the C record, it produces only values
  that satisfy the invariants of their types, and it fails only for the reasons it reports, never
  because a fixed field lies outside the record.
\<close>

subsection \<open>Reads inside the record\<close>

text \<open>An error about the value of a field, as opposed to the shape of the record.\<close>

fun value_error :: "decode_error \<Rightarrow> bool" where
  "value_error (LengthError _ _) = False"
| "value_error (EventKindError _) = False"
| "value_error (FieldError _) = False"
| "value_error _ = True"

definition reads :: "decode_error + 'a \<Rightarrow> bool" where
  "reads r = (case r of Inl er \<Rightarrow> value_error er | Inr _ \<Rightarrow> True)"

lemma reads_simps [simp]: "reads (Inr x)" "reads (Inl er) = value_error er"
  by (simp_all add: reads_def)

lemma reads_and_then: "reads r \<Longrightarrow> (\<And>x. reads (f x)) \<Longrightarrow> reads (and_then r f)"
  by (cases r) simp_all

lemma reads_map_ok: "reads (map_ok f r) = reads r"
  by (cases r) simp_all

lemma slice_at_reads:
  "offset + n \<le> length data \<Longrightarrow> length data = RECORD_SIZE \<Longrightarrow>
     \<exists>xs. slice_at data offset n f = Inr xs \<and> length xs = n"
  by (simp add: slice_at_def slice_range_def wire_consts)

lemma u32_at_reads:
  "offset + 4 \<le> length data \<Longrightarrow> length data = RECORD_SIZE \<Longrightarrow> reads (u32_at en data offset f)"
  using slice_at_reads [of offset 4 data f] by (auto simp: u32_at_def bytes_at_def)

lemma u64_at_reads:
  "offset + 8 \<le> length data \<Longrightarrow> length data = RECORD_SIZE \<Longrightarrow> reads (u64_at en data offset f)"
  using slice_at_reads [of offset 8 data f] by (auto simp: u64_at_def bytes_at_def)

lemma boolean_at_reads: "offset < length data \<Longrightarrow> reads (boolean_at data offset f)"
  by (simp add: boolean_at_def slice_get_def)

lemma captured_c_string_reads: "reads (captured_c_string K v om f)"
  by (cases "captured_new K (takeWhile (\<lambda>b. b \<noteq> 0) v) om :: captured_bytes_error + 'a captured_bytes")
    (simp_all add: captured_c_string_eq)

lemma command_at_reads:
  "offset + 16 \<le> length data \<Longrightarrow> length data = RECORD_SIZE \<Longrightarrow> reads (command_at data offset f)"
  using slice_at_reads [of offset 16 data f]
  by (auto simp: command_at_def COMM_SIZE_def captured_c_string_reads)

lemma captured_at_reads:
  "offset + n \<le> length data \<Longrightarrow> ooff < length data \<Longrightarrow> length data = RECORD_SIZE \<Longrightarrow>
     reads (captured_at K data offset n ooff f g)"
  using slice_at_reads [of offset n data f] boolean_at_reads [of ooff data g]
  by (auto simp: captured_at_def captured_c_string_reads intro!: reads_and_then)

lemma abstract_unix_socket_name_at_reads:
  "loff + 4 \<le> length data \<Longrightarrow> noff + 107 \<le> length data \<Longrightarrow> length data = RECORD_SIZE \<Longrightarrow>
     reads (abstract_unix_socket_name_at en data loff noff)"
  unfolding abstract_unix_socket_name_at_def
proof (rule reads_and_then)
  fix len :: u32
  assume data: "noff + 107 \<le> length data" "length data = RECORD_SIZE"
  show "reads (if of_nat ABSTRACT_UNIX_SOCKET_NAME_MAX_LEN < len
      then Inl (AbstractUnixSocketNameLengthError len ABSTRACT_UNIX_SOCKET_NAME_MAX_LEN)
      else and_then (slice_at data noff (unat len) ''abstract_unix_socket_name'')
        (\<lambda>value. map_err (CapturedBytesError ''abstract_unix_socket_name'')
           (captured_new abstract_name_consts value False :: _ + captured_abstract_name)))"
  proof (cases "of_nat ABSTRACT_UNIX_SOCKET_NAME_MAX_LEN < len")
    case False
    then have "unat len \<le> 107"
      by (simp add: wire_consts word_less_nat_alt)
    then obtain xs where "slice_at data noff (unat len) ''abstract_unix_socket_name'' = Inr xs"
      using slice_at_reads [of noff "unat len" data] data by fastforce
    with False show ?thesis
      by (cases "captured_new abstract_name_consts xs False :: _ + captured_abstract_name") simp_all
  qed simp
qed (rule u32_at_reads)

lemma id_at_reads:
  "offset + 8 \<le> length data \<Longrightarrow> length data = RECORD_SIZE \<Longrightarrow> reads (id_at en data offset f)"
  by (auto simp: id_at_def wire_id_def landlock_id_new_def intro!: reads_and_then u64_at_reads)

lemma parent_at_reads:
  "offset + 8 \<le> length data \<Longrightarrow> length data = RECORD_SIZE \<Longrightarrow> reads (parent_at en data offset f)"
  by (auto simp: parent_at_def wire_parent_def wire_id_def landlock_id_new_def
      intro!: reads_and_then u64_at_reads)

lemma membership_at_reads:
  "offset + 8 \<le> length data \<Longrightarrow> length data = RECORD_SIZE \<Longrightarrow> reads (membership_at en data offset f)"
  by (auto simp: membership_at_def wire_domain_membership_def wire_id_def landlock_id_new_def
      intro!: reads_and_then u64_at_reads)

lemma process_id_at_reads:
  "offset + 4 \<le> length data \<Longrightarrow> length data = RECORD_SIZE \<Longrightarrow> reads (process_id_at en data offset f)"
  by (auto simp: process_id_at_def wire_process_id_def process_id_new_def
      intro!: reads_and_then u32_at_reads)

lemma thread_id_at_reads:
  "offset + 4 \<le> length data \<Longrightarrow> length data = RECORD_SIZE \<Longrightarrow> reads (thread_id_at en data offset f)"
  by (auto simp: thread_id_at_def wire_thread_id_def thread_id_new_def
      intro!: reads_and_then u32_at_reads)

lemmas field_reads = u32_at_reads u64_at_reads boolean_at_reads command_at_reads captured_at_reads
  abstract_unix_socket_name_at_reads id_at_reads parent_at_reads membership_at_reads
  process_id_at_reads thread_id_at_reads

lemma wire_denial_context_reads:
  "length data = RECORD_SIZE \<Longrightarrow> reads (wire_denial_context en data)"
  unfolding wire_denial_context_def
  by (intro reads_and_then field_reads) (simp_all add: wire_consts)

lemma decode_arms_read:
  assumes "length data = RECORD_SIZE"
  shows "reads (decode_create_ruleset en data ts)" "reads (decode_add_rule_path_beneath en data ts)"
    "reads (decode_add_rule_net_port en data ts)" "reads (decode_create_domain en data ts)"
    "reads (decode_deny_access_fs en data ts)" "reads (decode_deny_access_net en data ts)"
    "reads (decode_deny_ptrace en data ts)" "reads (decode_deny_scope_signal en data ts)"
    "reads (decode_deny_scope_abstract_unix_socket en data ts)"
    "reads (decode_free_domain en data ts)" "reads (decode_free_ruleset en data ts)"
    "reads (decode_enforce_domain en data ts)"
  unfolding decode_arm_defs using assms
  by (intro reads_and_then field_reads wire_denial_context_reads; simp add: wire_consts)+

definition event_kinds :: "u8 set" where
  "event_kinds = {1, 2, 3, 4, 5, 6, 7, 8, 9, 10, 11, 12}"

lemma decode_body_reads:
  assumes "length data = RECORD_SIZE"
  shows "if t \<in> event_kinds then reads (decode_body en data t ts)
         else decode_body en data t ts = Inl (EventKindError t)"
  unfolding decode_body_def event_kinds_def by (simp add: reads_map_ok decode_arms_read [OF assms])

lemma decode_frame:
  assumes "length data = RECORD_SIZE"
  shows "\<exists>ts. decode en data = decode_body en data (data ! 8) (KernelTimestamp ts)"
proof -
  have "reads (u64_at en data TIMESTAMP_OFFSET ''timestamp'')"
    using assms by (intro u64_at_reads) (simp_all add: wire_consts)
  moreover obtain xs where "slice_at data TIMESTAMP_OFFSET 8 ''timestamp'' = Inr xs" "length xs = 8"
    using slice_at_reads [of TIMESTAMP_OFFSET 8 data] assms by (auto simp: wire_consts)
  ultimately show ?thesis
    using assms by (auto simp: decode_def slice_get_def u64_at_def bytes_at_def wire_consts)
qed

lemma decode_body_kind:
  "decode_body en data t ts = Inr e \<Longrightarrow> t = event_type_code e \<and> timestamp e = ts"
  unfolding decode_body_def
  by (auto simp: map_ok_eq_Inr split: if_splits) (auto simp: decode_arm_defs result_eq_Inr)

subsection \<open>Properties\<close>

text \<open>C4. Decoding is a left inverse of the record layout: a record filled in by the producer for
  an event, in either byte order and with arbitrary padding and arbitrary bytes behind string
  terminators, decodes to exactly that event.\<close>

theorem decode_encode: "event_ok e \<Longrightarrow> decode en (encode en pad e) = Inr e"
  by (rule decode_encode_event)

theorem decode_encode_witness:
  "decode BigEndian (encode BigEndian (\<lambda>i. of_nat i) (FreeDomain \<lparr>fd_timestamp = KernelTimestamp 5,
       fd_domain_id = LandlockId 0x100000007, fd_denial_count = 513\<rparr>)) =
     Inr (FreeDomain \<lparr>fd_timestamp = KernelTimestamp 5, fd_domain_id = LandlockId 0x100000007,
       fd_denial_count = 513\<rparr>)"
  by (rule decode_encode) (simp add: id_ok_def MIN_LANDLOCK_ID_def)

text \<open>C9. Whatever bytes arrive, a decoded event satisfies the invariants of its types: Landlock
  identifiers in the kernel's range, task identifiers nonzero, captured bytes within their origin's
  length and NUL rules, and its kind is the one the record names.\<close>

theorem decode_well_typed:
  assumes "decode en data = Inr e"
  shows "event_ok e \<and> length data = RECORD_SIZE \<and> event_type_code e = data ! TYPE_OFFSET"
proof -
  have len: "length data = RECORD_SIZE"
    using assms by (auto simp: decode_def split: if_splits)
  then show ?thesis
    using decode_ok [OF assms] decode_frame [OF len, of en] assms
    by (auto simp: TYPE_OFFSET_def dest: decode_body_kind [OF sym])
qed

theorem decode_well_typed_witness:
  "\<exists>e. decode LittleEndian (encode LittleEndian (\<lambda>_. 0xFF) (FreeRuleset
       \<lparr>fr_timestamp = KernelTimestamp 5, fr_ruleset_id = LandlockId 0x100000007,
        fr_ruleset_version = 3\<rparr>)) = Inr e \<and> event_ok e"
proof -
  have d: "decode LittleEndian (encode LittleEndian (\<lambda>_. 0xFF) (FreeRuleset
       \<lparr>fr_timestamp = KernelTimestamp 5, fr_ruleset_id = LandlockId 0x100000007,
        fr_ruleset_version = 3\<rparr>)) = Inr (FreeRuleset
       \<lparr>fr_timestamp = KernelTimestamp 5, fr_ruleset_id = LandlockId 0x100000007,
        fr_ruleset_version = 3\<rparr>)"
    by (rule decode_encode_event) (simp add: id_ok_def MIN_LANDLOCK_ID_def)
  with decode_well_typed [OF d] show ?thesis
    by blast
qed

text \<open>C24. Every decoding failure is classified: a wrong record size reports both sizes, an
  unknown kind byte in a record of the right size reports that byte, and otherwise the error is
  about the value of a field. No fixed field is ever out of the bounds of the record.\<close>

theorem decode_error_classified:
  assumes "decode en data = Inl er"
  shows "er = (if length data \<noteq> RECORD_SIZE then LengthError RECORD_SIZE (length data)
               else if data ! TYPE_OFFSET \<notin> event_kinds then EventKindError (data ! TYPE_OFFSET)
               else er) \<and>
         (length data = RECORD_SIZE \<and> data ! TYPE_OFFSET \<in> event_kinds \<longleftrightarrow> value_error er)"
proof (cases "length data = RECORD_SIZE")
  case True
  then obtain ts where "decode en data = decode_body en data (data ! 8) (KernelTimestamp ts)"
    using decode_frame by blast
  with assms True decode_body_reads [OF True, of "data ! 8" en "KernelTimestamp ts"] show ?thesis
    by (auto simp: TYPE_OFFSET_def split: if_splits)
next
  case False
  with assms show ?thesis
    by (auto simp: decode_def)
qed

theorem decode_error_classified_witness:
  "\<exists>er. decode LittleEndian [0, 1] = Inl er \<and> \<not> value_error er"
proof -
  have d: "decode LittleEndian [0, 1] = Inl (LengthError 352 2)"
    by (simp add: decode_def wire_consts)
  show ?thesis
    using decode_error_classified [OF d] d by (auto simp: wire_consts)
qed

end
