(* ===== verification/Aggregate.thy ===== *)
theory Aggregate
  imports Events Hash_Map
begin

text \<open>
  \<open>src/aggregate.rs\<close>: bounded aggregation of denial events. The aggregator is a hash map from
  denial keys to entries stamped with an ingestion sequence number; inserting into a full map
  evicts the entry of least sequence number, and the numbers are compacted before they overflow.
\<close>

definition DEFAULT_CAPACITY :: nat where "DEFAULT_CAPACITY = 1000"

subsection \<open>Keys\<close>

record filesystem_denial_key =
  fk_domain_id :: domain_id
  fk_blockers_type :: blocker_type
  fk_blockers_access :: filesystem_access
  fk_device :: u32
  fk_inode :: u64

definition fk_blockers :: "filesystem_denial_key \<Rightarrow> filesystem_blockers" where
  "fk_blockers k = classify (fk_blockers_type k) (fk_blockers_access k)"

record network_denial_key =
  nk_domain_id :: domain_id
  nk_blockers_type :: blocker_type
  nk_blockers_access :: network_access
  nk_source_port :: u64
  nk_destination_port :: u64

record ptrace_denial_key =
  pk_domain_id :: domain_id
  pk_tracee_domain :: domain_membership
  pk_tracee_pid :: process_id
  pk_tracee_comm :: captured_command

record signal_denial_key =
  sk_domain_id :: domain_id
  sk_target_domain :: domain_membership
  sk_target_pid :: process_id
  sk_target_comm :: captured_command

record abstract_unix_socket_denial_key =
  uk_domain_id :: domain_id
  uk_peer_domain :: domain_membership
  uk_abstract_name :: captured_abstract_name

datatype denial_key =
    FilesystemKey filesystem_denial_key
  | NetworkKey network_denial_key
  | PtraceKey ptrace_denial_key
  | SignalKey signal_denial_key
  | AbstractUnixSocketKey abstract_unix_socket_denial_key

fun denial_key_domain_id :: "denial_key \<Rightarrow> domain_id" where
  "denial_key_domain_id (FilesystemKey k) = fk_domain_id k"
| "denial_key_domain_id (NetworkKey k) = nk_domain_id k"
| "denial_key_domain_id (PtraceKey k) = pk_domain_id k"
| "denial_key_domain_id (SignalKey k) = sk_domain_id k"
| "denial_key_domain_id (AbstractUnixSocketKey k) = uk_domain_id k"

fun denial_key_context :: "event \<Rightarrow> (denial_key \<times> denial_context) option" where
  "denial_key_context (DenyAccessFs e) = Some (FilesystemKey
     \<lparr>fk_domain_id = h_domain_id (hierarchy (df_context e)), fk_blockers_type = df_blockers_type e,
      fk_blockers_access = df_blockers_access e, fk_device = df_device e, fk_inode = df_inode e\<rparr>,
     df_context e)"
| "denial_key_context (DenyAccessNet e) = Some (NetworkKey
     \<lparr>nk_domain_id = h_domain_id (hierarchy (dn_context e)), nk_blockers_type = dn_blockers_type e,
      nk_blockers_access = dn_blockers_access e, nk_source_port = dn_source_port e,
      nk_destination_port = dn_destination_port e\<rparr>,
     dn_context e)"
| "denial_key_context (DenyPtrace e) = Some (PtraceKey
     \<lparr>pk_domain_id = h_domain_id (hierarchy (dp_context e)), pk_tracee_domain = dp_tracee_domain e,
      pk_tracee_pid = dp_tracee_pid e, pk_tracee_comm = dp_tracee_comm e\<rparr>,
     dp_context e)"
| "denial_key_context (DenyScopeSignal e) = Some (SignalKey
     \<lparr>sk_domain_id = h_domain_id (hierarchy (ds_context e)), sk_target_domain = ds_target_domain e,
      sk_target_pid = ds_target_pid e, sk_target_comm = ds_target_comm e\<rparr>,
     ds_context e)"
| "denial_key_context (DenyScopeAbstractUnixSocket e) = Some (AbstractUnixSocketKey
     \<lparr>uk_domain_id = h_domain_id (hierarchy (du_context e)), uk_peer_domain = du_peer_domain e,
      uk_abstract_name = du_abstract_name e\<rparr>,
     du_context e)"
| "denial_key_context _ = None"

definition denial_facts :: "event \<Rightarrow> (denial_key \<times> bool \<times> bool) option" where
  "denial_facts e =
     map_option (\<lambda>(key, context). (key, same_exec context, logged context)) (denial_key_context e)"

subsection \<open>Entries and the aggregator\<close>

record aggregated_denial =
  ag_key :: denial_key
  ag_occurrence_count :: u64
  ag_first_timestamp :: kernel_timestamp
  ag_latest_timestamp :: kernel_timestamp
  ag_same_exec :: bool
  ag_logged :: bool
  ag_latest_event :: event
  ag_last_observed_sequence :: u128

record denial_aggregator =
  agg_capacity :: nat
  agg_entries :: "(denial_key, aggregated_denial) hashmap"
  agg_ingestion_sequence :: u128

definition aggregator_new :: denial_aggregator where
  "aggregator_new =
     \<lparr>agg_capacity = DEFAULT_CAPACITY, agg_entries = [], agg_ingestion_sequence = 0\<rparr>"

datatype build_error_kind = InvalidCapacity | Reservation

record 'e build_error =
  be_kind :: build_error_kind
  be_configured :: nat
  be_source :: "'e option"

text \<open>
  The builder's \<open>build\<close>. Whether the allocator can reserve the storage is not decided by the
  program: \<open>try_reserve\<close> is an argument that answers with the error of the standard library, if any.
\<close>

definition aggregator_build ::
  "(nat \<Rightarrow> 'e option) \<Rightarrow> nat \<Rightarrow> 'e build_error + denial_aggregator" where
  "aggregator_build try_reserve capacity =
     (if capacity = 0
      then Inl \<lparr>be_kind = InvalidCapacity, be_configured = capacity, be_source = None\<rparr>
      else case try_reserve capacity of
        Some err \<Rightarrow> Inl \<lparr>be_kind = Reservation, be_configured = capacity, be_source = Some err\<rparr>
      | None \<Rightarrow> Inr \<lparr>agg_capacity = capacity, agg_entries = [], agg_ingestion_sequence = 0\<rparr>)"

subsection \<open>Observing an event\<close>

text \<open>The loop that renumbers the entries, oldest first.\<close>

fun renumber :: "denial_key list \<Rightarrow> u128 \<Rightarrow> (denial_key, aggregated_denial) hashmap \<Rightarrow>
    (denial_key, aggregated_denial) hashmap \<times> u128" where
  "renumber [] sequence m = (m, sequence)"
| "renumber (k # ks) sequence m =
     (let s = saturating_add sequence 1
      in renumber ks s (hm_modify k (\<lambda>e. e\<lparr>ag_last_observed_sequence := s\<rparr>) m))"

definition compact_sequences :: "denial_aggregator \<Rightarrow> denial_aggregator" where
  "compact_sequences a =
     (if agg_ingestion_sequence a = -1
      then let recency = sort_key (\<lambda>(_, e). ag_last_observed_sequence e) (agg_entries a);
               (m, s) = renumber (map fst recency) 0 (agg_entries a)
           in a\<lparr>agg_entries := m, agg_ingestion_sequence := s\<rparr>
      else a)"

definition next_ingestion_sequence :: "denial_aggregator \<Rightarrow> denial_aggregator \<times> u128" where
  "next_ingestion_sequence a =
     (let a1 = compact_sequences a;
          s = saturating_add (agg_ingestion_sequence a1) 1
      in (a1\<lparr>agg_ingestion_sequence := s\<rparr>, s))"

text \<open>\<open>Iterator::min_by_key\<close>: the first of the least elements.\<close>

fun min_by_key :: "('a \<Rightarrow> 'b::linorder) \<Rightarrow> 'a list \<Rightarrow> 'a option" where
  "min_by_key f [] = None"
| "min_by_key f (x # xs) =
     Some (foldl (\<lambda>best y. if f y < f best then y else best) x xs)"

definition refresh_entry ::
  "event \<Rightarrow> bool \<Rightarrow> bool \<Rightarrow> u128 \<Rightarrow> aggregated_denial \<Rightarrow> aggregated_denial" where
  "refresh_entry ev same lg sequence entry =
     entry\<lparr>ag_occurrence_count := saturating_add (ag_occurrence_count entry) 1,
           ag_latest_timestamp := timestamp ev,
           ag_same_exec := same,
           ag_logged := lg,
           ag_latest_event := ev,
           ag_last_observed_sequence := sequence\<rparr>"

definition new_entry ::
  "event \<Rightarrow> denial_key \<Rightarrow> bool \<Rightarrow> bool \<Rightarrow> u128 \<Rightarrow> aggregated_denial" where
  "new_entry ev key same lg sequence =
     \<lparr>ag_key = key, ag_occurrence_count = 1, ag_first_timestamp = timestamp ev,
      ag_latest_timestamp = timestamp ev, ag_same_exec = same, ag_logged = lg,
      ag_latest_event = ev, ag_last_observed_sequence = sequence\<rparr>"

definition insert_entry ::
  "denial_key \<Rightarrow> aggregated_denial \<Rightarrow> denial_aggregator \<Rightarrow>
     denial_aggregator \<times> aggregated_denial option" where
  "insert_entry key entry a =
     (let m = hm_or_insert key entry (agg_entries a) in (a\<lparr>agg_entries := m\<rparr>, hm_get m key))"

definition observe_entry ::
  "denial_aggregator \<Rightarrow> event \<Rightarrow> denial_aggregator \<times> aggregated_denial option" where
  "observe_entry a0 ev =
     (case denial_facts ev of
        None \<Rightarrow> (a0, None)
      | Some (key, same, lg) \<Rightarrow>
          (let (a, sequence) = next_ingestion_sequence a0 in
           if hm_contains_key (agg_entries a) key
           then let m = hm_modify key (refresh_entry ev same lg sequence) (agg_entries a)
                in (a\<lparr>agg_entries := m\<rparr>, hm_get m key)
           else if hm_len (agg_entries a) \<ge> agg_capacity a
           then (case min_by_key (\<lambda>(_, e). ag_last_observed_sequence e) (agg_entries a) of
                   None \<Rightarrow> (a, None)
                 | Some (least_recent_key, _) \<Rightarrow>
                     insert_entry key (new_entry ev key same lg sequence)
                       (a\<lparr>agg_entries := hm_remove least_recent_key (agg_entries a)\<rparr>))
           else insert_entry key (new_entry ev key same lg sequence) a))"

definition observe :: "denial_aggregator \<Rightarrow> event \<Rightarrow> denial_aggregator" where
  "observe a ev = fst (observe_entry a ev)"

definition agg_get :: "denial_aggregator \<Rightarrow> denial_key \<Rightarrow> aggregated_denial option" where
  "agg_get a key = hm_get (agg_entries a) key"

definition agg_len :: "denial_aggregator \<Rightarrow> nat" where
  "agg_len a = hm_len (agg_entries a)"

definition agg_is_empty :: "denial_aggregator \<Rightarrow> bool" where
  "agg_is_empty a = (agg_entries a = [])"

end
