(* ===== verification/Aggregate_LRU.thy ===== *)
theory Aggregate_LRU
  imports Aggregate
begin

text \<open>
  The aggregator implements a least-recently-observed list. \<open>lru_observe\<close> is the specification:
  a list of entries in order of their last observation, without sequence numbers. \<open>recency\<close> reads
  this list off an aggregator by sorting its entries, and observing an event refines one step of the
  specification, whatever the iteration order of the hash map and also when the sequence numbers
  are compacted.
\<close>

subsection \<open>The specification\<close>

definition erase :: "aggregated_denial \<Rightarrow> aggregated_denial" where
  "erase e = e\<lparr>ag_last_observed_sequence := 0\<rparr>"

definition lru_observe ::
  "nat \<Rightarrow> aggregated_denial list \<Rightarrow> event \<Rightarrow> aggregated_denial list" where
  "lru_observe cap xs ev =
     (case denial_facts ev of
        None \<Rightarrow> xs
      | Some (k, same, lg) \<Rightarrow>
          (case find (\<lambda>e. ag_key e = k) xs of
             Some e \<Rightarrow> filter (\<lambda>e. ag_key e \<noteq> k) xs @ [refresh_entry ev same lg 0 e]
           | None \<Rightarrow> (if cap \<le> length xs then tl xs else xs) @ [new_entry ev k same lg 0]))"

subsection \<open>Representation\<close>

definition increasing :: "aggregated_denial list \<Rightarrow> bool" where
  "increasing xs \<longleftrightarrow> sorted_wrt (<) (map ag_last_observed_sequence xs)"

definition entry_inv :: "denial_key \<Rightarrow> aggregated_denial \<Rightarrow> bool" where
  "entry_inv k e \<longleftrightarrow>
     ag_key e = k \<and> 0 < ag_occurrence_count e \<and>
     denial_facts (ag_latest_event e) = Some (k, ag_same_exec e, ag_logged e) \<and>
     ag_latest_timestamp e = timestamp (ag_latest_event e)"

text \<open>\<open>by_recency a xs\<close>: the entries of the aggregator, oldest observation first, are \<open>xs\<close>.\<close>

definition by_recency :: "denial_aggregator \<Rightarrow> aggregated_denial list \<Rightarrow> bool" where
  "by_recency a xs \<longleftrightarrow> set xs = ran (hm_get (agg_entries a)) \<and> increasing xs"

definition agg_inv :: "denial_aggregator \<Rightarrow> bool" where
  "agg_inv a \<longleftrightarrow>
     hm_wf (agg_entries a) \<and> 0 < agg_capacity a \<and> agg_capacity a \<le> usize_max \<and>
     hm_len (agg_entries a) \<le> agg_capacity a \<and>
     (\<forall>k e. hm_get (agg_entries a) k = Some e \<longrightarrow>
        entry_inv k e \<and> ag_last_observed_sequence e \<le> agg_ingestion_sequence a) \<and>
     distinct (map ag_last_observed_sequence (hm_values (agg_entries a)))"

definition recency :: "denial_aggregator \<Rightarrow> aggregated_denial list" where
  "recency a = sort_key ag_last_observed_sequence (hm_values (agg_entries a))"

definition recency_view :: "denial_aggregator \<Rightarrow> aggregated_denial list" where
  "recency_view a = map erase (recency a)"

lemma increasing_iff:
  "increasing xs \<longleftrightarrow> sorted (map ag_last_observed_sequence xs) \<and>
     distinct (map ag_last_observed_sequence xs)"
  by (simp add: increasing_def strict_sorted_iff)

lemma by_recency_unique:
  assumes "by_recency a xs" "by_recency a ys"
  shows "xs = ys"
proof -
  have "inj_on ag_last_observed_sequence (set xs \<union> set ys)"
    using assms by (auto simp: by_recency_def increasing_iff distinct_map)
  then show ?thesis
    using assms map_sorted_distinct_set_unique [of ag_last_observed_sequence xs ys]
    by (auto simp: by_recency_def increasing_iff)
qed

lemma by_recency_recency: "agg_inv a \<Longrightarrow> by_recency a (recency a)"
  by (auto simp: by_recency_def recency_def increasing_iff agg_inv_def hm.set_vals
      distinct_map inj_on_def)

lemma recency_eqI: "agg_inv a \<Longrightarrow> by_recency a xs \<Longrightarrow> recency a = xs"
  using by_recency_unique by_recency_recency by blast

lemma by_recency_distinct: "by_recency a xs \<Longrightarrow> distinct xs"
  by (auto simp: by_recency_def increasing_iff distinct_map)

text \<open>The invariant, read off a recency list.\<close>

lemma agg_invI:
  assumes wf: "hm_wf (agg_entries a)"
    and cap: "0 < agg_capacity a" "agg_capacity a \<le> usize_max" "length xs \<le> agg_capacity a"
    and xs: "by_recency a xs"
    and entries: "\<And>k e. hm_get (agg_entries a) k = Some e \<Longrightarrow>
       entry_inv k e \<and> ag_last_observed_sequence e \<le> agg_ingestion_sequence a"
  shows "agg_inv a"
proof -
  have set_vals: "set (hm_values (agg_entries a)) = set xs"
    using xs wf by (simp add: by_recency_def hm.set_vals)
  have keys: "ag_key e = k" if "hm_get (agg_entries a) k = Some e" for k e
    using entries [OF that] by (simp add: entry_inv_def)
  have inj: "inj_on (\<lambda>k. the (hm_get (agg_entries a) k)) (dom (hm_get (agg_entries a)))"
    by (rule inj_onI) (metis domD keys option.sel)
  have "ran (hm_get (agg_entries a))
      = (\<lambda>k. the (hm_get (agg_entries a) k)) ` dom (hm_get (agg_entries a))"
    by (force simp: ran_def dom_def)
  then have "card (set (hm_values (agg_entries a))) = length (hm_values (agg_entries a))"
    using wf card_image [OF inj] by (simp add: hm.set_vals hm.len_card flip: hm.len_vals)
  then have dist: "distinct (hm_values (agg_entries a))"
    by (rule card_distinct)
  have "mset (hm_values (agg_entries a)) = mset xs"
    using dist by_recency_distinct [OF xs] set_vals by (simp add: set_eq_iff_mset_eq_distinct)
  then have "mset (map ag_last_observed_sequence (hm_values (agg_entries a)))
      = mset (map ag_last_observed_sequence xs)"
    by simp
  then have "distinct (map ag_last_observed_sequence (hm_values (agg_entries a)))"
    using xs by (metis by_recency_def increasing_iff mset_eq_imp_distinct_iff)
  moreover have "hm_len (agg_entries a) = length xs"
    using \<open>mset (hm_values (agg_entries a)) = mset xs\<close> by (metis hm.len_vals size_mset)
  ultimately show ?thesis
    using wf cap entries by (simp add: agg_inv_def)
qed

lemma length_recency: "length (recency a) = hm_len (agg_entries a)"
  by (simp add: recency_def hm.len_vals)

lemma recency_get:
  assumes "agg_inv a"
  shows "hm_get (agg_entries a) k = find (\<lambda>e. ag_key e = k) (recency a)"
proof (cases "hm_get (agg_entries a) k")
  case None
  then have "\<forall>e\<in>set (recency a). ag_key e \<noteq> k"
    using assms by_recency_recency [OF assms]
    by (fastforce simp: by_recency_def agg_inv_def entry_inv_def ran_def)
  then show ?thesis
    using None by (simp add: find_None_iff2)
next
  case (Some e)
  have mem: "e' \<in> set (recency a) \<longleftrightarrow> hm_get (agg_entries a) (ag_key e') = Some e'" for e'
    using assms by_recency_recency [OF assms]
    by (fastforce simp: by_recency_def agg_inv_def entry_inv_def ran_def)
  have "ag_key e = k"
    using assms Some by (simp add: agg_inv_def entry_inv_def)
  then have "find (\<lambda>e. ag_key e = k) (recency a) \<noteq> None"
    using mem [of e] Some by (auto simp: find_None_iff)
  then obtain e' where e': "find (\<lambda>e. ag_key e = k) (recency a) = Some e'"
    by blast
  then have "e' \<in> set (recency a)" "ag_key e' = k"
    by (auto simp: find_Some_iff)
  then show ?thesis
    using mem Some e' by simp
qed

subsection \<open>Compaction of the sequence numbers\<close>

fun restamp :: "u128 \<Rightarrow> aggregated_denial list \<Rightarrow> aggregated_denial list" where
  "restamp s [] = []"
| "restamp s (e # es) =
     e\<lparr>ag_last_observed_sequence := saturating_add s 1\<rparr> # restamp (saturating_add s 1) es"

lemma length_restamp [simp]: "length (restamp s xs) = length xs"
  by (induction xs arbitrary: s) auto

lemma map_erase_restamp: "map erase (restamp s xs) = map erase xs"
  by (induction xs arbitrary: s) (auto simp: erase_def)

lemma map_key_restamp: "map ag_key (restamp s xs) = map ag_key xs"
  by (induction xs arbitrary: s) auto

lemma entry_inv_restamped [simp]:
  "entry_inv k (e\<lparr>ag_last_observed_sequence := s\<rparr>) = entry_inv k e"
  by (simp add: entry_inv_def)

lemma restamp_inv:
  "\<forall>e\<in>set xs. entry_inv (ag_key e) e \<Longrightarrow> \<forall>e\<in>set (restamp s xs). entry_inv (ag_key e) e"
  by (induction xs arbitrary: s) auto

lemma renumber_get:
  assumes "distinct (map ag_key xs)" "\<forall>e\<in>set xs. hm_get m (ag_key e) = Some e"
  shows "hm_get (fst (renumber (map ag_key xs) s m)) k =
     (case find (\<lambda>e. ag_key e = k) (restamp s xs) of Some e \<Rightarrow> Some e | None \<Rightarrow> hm_get m k)"
  using assms
proof (induction xs arbitrary: s m)
  case (Cons x xs)
  let ?s = "saturating_add s 1"
  let ?m = "hm_modify (ag_key x) (\<lambda>e. e\<lparr>ag_last_observed_sequence := ?s\<rparr>) m"
  have "hm_get ?m (ag_key e) = Some e" if "e \<in> set xs" for e
  proof -
    have "ag_key e \<noteq> ag_key x"
      using that Cons.prems(1) by (metis distinct.simps(2) image_eqI list.simps(9) set_map)
    with that Cons.prems(2) show ?thesis
      by (simp add: hm_simps)
  qed
  then have IH: "hm_get (fst (renumber (map ag_key xs) ?s ?m)) k =
      (case find (\<lambda>e. ag_key e = k) (restamp ?s xs) of Some e \<Rightarrow> Some e | None \<Rightarrow> hm_get ?m k)"
    using Cons.IH [of ?m ?s] Cons.prems by simp
  have "ag_key x \<notin> set (map ag_key (restamp ?s xs))"
    using Cons.prems(1) by (simp only: map_key_restamp) simp
  then have "find (\<lambda>e. ag_key e = ag_key x) (restamp ?s xs) = None"
    unfolding find_None_iff by (metis image_eqI set_map)
  with IH Cons.prems(2) show ?case
    by (cases "k = ag_key x") (simp_all add: Let_def hm_simps split: option.split)
qed simp

lemma renumber_wf: "hm_wf m \<Longrightarrow> hm_wf (fst (renumber ks s m))"
  by (induction ks arbitrary: s m) (auto simp: Let_def)

lemma saturating_add_1:
  "unat s < 2 ^ 128 - 1 \<Longrightarrow> unat (saturating_add s 1 :: u128) = unat s + 1"
  by (simp add: unat_saturating_add)

lemma renumber_sequence:
  "unat s + length ks < 2 ^ 128 \<Longrightarrow> unat (snd (renumber ks s m)) = unat s + length ks"
  by (induction ks arbitrary: s m) (simp_all add: Let_def saturating_add_1)

lemma restamp_sequences:
  "unat s + length xs < 2 ^ 128 \<Longrightarrow>
     map unat (map ag_last_observed_sequence (restamp s xs)) =
       [Suc (unat s)..<Suc (unat s + length xs)]"
proof (induction xs arbitrary: s)
  case (Cons x xs)
  then show ?case
    using Cons.IH [of "saturating_add s 1"]
      upt_conv_Cons [of "Suc (unat s)" "Suc (unat s + length (x # xs))"]
    by (simp add: saturating_add_1 del: upt_Suc)
qed simp

lemma increasing_unat:
  "increasing xs \<longleftrightarrow> sorted_wrt (<) (map unat (map ag_last_observed_sequence xs))"
  by (simp add: increasing_def sorted_wrt_map word_less_nat_alt)

lemma increasing_restamp: "unat s + length xs < 2 ^ 128 \<Longrightarrow> increasing (restamp s xs)"
  unfolding increasing_unat restamp_sequences by (rule sorted_wrt_upt)

lemma increasing_keys:
  "agg_inv a \<Longrightarrow> distinct (map ag_key (recency a))"
proof -
  assume inv: "agg_inv a"
  have "inj_on ag_key (set (recency a))"
  proof (rule inj_onI)
    fix x y assume "x \<in> set (recency a)" "y \<in> set (recency a)" "ag_key x = ag_key y"
    then show "x = y"
      using by_recency_recency [OF inv] inv
      by (auto simp: by_recency_def ran_def agg_inv_def entry_inv_def)
  qed
  then show ?thesis
    using by_recency_distinct [OF by_recency_recency [OF inv]] by (simp add: distinct_map)
qed

lemma recency_mem:
  "agg_inv a \<Longrightarrow> e \<in> set (recency a) \<longleftrightarrow> hm_get (agg_entries a) (ag_key e) = Some e"
  using by_recency_recency [of a] by (fastforce simp: by_recency_def ran_def agg_inv_def entry_inv_def)

lemma recency_inv: "agg_inv a \<Longrightarrow> e \<in> set (recency a) \<Longrightarrow> entry_inv (ag_key e) e"
  by (simp add: recency_mem agg_inv_def)

lemma map_insort_key:
  "map f (insort_key (\<lambda>x. g (f x)) a xs) = insort_key g (f a) (map f xs)"
  by (induction xs) auto

lemma map_sort_key: "map f (sort_key (\<lambda>x. g (f x)) xs) = sort_key g (map f xs)"
  by (induction xs) (simp_all add: map_insort_key)

lemma recency_keys:
  assumes "agg_inv a"
  shows "map fst (sort_key (\<lambda>(_, e). ag_last_observed_sequence e) (agg_entries a)) = map ag_key (recency a)"
proof -
  have keys: "ag_key (snd x) = fst x" if "x \<in> set (agg_entries a)" for x
    using that assms by (cases x) (auto simp: agg_inv_def entry_inv_def hm_get_eq_Some_iff)
  have "recency a = map snd (sort_key (\<lambda>x. ag_last_observed_sequence (snd x)) (agg_entries a))"
    unfolding recency_def hm_values_def by (rule map_sort_key [symmetric])
  then have "map ag_key (recency a)
      = map (\<lambda>x. ag_key (snd x)) (sort_key (\<lambda>x. ag_last_observed_sequence (snd x)) (agg_entries a))"
    by simp
  also have "\<dots> = map fst (sort_key (\<lambda>x. ag_last_observed_sequence (snd x)) (agg_entries a))"
    by (rule map_cong) (simp_all add: keys)
  finally show ?thesis
    by (simp add: case_prod_unfold)
qed

text \<open>An aggregator whose lookups agree with a list of entries in recency order.\<close>

lemma find_key_eq_Some:
  "distinct (map ag_key xs) \<Longrightarrow>
     find (\<lambda>e. ag_key e = k) xs = Some e \<longleftrightarrow> e \<in> set xs \<and> ag_key e = k"
  by (induction xs) (auto simp: image_iff)

lemma agg_of_list:
  assumes wf: "hm_wf (agg_entries a)"
    and cap: "0 < agg_capacity a" "agg_capacity a \<le> usize_max" "length xs \<le> agg_capacity a"
    and get: "\<And>k. hm_get (agg_entries a) k = find (\<lambda>e. ag_key e = k) xs"
    and xs: "distinct (map ag_key xs)" "increasing xs"
    and entries: "\<And>e. e \<in> set xs \<Longrightarrow>
       entry_inv (ag_key e) e \<and> ag_last_observed_sequence e \<le> agg_ingestion_sequence a"
  shows "agg_inv a" "recency a = xs"
proof -
  have "by_recency a xs"
    using xs by (auto simp: by_recency_def ran_def get find_key_eq_Some)
  then show "agg_inv a"
    using wf cap entries xs(1) by (intro agg_invI [of a xs]) (auto simp: get find_key_eq_Some)
  then show "recency a = xs"
    using \<open>by_recency a xs\<close> by (rule recency_eqI)
qed

lemma usize_lt_u128: "n \<le> usize_max \<Longrightarrow> n < 2 ^ 128 - 1" for n :: nat
  by simp

lemma restamp_le:
  assumes "unat s + length xs < 2 ^ 128" "e \<in> set (restamp s xs)"
  shows "unat (ag_last_observed_sequence e) \<le> unat s + length xs"
proof -
  have "unat (ag_last_observed_sequence e) \<in> set (map unat (map ag_last_observed_sequence (restamp s xs)))"
    using assms(2) by simp
  then show ?thesis
    unfolding restamp_sequences [OF assms(1)] by auto
qed

lemma renumber_recency_get:
  assumes inv: "agg_inv a"
  shows "hm_get (fst (renumber (map ag_key (recency a)) 0 (agg_entries a))) k =
     find (\<lambda>e. ag_key e = k) (restamp 0 (recency a))"
proof -
  have "hm_get (agg_entries a) k = None" if "find (\<lambda>e. ag_key e = k) (restamp 0 (recency a)) = None"
  proof -
    have "k \<notin> set (map ag_key (restamp 0 (recency a)))"
      using that unfolding find_None_iff by auto
    then show ?thesis
      unfolding map_key_restamp recency_get [OF inv] find_None_iff by (metis image_eqI set_map)
  qed
  then show ?thesis
    using renumber_get [OF increasing_keys [OF inv], of "agg_entries a" 0 k] recency_mem [OF inv]
    by (auto split: option.splits)
qed

lemma compacted:
  assumes inv: "agg_inv a" and full: "agg_ingestion_sequence a = -1"
  shows "agg_inv (compact_sequences a)" "recency (compact_sequences a) = restamp 0 (recency a)"
    and "agg_capacity (compact_sequences a) = agg_capacity a"
    and "agg_ingestion_sequence (compact_sequences a) \<noteq> -1"
proof -
  let ?xs = "recency a" and ?a = "compact_sequences a"
  let ?r = "renumber (map ag_key ?xs) 0 (agg_entries a)"
  have a': "?a = a\<lparr>agg_entries := fst ?r, agg_ingestion_sequence := snd ?r\<rparr>"
    unfolding compact_sequences_def
    using full recency_keys [OF inv] by (simp add: Let_def case_prod_beta)
  have len: "length ?xs \<le> agg_capacity a" "agg_capacity a \<le> usize_max" "0 < agg_capacity a"
    using inv by (simp_all add: length_recency agg_inv_def)
  then have small: "unat (0 :: u128) + length ?xs < 2 ^ 128"
    using usize_lt_u128 [of "length ?xs"] by simp
  have seq: "unat (agg_ingestion_sequence ?a) = length ?xs"
    using renumber_sequence [of 0 "map ag_key ?xs" "agg_entries a"] small by (simp add: a')
  have entries: "entry_inv (ag_key e) e \<and> ag_last_observed_sequence e \<le> agg_ingestion_sequence ?a"
    if "e \<in> set (restamp 0 ?xs)" for e
    using that restamp_inv [of ?xs 0] recency_inv [OF inv] restamp_le [OF small that] seq
    by (simp add: word_le_nat_alt)
  have wf: "hm_wf (agg_entries ?a)"
    using inv by (simp add: a' renumber_wf agg_inv_def)
  have keys: "distinct (map ag_key (restamp 0 ?xs))"
    unfolding map_key_restamp by (rule increasing_keys [OF inv])
  have get: "hm_get (agg_entries ?a) k = find (\<lambda>e. ag_key e = k) (restamp 0 ?xs)" for k
    using renumber_recency_get [OF inv] by (simp add: a')
  show "agg_capacity ?a = agg_capacity a"
    by (simp add: a')
  then show "agg_inv ?a" "recency ?a = restamp 0 ?xs"
    using agg_of_list [OF wf _ _ _ get keys increasing_restamp [OF small] entries] len by simp_all
  have "unat (agg_ingestion_sequence ?a) \<noteq> unat (-1 :: u128)"
    using seq len usize_lt_u128 [of "length ?xs"] by (simp add: unat_max_word)
  then show "agg_ingestion_sequence ?a \<noteq> -1"
    by auto
qed

lemma compact_sequences_props:
  assumes "agg_inv a"
  shows "agg_inv (compact_sequences a)" "recency_view (compact_sequences a) = recency_view a"
    and "agg_capacity (compact_sequences a) = agg_capacity a"
    and "agg_ingestion_sequence (compact_sequences a) \<noteq> -1"
proof -
  have "agg_ingestion_sequence a \<noteq> -1 \<Longrightarrow> compact_sequences a = a"
    by (simp add: compact_sequences_def)
  then show "agg_inv (compact_sequences a)" "recency_view (compact_sequences a) = recency_view a"
    "agg_capacity (compact_sequences a) = agg_capacity a"
    "agg_ingestion_sequence (compact_sequences a) \<noteq> -1"
    using compacted [OF assms] assms unfolding recency_view_def by (metis map_erase_restamp)+
qed

subsection \<open>Observing refines the specification\<close>

text \<open>Stamping the current observation: every entry was stamped before it.\<close>

lemma next_ingestion_sequence_props:
  assumes inv: "agg_inv a" and nxt: "next_ingestion_sequence a = (a', s)"
  shows "agg_inv a'" "recency_view a' = recency_view a" "agg_capacity a' = agg_capacity a"
    and "agg_ingestion_sequence a' = s"
    and "\<forall>e\<in>set (recency a'). ag_last_observed_sequence e < s"
proof -
  let ?c = "compact_sequences a"
  note c = compact_sequences_props [OF inv]
  have a': "a' = ?c\<lparr>agg_ingestion_sequence := s\<rparr>" and s: "s = saturating_add (agg_ingestion_sequence ?c) 1"
    using nxt by (auto simp: next_ingestion_sequence_def Let_def)
  have "unat (agg_ingestion_sequence ?c) \<noteq> unat (-1 :: u128)"
    using c(4) by (simp only: word_unat_eq_iff) simp
  moreover have "unat (agg_ingestion_sequence ?c) < 2 ^ LENGTH(128)"
    by (rule unsigned_less)
  ultimately have "unat (agg_ingestion_sequence ?c) < 2 ^ 128 - 1"
    by (simp add: unat_max_word)
  then have lt: "agg_ingestion_sequence ?c < s"
    by (simp add: s word_less_nat_alt saturating_add_1)
  then show "agg_inv a'"
    using c(1) by (fastforce simp: a' agg_inv_def)
  have r: "recency a' = recency ?c"
    by (simp add: a' recency_def)
  then show "recency_view a' = recency_view a" "agg_capacity a' = agg_capacity a"
      "agg_ingestion_sequence a' = s"
    using c(2,3) by (simp_all add: recency_view_def a')
  show "\<forall>e\<in>set (recency a'). ag_last_observed_sequence e < s"
    using c(1) lt unfolding r by (fastforce simp: recency_mem agg_inv_def)
qed

lemma increasing_snoc:
  "increasing xs \<Longrightarrow> \<forall>x\<in>set xs. ag_last_observed_sequence x < ag_last_observed_sequence e \<Longrightarrow>
     increasing (xs @ [e])"
  by (auto simp: increasing_def sorted_wrt_append)

lemma increasing_filter: "increasing xs \<Longrightarrow> increasing (filter P xs)"
  by (simp add: increasing_def sorted_wrt_map sorted_wrt_filter)

lemma find_filter_other:
  "k' \<noteq> k \<Longrightarrow> find (\<lambda>e. ag_key e = k') (filter (\<lambda>e. ag_key e \<noteq> k) xs) = find (\<lambda>e. ag_key e = k') xs"
  by (induction xs) auto

lemma find_snoc:
  "find P (xs @ [x]) = (case find P xs of Some y \<Rightarrow> Some y | None \<Rightarrow> if P x then Some x else None)"
  by (induction xs) auto

lemma find_filter_same: "find (\<lambda>e. ag_key e = k) (filter (\<lambda>e. ag_key e \<noteq> k) xs) = None"
  by (simp add: find_None_iff)

text \<open>Putting an entry at the most recent end, after dropping its old version or the oldest entry.\<close>

lemma agg_snoc:
  assumes inv: "agg_inv a" and wf: "hm_wf (agg_entries a')"
    and cap: "agg_capacity a' = agg_capacity a" and seq: "agg_ingestion_sequence a' = s"
    and ys: "increasing ys" "distinct (map ag_key ys)" "set ys \<subseteq> set (recency a)"
    and older: "\<forall>x\<in>set (recency a). ag_last_observed_sequence x < s"
    and e: "entry_inv (ag_key e) e" "ag_last_observed_sequence e = s" "ag_key e \<notin> ag_key ` set ys"
    and room: "length ys < agg_capacity a"
    and get: "\<And>k. hm_get (agg_entries a') k = find (\<lambda>e. ag_key e = k) (ys @ [e])"
  shows "agg_inv a'" "recency a' = ys @ [e]"
proof -
  have caps: "0 < agg_capacity a'" "agg_capacity a' \<le> usize_max" "length (ys @ [e]) \<le> agg_capacity a'"
    using inv room by (simp_all add: cap agg_inv_def)
  have "distinct (map ag_key (ys @ [e]))" "increasing (ys @ [e])"
    using ys older e by (auto intro!: increasing_snoc)
  moreover have "entry_inv (ag_key x) x \<and> ag_last_observed_sequence x \<le> agg_ingestion_sequence a'"
    if "x \<in> set (ys @ [e])" for x
    using that ys(3) older e recency_inv [OF inv] by (auto simp: seq intro: less_imp_le)
  ultimately show "agg_inv a'" "recency a' = ys @ [e]"
    using agg_of_list [OF wf caps get] by blast+
qed

lemma find_map_erase:
  "find (\<lambda>e. ag_key e = k) (map erase xs) = map_option erase (find (\<lambda>e. ag_key e = k) xs)"
  by (induction xs) (auto simp: erase_def)

lemma filter_map_erase:
  "filter (\<lambda>e. ag_key e \<noteq> k) (map erase xs) = map erase (filter (\<lambda>e. ag_key e \<noteq> k) xs)"
  by (induction xs) (auto simp: erase_def)

lemma entry_inv_refresh:
  "entry_inv k e \<Longrightarrow> denial_facts ev = Some (k, same, lg) \<Longrightarrow>
     entry_inv k (refresh_entry ev same lg s e)"
  by (auto simp: entry_inv_def refresh_entry_def intro: less_le_trans saturating_add_ge)

lemma entry_inv_new: "denial_facts ev = Some (k, same, lg) \<Longrightarrow> entry_inv k (new_entry ev k same lg s)"
  by (simp add: entry_inv_def new_entry_def)

lemma ag_key_simps [simp]:
  "ag_key (refresh_entry ev same lg s e) = ag_key e"
  "ag_key (new_entry ev k same lg s) = k"
  "ag_last_observed_sequence (refresh_entry ev same lg s e) = s"
  "ag_last_observed_sequence (new_entry ev k same lg s) = s"
  "erase (refresh_entry ev same lg s e) = refresh_entry ev same lg 0 (erase e)"
  "erase (new_entry ev k same lg s) = new_entry ev k same lg 0"
  by (simp_all add: refresh_entry_def new_entry_def erase_def)

text \<open>The entry the eviction scan picks is the least recent one.\<close>

lemma min_by_key_foldl:
  "let y = foldl (\<lambda>best y. if f y < f best then y else best) x xs
   in y \<in> set (x # xs) \<and> (\<forall>z\<in>set (x # xs). f y \<le> f z)"
  for f :: "'a \<Rightarrow> 'b::linorder"
proof (induction xs arbitrary: x)
  case (Cons a xs)
  show ?case
    using Cons.IH [of "if f a < f x then a else x"]
    by (auto simp: Let_def split: if_splits)
qed simp

lemma min_by_key_Some:
  "min_by_key f xs = Some y \<Longrightarrow> y \<in> set xs \<and> (\<forall>z\<in>set xs. f y \<le> f z)"
  using min_by_key_foldl [of f] by (cases xs) (auto simp: Let_def)

lemma min_by_key_None: "min_by_key f xs = None \<longleftrightarrow> xs = []"
  by (cases xs) simp_all

lemma evicted_is_oldest:
  assumes inv: "agg_inv a" and xs: "recency a = x # xs"
  shows "min_by_key (\<lambda>(_, e). ag_last_observed_sequence e) (agg_entries a) = Some (ag_key x, x)"
proof -
  have mem: "(k, e) \<in> set (agg_entries a) \<longleftrightarrow> e \<in> set (recency a) \<and> ag_key e = k" for k e
    using inv recency_mem [OF inv] by (auto simp: agg_inv_def entry_inv_def hm_get_eq_Some_iff)
  obtain k e where ke: "min_by_key (\<lambda>(_, e). ag_last_observed_sequence e) (agg_entries a) = Some (k, e)"
    using min_by_key_None [of _ "agg_entries a"] mem [of "ag_key x" x] xs by fastforce
  have x: "(ag_key x, x) \<in> set (agg_entries a)"
    using mem xs by simp
  have e: "e \<in> set (recency a)" "ag_key e = k"
      "ag_last_observed_sequence e \<le> ag_last_observed_sequence x"
    using min_by_key_Some [OF ke] mem x by (auto dest: bspec [OF _ x])
  have "e = x"
    using e by_recency_recency [OF inv]
    by (auto simp: xs by_recency_def increasing_def not_le[symmetric] dest: bspec)
  with ke e show ?thesis
    by simp
qed

text \<open>
  One observation, on the recency list. \<open>ys\<close> is what remains of the older entries, \<open>e\<close> the entry
  of the observed key.
\<close>

lemma observe_hit:
  assumes inv: "agg_inv a" and older: "\<forall>x\<in>set (recency a). ag_last_observed_sequence x < s"
    and seq: "agg_ingestion_sequence a = s"
    and facts: "denial_facts ev = Some (k, same, lg)" and e: "hm_get (agg_entries a) k = Some e"
  defines "a' \<equiv> a\<lparr>agg_entries := hm_modify k (refresh_entry ev same lg s) (agg_entries a)\<rparr>"
  shows "agg_inv a'"
    and "recency a' = filter (\<lambda>e. ag_key e \<noteq> k) (recency a) @ [refresh_entry ev same lg s e]"
proof -
  let ?ys = "filter (\<lambda>e. ag_key e \<noteq> k) (recency a)" and ?e = "refresh_entry ev same lg s e"
  have ek: "entry_inv k e" "ag_key e = k" "e \<in> set (recency a)"
    using inv e by (auto simp: agg_inv_def entry_inv_def recency_mem [OF inv])
  have "hm_get (agg_entries a') k' = find (\<lambda>x. ag_key x = k') (?ys @ [?e])" for k'
    using e ek(2) recency_get [OF inv, of k', symmetric]
    by (cases "k' = k") (simp_all add: a'_def hm_simps find_snoc find_filter_same find_filter_other
        split: option.split)
  moreover have "length ?ys < agg_capacity a"
  proof -
    have "length ?ys < length (recency a)"
      using ek(2,3) by (intro length_filter_less) auto
    then show ?thesis
      using inv by (simp add: length_recency agg_inv_def)
  qed
  moreover have "increasing ?ys" "distinct (map ag_key ?ys)"
    using by_recency_recency [OF inv] increasing_keys [OF inv]
    by (auto simp: by_recency_def distinct_map_filter intro: increasing_filter)
  moreover have "hm_wf (agg_entries a')" "ag_key ?e \<notin> ag_key ` set ?ys"
    using inv ek(2) by (auto simp: a'_def agg_inv_def)
  ultimately show "agg_inv a'" "recency a' = ?ys @ [?e]"
    using agg_snoc [of a a' s ?ys ?e] inv older ek entry_inv_refresh [OF ek(1) facts] seq
    by (auto simp: a'_def)
qed

lemma observe_miss:
  assumes inv: "agg_inv a" and older: "\<forall>x\<in>set (recency a). ag_last_observed_sequence x < s"
    and seq: "agg_ingestion_sequence a = s"
    and facts: "denial_facts ev = Some (k, same, lg)" and new: "hm_get (agg_entries a) k = None"
    and m: "hm_wf m" "\<And>k. hm_get m k = find (\<lambda>e. ag_key e = k) ys"
    and ys: "\<exists>zs. recency a = zs @ ys" "length ys < agg_capacity a"
  defines "r \<equiv> insert_entry k (new_entry ev k same lg s) (a\<lparr>agg_entries := m\<rparr>)"
  shows "agg_inv (fst r)" "recency (fst r) = ys @ [new_entry ev k same lg s]"
    and "snd r = Some (new_entry ev k same lg s)"
proof -
  let ?e = "new_entry ev k same lg s"
  obtain zs where zs: "recency a = zs @ ys"
    using ys(1) by blast
  have "ag_key x \<noteq> k" if "x \<in> set ys" for x
    using that recency_mem [OF inv, of x] new zs by auto
  then have fresh: "find (\<lambda>e. ag_key e = k) ys = None" "k \<notin> ag_key ` set ys"
    by (auto simp: find_None_iff)
  have "hm_get (agg_entries (fst r)) k' = find (\<lambda>x. ag_key x = k') (ys @ [?e])" for k'
    using fresh by (cases "k' = k")
      (simp_all add: r_def insert_entry_def Let_def hm_simps m(2) find_snoc split: option.split)
  moreover have "increasing ys" "distinct (map ag_key ys)"
    using by_recency_recency [OF inv] increasing_keys [OF inv] zs
    by (auto simp: by_recency_def increasing_def sorted_wrt_append)
  moreover have "hm_wf (agg_entries (fst r))"
    using m(1) by (auto simp: r_def insert_entry_def Let_def)
  ultimately show "agg_inv (fst r)" "recency (fst r) = ys @ [?e]"
    using agg_snoc [of a "fst r" s ys ?e] inv older zs ys(2) entry_inv_new [OF facts] seq fresh(2)
    by (auto simp: r_def insert_entry_def Let_def)
  show "snd r = Some ?e"
    using fresh(1) by (simp add: r_def insert_entry_def Let_def hm_simps m(2))
qed

lemma find_tl_recency:
  assumes "agg_inv a" "recency a = x # xs"
  shows "hm_get (hm_remove (ag_key x) (agg_entries a)) k = find (\<lambda>e. ag_key e = k) xs"
proof -
  have "ag_key x \<notin> ag_key ` set xs"
    using increasing_keys [OF assms(1)] assms(2) by simp
  then have "find (\<lambda>e. ag_key e = ag_key x) xs = None"
    unfolding find_None_iff by (metis image_eqI)
  then show ?thesis
    using recency_get [OF assms(1), of k] assms(2) by (auto simp: hm_simps)
qed

lemma observe_evicting:
  assumes inv: "agg_inv a" and older: "\<forall>x\<in>set (recency a). ag_last_observed_sequence x < s"
    and seq: "agg_ingestion_sequence a = s"
    and facts: "denial_facts ev = Some (k, same, lg)" and new: "hm_get (agg_entries a) k = None"
    and full: "agg_capacity a \<le> hm_len (agg_entries a)"
  shows "\<exists>least x. min_by_key (\<lambda>(_, e). ag_last_observed_sequence e) (agg_entries a) = Some (least, x) \<and>
    (let r = insert_entry k (new_entry ev k same lg s)
               (a\<lparr>agg_entries := hm_remove least (agg_entries a)\<rparr>)
     in agg_inv (fst r) \<and> recency (fst r) = tl (recency a) @ [new_entry ev k same lg s] \<and>
        snd r = Some (new_entry ev k same lg s))"
proof -
  have "0 < length (recency a)"
    using inv full by (simp add: length_recency agg_inv_def)
  then obtain x xs where xs: "recency a = x # xs"
    by (cases "recency a") auto
  have m: "hm_wf (hm_remove (ag_key x) (agg_entries a))"
    using inv by (auto simp: agg_inv_def)
  have "length xs < agg_capacity a"
    using inv length_recency [of a] by (simp add: xs agg_inv_def)
  then show ?thesis
    using observe_miss [OF inv older seq facts new m find_tl_recency [OF inv xs]] xs
      evicted_is_oldest [OF inv xs] by simp
qed

lemma observe_step:
  assumes inv: "agg_inv a" and older: "\<forall>x\<in>set (recency a). ag_last_observed_sequence x < s"
    and nxt: "next_ingestion_sequence a0 = (a, s)" and seq: "agg_ingestion_sequence a = s"
    and facts: "denial_facts ev = Some (k, same, lg)"
  defines "r \<equiv> observe_entry a0 ev"
  shows "agg_inv (fst r) \<and>
    recency (fst r) =
      (case find (\<lambda>e. ag_key e = k) (recency a) of
         Some e \<Rightarrow> filter (\<lambda>e. ag_key e \<noteq> k) (recency a) @ [refresh_entry ev same lg s e]
       | None \<Rightarrow> (if agg_capacity a \<le> length (recency a) then tl (recency a) else recency a)
                 @ [new_entry ev k same lg s]) \<and>
    snd r = Some (last (recency (fst r)))"
proof (cases "hm_get (agg_entries a) k")
  case (Some e)
  then show ?thesis
    using observe_hit [OF inv older seq facts Some] recency_get [OF inv, of k]
    by (simp add: r_def observe_entry_def facts nxt hm_contains_key_def hm_simps Let_def)
next
  case None
  show ?thesis
  proof (cases "agg_capacity a \<le> hm_len (agg_entries a)")
    case True
    then show ?thesis
      using observe_evicting [OF inv older seq facts None True] None recency_get [OF inv, of k]
      by (auto simp: r_def observe_entry_def facts nxt hm_contains_key_def Let_def length_recency)
  next
    case False
    have "hm_wf (agg_entries a)" "length (recency a) < agg_capacity a"
      using inv False by (simp_all add: agg_inv_def length_recency)
    then show ?thesis
      using observe_miss [OF inv older seq facts None _ recency_get [OF inv]] False None
        recency_get [OF inv, of k]
      by (simp add: r_def observe_entry_def facts nxt hm_contains_key_def Let_def length_recency)
  qed
qed

lemma observe_entry_refines:
  assumes inv: "agg_inv a0"
  shows "agg_inv (fst (observe_entry a0 ev))"
    and "recency_view (fst (observe_entry a0 ev)) = lru_observe (agg_capacity a0) (recency_view a0) ev"
    and "snd (observe_entry a0 ev) = (case denial_facts ev of None \<Rightarrow> None
           | Some _ \<Rightarrow> Some (last (recency (fst (observe_entry a0 ev)))))"
proof -
  let ?r = "observe_entry a0 ev"
  have "agg_inv (fst ?r) \<and>
      recency_view (fst ?r) = lru_observe (agg_capacity a0) (recency_view a0) ev \<and>
      snd ?r = (case denial_facts ev of None \<Rightarrow> None | Some _ \<Rightarrow> Some (last (recency (fst ?r))))"
  proof (cases "denial_facts ev")
    case None
    then show ?thesis
      using inv by (simp add: observe_entry_def lru_observe_def)
  next
    case (Some f)
    obtain k same lg where facts: "denial_facts ev = Some (k, same, lg)"
      using Some by (cases f) auto
    obtain a s where nxt: "next_ingestion_sequence a0 = (a, s)"
      by fastforce
    note a = next_ingestion_sequence_props [OF inv nxt]
    have view: "recency_view a0 = map erase (recency a)"
      using a(2) by (simp add: recency_view_def)
    show ?thesis
      using observe_step [OF a(1) a(5) nxt a(4) facts] a(3)
      by (simp add: facts view lru_observe_def recency_view_def [of "fst ?r"] find_map_erase
          filter_map_erase map_tl split: option.splits)
  qed
  then show "agg_inv (fst ?r)"
      "recency_view (fst ?r) = lru_observe (agg_capacity a0) (recency_view a0) ev"
      "snd ?r = (case denial_facts ev of None \<Rightarrow> None | Some _ \<Rightarrow> Some (last (recency (fst ?r))))"
    by blast+
qed

lemma observe_capacity [simp]: "agg_capacity (fst (observe_entry a ev)) = agg_capacity a"
  by (auto simp: observe_entry_def next_ingestion_sequence_def compact_sequences_def insert_entry_def
      Let_def case_prod_beta split: option.split)

end
