(* ===== verification/Aggregate_Properties.thy ===== *)
theory Aggregate_Properties
  imports Aggregate_LRU
begin

text \<open>
  What a user of the denial aggregator relies on. The locale \<open>recency_cache\<close> is the contract: a
  consumer of events whose view evolves by \<open>lru_observe\<close>. Its lemmas say which keys a run retains
  and what it counts; the aggregator of \<open>src/aggregate.rs\<close> interprets it.
\<close>

subsection \<open>The keys a recency list retains\<close>

definition lastn :: "nat \<Rightarrow> 'a list \<Rightarrow> 'a list" where
  "lastn n xs = drop (length xs - n) xs"

definition denial_key_of :: "event \<Rightarrow> denial_key option" where
  "denial_key_of ev = map_option fst (denial_facts ev)"

definition denial_keys :: "event list \<Rightarrow> denial_key list" where
  "denial_keys evs = List.map_filter denial_key_of evs"

lemma denial_keys_snoc:
  "denial_keys (evs @ [ev]) =
     denial_keys evs @ (case denial_key_of ev of None \<Rightarrow> [] | Some k \<Rightarrow> [k])"
  by (auto simp: denial_keys_def List.map_filter_def split: option.splits)

lemma remdups_snoc: "remdups (xs @ [x]) = filter (\<lambda>y. y \<noteq> x) (remdups xs) @ [x]"
  by (induction xs) auto

lemma lastn_snoc: "lastn (Suc n) (xs @ [x]) = lastn n xs @ [x]"
  by (simp add: lastn_def)

lemma lastn_append: "length ys \<le> n \<Longrightarrow> lastn n (xs @ ys) = lastn (n - length ys) xs @ ys"
  by (simp add: lastn_def)

lemma filter_ne_id: "x \<notin> set xs \<Longrightarrow> filter (\<lambda>y. y \<noteq> x) xs = xs"
  by (induction xs) auto

lemma length_filter_ne:
  "distinct xs \<Longrightarrow> x \<in> set xs \<Longrightarrow> Suc (length (filter (\<lambda>y. y \<noteq> x) xs)) = length xs"
  by (induction xs) (auto simp: filter_ne_id)

lemma lastn_tl: "length ys = Suc n \<Longrightarrow> lastn n (xs @ ys) = tl ys"
  by (simp add: lastn_def drop_Suc)

lemma lastn_all: "length xs \<le> n \<Longrightarrow> lastn n xs = xs"
  by (simp add: lastn_def)

text \<open>Adding a key to the last \<open>cap\<close> keys of a duplicate-free history.\<close>

lemma lastn_history_split:
  assumes "distinct (zs @ l)" "length l \<le> Suc n" "zs = [] \<or> length l = Suc n"
  shows "lastn (Suc n) (filter (\<lambda>y. y \<noteq> k) (zs @ l) @ [k]) =
     (if k \<in> set l then filter (\<lambda>y. y \<noteq> k) l
      else if Suc n \<le> length l then tl l else l) @ [k]"
proof (cases "k \<in> set l")
  case True
  then have "filter (\<lambda>y. y \<noteq> k) zs = zs" "Suc (length (filter (\<lambda>y. y \<noteq> k) l)) = length l"
    using assms(1) by (auto intro!: filter_ne_id length_filter_ne)
  then have "lastn n (zs @ filter (\<lambda>y. y \<noteq> k) l) = filter (\<lambda>y. y \<noteq> k) l"
    using assms(2,3) by (cases "zs = []") (simp_all add: lastn_all lastn_append, simp add: lastn_def)
  with \<open>filter (\<lambda>y. y \<noteq> k) zs = zs\<close> True show ?thesis
    by (simp flip: append_assoc add: lastn_snoc)
next
  case False
  then have "filter (\<lambda>y. y \<noteq> k) l = l"
    by (rule filter_ne_id)
  with assms(2,3) False show ?thesis
    by (cases "length l = Suc n") (simp_all flip: append_assoc add: lastn_snoc lastn_tl lastn_all)
qed

lemma lastn_history:
  assumes "distinct r" "0 < cap"
  shows "lastn cap (filter (\<lambda>y. y \<noteq> k) r @ [k]) =
     (if k \<in> set (lastn cap r) then filter (\<lambda>y. y \<noteq> k) (lastn cap r)
      else if cap \<le> length (lastn cap r) then tl (lastn cap r) else lastn cap r) @ [k]"
proof -
  obtain n where n: "cap = Suc n"
    using assms(2) by (cases cap) auto
  define zs l where "zs = take (length r - cap) r" and "l = lastn cap r"
  then have r: "zs @ l = r" and len: "length l \<le> Suc n" "zs = [] \<or> length l = Suc n"
    by (auto simp: lastn_def n)
  show ?thesis
    using lastn_history_split [of zs l n k, unfolded r, OF assms(1) len] by (simp add: n l_def)
qed

lemma find_key_SomeD: "find (\<lambda>e. ag_key e = k) xs = Some e \<Longrightarrow> ag_key e = k"
  by (auto simp: find_Some_iff)

lemma find_key_None: "find (\<lambda>e. ag_key e = k) xs = None \<longleftrightarrow> k \<notin> set (map ag_key xs)"
  by (auto simp: find_None_iff)

lemma map_key_filter:
  "map ag_key (filter (\<lambda>e. ag_key e \<noteq> k) xs) = filter (\<lambda>y. y \<noteq> k) (map ag_key xs)"
  by (induction xs) auto

lemma lru_keys:
  "map ag_key (lru_observe cap xs ev) =
     (case denial_key_of ev of
        None \<Rightarrow> map ag_key xs
      | Some k \<Rightarrow> (if k \<in> set (map ag_key xs) then filter (\<lambda>y. y \<noteq> k) (map ag_key xs)
                   else if cap \<le> length xs then tl (map ag_key xs) else map ag_key xs) @ [k])"
proof (cases "denial_facts ev")
  case (Some f)
  then show ?thesis
    using find_key_None [of "fst f" xs]
    by (cases f; cases "find (\<lambda>e. ag_key e = fst f) xs")
      (auto simp: lru_observe_def denial_key_of_def map_key_filter map_tl
        dest: find_key_SomeD simp del: set_map)
qed (simp add: lru_observe_def denial_key_of_def)

lemma lru_keys_run:
  "0 < cap \<Longrightarrow> map ag_key (foldl (lru_observe cap) [] evs) = lastn cap (remdups (denial_keys evs))"
proof (induction evs rule: rev_induct)
  case Nil
  then show ?case
    by (simp add: denial_keys_def List.map_filter_def lastn_def)
next
  case (snoc ev evs)
  let ?xs = "foldl (lru_observe cap) [] evs"
  have IH: "map ag_key ?xs = lastn cap (remdups (denial_keys evs))"
    using snoc by simp
  then have len: "length ?xs = length (lastn cap (remdups (denial_keys evs)))"
    by (metis length_map)
  show ?case
    using lru_keys [of cap ?xs ev] lastn_history [OF distinct_remdups [of "denial_keys evs"] snoc.prems]
    unfolding IH len by (simp add: denial_keys_snoc remdups_snoc split: option.split)
qed

subsection \<open>Facts of an entry while nothing is evicted\<close>

definition observed :: "denial_key \<Rightarrow> event list \<Rightarrow> event list" where
  "observed k evs = filter (\<lambda>ev. denial_key_of ev = Some k) evs"

definition clipped :: "nat \<Rightarrow> u64" where
  "clipped n = of_nat (min n (2 ^ 64 - 1))"

text \<open>What an entry says of the events observed for its key.\<close>

definition summarises :: "event list \<Rightarrow> aggregated_denial \<Rightarrow> bool" where
  "summarises evs e \<longleftrightarrow> evs \<noteq> [] \<and>
     ag_occurrence_count e = clipped (length evs) \<and>
     ag_first_timestamp e = timestamp (hd evs) \<and>
     ag_latest_timestamp e = timestamp (last evs) \<and>
     ag_latest_event e = last evs"

lemma unat_clipped: "unat (clipped n) = min n (2 ^ 64 - 1)"
  by (simp add: clipped_def unat_of_nat min_def)

lemma clipped_Suc: "saturating_add (clipped n) 1 = clipped (Suc n)"
  by (simp add: word_unat_eq_iff unat_saturating_add unat_clipped)

lemma observed_snoc:
  "observed k (evs @ [ev]) = observed k evs @ (if denial_key_of ev = Some k then [ev] else [])"
  by (simp add: observed_def)

lemma observed_Nil_iff: "observed k evs = [] \<longleftrightarrow> k \<notin> set (denial_keys evs)"
  by (auto simp: observed_def denial_keys_def List.map_filter_def filter_empty_conv image_iff)

lemma summarises_refresh:
  "summarises evs e \<Longrightarrow> summarises (evs @ [ev]) (refresh_entry ev same lg s e)"
  by (simp add: summarises_def refresh_entry_def clipped_Suc)

lemma summarises_new: "summarises [ev] (new_entry ev k same lg s)"
  by (simp add: summarises_def new_entry_def clipped_def)

lemma lru_ignore: "denial_facts ev = None \<Longrightarrow> lru_observe cap xs ev = xs"
  by (simp add: lru_observe_def)

lemma lru_miss:
  "denial_facts ev = Some (k, same, lg) \<Longrightarrow> find (\<lambda>e. ag_key e = k) xs = None \<Longrightarrow> length xs < cap \<Longrightarrow>
     lru_observe cap xs ev = xs @ [new_entry ev k same lg 0]"
  by (simp add: lru_observe_def)

lemma lru_hit:
  "denial_facts ev = Some (k, same, lg) \<Longrightarrow> find (\<lambda>e. ag_key e = k) xs = Some e \<Longrightarrow>
     lru_observe cap xs ev = filter (\<lambda>e. ag_key e \<noteq> k) xs @ [refresh_entry ev same lg 0 e]"
  by (simp add: lru_observe_def)

lemma lru_summaries_run:
  assumes "0 < cap" "length (remdups (denial_keys evs)) \<le> cap"
  shows "\<forall>e\<in>set (foldl (lru_observe cap) [] evs). summarises (observed (ag_key e) evs) e"
  using assms(2)
proof (induction evs rule: rev_induct)
  case (snoc ev evs)
  let ?xs = "foldl (lru_observe cap) [] evs"
  show ?case
  proof (cases "denial_facts ev")
    case None
    then show ?thesis
      using snoc by (simp add: lru_ignore denial_keys_snoc denial_key_of_def observed_snoc)
  next
    case (Some f)
    then obtain k same lg where facts: "denial_facts ev = Some (k, same, lg)"
      by (cases f) auto
    then have key: "denial_key_of ev = Some k"
      by (simp add: denial_key_of_def)
    have len: "length (remdups (denial_keys evs)) \<le> length (remdups (denial_keys (evs @ [ev])))"
      by (simp add: length_remdups_card_conv denial_keys_snoc key card_insert_le)
    then have IH: "\<forall>e\<in>set ?xs. summarises (observed (ag_key e) evs) e"
      using snoc by simp
    have keys: "map ag_key ?xs = remdups (denial_keys evs)"
      using lru_keys_run [OF assms(1), of evs] len snoc.prems by (simp add: lastn_all)
    then have lx: "length ?xs = card (set (denial_keys evs))"
      by (metis length_map length_remdups_card_conv)
    show ?thesis
    proof (cases "find (\<lambda>e. ag_key e = k) ?xs")
      case None
      then have new: "k \<notin> set (denial_keys evs)"
        using keys find_key_None by (metis set_remdups)
      then have "length ?xs < cap"
        using snoc.prems lx by (simp add: denial_keys_snoc key length_remdups_card_conv)
      then show ?thesis
        using lru_miss [OF facts None] IH new observed_Nil_iff [of k evs] arg_cong [OF keys, of set]
        by (auto simp: observed_snoc key summarises_new)
    next
      case (Some e)
      then have e: "e \<in> set ?xs" "ag_key e = k"
        by (auto simp: find_Some_iff)
      then show ?thesis
        using lru_hit [OF facts Some] IH by (auto simp: observed_snoc key intro: summarises_refresh)
    qed
  qed
qed simp

subsection \<open>The contract of the aggregator\<close>

locale recency_cache = event_sink observe inv "\<lambda>_. True"
  for observe :: "'s \<Rightarrow> event \<Rightarrow> 's" and inv :: "'s \<Rightarrow> bool" +
  fixes view :: "'s \<Rightarrow> aggregated_denial list"
    and cap :: "'s \<Rightarrow> nat"
  assumes view_observe: "inv s \<Longrightarrow> view (observe s ev) = lru_observe (cap s) (view s) ev"
    and cap_observe: "cap (observe s ev) = cap s"
    and cap_pos: "inv s \<Longrightarrow> 0 < cap s"
begin

lemma view_run: "inv s \<Longrightarrow> view (foldl observe s evs) = foldl (lru_observe (cap s)) (view s) evs"
  by (induction evs arbitrary: s) (simp_all add: view_observe cap_observe inv_step)

lemma keys_run:
  "inv s \<Longrightarrow> view s = [] \<Longrightarrow>
     map ag_key (view (foldl observe s evs)) = lastn (cap s) (remdups (denial_keys evs))"
  by (simp add: view_run lru_keys_run cap_pos)

lemma summaries_run:
  "inv s \<Longrightarrow> view s = [] \<Longrightarrow> card (set (denial_keys evs)) \<le> cap s \<Longrightarrow>
     e \<in> set (view (foldl observe s evs)) \<Longrightarrow> summarises (observed (ag_key e) evs) e"
  using lru_summaries_run [of "cap s" evs] by (simp add: view_run cap_pos length_remdups_card_conv)

end

interpretation agg: recency_cache observe agg_inv recency_view agg_capacity
proof unfold_locales
  fix a ev
  assume inv: "agg_inv a"
  show "agg_inv (observe a ev)"
    unfolding observe_def by (rule observe_entry_refines(1) [OF inv])
  show "recency_view (observe a ev) = lru_observe (agg_capacity a) (recency_view a) ev"
    unfolding observe_def by (rule observe_entry_refines(2) [OF inv])
  show "0 < agg_capacity a"
    using inv by (simp add: agg_inv_def)
qed (simp add: observe_def)

lemma agg_inv_empty:
  "0 < cap \<Longrightarrow> cap \<le> usize_max \<Longrightarrow>
     agg_inv \<lparr>agg_capacity = cap, agg_entries = [], agg_ingestion_sequence = n\<rparr>"
  by (simp add: agg_inv_def hm_len_def hm_values_def)

lemma recency_view_empty:
  "recency_view \<lparr>agg_capacity = cap, agg_entries = [], agg_ingestion_sequence = n\<rparr> = []"
  by (simp add: recency_view_def recency_def hm_values_def)

lemma recency_view_get:
  "agg_inv a \<Longrightarrow> find (\<lambda>e. ag_key e = k) (recency_view a) = map_option erase (agg_get a k)"
  by (simp add: recency_view_def find_map_erase agg_get_def recency_get)

lemma observe_entry_affected:
  assumes "agg_inv a"
  shows "case denial_facts ev of
       None \<Rightarrow> observe_entry a ev = (a, None)
     | Some (k, same, lg) \<Rightarrow> (\<exists>e. snd (observe_entry a ev) = Some e \<and>
          agg_get (fst (observe_entry a ev)) k = Some e \<and> ag_latest_event e = ev \<and>
          ag_latest_timestamp e = timestamp ev \<and> ag_same_exec e = same \<and> ag_logged e = lg)"
proof (cases "denial_facts ev")
  case (Some f)
  then obtain k same lg where facts: "denial_facts ev = Some (k, same, lg)"
    by (cases f) auto
  let ?a = "fst (observe_entry a ev)"
  note ref = observe_entry_refines [OF assms, of ev]
  have view: "recency_view ?a = lru_observe (agg_capacity a) (recency_view a) ev"
    by (rule ref(2))
  have "recency_view ?a \<noteq> []"
    unfolding view by (simp add: lru_observe_def facts split: option.split)
  then have ne: "recency ?a \<noteq> []" and last: "erase (last (recency ?a)) = last (recency_view ?a)"
    by (simp_all add: recency_view_def last_map)
  let ?e = "last (recency ?a)"
  have fields: "ag_key (erase ?e) = k \<and> ag_latest_event (erase ?e) = ev \<and>
      ag_latest_timestamp (erase ?e) = timestamp ev \<and> ag_same_exec (erase ?e) = same \<and>
      ag_logged (erase ?e) = lg"
    unfolding last view
    by (auto simp: lru_observe_def facts refresh_entry_def new_entry_def split: option.splits
        dest: find_key_SomeD)
  then have "agg_get ?a k = Some ?e"
    using recency_mem [OF ref(1), of ?e] ne by (simp add: agg_get_def erase_def)
  then show ?thesis
    using ref(3) fields by (auto simp: facts erase_def)
qed (simp add: observe_entry_def)

subsection \<open>Properties\<close>

definition sample_denial :: "u64 \<Rightarrow> u64 \<Rightarrow> event" where
  "sample_denial t port = DenyAccessNet \<lparr>dn_timestamp = KernelTimestamp t,
     dn_context = \<lparr>hierarchy = \<lparr>h_domain_id = LandlockId 0x100000001, h_parent_id = None,
         h_creator_tgid = ProcessId 7, h_creator_comm = CapturedBytes [98] False\<rparr>,
       cumulative_denial_count = t, same_exec = True, logged = False\<rparr>,
     dn_blockers_type = BT_NET_ACCESS, dn_blockers_access = NetworkAccess 2,
     dn_source_port = 0, dn_destination_port = port\<rparr>"

text \<open>C6. The aggregator implements a least-recently-observed list. For every state that satisfies
  the invariant, including one whose sequence counter is exhausted, observing an event keeps the
  invariant and changes the entries, read in order of last observation, exactly as the list
  specification says: a hit moves the refreshed entry to the end, a miss appends a new entry after
  dropping the oldest one when the aggregator is full, and other events change nothing.\<close>

theorem observe_refines_lru:
  assumes "agg_inv a"
  shows "agg_inv (observe a ev) \<and>
     recency_view (observe a ev) = lru_observe (agg_capacity a) (recency_view a) ev \<and>
     agg_capacity (observe a ev) = agg_capacity a"
  using assms by (simp add: agg.inv_step agg.view_observe agg.cap_observe)

theorem observe_refines_lru_witness:
  "recency_view (observe \<lparr>agg_capacity = 1, agg_entries = [], agg_ingestion_sequence = -1\<rparr>
       (sample_denial 5 80))
     = lru_observe 1 (recency_view \<lparr>agg_capacity = 1, agg_entries = [], agg_ingestion_sequence = -1\<rparr>)
         (sample_denial 5 80)"
  using observe_refines_lru [OF agg_inv_empty [of 1 "-1"], of "sample_denial 5 80"] by simp

text \<open>A run retains exactly the most recently observed denial keys: the keys of the entries, in
  order of their last observation, are the last \<open>capacity\<close> distinct keys of the observed denials,
  whatever the iteration order of the hash map.\<close>

theorem aggregator_retains_most_recent:
  assumes "aggregator_build try_reserve cap = Inr a" "cap \<le> usize_max"
  shows "map ag_key (recency_view (foldl observe a evs)) = lastn cap (remdups (denial_keys evs)) \<and>
     agg_len (foldl observe a evs) = min cap (card (set (denial_keys evs)))"
proof -
  have a: "0 < cap" "a = \<lparr>agg_capacity = cap, agg_entries = [], agg_ingestion_sequence = 0\<rparr>"
    using assms(1) by (auto simp: aggregator_build_def split: if_splits option.splits)
  then have inv: "agg_inv a" "recency_view a = []" "agg_capacity a = cap"
    using assms(2) agg_inv_empty recency_view_empty by auto
  then have keys: "map ag_key (recency_view (foldl observe a evs)) = lastn cap (remdups (denial_keys evs))"
    using agg.keys_run [OF inv(1,2)] by simp
  have "agg_len (foldl observe a evs) = length (recency_view (foldl observe a evs))"
    by (simp add: agg_len_def recency_view_def length_recency)
  also have "\<dots> = length (lastn cap (remdups (denial_keys evs)))"
    using arg_cong [OF keys, of length] by (simp only: length_map)
  finally show ?thesis
    using keys by (simp add: lastn_def length_remdups_card_conv)
qed

theorem aggregator_retains_most_recent_witness:
  "\<exists>a. aggregator_build (\<lambda>_. None :: unit option) 2 = Inr a \<and>
     agg_len (foldl observe a [sample_denial 1 80, sample_denial 2 81, sample_denial 3 80]) =
       min 2 (card (set (denial_keys [sample_denial 1 80, sample_denial 2 81, sample_denial 3 80])))"
proof -
  let ?a = "\<lparr>agg_capacity = 2, agg_entries = [], agg_ingestion_sequence = 0\<rparr>"
  have b: "aggregator_build (\<lambda>_. None :: unit option) 2 = Inr ?a"
    by (simp add: aggregator_build_def)
  show ?thesis
    using aggregator_retains_most_recent
        [OF b, of "[sample_denial 1 80, sample_denial 2 81, sample_denial 3 80]"] b by auto
qed

text \<open>C27. As long as no more distinct keys were denied than the capacity, every retained entry
  accounts for all observations of its key: the occurrence count is their number, saturating at
  \<open>u64::MAX\<close>, the first timestamp is that of the first, and the latest timestamp and event are those
  of the last one ingested.\<close>

theorem aggregator_counts_exactly:
  assumes "aggregator_build try_reserve cap = Inr a" "cap \<le> usize_max"
    and "card (set (denial_keys evs)) \<le> cap"
    and "agg_get (foldl observe a evs) k = Some e"
  shows "ag_occurrence_count e = of_nat (min (length (observed k evs)) (2 ^ 64 - 1)) \<and>
     ag_first_timestamp e = timestamp (hd (observed k evs)) \<and>
     ag_latest_timestamp e = timestamp (last (observed k evs)) \<and>
     ag_latest_event e = last (observed k evs)"
proof -
  have a: "0 < cap" "a = \<lparr>agg_capacity = cap, agg_entries = [], agg_ingestion_sequence = 0\<rparr>"
    using assms(1) by (auto simp: aggregator_build_def split: if_splits option.splits)
  then have inv: "agg_inv a" "recency_view a = []" "agg_capacity a = cap"
    using assms(2) agg_inv_empty recency_view_empty by auto
  have inv': "agg_inv (foldl observe a evs)"
    using agg.inv_run [OF inv(1)] by (simp add: list_all_iff)
  then have "find (\<lambda>x. ag_key x = k) (recency_view (foldl observe a evs)) = Some (erase e)"
    using recency_view_get [OF inv'] assms(4) by simp
  then have "erase e \<in> set (recency_view (foldl observe a evs))" "ag_key (erase e) = k"
    by (auto simp: find_Some_iff)
  then have "summarises (observed k evs) (erase e)"
    using agg.summaries_run [OF inv(1,2)] assms(3) inv(3) by blast
  then show ?thesis
    by (simp add: summarises_def erase_def clipped_def)
qed

theorem aggregator_counts_exactly_witness:
  "\<exists>a e. aggregator_build (\<lambda>_. None :: unit option) 5 = Inr a \<and>
     agg_get (foldl observe a [sample_denial 1 80, sample_denial 2 81, sample_denial 3 80])
       (the (denial_key_of (sample_denial 1 80))) = Some e \<and> ag_occurrence_count e = 2"
proof -
  let ?a = "\<lparr>agg_capacity = 5, agg_entries = [], agg_ingestion_sequence = 0\<rparr>"
  let ?evs = "[sample_denial 1 80, sample_denial 2 81, sample_denial 3 80]"
  let ?k = "the (denial_key_of (sample_denial 1 80))"
  have b: "aggregator_build (\<lambda>_. None :: unit option) 5 = Inr ?a"
    by (simp add: aggregator_build_def)
  have "agg_get (foldl observe ?a ?evs) ?k \<noteq> None"
    by code_simp
  then obtain e where e: "agg_get (foldl observe ?a ?evs) ?k = Some e"
    by blast
  have small: "card (set (denial_keys ?evs)) \<le> 5"
    using card_length [of "denial_keys ?evs"]
    by (simp add: denial_keys_def List.map_filter_def sample_denial_def denial_key_of_def denial_facts_def)
  have "ag_occurrence_count e = of_nat (min (length (observed ?k ?evs)) (2 ^ 64 - 1))"
    using aggregator_counts_exactly [OF b _ small e] by simp
  also have "length (observed ?k ?evs) = 2"
    by (simp add: observed_def denial_key_of_def denial_facts_def sample_denial_def)
  finally show ?thesis
    using b e by auto
qed

text \<open>Observing an entry returns nothing for an event that is not a denial, and otherwise the
  retained entry of the event's key, which already contains the observation: its latest event is
  the observed one and its flags and timestamp are those of that event.\<close>

theorem observe_entry_returns_affected:
  assumes "agg_inv a"
  shows "case denial_facts ev of
       None \<Rightarrow> observe_entry a ev = (a, None)
     | Some (k, same, lg) \<Rightarrow> (\<exists>e. snd (observe_entry a ev) = Some e \<and>
          agg_get (fst (observe_entry a ev)) k = Some e \<and> ag_latest_event e = ev \<and>
          ag_latest_timestamp e = timestamp ev \<and> ag_same_exec e = same \<and> ag_logged e = lg)"
  using assms by (rule observe_entry_affected)

theorem observe_entry_returns_affected_witness:
  "\<exists>e. snd (observe_entry aggregator_new (sample_denial 5 80)) = Some e \<and>
     ag_latest_event e = sample_denial 5 80"
proof -
  have "agg_inv aggregator_new"
    unfolding aggregator_new_def by (rule agg_inv_empty) (simp_all add: DEFAULT_CAPACITY_def)
  from observe_entry_returns_affected [OF this, of "sample_denial 5 80"] show ?thesis
    by (auto simp: denial_facts_def sample_denial_def)
qed

end
