(* ===== verification/Text_Format.thy ===== *)
theory Text_Format
  imports Events
begin

text \<open>
  The text the sources write with \<open>format!\<close>: decimal and hexadecimal numbers, identifiers, ruleset
  versions, and the escaping of captured bytes in batch records. A Rust \<open>String\<close> is its sequence of
  UTF-8 bytes, so the ellipsis character is three characters of the model.
\<close>

definition byte_char :: "u8 \<Rightarrow> char" where
  "byte_char b = char_of (unat b)"

lemma byte_char_inject [simp]: "byte_char b = byte_char b' \<longleftrightarrow> b = b'"
proof
  assume "byte_char b = byte_char b'"
  then have "(of_char (byte_char b) :: nat) = of_char (byte_char b')"
    by simp
  moreover have "unat b < 2 ^ LENGTH(8)" "unat b' < 2 ^ LENGTH(8)"
    by (rule unsigned_less)+
  ultimately show "b = b'"
    by (simp add: byte_char_def word_unat_eq_iff)
qed simp

subsection \<open>Numbers\<close>

definition digit_char :: "nat \<Rightarrow> char" where
  "digit_char d = char_of (if d < 10 then 48 + d else 87 + d)"

definition digit_value :: "char \<Rightarrow> nat" where
  "digit_value c = (let n = of_char c in if n < 58 then n - 48 else n - 87)"

fun radix :: "nat \<Rightarrow> nat \<Rightarrow> string" where
  "radix b n =
     (if b < 2 \<or> n < b then [digit_char n] else radix b (n div b) @ [digit_char (n mod b)])"

declare radix.simps [simp del]

definition dec :: "nat \<Rightarrow> string" where
  "dec n = radix 10 n"

definition hex :: "nat \<Rightarrow> string" where
  "hex n = radix 16 n"

text \<open>\<open>{:02x}\<close> of a byte.\<close>

definition hex2 :: "u8 \<Rightarrow> string" where
  "hex2 b = [digit_char (unat b div 16), digit_char (unat b mod 16)]"

definition radix_value :: "nat \<Rightarrow> string \<Rightarrow> nat" where
  "radix_value b s = foldl (\<lambda>v c. v * b + digit_value c) 0 s"

lemma digit_value_digit_char: "d < 16 \<Longrightarrow> digit_value (digit_char d) = d"
  by (simp add: digit_value_def digit_char_def Let_def)

lemma radix_value_radix: "2 \<le> b \<Longrightarrow> b \<le> 16 \<Longrightarrow> radix_value b (radix b n) = n"
proof (induction b n rule: radix.induct)
  case (1 b n)
  then have "n mod b < 16" "n < b \<Longrightarrow> n < 16"
    using mod_less_divisor [of b n] by linarith+
  with 1 show ?case
    by (subst radix.simps) (auto simp: radix_value_def digit_value_digit_char)
qed

text \<open>Numerals are read back, so distinct numbers have distinct numerals.\<close>

lemma dec_value: "radix_value 10 (dec n) = n"
  unfolding dec_def by (rule radix_value_radix) simp_all

lemma hex_value: "radix_value 16 (hex n) = n"
  unfolding hex_def by (rule radix_value_radix) simp_all

lemma dec_inject [simp]: "dec m = dec n \<longleftrightarrow> m = n"
  by (metis dec_value)

lemma hex_inject [simp]: "hex m = hex n \<longleftrightarrow> m = n"
  by (metis hex_value)

subsection \<open>Identifiers\<close>

definition display_domain_id :: "domain_id \<Rightarrow> string" where
  "display_domain_id i = hex (unat (id_get i))"

lemma display_domain_id_inject [simp]: "display_domain_id i = display_domain_id j \<longleftrightarrow> i = j"
  by (cases i; cases j) (simp add: display_domain_id_def word_unat_eq_iff)

subsection \<open>Escaping\<close>

definition is_plain :: "u8 \<Rightarrow> bool" where
  "is_plain b \<longleftrightarrow>
     (48 \<le> b \<and> b \<le> 57) \<or> (65 \<le> b \<and> b \<le> 90) \<or> (97 \<le> b \<and> b \<le> 122) \<or>
     b = 95 \<or> b = 45 \<or> b = 46 \<or> b = 47"

definition escape_byte :: "u8 \<Rightarrow> string" where
  "escape_byte b = (if is_plain b then [byte_char b] else CHR 0x5C # CHR ''x'' # hex2 b)"

definition ellipsis :: string where
  "ellipsis = [CHR 0xE2, CHR 0x80, CHR 0xA6]"

definition escape :: "'k captured_bytes \<Rightarrow> string" where
  "escape v = concat (map escape_byte (as_bytes v)) @ (if bytes_omitted v then ellipsis else [])"

lemma unat_u8_lt: "unat b < 256" for b :: u8
proof -
  have "unat b < 2 ^ LENGTH(8)"
    by (rule unsigned_less)
  then show ?thesis by simp
qed

lemma hex2_inject [simp]: "hex2 b = hex2 b' \<longleftrightarrow> b = b'"
proof
  assume eq: "hex2 b = hex2 b'"
  have small: "unat x div 16 < 16" "unat x mod 16 < 16" for x :: u8
    using unat_u8_lt [of x] by auto
  have "unat b div 16 = unat b' div 16" "unat b mod 16 = unat b' mod 16"
    using eq digit_value_digit_char [OF small(1)] digit_value_digit_char [OF small(2)]
    unfolding hex2_def by (metis list.inject)+
  then show "b = b'"
    by (metis div_mult_mod_eq word_unat_eq_iff)
qed simp

lemma length_hex2 [simp]: "length (hex2 b) = 2"
  by (simp add: hex2_def)

lemma byte_char_eq_iff: "byte_char b = c \<longleftrightarrow> b = of_nat (of_char c)"
proof -
  have "byte_char (of_nat (of_char c)) = c"
    by (simp add: byte_char_def unat_of_nat)
  then show ?thesis
    by (metis byte_char_inject)
qed

lemma plain_char: "is_plain b \<Longrightarrow> byte_char b \<noteq> CHR 0x5C" "is_plain b \<Longrightarrow> byte_char b \<noteq> CHR 0xE2"
  by (auto simp: byte_char_eq_iff is_plain_def)

text \<open>The escape codes are prefix free.\<close>

lemma escape_byte_append:
  "escape_byte b @ s = escape_byte b' @ s' \<longleftrightarrow> b = b' \<and> s = s'"
  by (auto simp: escape_byte_def append_eq_append_conv dest: plain_char)

lemma escape_byte_not_ellipsis: "escape_byte b @ s \<noteq> ellipsis"
  by (auto simp: escape_byte_def ellipsis_def dest: plain_char)

lemma escape_byte_ne [simp]: "escape_byte b \<noteq> []" and ellipsis_ne [simp]: "ellipsis \<noteq> []"
  by (simp_all add: escape_byte_def ellipsis_def)

lemma escape_bytes_inject:
  assumes "concat (map escape_byte xs) @ (if o1 then ellipsis else []) =
     concat (map escape_byte ys) @ (if o2 then ellipsis else [])"
  shows "xs = ys \<and> o1 = o2"
  using assms
proof (induction xs arbitrary: ys)
  case Nil
  then show ?case
    by (cases ys; cases o1; cases o2)
      (simp_all add: escape_byte_not_ellipsis [THEN not_sym] ellipsis_ne [THEN not_sym])
next
  case (Cons x xs)
  show ?case
  proof (cases ys)
    case Nil
    then show ?thesis
      using Cons.prems by (cases o1; cases o2) (simp_all add: escape_byte_not_ellipsis)
  next
    case (Cons y ys')
    then show ?thesis
      using Cons.prems Cons.IH [of ys'] by (simp add: escape_byte_append)
  qed
qed

lemma escape_inject: "escape v = escape v' \<longleftrightarrow> v = v'"
  using escape_bytes_inject unfolding escape_def by (metis captured_bytes.expand)

text \<open>Letters, digits, \<open>-\<close>, \<open>.\<close>, \<open>/\<close>, \<open>\_\<close>, the backslash and the bytes of the ellipsis.\<close>

definition safe_char :: "char \<Rightarrow> bool" where
  "safe_char c \<longleftrightarrow> (let n = of_char c :: nat in
     48 \<le> n \<and> n \<le> 57 \<or> 65 \<le> n \<and> n \<le> 90 \<or> 97 \<le> n \<and> n \<le> 122 \<or>
     n \<in> {45, 46, 47, 92, 95, 0x80, 0xA6, 0xE2})"

text \<open>
  An escaped value has no byte that could end a record or a field: no white space, no line break,
  no \<open>=\<close>, no control byte.
\<close>

lemma of_char_byte_char [simp]: "of_char (byte_char b) = unat b"
  using unat_u8_lt [of b] by (simp add: byte_char_def)

lemma is_plain_safe: "is_plain b \<Longrightarrow> safe_char (byte_char b)"
  by (auto simp: is_plain_def safe_char_def Let_def word_le_nat_alt)

lemma digit_char_safe: "d < 16 \<Longrightarrow> safe_char (digit_char d)"
  by (auto simp: digit_char_def safe_char_def Let_def)

lemma escape_safe: "list_all safe_char (escape v)"
proof -
  have "list_all safe_char (escape_byte b)" for b
  proof (cases "is_plain b")
    case False
    have "unat b div 16 < 16"
      using unat_u8_lt [of b] by simp
    moreover have "safe_char (CHR 0x5C)" "safe_char (CHR ''x'')"
      by code_simp+
    ultimately show ?thesis
      using False by (simp add: escape_byte_def hex2_def digit_char_safe)
  qed (simp add: escape_byte_def is_plain_safe)
  moreover have "list_all safe_char ellipsis"
    by code_simp
  ultimately show ?thesis
    by (auto simp: escape_def list_all_iff)
qed

end
