(* ===== verification/Batch.thy ===== *)
theory Batch
  imports Recon_State Aggregate Text_Format
begin

text \<open>
  \<open>lltop/src/batch.rs\<close>: the batch front end. It folds each event into the reconstructed state, the
  denial aggregator and its own counters, and prints one record per domain whose rendered facts
  changed, one for a newly known final ruleset version, one per denial, and a summary.
\<close>

subsection \<open>Denial kinds and statistics\<close>

definition DENIAL_KIND_COUNT :: nat where "DENIAL_KIND_COUNT = 5"

datatype denial_kind = Fs | Net | Ptrace | Signal | AbstractUnix

definition denial_kind_ALL :: "denial_kind list" where
  "denial_kind_ALL = [Fs, Net, Ptrace, Signal, AbstractUnix]"

text \<open>The position of the counter that \<open>DenialKind::counter\<close> borrows.\<close>

fun counter :: "denial_kind \<Rightarrow> nat" where
  "counter Fs = 0"
| "counter Net = 1"
| "counter Ptrace = 2"
| "counter Signal = 3"
| "counter AbstractUnix = 4"

fun label :: "denial_kind \<Rightarrow> string" where
  "label Fs = ''FS''"
| "label Net = ''NET''"
| "label Ptrace = ''PTRACE''"
| "label Signal = ''SIGNAL''"
| "label AbstractUnix = ''ABSTRACT_UNIX''"

fun stats_label :: "denial_kind \<Rightarrow> string" where
  "stats_label Fs = ''fs''"
| "stats_label Net = ''net''"
| "stats_label Ptrace = ''ptrace''"
| "stats_label Signal = ''signal''"
| "stats_label AbstractUnix = ''abstract_unix''"

fun from_event :: "event \<Rightarrow> denial_kind option" where
  "from_event (DenyAccessFs _) = Some Fs"
| "from_event (DenyAccessNet _) = Some Net"
| "from_event (DenyPtrace _) = Some Ptrace"
| "from_event (DenyScopeSignal _) = Some Signal"
| "from_event (DenyScopeAbstractUnixSocket _) = Some AbstractUnix"
| "from_event _ = None"

record stats =
  total_denials :: u64
  denials :: "u64 list"

definition stats_default :: stats where
  "stats_default = \<lparr>total_denials = 0, denials = replicate DENIAL_KIND_COUNT 0\<rparr>"

definition stats_observe :: "denial_kind \<Rightarrow> stats \<Rightarrow> stats" where
  "stats_observe kind s =
     s\<lparr>total_denials := saturating_add (total_denials s) 1,
       denials := (denials s)[counter kind := saturating_add (denials s ! counter kind) 1]\<rparr>"

record batch =
  bt_state :: state
  bt_denials :: denial_aggregator
  bt_stats :: stats
  bt_allocated_domains :: nat

definition batch_new :: batch where
  "batch_new = \<lparr>bt_state = state_new, bt_denials = aggregator_new, bt_stats = stats_default,
     bt_allocated_domains = 0\<rparr>"

subsection \<open>The domains an event affects\<close>

definition add_denial ::
  "domain_id list \<Rightarrow> domain_id \<Rightarrow> domain_id option \<Rightarrow> domain_membership option \<Rightarrow> domain_id list" where
  "add_denial ids d par membership =
     ids @ [d] @ (case par of Some p \<Rightarrow> [p] | None \<Rightarrow> []) @
     (case membership of Some (Sandboxed i) \<Rightarrow> [i] | _ \<Rightarrow> [])"

definition add_denial_context ::
  "denial_context \<Rightarrow> domain_membership option \<Rightarrow> domain_id list" where
  "add_denial_context c m = add_denial [] (h_domain_id (hierarchy c)) (h_parent_id (hierarchy c)) m"

fun mentioned_domain_ids :: "event \<Rightarrow> domain_id list" where
  "mentioned_domain_ids (CreateDomain e) =
     [cd_domain_id e] @ (case cd_parent_id e of Some p \<Rightarrow> [p] | None \<Rightarrow> [])"
| "mentioned_domain_ids (FreeDomain e) = [fd_domain_id e]"
| "mentioned_domain_ids (EnforceDomain e) = [ed_domain_id e]"
| "mentioned_domain_ids (DenyAccessFs e) = add_denial_context (df_context e) None"
| "mentioned_domain_ids (DenyAccessNet e) = add_denial_context (dn_context e) None"
| "mentioned_domain_ids (DenyPtrace e) = add_denial_context (dp_context e) (Some (dp_tracee_domain e))"
| "mentioned_domain_ids (DenyScopeSignal e) =
     add_denial_context (ds_context e) (Some (ds_target_domain e))"
| "mentioned_domain_ids (DenyScopeAbstractUnixSocket e) =
     add_denial_context (du_context e) (Some (du_peer_domain e))"
| "mentioned_domain_ids _ = []"

definition affected_domain_ids :: "event \<Rightarrow> domain_id list" where
  "affected_domain_ids e = remdups_adj (sort_key id_get (mentioned_domain_ids e))"

definition deallocated_ruleset_identity :: "state \<Rightarrow> ruleset_id \<Rightarrow> ruleset_version option" where
  "deallocated_ruleset_identity s i =
     (case ruleset s i of
        None \<Rightarrow> None
      | Some r \<Rightarrow> if rs_lifecycle r \<noteq> Deallocated then None
                  else map_option (\<lambda>v. \<lparr>rv_ruleset_id = i, rv_ruleset_version = v\<rparr>) (rs_final_version r))"

subsection \<open>Rendering\<close>

definition display_ruleset_version :: "ruleset_version \<Rightarrow> string" where
  "display_ruleset_version v =
     hex (unat (id_get (rv_ruleset_id v))) @ ''.'' @ dec (unat (rv_ruleset_version v))"

definition format_parent :: "domain_state \<Rightarrow> string" where
  "format_parent d = (case dom_parent d of
     None \<Rightarrow> ''?'' | Some ParentRoot \<Rightarrow> ''0'' | Some (ParentDomain i) \<Rightarrow> display_domain_id i)"

definition format_creator :: "domain_state \<Rightarrow> string" where
  "format_creator d = (case (dom_creator_comm d, dom_creator_tgid d) of
     (Some comm, Some tgid) \<Rightarrow> escape comm @ ''['' @ dec (unat (pid_get tgid)) @ '']'' | _ \<Rightarrow> ''?'')"

definition format_domain :: "domain_state \<Rightarrow> string" where
  "format_domain d =
     ''DOMAIN domain='' @ display_domain_id (dom_id d) @ '' parent='' @ format_parent d @
     '' ruleset='' @ (case dom_ruleset d of None \<Rightarrow> ''?'' | Some v \<Rightarrow> display_ruleset_version v) @
     '' creator='' @ format_creator d @
     '' no_new_privs='' @ (case no_new_privs d of None \<Rightarrow> ''?'' | Some v \<Rightarrow> if v then ''1'' else ''0'')"

fun join :: "string \<Rightarrow> string list \<Rightarrow> string" where
  "join sep [] = []"
| "join sep [x] = x"
| "join sep (x # xs) = x @ sep @ join sep xs"

definition access_blockers :: "string \<Rightarrow> string list \<Rightarrow> u64 \<Rightarrow> string" where
  "access_blockers prefix names unknown =
     (let parts = names @ (if unknown \<noteq> 0 then [''0x'' @ hex (unat unknown)] else [])
      in if parts = [] then ''0x'' @ hex (unat unknown) else prefix @ '':'' @ join '','' parts)"

fun filesystem_blockers_text :: "filesystem_blockers \<Rightarrow> string" where
  "filesystem_blockers_text (FsAccess a) =
     access_blockers ''FS'' (fs_known_names a) (fs_unknown_bits a)"
| "filesystem_blockers_text FsChangeTopology = ''FS:change_topology''"
| "filesystem_blockers_text (FsOther t a) =
     (if t = BT_FS_CHANGE_TOPOLOGY then ''FS:change_topology,access=0x'' @ hex (unat (fs_bits a))
      else ''FS:request_type=0x'' @ hex (unat (raw t)) @ '',access=0x'' @ hex (unat (fs_bits a)))"

definition network_blockers :: "blocker_type \<Rightarrow> network_access \<Rightarrow> string" where
  "network_blockers t a =
     (if t = BT_NET_ACCESS then access_blockers ''Net'' (net_known_names a) (net_unknown_bits a)
      else ''Net:request_type=0x'' @ hex (unat (raw t)) @ '',access=0x'' @ hex (unat (net_bits a)))"

fun domain_membership_text :: "domain_membership \<Rightarrow> string" where
  "domain_membership_text Unsandboxed = ''0''"
| "domain_membership_text (Sandboxed i) = display_domain_id i"

definition elapsed :: "u64 \<Rightarrow> u64 \<Rightarrow> string" where
  "elapsed first_ns latest_ns =
     (let seconds = saturating_sub latest_ns first_ns div 1000000000 in
      if seconds < 60 then dec (unat seconds) @ ''s''
      else if seconds < 3600
      then dec (unat (seconds div 60)) @ ''m'' @ dec (unat (seconds mod 60)) @ ''s''
      else dec (unat (seconds div 3600)) @ ''h'' @ dec (unat ((seconds mod 3600) div 60)) @ ''m'')"

definition starts_with :: "string \<Rightarrow> string \<Rightarrow> bool" where
  "starts_with prefix s = (take (length prefix) s = prefix)"

definition network_target :: "deny_access_net_event \<Rightarrow> string" where
  "network_target e =
     (let names = (if dn_blockers_type e = BT_NET_ACCESS then net_known_names (dn_blockers_access e)
                   else []);
          has_bind = list_ex (starts_with ''bind_'') names;
          has_connect = list_ex (starts_with ''connect_'') names
      in if has_bind \<and> \<not> has_connect then ''sport:'' @ dec (unat (dn_source_port e))
         else if \<not> has_bind \<and> has_connect then ''dport:'' @ dec (unat (dn_destination_port e))
         else ''sport:'' @ dec (unat (dn_source_port e)) @ '',dport:'' @
              dec (unat (dn_destination_port e)))"

type_synonym denial_fields =
  "domain_id \<times> string \<times> string \<times> (string \<times> domain_membership) option"

fun denial_fields :: "event \<Rightarrow> denial_fields option" where
  "denial_fields (DenyAccessFs e) = Some (h_domain_id (hierarchy (df_context e)),
     filesystem_blockers_text (df_blockers e), escape (df_pathname e), None)"
| "denial_fields (DenyAccessNet e) = Some (h_domain_id (hierarchy (dn_context e)),
     network_blockers (dn_blockers_type e) (dn_blockers_access e), network_target e, None)"
| "denial_fields (DenyPtrace e) = Some (h_domain_id (hierarchy (dp_context e)), ''ptrace'',
     ''pid:'' @ dec (unat (pid_get (dp_tracee_pid e))) @ '':'' @ escape (dp_tracee_comm e),
     Some (''tracee_domain'', dp_tracee_domain e))"
| "denial_fields (DenyScopeSignal e) = Some (h_domain_id (hierarchy (ds_context e)), ''Scope:signal'',
     ''pid:'' @ dec (unat (pid_get (ds_target_pid e))) @ '':'' @ escape (ds_target_comm e),
     Some (''target_domain'', ds_target_domain e))"
| "denial_fields (DenyScopeAbstractUnixSocket e) = Some (h_domain_id (hierarchy (du_context e)),
     ''Scope:abstract_unix_socket'', ''@'' @ escape (du_abstract_name e),
     Some (''peer_domain'', du_peer_domain e))"
| "denial_fields _ = None"

definition flag :: "bool \<Rightarrow> string" where
  "flag b = (if b then ''1'' else ''0'')"

definition format_denial :: "denial_kind \<Rightarrow> aggregated_denial \<Rightarrow> string option" where
  "format_denial kind denial =
     map_option (\<lambda>(d, blockers, target, relation).
       ''DENIAL type='' @ label kind @ '' domain='' @ display_domain_id d @
       '' blockers='' @ blockers @ '' target='' @ target @
       '' count='' @ dec (unat (ag_occurrence_count denial)) @
       '' age='' @ elapsed (as_nanoseconds (ag_first_timestamp denial))
                           (as_nanoseconds (ag_latest_timestamp denial)) @
       '' same_exec='' @ flag (ag_same_exec denial) @ '' logged='' @ flag (ag_logged denial) @
       (case relation of None \<Rightarrow> []
        | Some (lab, membership) \<Rightarrow> '' '' @ lab @ ''='' @ domain_membership_text membership))
       (denial_fields (ag_latest_event denial))"

definition format_stats :: "nat \<Rightarrow> nat \<Rightarrow> stats \<Rightarrow> string" where
  "format_stats allocated known s =
     ''STATS domains='' @ dec allocated @ ''/'' @ dec known @ '' denials='' @
     dec (unat (total_denials s)) @ '' ('' @
     join '' '' (map (\<lambda>(kind, n). stats_label kind @ ''='' @ dec (unat n))
                 (zip denial_kind_ALL (denials s))) @ '')''"

subsection \<open>Processing an event\<close>

type_synonym domain_summary = "string \<times> bool"

definition domain_summary :: "state \<Rightarrow> domain_id \<Rightarrow> domain_summary option" where
  "domain_summary s i =
     map_option (\<lambda>d. (format_domain d, dom_lifecycle d = Allocated)) (domain s i)"

definition update_allocated ::
  "domain_summary option \<Rightarrow> domain_summary option \<Rightarrow> nat \<Rightarrow> nat" where
  "update_allocated previous current n =
     (case (map_option snd previous, current) of
        (Some True, Some (_, False)) \<Rightarrow> n - 1
      | (Some False, Some (_, True)) \<Rightarrow> usize_saturating_add n 1
      | (None, Some (_, True)) \<Rightarrow> usize_saturating_add n 1
      | _ \<Rightarrow> n)"

definition domain_record :: "domain_summary option \<Rightarrow> domain_summary option \<Rightarrow> string list" where
  "domain_record previous current =
     (if map_option fst current \<noteq> map_option fst previous
      then (case current of Some (text, _) \<Rightarrow> [text] | None \<Rightarrow> []) else [])"

fun domain_loop ::
  "state \<Rightarrow> (domain_id \<times> domain_summary option) list \<Rightarrow> nat \<Rightarrow> string list \<Rightarrow> nat \<times> string list" where
  "domain_loop s [] n records = (n, records)"
| "domain_loop s ((i, previous) # rest) n records =
     (let current = domain_summary s i
      in domain_loop s rest (update_allocated previous current n)
           (records @ domain_record previous current))"

definition ruleset_record :: "state \<Rightarrow> state \<Rightarrow> event \<Rightarrow> string list" where
  "ruleset_record before after e =
     (case e of
        FreeRuleset f \<Rightarrow>
          (let previous = deallocated_ruleset_identity before (fr_ruleset_id f);
               current = deallocated_ruleset_identity after (fr_ruleset_id f)
           in if current \<noteq> previous
              then (case current of Some v \<Rightarrow> [''DROP_RULESET ruleset='' @ display_ruleset_version v]
                    | None \<Rightarrow> [])
              else [])
      | _ \<Rightarrow> [])"

definition denial_record ::
  "denial_aggregator \<Rightarrow> event \<Rightarrow> denial_aggregator \<times> string option" where
  "denial_record a e =
     (case from_event e of
        None \<Rightarrow> (a, None)
      | Some kind \<Rightarrow> (let (a', entry) = observe_entry a e in (a', Option.bind entry (format_denial kind))))"

definition process :: "batch \<Rightarrow> event \<Rightarrow> batch \<times> string list" where
  "process b e =
     (let ids = affected_domain_ids e;
          previous = map (domain_summary (bt_state b)) ids;
          s = apply_event (bt_state b) e;
          (a, denial) = denial_record (bt_denials b) e;
          st = (case from_event e of Some kind \<Rightarrow> stats_observe kind (bt_stats b)
                | None \<Rightarrow> bt_stats b);
          (n, domain_records) = domain_loop s (zip ids previous) (bt_allocated_domains b) [];
          records = domain_records @ ruleset_record (bt_state b) s e @
                    (case denial of Some r \<Rightarrow> [r] | None \<Rightarrow> []);
          changed = (bt_allocated_domains b, domain_count (bt_state b)) \<noteq> (n, domain_count s)
      in (\<lparr>bt_state = s, bt_denials = a, bt_stats = st, bt_allocated_domains = n\<rparr>,
          if records \<noteq> [] \<or> changed
          then records @ [format_stats n (domain_count s) st] else records))"

text \<open>
  \<open>process_and_write\<close>, over the output's two operations: a line write and a flush, each of which
  returns the output and an error or success.
\<close>

fun write_lines :: "('w \<Rightarrow> string \<Rightarrow> 'w \<times> ('e + unit)) \<Rightarrow> 'w \<Rightarrow> string list \<Rightarrow> 'w \<times> ('e + unit)" where
  "write_lines wr w [] = (w, Inr ())"
| "write_lines wr w (l # ls) =
     (case wr w (l @ [CHR 0x0A]) of
        (w', Inl er) \<Rightarrow> (w', Inl er)
      | (w', Inr _) \<Rightarrow> write_lines wr w' ls)"

definition process_and_write ::
  "('w \<Rightarrow> string \<Rightarrow> 'w \<times> ('e + unit)) \<Rightarrow> ('w \<Rightarrow> 'w \<times> ('e + unit)) \<Rightarrow>
     batch \<Rightarrow> event \<Rightarrow> 'w \<Rightarrow> batch \<times> 'w \<times> ('e + unit)" where
  "process_and_write wr fl b e w =
     (let (b', records) = process b e in
      if records = [] then (b', w, Inr ())
      else case write_lines wr w records of
        (w', Inl er) \<Rightarrow> (b', w', Inl er)
      | (w', Inr _) \<Rightarrow> (b', fl w'))"

end
