(* ===== verification/Batch_Properties.thy ===== *)
theory Batch_Properties
  imports Batch Recon_Properties Aggregate_Properties
begin

text \<open>
  Correctness of the batch front end: its counters agree with the state it keeps, it reports every
  domain whose rendered facts change, in identifier order and once, it reports every denial, and
  its records are single lines whatever bytes the kernel captured.
\<close>

subsection \<open>Affected domains\<close>

lemma set_affected: "set (affected_domain_ids e) = set (mentioned_domain_ids e)"
  by (simp add: affected_domain_ids_def)

lemma denial_step_other:
  "d \<notin> set (add_denial_context c m) \<Longrightarrow> denial_step d x c m = x"
  by (auto simp: add_denial_context_def add_denial_def denial_step_def Let_def
      split: option.splits domain_membership.splits)

text \<open>An event changes no domain but the affected ones.\<close>

lemma unaffected_domain:
  "d \<notin> set (affected_domain_ids e) \<Longrightarrow> domain (apply_event s e) d = domain s d"
  unfolding set_affected domain_apply
  by (cases e) (auto simp: denial_step_other split: option.splits)

lemma sorted_remdups_adj_distinct: "sorted xs \<Longrightarrow> distinct (remdups_adj xs)"
  by (induction xs rule: remdups_adj.induct) auto

lemma remdups_adj_map_id_get: "map id_get (remdups_adj xs) = remdups_adj (map id_get xs)"
  by (rule remdups_adj_map_injective [symmetric]) (auto intro: injI landlock_id.expand)

lemma affected_sorted: "sorted_wrt (\<lambda>i j. id_get i < id_get j) (affected_domain_ids e)"
proof -
  let ?xs = "sort_key id_get (mentioned_domain_ids e)"
  have "sorted (map id_get (remdups_adj ?xs))" "distinct (map id_get (remdups_adj ?xs))"
    unfolding remdups_adj_map_id_get
    by (simp_all add: sorted_remdups_adj sorted_remdups_adj_distinct)
  then have "sorted_wrt (<) (map id_get (remdups_adj ?xs))"
    by (simp add: strict_sorted_iff)
  then show ?thesis
    by (simp add: affected_domain_ids_def sorted_wrt_map)
qed

lemma affected_distinct: "distinct (affected_domain_ids e)"
proof -
  have "sorted_wrt (<) (map id_get (affected_domain_ids e))"
    using affected_sorted [of e] by (simp add: sorted_wrt_map)
  then show ?thesis
    by (simp add: strict_sorted_iff distinct_map)
qed

subsection \<open>The loop over the affected domains\<close>

definition allocated_ids :: "state \<Rightarrow> domain_id set" where
  "allocated_ids s = {d. \<exists>x. domain s d = Some x \<and> dom_lifecycle x = Allocated}"

lemma domain_summary_Some_True:
  "map_option snd (domain_summary s i) = Some True \<longleftrightarrow> i \<in> allocated_ids s"
  by (auto simp: domain_summary_def allocated_ids_def)

lemma domain_persists: "domain s i = Some x \<Longrightarrow> \<exists>y. domain (apply_event s e) i = Some y"
  by (simp add: domain_apply domain_step_present)

text \<open>One step of the counter, for an object set \<open>H\<close> that agrees with the previous state on \<open>i\<close>.\<close>

lemma update_allocated_card:
  assumes H: "finite H" "card (insert i H) \<le> usize_max" "i \<in> H \<longleftrightarrow> i \<in> allocated_ids s"
    and s': "s' = apply_event s e"
  shows "update_allocated (domain_summary s i) (domain_summary s' i) (card H) =
     card (if i \<in> allocated_ids s' then insert i H else H - {i})"
proof (cases "domain s i")
  case None
  then have "i \<notin> H"
    using H(3) by (simp add: allocated_ids_def)
  with H(1,2) None show ?thesis
    by (cases "domain s' i") (auto simp: update_allocated_def domain_summary_def allocated_ids_def
        usize_saturating_add_def)
next
  case (Some x)
  then obtain y where y: "domain s' i = Some y"
    using domain_persists s' by blast
  have "i \<in> H \<longleftrightarrow> dom_lifecycle x = Allocated"
    using H(3) Some by (simp add: allocated_ids_def)
  with H(1,2) Some y show ?thesis
    by (auto simp: update_allocated_def domain_summary_def allocated_ids_def usize_saturating_add_def
        insert_absorb)
qed

lemma domain_loop_count:
  assumes "distinct ids" "finite H" "card (H \<union> set ids) \<le> usize_max"
    and "\<forall>i\<in>set ids. i \<in> H \<longleftrightarrow> i \<in> allocated_ids s" and s': "s' = apply_event s e"
  shows "fst (domain_loop s' (zip ids (map (domain_summary s) ids)) (card H) rs) =
     card ((H - set ids) \<union> (allocated_ids s' \<inter> set ids))"
  using assms(1-4)
proof (induction ids arbitrary: H rs)
  case (Cons i ids)
  let ?H = "if i \<in> allocated_ids s' then insert i H else H - {i}"
  have sub: "insert i H \<subseteq> H \<union> set (i # ids)" "?H \<union> set ids \<subseteq> H \<union> set (i # ids)"
    by auto
  have fin: "finite (H \<union> set (i # ids))"
    using Cons.prems by simp
  have bound: "card (insert i H) \<le> usize_max" and "card (?H \<union> set ids) \<le> usize_max"
    using card_mono [OF fin sub(1)] card_mono [OF fin sub(2)] Cons.prems(3) by linarith+
  moreover have "\<forall>j\<in>set ids. j \<in> ?H \<longleftrightarrow> j \<in> allocated_ids s" "distinct ids" "finite ?H"
    using Cons.prems by auto
  ultimately have "fst (domain_loop s' (zip ids (map (domain_summary s) ids)) (card ?H) rs')
      = card ((?H - set ids) \<union> (allocated_ids s' \<inter> set ids))" for rs'
    by (intro Cons.IH)
  moreover have "(?H - set ids) \<union> (allocated_ids s' \<inter> set ids)
      = (H - set (i # ids)) \<union> (allocated_ids s' \<inter> set (i # ids))"
    using Cons.prems(1) by auto
  moreover have "update_allocated (domain_summary s i) (domain_summary s' i) (card H) = card ?H"
    using Cons.prems bound by (intro update_allocated_card [OF _ _ _ s']) auto
  ultimately show ?case
    by (simp add: Let_def)
qed simp

lemma domain_loop_records:
  "snd (domain_loop s' (zip ids (map (domain_summary s) ids)) n rs) =
     rs @ concat (map (\<lambda>i. domain_record (domain_summary s i) (domain_summary s' i)) ids)"
  by (induction ids arbitrary: n rs) (simp_all add: Let_def)

subsection \<open>The invariant of the batch\<close>

definition batch_inv :: "batch \<Rightarrow> bool" where
  "batch_inv b \<longleftrightarrow>
     state_inv (bt_state b) \<and> agg_inv (bt_denials b) \<and>
     bt_allocated_domains b = card (allocated_ids (bt_state b)) \<and>
     length (denials (bt_stats b)) = DENIAL_KIND_COUNT"

lemma allocated_ids_valid: "state_inv s \<Longrightarrow> allocated_ids s \<subseteq> {d. id_ok d}"
  by (auto simp: allocated_ids_def state_inv_def)

lemma finite_allocated_ids: "finite (allocated_ids s)"
  by (rule finite_subset [OF subset_UNIV finite_landlock_ids])

lemma allocated_count:
  assumes inv: "state_inv s" and ok: "event_ok e"
  defines "ids \<equiv> affected_domain_ids e" and "s' \<equiv> apply_event s e"
  shows "fst (domain_loop s' (zip ids (map (domain_summary s) ids)) (card (allocated_ids s)) rs) =
     card (allocated_ids s')"
proof -
  have unchanged: "d \<in> allocated_ids s' \<longleftrightarrow> d \<in> allocated_ids s" if "d \<notin> set ids" for d
    using unaffected_domain that by (simp add: ids_def s'_def allocated_ids_def)
  then have eq: "(allocated_ids s - set ids) \<union> (allocated_ids s' \<inter> set ids) = allocated_ids s'"
    by auto
  have "id_ok d" if "d \<in> set ids" for d
  proof -
    have "mentions_domain d e"
      using that unfolding ids_def set_affected mentions_domain_def
      by (cases e) (auto simp: add_denial_context_def add_denial_def denial_step_def touch_step_def
          Let_def split: option.splits domain_membership.splits)
    then show ?thesis
      using domain_step_valid [OF ok, of d None] by (auto simp: mentions_domain_def)
  qed
  then have "allocated_ids s \<union> set ids \<subseteq> {d. id_ok d}"
    using allocated_ids_valid [OF inv] by auto
  then have "card (allocated_ids s \<union> set ids) \<le> usize_max"
    using card_mono [of "{d. id_ok d}" "allocated_ids s \<union> set ids"] card_valid_ids
      finite_subset [OF subset_UNIV finite_landlock_ids] by (meson le_trans)
  then show ?thesis
    using domain_loop_count [of ids "allocated_ids s" s s' e rs] affected_distinct eq
      finite_allocated_ids by (simp add: ids_def s'_def)
qed

definition step_batch :: "batch \<Rightarrow> event \<Rightarrow> batch" where
  "step_batch b e = fst (process b e)"

lemma from_event_facts: "from_event e = None \<longleftrightarrow> denial_facts e = None"
  by (cases e) (auto simp: denial_facts_def)

lemma observe_ignores: "denial_facts e = None \<Longrightarrow> observe a e = a"
  by (simp add: observe_def observe_entry_def)

lemma fst_denial_record: "fst (denial_record a e) = observe a e"
  using from_event_facts [of e]
  by (cases "from_event e") (simp_all add: denial_record_def observe_def observe_entry_def case_prod_beta)

lemma process_fields:
  "bt_state (step_batch b e) = apply_event (bt_state b) e"
  "bt_denials (step_batch b e) = observe (bt_denials b) e"
  "bt_stats (step_batch b e) = (case from_event e of Some kind \<Rightarrow> stats_observe kind (bt_stats b)
     | None \<Rightarrow> bt_stats b)"
  "bt_allocated_domains (step_batch b e) =
     fst (domain_loop (apply_event (bt_state b) e)
       (zip (affected_domain_ids e) (map (domain_summary (bt_state b)) (affected_domain_ids e)))
       (bt_allocated_domains b) [])"
  by (simp_all add: step_batch_def process_def Let_def case_prod_beta fst_denial_record)

lemma batch_inv_step: "batch_inv b \<Longrightarrow> event_ok e \<Longrightarrow> batch_inv (step_batch b e)"
  using allocated_count [of "bt_state b" e "[]"]
  by (auto simp: batch_inv_def process_fields state_inv_apply agg.inv_step stats_observe_def
      split: option.split)

interpretation batch: event_sink step_batch batch_inv event_ok
  by unfold_locales (rule batch_inv_step)

lemma batch_inv_new: "batch_inv batch_new"
proof -
  have "agg_inv aggregator_new"
    unfolding aggregator_new_def by (rule agg_inv_empty) (simp_all add: DEFAULT_CAPACITY_def)
  then show ?thesis
    by (simp add: batch_inv_def batch_new_def state_inv_new allocated_ids_def stats_default_def)
qed

lemma run_batch_fields:
  "bt_state (foldl step_batch b es) = foldl apply_event (bt_state b) es"
  "bt_denials (foldl step_batch b es) = foldl observe (bt_denials b) es"
  by (induction es arbitrary: b) (simp_all add: process_fields)

subsection \<open>Lines\<close>

text \<open>Printable ASCII, or a byte of the ellipsis: in particular no line break and no control byte.\<close>

definition line_char :: "char \<Rightarrow> bool" where
  "line_char c \<longleftrightarrow> (let n = of_char c :: nat in 32 \<le> n \<and> n \<le> 126 \<or> n \<in> {0x80, 0xA6, 0xE2})"

abbreviation line :: "string \<Rightarrow> bool" where
  "line \<equiv> list_all line_char"

lemma safe_line_char: "safe_char c \<Longrightarrow> line_char c"
  by (auto simp: safe_char_def line_char_def Let_def)

lemma line_escape [simp]: "line (escape v)"
  using escape_safe [of v] by (auto simp: list_all_iff intro: safe_line_char)

lemma line_radix: "2 \<le> b \<Longrightarrow> b \<le> 16 \<Longrightarrow> line (radix b n)"
proof (induction b n rule: radix.induct)
  case (1 b n)
  have "n mod b < b"
    using 1(2) by simp
  then have digits: "line_char (digit_char (n mod b))" "n < b \<Longrightarrow> line_char (digit_char n)"
    using 1(3) by (auto intro!: safe_line_char digit_char_safe)
  with 1 show ?case
    by (subst radix.simps) auto
qed

lemma line_numbers [simp]: "line (dec n)" "line (hex n)"
  by (simp_all add: dec_def hex_def line_radix)

lemma line_join: "line sep \<Longrightarrow> list_all line xs \<Longrightarrow> line (join sep xs)"
  by (induction sep xs rule: join.induct) auto

lemma line_display [simp]: "line (display_domain_id i)" "line (display_ruleset_version v)"
  by (simp_all add: display_domain_id_def display_ruleset_version_def line_char_def)

lemma line_names [simp]: "list_all line (fs_known_names a)" "list_all line (net_known_names n)"
proof -
  have "list_all line (map snd FILESYSTEM_ACCESS_NAMES)" "list_all line (map snd NETWORK_ACCESS_NAMES)"
    by (simp_all add: FILESYSTEM_ACCESS_NAMES_def NETWORK_ACCESS_NAMES_def line_char_def)
  then show "list_all line (fs_known_names a)" "list_all line (net_known_names n)"
    by (auto simp: fs_known_names_def net_known_names_def known_names_def list_all_iff)
qed

lemma line_access_blockers: "line prefix \<Longrightarrow> list_all line names \<Longrightarrow> line (access_blockers prefix names u)"
  by (auto simp: access_blockers_def Let_def line_char_def intro!: line_join)

lemma line_format_domain [simp]: "line (format_domain d)"
  by (auto simp: format_domain_def format_parent_def format_creator_def line_char_def
      split: option.split domain_parent.split)

lemma line_elapsed [simp]: "line (elapsed a b)"
  by (simp add: elapsed_def Let_def line_char_def)

lemma line_membership [simp]: "line (domain_membership_text m)"
  by (cases m) (simp_all add: line_char_def)

lemma line_filesystem_blockers [simp]: "line (filesystem_blockers_text b)"
  by (cases b) (simp_all add: line_char_def line_access_blockers)

lemma line_network_blockers [simp]: "line (network_blockers t a)"
  by (simp add: network_blockers_def line_char_def line_access_blockers)

lemma line_network_target [simp]: "line (network_target e)"
  by (simp add: network_target_def Let_def line_char_def)

lemma denial_fields_lines:
  "denial_fields e = Some (d, blockers, target, relation) \<Longrightarrow>
     line blockers \<and> line target \<and> pred_option (\<lambda>(lab, _). line lab) relation"
  by (cases e) (auto simp: line_char_def)

lemma line_format_denial: "format_denial kind e = Some r \<Longrightarrow> line r"
  by (cases kind) (auto simp: format_denial_def flag_def line_char_def
      dest!: denial_fields_lines split: option.splits)

lemma line_format_stats [simp]: "line (format_stats a t s)"
proof -
  have "line (stats_label k)" for k
    by (cases k) (simp_all add: line_char_def)
  then have "list_all line (map (\<lambda>(kind, n :: u64). stats_label kind @ ''='' @ dec (unat n)) xs)" for xs
    by (induction xs) (auto simp: line_char_def)
  then have "line (join '' '' (map (\<lambda>(kind, n :: u64). stats_label kind @ ''='' @ dec (unat n)) xs))" for xs
    by (intro line_join) (simp_all add: line_char_def)
  then show ?thesis
    by (simp add: format_stats_def line_char_def)
qed

subsection \<open>The records of an event\<close>

lemma snd_process:
  "snd (process b e) =
     (let s' = apply_event (bt_state b) e;
          records = concat (map (\<lambda>i. domain_record (domain_summary (bt_state b) i) (domain_summary s' i))
              (affected_domain_ids e)) @ ruleset_record (bt_state b) s' e @
            (case snd (denial_record (bt_denials b) e) of Some r \<Rightarrow> [r] | None \<Rightarrow> []);
          b' = step_batch b e
      in if records \<noteq> [] \<or>
            (bt_allocated_domains b, domain_count (bt_state b)) \<noteq> (bt_allocated_domains b', domain_count s')
         then records @ [format_stats (bt_allocated_domains b') (domain_count s') (bt_stats b')]
         else records)"
  by (simp add: process_def step_batch_def domain_loop_records Let_def case_prod_beta)

definition domain_text :: "state \<Rightarrow> domain_id \<Rightarrow> string option" where
  "domain_text s d = map_option format_domain (domain s d)"

lemma domain_record_text:
  "domain_record (domain_summary s i) (domain_summary s' i) =
     (if domain_text s' i \<noteq> domain_text s i then (case domain_text s' i of Some t \<Rightarrow> [t] | None \<Rightarrow> []) else [])"
  by (auto simp: domain_record_def domain_summary_def domain_text_def comp_def option.map_comp
      split: option.splits)

lemma domain_text_persists:
  "domain_text (apply_event s e) i \<noteq> domain_text s i \<Longrightarrow> \<exists>t. domain_text (apply_event s e) i = Some t"
  using domain_persists [of s i _ e] by (cases "domain s i"; cases "domain (apply_event s e) i")
    (auto simp: domain_text_def)

lemma domain_records_changed:
  "concat (map (\<lambda>i. domain_record (domain_summary s i) (domain_summary (apply_event s e) i)) ids) =
     map (\<lambda>i. the (domain_text (apply_event s e) i))
       (filter (\<lambda>i. domain_text (apply_event s e) i \<noteq> domain_text s i) ids)"
proof (induction ids)
  case (Cons i ids)
  then show ?case
    using domain_text_persists [of s e i] by (auto simp: domain_record_text)
qed simp

definition changed_ids :: "state \<Rightarrow> event \<Rightarrow> domain_id list" where
  "changed_ids s e =
     filter (\<lambda>i. domain_text (apply_event s e) i \<noteq> domain_text s i) (affected_domain_ids e)"

definition other_records :: "batch \<Rightarrow> event \<Rightarrow> string list" where
  "other_records b e =
     ruleset_record (bt_state b) (apply_event (bt_state b) e) e @
     (case snd (denial_record (bt_denials b) e) of Some r \<Rightarrow> [r] | None \<Rightarrow> [])"

definition summary_record :: "batch \<Rightarrow> event \<Rightarrow> string list" where
  "summary_record b e =
     (if changed_ids (bt_state b) e \<noteq> [] \<or> other_records b e \<noteq> [] \<or>
         (bt_allocated_domains b, domain_count (bt_state b)) \<noteq>
           (bt_allocated_domains (step_batch b e), domain_count (apply_event (bt_state b) e))
      then [format_stats (bt_allocated_domains (step_batch b e))
              (domain_count (apply_event (bt_state b) e)) (bt_stats (step_batch b e))]
      else [])"

lemma process_records:
  "snd (process b e) =
      map (\<lambda>i. the (domain_text (apply_event (bt_state b) e) i)) (changed_ids (bt_state b) e) @
      other_records b e @ summary_record b e"
  unfolding snd_process Let_def domain_records_changed changed_ids_def [symmetric]
    other_records_def [symmetric] summary_record_def
  by simp

subsection \<open>Properties\<close>

text \<open>C8. The batch's counters agree with its state: after processing any well-typed events, the
  state is the reconstruction from those events, the aggregator has observed them, and the
  incrementally maintained number of allocated domains is exactly the number of domains of the
  state in the allocated lifecycle; it neither saturates nor drifts.\<close>

theorem batch_allocated_exact:
  assumes "list_all event_ok es"
  shows "bt_state (foldl step_batch batch_new es) = foldl apply_event state_new es \<and>
     bt_denials (foldl step_batch batch_new es) = foldl observe aggregator_new es \<and>
     bt_allocated_domains (foldl step_batch batch_new es) =
       card {d. \<exists>x. domain (foldl apply_event state_new es) d = Some x \<and> dom_lifecycle x = Allocated}"
  using batch.inv_run [OF batch_inv_new assms]
  by (simp add: batch_inv_def run_batch_fields allocated_ids_def) (simp add: batch_new_def)

theorem batch_allocated_exact_witness:
  "bt_allocated_domains (foldl step_batch batch_new sample_run) =
     card {d. \<exists>x. domain (foldl apply_event state_new sample_run) d = Some x \<and> dom_lifecycle x = Allocated}"
  using batch_allocated_exact [OF sample_run_ok] by blast

lemma denial_count_snoc:
  "length (filter P (es @ [e])) = length (filter P es) + (if P e then 1 else 0)"
  by simp

text \<open>The statistics count denials: the total and the counter of each kind are the numbers of
  processed denial events, of any kind and of that kind, saturating at \<open>u64::MAX\<close>.\<close>

theorem batch_stats_exact:
  "let st = bt_stats (foldl step_batch batch_new es) in
     total_denials st = of_nat (min (length (filter (\<lambda>e. from_event e \<noteq> None) es)) (2 ^ 64 - 1)) \<and>
     length (denials st) = DENIAL_KIND_COUNT \<and>
     denials st ! counter kind =
       of_nat (min (length (filter (\<lambda>e. from_event e = Some kind) es)) (2 ^ 64 - 1))"
proof -
  have lt: "counter k < 5" for k
    by (cases k) simp_all
  have inj: "counter k = counter kind \<longleftrightarrow> k = kind" for k
    by (cases k; cases kind) simp_all
  have "total_denials (bt_stats (foldl step_batch batch_new es)) =
        clipped (length (filter (\<lambda>e. from_event e \<noteq> None) es)) \<and>
      length (denials (bt_stats (foldl step_batch batch_new es))) = 5 \<and>
      denials (bt_stats (foldl step_batch batch_new es)) ! counter kind =
        clipped (length (filter (\<lambda>e. from_event e = Some kind) es))"
  proof (induction es rule: rev_induct)
    case Nil
    show ?case
      using lt [of kind]
      by (simp add: batch_new_def stats_default_def DENIAL_KIND_COUNT_def clipped_def)
  next
    case (snoc e es)
    then show ?case
      using lt inj by (cases "from_event e")
        (auto simp: process_fields stats_observe_def clipped_Suc nth_list_update)
  qed
  then show ?thesis
    by (simp add: Let_def clipped_def DENIAL_KIND_COUNT_def)
qed

lemma stats_kind: "\<not> starts_with ''DOMAIN'' (format_stats a t st)"
  by (simp add: starts_with_def format_stats_def)

lemma ruleset_record_all:
  assumes "\<And>v. P (''DROP_RULESET ruleset='' @ display_ruleset_version v)"
  shows "list_all P (ruleset_record s s' e)"
proof (cases e)
  case (FreeRuleset f)
  then show ?thesis
    using assms by (cases "deallocated_ruleset_identity s' (fr_ruleset_id f)")
      (simp_all add: ruleset_record_def Let_def)
qed (simp_all add: ruleset_record_def)

lemma ruleset_record_kind: "list_all (\<lambda>r. \<not> starts_with ''DOMAIN'' r) (ruleset_record s s' e)"
  by (rule ruleset_record_all) (simp add: starts_with_def)

lemma format_denial_kind: "format_denial kind d = Some r \<Longrightarrow> \<not> starts_with ''DOMAIN'' r"
  by (auto simp: starts_with_def format_denial_def)


lemma denial_record_kind: "snd (denial_record a e) = Some r \<Longrightarrow> \<not> starts_with ''DOMAIN'' r"
  by (auto simp: denial_record_def bind_eq_Some_conv case_prod_beta dest: format_denial_kind
      split: option.splits)

text \<open>C28. Change reporting is complete and exact: the records of an event start with one \<open>DOMAIN\<close>
  record for every domain whose rendered facts the event changed, and for no other domain, in
  ascending identifier order; no other record of the event is a \<open>DOMAIN\<close> record.\<close>

theorem process_reports_changed_domains:
  "\<exists>ids rest. snd (process b e) =
       map (\<lambda>d. the (domain_text (apply_event (bt_state b) e) d)) ids @ rest \<and>
     set ids = {d. domain_text (apply_event (bt_state b) e) d \<noteq> domain_text (bt_state b) d} \<and>
     sorted_wrt (\<lambda>i j. id_get i < id_get j) ids \<and>
     list_all (\<lambda>r. \<not> starts_with ''DOMAIN'' r) rest"
proof -
  let ?s = "bt_state b" and ?s' = "apply_event (bt_state b) e"
  have "domain_text ?s' d = domain_text ?s d" if "d \<notin> set (affected_domain_ids e)" for d
    using unaffected_domain [OF that] by (simp add: domain_text_def)
  then have ids: "set (changed_ids ?s e) = {d. domain_text ?s' d \<noteq> domain_text ?s d}"
      "sorted_wrt (\<lambda>i j. id_get i < id_get j) (changed_ids ?s e)"
    by (auto simp: changed_ids_def affected_sorted sorted_wrt_filter)
  have "list_all (\<lambda>r. \<not> starts_with ''DOMAIN'' r) (other_records b e @ summary_record b e)"
    using denial_record_kind
    by (simp add: other_records_def summary_record_def ruleset_record_kind stats_kind split: option.split)
  then show ?thesis
    using ids process_records [of b e] by blast
qed

text \<open>No denial is lost: processing a denial event prints the record of the aggregated entry it
  belongs to, as the aggregator returned it for this event.\<close>

theorem process_reports_denial:
  assumes "batch_inv b" "from_event e = Some kind"
  shows "\<exists>entry r. snd (observe_entry (bt_denials b) e) = Some entry \<and> ag_latest_event entry = e \<and>
     format_denial kind entry = Some r \<and> r \<in> set (snd (process b e))"
proof -
  obtain k same lg where facts: "denial_facts e = Some (k, same, lg)"
    using assms(2) from_event_facts [of e] by (metis option.distinct(1) prod_cases3 not_None_eq)
  have "agg_inv (bt_denials b)"
    using assms(1) by (simp add: batch_inv_def)
  then obtain entry where entry: "snd (observe_entry (bt_denials b) e) = Some entry"
      "ag_latest_event entry = e"
    using observe_entry_affected [of "bt_denials b" e] facts by auto
  have "denial_fields e \<noteq> None"
    using assms(2) by (cases e) simp_all
  then obtain r where r: "format_denial kind entry = Some r"
    using entry(2) by (auto simp: format_denial_def)
  then have "snd (denial_record (bt_denials b) e) = Some r"
    using assms(2) entry(1) by (simp add: denial_record_def case_prod_beta)
  then have "r \<in> set (snd (process b e))"
    by (simp add: process_records other_records_def)
  then show ?thesis
    using entry r by blast
qed

theorem process_reports_denial_witness:
  "\<exists>r. starts_with ''DENIAL'' r \<and> r \<in> set (snd (process batch_new (sample_denial 5 80)))"
proof -
  have "from_event (sample_denial 5 80) = Some Net"
    by (simp add: sample_denial_def)
  from process_reports_denial [OF batch_inv_new this] obtain entry r where
    "format_denial Net entry = Some r" "r \<in> set (snd (process batch_new (sample_denial 5 80)))"
    by blast
  moreover from this have "starts_with ''DENIAL'' r"
    by (auto simp: format_denial_def starts_with_def)
  ultimately show ?thesis
    by blast
qed

text \<open>C29. Every record is a single printable line: whatever bytes the kernel captured in paths,
  commands and socket names, no record contains a line break, another control byte, or a byte
  outside printable ASCII other than the ellipsis that marks omitted bytes.\<close>

theorem process_prints_lines: "list_all (list_all line_char) (snd (process b e))"
proof -
  let ?s = "bt_state b" and ?s' = "apply_event (bt_state b) e"
  have "line (the (domain_text ?s' i))" if "i \<in> set (changed_ids ?s e)" for i
    using that domain_text_persists [of ?s e i] by (auto simp: changed_ids_def domain_text_def)
  then have "list_all line (map (\<lambda>i. the (domain_text ?s' i)) (changed_ids ?s e))"
    by (simp add: list.pred_set [of line])
  moreover have "list_all line (ruleset_record ?s ?s' e)"
    by (rule ruleset_record_all) (simp add: line_char_def)
  moreover have "list_all line (case snd (denial_record (bt_denials b) e) of Some r \<Rightarrow> [r] | None \<Rightarrow> [])"
    by (auto simp: denial_record_def bind_eq_Some_conv case_prod_beta
        dest: line_format_denial split: option.splits)
  moreover have "list_all line (summary_record b e)"
    by (simp add: summary_record_def)
  ultimately show ?thesis
    unfolding process_records other_records_def by simp
qed

text \<open>Escaped values are unambiguous: two captured values have the same escaped text only if
  they have the same bytes and the same omission mark, and the text contains no separator of the
  record format.\<close>

theorem escape_unambiguous: "(escape v = escape v' \<longleftrightarrow> v = v') \<and> list_all safe_char (escape v)"
  using escape_inject escape_safe by blast

end
