(* ===== verification/Channel.thy ===== *)
theory Channel
  imports Obs_Prelude
begin

text \<open>
  The bounded channels of \<open>std::sync::mpsc\<close> the collector uses: a first-in first-out buffer of fixed
  capacity, a number of sender handles and one receiver. The locale \<open>bounded_channel\<close> is the
  documented contract of the non-blocking operations; the collector's lemmas use it through the
  interpretation on \<open>ch_try_send\<close> and \<open>ch_try_recv\<close>. A receive with a timeout has the outcomes of
  \<open>ch_try_recv\<close> at the moment it stops waiting.
\<close>

record 'a channel =
  ch_buffer :: "'a list"
  ch_capacity :: nat
  ch_senders :: nat
  ch_receiver :: bool

datatype send_result = SendOk | SendFull | SendDisconnected

datatype 'a recv_result = RecvOk 'a | RecvEmpty | RecvDisconnected

definition sync_channel :: "nat \<Rightarrow> 'a channel" where
  "sync_channel cap = \<lparr>ch_buffer = [], ch_capacity = cap, ch_senders = 1, ch_receiver = True\<rparr>"

definition ch_try_send :: "'a channel \<Rightarrow> 'a \<Rightarrow> 'a channel \<times> send_result" where
  "ch_try_send c x =
     (if \<not> ch_receiver c then (c, SendDisconnected)
      else if length (ch_buffer c) \<ge> ch_capacity c then (c, SendFull)
      else (c\<lparr>ch_buffer := ch_buffer c @ [x]\<rparr>, SendOk))"

definition ch_try_recv :: "'a channel \<Rightarrow> 'a channel \<times> 'a recv_result" where
  "ch_try_recv c =
     (case ch_buffer c of
        x # xs \<Rightarrow> (c\<lparr>ch_buffer := xs\<rparr>, RecvOk x)
      | [] \<Rightarrow> (c, if ch_senders c = 0 then RecvDisconnected else RecvEmpty))"

definition ch_clone_sender :: "'a channel \<Rightarrow> 'a channel" where
  "ch_clone_sender c = c\<lparr>ch_senders := ch_senders c + 1\<rparr>"

definition ch_drop_sender :: "'a channel \<Rightarrow> 'a channel" where
  "ch_drop_sender c = c\<lparr>ch_senders := ch_senders c - 1\<rparr>"

text \<open>Dropping the receiver discards what is buffered.\<close>

definition ch_drop_receiver :: "'a channel \<Rightarrow> 'a channel" where
  "ch_drop_receiver c = c\<lparr>ch_receiver := False, ch_buffer := []\<rparr>"

subsection \<open>The contract\<close>

locale bounded_channel =
  fixes send :: "'c \<Rightarrow> 'a \<Rightarrow> 'c \<times> send_result"
    and recv :: "'c \<Rightarrow> 'c \<times> 'a recv_result"
    and contents :: "'c \<Rightarrow> 'a list"
    and capacity :: "'c \<Rightarrow> nat"
    and connected :: "'c \<Rightarrow> bool"
    and writers :: "'c \<Rightarrow> nat"
  assumes send_result: "snd (send c x) =
      (if \<not> connected c then SendDisconnected
       else if capacity c \<le> length (contents c) then SendFull else SendOk)"
    and send_contents: "contents (fst (send c x)) =
      (if snd (send c x) = SendOk then contents c @ [x] else contents c)"
    and send_frame: "capacity (fst (send c x)) = capacity c" "connected (fst (send c x)) = connected c"
      "writers (fst (send c x)) = writers c"
    and recv_result: "snd (recv c) = (case contents c of y # ys \<Rightarrow> RecvOk y
      | [] \<Rightarrow> if writers c = 0 then RecvDisconnected else RecvEmpty)"
    and recv_contents: "contents (fst (recv c)) = tl (contents c)"
    and recv_frame: "capacity (fst (recv c)) = capacity c" "connected (fst (recv c)) = connected c"
      "writers (fst (recv c)) = writers c"
begin

lemma send_bounded:
  "length (contents c) \<le> capacity c \<Longrightarrow> length (contents (fst (send c x))) \<le> capacity c"
  by (auto simp: send_contents send_result)

lemma recv_Ok_iff: "snd (recv c) = RecvOk x \<longleftrightarrow> (\<exists>ys. contents c = x # ys)"
  by (auto simp: recv_result split: list.splits)

lemma recv_none:
  "snd (recv c) = RecvEmpty \<longleftrightarrow> contents c = [] \<and> writers c \<noteq> 0"
  "snd (recv c) = RecvDisconnected \<longleftrightarrow> contents c = [] \<and> writers c = 0"
  by (auto simp: recv_result split: list.splits)

text \<open>Nothing is lost or reordered: what is received and what stays is what was there.\<close>

lemma recv_fifo:
  "(case snd (recv c) of RecvOk x \<Rightarrow> [x] | _ \<Rightarrow> []) @ contents (fst (recv c)) = contents c"
  by (auto simp: recv_result recv_contents split: list.splits)

end

interpretation ch: bounded_channel ch_try_send ch_try_recv ch_buffer ch_capacity ch_receiver ch_senders
  by unfold_locales (auto simp: ch_try_send_def ch_try_recv_def split: list.splits)

lemma ch_drop_simps [simp]:
  "ch_buffer (ch_drop_sender c) = ch_buffer c" "ch_receiver (ch_drop_sender c) = ch_receiver c"
  "ch_capacity (ch_drop_sender c) = ch_capacity c" "ch_senders (ch_drop_sender c) = ch_senders c - 1"
  "ch_buffer (ch_drop_receiver c) = []" "ch_receiver (ch_drop_receiver c) = False"
  "ch_capacity (ch_drop_receiver c) = ch_capacity c" "ch_senders (ch_drop_receiver c) = ch_senders c"
  by (simp_all add: ch_drop_sender_def ch_drop_receiver_def)

end
