(* ===== verification/Collector.thy ===== *)
theory Collector
  imports Wire Channel
begin

text \<open>
  \<open>src/collector.rs\<close>: the delivery path between the ring-buffer callback and the consumer. The
  worker thread polls the ring buffer; the callback decodes each sample and offers it to a bounded
  queue; terminal conditions go through a second channel. The consumer reads with \<open>try_recv\<close> or
  \<open>recv_timeout\<close>. \<open>system\<close> is the state of both threads with the channels they share, and \<open>sys_step\<close>
  interleaves their atomic steps. What libbpf does is not fixed: a poll may run the callback on any
  samples, return any result, or panic.
\<close>

subsection \<open>Configuration\<close>

definition DEFAULT_EVENT_CAPACITY :: nat where "DEFAULT_EVENT_CAPACITY = 1024"
definition MIN_EVENT_CAPACITY :: nat where "MIN_EVENT_CAPACITY = 1"
definition MAX_EVENT_CAPACITY :: nat where "MAX_EVENT_CAPACITY = 65536"

datatype collector_config_error = InvalidEventCapacity nat

datatype collector_config = CollectorConfig (event_capacity: nat)

definition config_build :: "nat \<Rightarrow> collector_config_error + collector_config" where
  "config_build capacity =
     (if \<not> (MIN_EVENT_CAPACITY \<le> capacity \<and> capacity \<le> MAX_EVENT_CAPACITY)
      then Inl (InvalidEventCapacity capacity) else Inr (CollectorConfig capacity))"

definition config_default :: collector_config where
  "config_default = CollectorConfig DEFAULT_EVENT_CAPACITY"

subsection \<open>Errors\<close>

datatype receive_error_kind = MalformedSample | OutputQueueFull | PollFailure | WorkerPanic | WorkerStop

text \<open>\<open>'p\<close> is the error type of the polling library.\<close>

datatype 'p error_detail =
    DecodeSource decode_error
  | PollSource 'p
  | PanicSource "string option"
  | StaticDetail string

datatype 'p receive_error = ReceiveError (re_kind: receive_error_kind) (re_detail: "'p error_detail")

datatype panic_payload = StringPayload string | StrPayload string | OpaquePayload

fun panic_message :: "panic_payload \<Rightarrow> string option" where
  "panic_message (StringPayload m) = Some m"
| "panic_message (StrPayload m) = Some m"
| "panic_message OpaquePayload = None"

definition worker_stop :: "'p receive_error" where
  "worker_stop = ReceiveError WorkerStop (StaticDetail ''collector worker is no longer running'')"

definition output_queue_full :: "'p receive_error" where
  "output_queue_full =
     ReceiveError OutputQueueFull (StaticDetail ''one or more delivery entries were omitted'')"

definition worker_receive_panic :: "panic_payload \<Rightarrow> 'p receive_error" where
  "worker_receive_panic payload = ReceiveError WorkerPanic (PanicSource (panic_message payload))"

definition poll_failure :: "'p \<Rightarrow> 'p receive_error" where
  "poll_failure er = ReceiveError PollFailure (PollSource er)"

type_synonym 'p delivery = "'p receive_error + event"

record 'p delivery_entry =
  de_delivery :: "'p delivery"
  de_output_full_before :: bool

subsection \<open>The state of the two threads\<close>

text \<open>Where the worker is in \<open>run_worker\<close> and \<open>run_with\<close>; the option is a caught panic.\<close>

datatype 'p worker_pc =
    WLoop
  | WPoll
  | WDeliver "u8 list"
  | WReturned "'p + unit"
  | WSend "'p receive_error list"
  | WDropRing "panic_payload option"
  | WDropTerminal "panic_payload option"
  | WDropDeliveries "panic_payload option"
  | WFinish "panic_payload option"
  | WDone

text \<open>
  Where the consumer is: between calls, in the second half of a receive call, or in the steps of
  dropping the \<open>Collector\<close>.
\<close>

datatype consumer_pc =
    CIdle | CNow | CStop | CUntil
  | CDropDeliveries | CDropTerminal | CGone

text \<open>What a receive call returned.\<close>

datatype 'p outcome = Delivered "'p delivery" | Terminal "'p receive_error" | NotReady

record 'p system =
  sy_deliveries :: "'p delivery_entry channel"
  sy_terminal :: "'p receive_error channel"
  sy_running :: bool
  sy_output_full_pending :: bool
  sy_callback_panic :: "panic_payload option"
  sy_worker :: "'p worker_pc"
  sy_pending_delivery :: "'p delivery option"
  sy_consumer :: consumer_pc
  sy_history :: "(u8 list \<times> bool) list"
  sy_log :: "'p outcome list"

text \<open>
  \<open>sy_history\<close> and \<open>sy_log\<close> record the past and are never read: the samples the callback offered,
  each with whether it was accepted, and the outcomes of the consumer's calls.
\<close>

definition system_init :: "nat \<Rightarrow> 'p system" where
  "system_init capacity =
     \<lparr>sy_deliveries = ch_clone_sender (sync_channel capacity),
      sy_terminal = ch_clone_sender (sync_channel 3),
      sy_running = True, sy_output_full_pending = False, sy_callback_panic = None,
      sy_worker = WLoop, sy_pending_delivery = None, sy_consumer = CIdle,
      sy_history = [], sy_log = []\<rparr>"

subsection \<open>The worker\<close>

definition delivery_of :: "endian \<Rightarrow> u8 list \<Rightarrow> 'p delivery" where
  "delivery_of en data = map_err (\<lambda>er. ReceiveError MalformedSample (DecodeSource er)) (decode en data)"

text \<open>\<open>DeliveryQueue::deliver\<close> after its check of \<open>running\<close>: the collector may be dropped in between.\<close>

definition deliver_entry :: "endian \<Rightarrow> 'p system \<Rightarrow> u8 list \<Rightarrow> 'p system \<times> int" where
  "deliver_entry en s data =
     (let entry = \<lparr>de_delivery = delivery_of en data,
                   de_output_full_before = sy_output_full_pending s\<rparr>;
          (c, result) = ch_try_send (sy_deliveries s) entry
      in case result of
           SendOk \<Rightarrow> (s\<lparr>sy_deliveries := c, sy_output_full_pending := False,
                        sy_history := sy_history s @ [(data, True)]\<rparr>, 0)
         | SendFull \<Rightarrow> (s\<lparr>sy_deliveries := c, sy_output_full_pending := True,
                          sy_history := sy_history s @ [(data, False)]\<rparr>, 0)
         | SendDisconnected \<Rightarrow> (s\<lparr>sy_deliveries := c, sy_running := False\<rparr>, -1))"

definition deliver :: "endian \<Rightarrow> 'p system \<Rightarrow> u8 list \<Rightarrow> 'p system \<times> int" where
  "deliver en s data = (if \<not> sy_running s then (s, -1) else deliver_entry en s data)"

text \<open>\<open>catch_callback_panic\<close>: a panicking callback leaves its payload for the worker.\<close>

definition callback_panicked :: "panic_payload \<Rightarrow> 'p system \<Rightarrow> 'p system \<times> int" where
  "callback_panicked payload s = (s\<lparr>sy_callback_panic := Some payload\<rparr>, -1)"

text \<open>The errors \<open>report_callback_panic\<close> sends, if a callback panicked.\<close>

definition report_callback_panic :: "'p system \<Rightarrow> ('p system \<times> 'p receive_error list) option" where
  "report_callback_panic s =
     (case sy_callback_panic s of
        None \<Rightarrow> None
      | Some payload \<Rightarrow>
          Some (s\<lparr>sy_callback_panic := None, sy_output_full_pending := False\<rparr>,
                (if sy_output_full_pending s then [output_queue_full] else []) @
                [worker_receive_panic payload]))"

text \<open>The worker's loop body after a poll returned.\<close>

definition after_poll :: "'p + unit \<Rightarrow> 'p system \<Rightarrow> 'p system" where
  "after_poll result s =
     (case report_callback_panic s of
        Some (s', errors) \<Rightarrow> s'\<lparr>sy_worker := WSend errors\<rparr>
      | None \<Rightarrow>
          (case result of
             Inl er \<Rightarrow>
               if sy_running s
               then s\<lparr>sy_worker := WSend ((if sy_output_full_pending s then [output_queue_full] else [])
                                          @ [poll_failure er])\<rparr>
               else s\<lparr>sy_worker := WDropRing None\<rparr>
           | Inr _ \<Rightarrow> s\<lparr>sy_worker := WLoop\<rparr>))"

text \<open>
  The steps the worker takes on its own; a poll and a delivery depend on libbpf, see \<open>sys_step\<close>.
  Returning or unwinding drops the ring buffer with the callback's sender, then the terminal sender,
  then the delivery sender; only then \<open>run_with\<close> reports a caught panic and drops its own terminal
  sender.
\<close>

fun worker_step :: "'p system \<Rightarrow> 'p worker_pc \<Rightarrow> 'p system option" where
  "worker_step s WLoop = Some (s\<lparr>sy_worker := (if sy_running s then WPoll else WDropRing None)\<rparr>)"
| "worker_step s WPoll = None"
| "worker_step s (WDeliver data) = None"
| "worker_step s (WReturned result) = Some (after_poll result s)"
| "worker_step s (WSend (er # ers)) =
     Some (s\<lparr>sy_terminal := fst (ch_try_send (sy_terminal s) er), sy_worker := WSend ers\<rparr>)"
| "worker_step s (WSend []) = Some (s\<lparr>sy_worker := WDropRing None\<rparr>)"
| "worker_step s (WDropRing p) =
     Some (s\<lparr>sy_deliveries := ch_drop_sender (sy_deliveries s), sy_worker := WDropTerminal p\<rparr>)"
| "worker_step s (WDropTerminal p) =
     Some (s\<lparr>sy_terminal := ch_drop_sender (sy_terminal s), sy_worker := WDropDeliveries p\<rparr>)"
| "worker_step s (WDropDeliveries p) =
     Some (s\<lparr>sy_deliveries := ch_drop_sender (sy_deliveries s), sy_worker := WFinish p\<rparr>)"
| "worker_step s (WFinish (Some payload)) =
     Some (s\<lparr>sy_terminal := fst (ch_try_send (sy_terminal s) (worker_receive_panic payload)),
       sy_worker := WFinish None\<rparr>)"
| "worker_step s (WFinish None) =
     Some (s\<lparr>sy_terminal := ch_drop_sender (sy_terminal s), sy_worker := WDone\<rparr>)"
| "worker_step s WDone = None"

text \<open>A panic of the worker itself unwinds from wherever it is, dropping what is not yet dropped.\<close>

fun unwind :: "panic_payload \<Rightarrow> 'p worker_pc \<Rightarrow> 'p worker_pc option" where
  "unwind payload (WDropTerminal None) = Some (WDropTerminal (Some payload))"
| "unwind payload (WDropDeliveries None) = Some (WDropDeliveries (Some payload))"
| "unwind payload (WDropRing None) = Some (WDropRing (Some payload))"
| "unwind payload WLoop = Some (WDropRing (Some payload))"
| "unwind payload WPoll = Some (WDropRing (Some payload))"
| "unwind payload (WReturned _) = Some (WDropRing (Some payload))"
| "unwind payload (WSend _) = Some (WDropRing (Some payload))"
| "unwind payload _ = None"

subsection \<open>The consumer\<close>

definition finish_call :: "'p outcome \<Rightarrow> 'p system \<Rightarrow> 'p system" where
  "finish_call r s = s\<lparr>sy_consumer := CIdle, sy_log := sy_log s @ [r]\<rparr>"

definition unpair :: "'p delivery_entry \<Rightarrow> 'p system \<Rightarrow> 'p system \<times> 'p delivery" where
  "unpair entry s =
     (if de_output_full_before entry
      then (s\<lparr>sy_pending_delivery := Some (de_delivery entry)\<rparr>, Inl output_queue_full)
      else (s, de_delivery entry))"

text \<open>
  The first half of \<open>try_recv\<close> (\<open>timed = False\<close>) and of \<open>recv_timeout\<close> (\<open>timed = True\<close>): the pending
  delivery, then the delivery channel. An empty channel, or the end of the waiting time, leads to
  \<open>terminal_now_nonblocking\<close>; a disconnected one to \<open>terminal_or_stop_nonblocking\<close> or \<open>terminal_until\<close>.
\<close>

definition recv_begin :: "bool \<Rightarrow> 'p system \<Rightarrow> 'p system" where
  "recv_begin timed s =
     (case sy_pending_delivery s of
        Some d \<Rightarrow> finish_call (Delivered d) (s\<lparr>sy_pending_delivery := None\<rparr>)
      | None \<Rightarrow>
          (let (c, r) = ch_try_recv (sy_deliveries s); s1 = s\<lparr>sy_deliveries := c\<rparr> in
           case r of
             RecvOk entry \<Rightarrow> (let (s2, d) = unpair entry s1 in finish_call (Delivered d) s2)
           | RecvEmpty \<Rightarrow> s1\<lparr>sy_consumer := CNow\<rparr>
           | RecvDisconnected \<Rightarrow> s1\<lparr>sy_consumer := (if timed then CUntil else CStop)\<rparr>))"

text \<open>The terminal channel; \<open>terminal_until\<close> polls once more when its time is over.\<close>

fun recv_terminal :: "consumer_pc \<Rightarrow> 'p system \<Rightarrow> 'p system" where
  "recv_terminal CIdle s = s"
| "recv_terminal CNow s =
     (let (c, r) = ch_try_recv (sy_terminal s); s1 = s\<lparr>sy_terminal := c\<rparr> in
      case r of RecvOk er \<Rightarrow> finish_call (Terminal er) s1
      | RecvDisconnected \<Rightarrow> finish_call (Terminal worker_stop) s1
      | RecvEmpty \<Rightarrow> finish_call NotReady s1)"
| "recv_terminal CStop s =
     (let (c, r) = ch_try_recv (sy_terminal s); s1 = s\<lparr>sy_terminal := c\<rparr> in
      case r of RecvOk er \<Rightarrow> finish_call (Terminal er) s1
      | RecvEmpty \<Rightarrow> finish_call NotReady s1
      | RecvDisconnected \<Rightarrow> finish_call (Terminal worker_stop) s1)"
| "recv_terminal CUntil s =
     (let (c, r) = ch_try_recv (sy_terminal s); s1 = s\<lparr>sy_terminal := c\<rparr> in
      case r of RecvOk er \<Rightarrow> finish_call (Terminal er) s1
      | RecvEmpty \<Rightarrow> s1\<lparr>sy_consumer := CNow\<rparr>
      | RecvDisconnected \<Rightarrow> finish_call (Terminal worker_stop) s1)"
| "recv_terminal _ s = s"

text \<open>A call that no worker step interrupts.\<close>

definition try_recv :: "'p system \<Rightarrow> 'p system" where
  "try_recv s = (let s1 = recv_begin False s in recv_terminal (sy_consumer s1) s1)"

text \<open>\<open>Drop for Collector\<close> clears \<open>running\<close>; then the fields are dropped in their order.\<close>

fun drop_collector :: "consumer_pc \<Rightarrow> 'p system \<Rightarrow> 'p system" where
  "drop_collector CIdle s = s\<lparr>sy_running := False, sy_consumer := CDropDeliveries\<rparr>"
| "drop_collector CDropDeliveries s =
     s\<lparr>sy_deliveries := ch_drop_receiver (sy_deliveries s), sy_pending_delivery := None,
       sy_consumer := CDropTerminal\<rparr>"
| "drop_collector CDropTerminal s =
     s\<lparr>sy_terminal := ch_drop_receiver (sy_terminal s), sy_consumer := CGone\<rparr>"
| "drop_collector _ s = s"

subsection \<open>Interleaving\<close>

fun dropping :: "consumer_pc \<Rightarrow> bool" where
  "dropping CDropDeliveries = True" | "dropping CDropTerminal = True" | "dropping CGone = True"
| "dropping _ = False"

definition consumer_alive :: "'p system \<Rightarrow> bool" where
  "consumer_alive s \<longleftrightarrow> \<not> dropping (sy_consumer s)"

text \<open>
  The callback runs inside a poll: it checks \<open>running\<close> (\<open>callback\<close>; when it is clear \<open>deliver\<close> returns
  at once and nothing changes), then sends (\<open>delivers\<close>), and may panic at either point.
\<close>

inductive sys_step :: "endian \<Rightarrow> 'p system \<Rightarrow> 'p system \<Rightarrow> bool" for en where
  callback: "sy_worker s = WPoll \<Longrightarrow> sy_running s \<Longrightarrow> sys_step en s (s\<lparr>sy_worker := WDeliver data\<rparr>)"
| delivers: "sy_worker s = WDeliver data \<Longrightarrow>
    sys_step en s ((fst (deliver_entry en s data))\<lparr>sy_worker := WPoll\<rparr>)"
| callback_panics: "sy_worker s = WDeliver data \<Longrightarrow>
    sys_step en s ((fst (callback_panicked payload s))\<lparr>sy_worker := WPoll\<rparr>)"
| poll_returns: "sy_worker s = WPoll \<Longrightarrow> sys_step en s (s\<lparr>sy_worker := WReturned result\<rparr>)"
| worker: "worker_step s (sy_worker s) = Some s' \<Longrightarrow> sys_step en s s'"
| worker_panics: "unwind payload (sy_worker s) = Some pc \<Longrightarrow> sys_step en s (s\<lparr>sy_worker := pc\<rparr>)"
| receive: "sy_consumer s = CIdle \<Longrightarrow> sys_step en s (recv_begin timed s)"
| terminal: "sy_consumer s \<in> {CNow, CStop, CUntil} \<Longrightarrow>
    sys_step en s (recv_terminal (sy_consumer s) s)"
| drops: "sy_consumer s \<in> {CIdle, CDropDeliveries, CDropTerminal} \<Longrightarrow>
    sys_step en s (drop_collector (sy_consumer s) s)"

inductive sys_reachable :: "endian \<Rightarrow> nat \<Rightarrow> 'p system \<Rightarrow> bool" for en capacity where
  init: "sys_reachable en capacity (system_init capacity)"
| step: "sys_reachable en capacity s \<Longrightarrow> sys_step en s s' \<Longrightarrow> sys_reachable en capacity s'"

end
