(* ===== verification/Collector_Safety.thy ===== *)
theory Collector_Safety
  imports Collector
begin

text \<open>
  Invariants of the collector over every interleaving of the worker and the consumer. The
  predicates below are one conjunct each; \<open>sys_inv\<close> is their conjunction, and each is shown to be
  kept by every step.
\<close>

fun_cases worker_stepE: "worker_step s pc = Some s'"
fun_cases unwindE: "unwind payload pc = Some pc'"

subsection \<open>What the consumer should see\<close>

text \<open>
  \<open>coalesce\<close> is the specification of the queue's loss reporting: an accepted sample carries a mark
  exactly when samples were omitted since the previous accepted one.
\<close>

fun losing :: "bool \<Rightarrow> (u8 list \<times> bool) list \<Rightarrow> bool" where
  "losing lost [] = lost"
| "losing lost ((_, accepted) # h) = losing (\<not> accepted) h"

fun coalesce :: "endian \<Rightarrow> bool \<Rightarrow> (u8 list \<times> bool) list \<Rightarrow> 'p delivery_entry list" where
  "coalesce en lost [] = []"
| "coalesce en lost ((data, accepted) # h) =
     (if accepted then [\<lparr>de_delivery = delivery_of en data, de_output_full_before = lost\<rparr>] else []) @
     coalesce en (\<not> accepted) h"

definition expand :: "'p delivery_entry \<Rightarrow> 'p delivery list" where
  "expand e = (if de_output_full_before e then [Inl output_queue_full] else []) @ [de_delivery e]"

definition expected :: "endian \<Rightarrow> (u8 list \<times> bool) list \<Rightarrow> 'p delivery list" where
  "expected en h = concat (map expand (coalesce en False h))"

fun delivered :: "'p outcome list \<Rightarrow> 'p delivery list" where
  "delivered [] = []"
| "delivered (Delivered d # l) = d # delivered l"
| "delivered (_ # l) = delivered l"

fun reported :: "'p outcome list \<Rightarrow> 'p receive_error list" where
  "reported [] = []"
| "reported (Terminal er # l) = (if re_kind er = WorkerStop then reported l else er # reported l)"
| "reported (_ # l) = reported l"

lemma losing_snoc [simp]: "losing lost (h @ [(data, accepted)]) = (\<not> accepted)"
  by (induction lost h rule: losing.induct) simp_all

lemma coalesce_snoc:
  "coalesce en lost (h @ [(data, accepted)]) = coalesce en lost h @
     (if accepted then [\<lparr>de_delivery = delivery_of en data, de_output_full_before = losing lost h\<rparr>] else [])"
  by (induction en lost h rule: coalesce.induct) simp_all

lemma expected_snoc:
  "expected en (h @ [(data, accepted)]) = expected en h @
     (if accepted then expand \<lparr>de_delivery = delivery_of en data, de_output_full_before = losing False h\<rparr>
      else [])"
  by (simp add: expected_def coalesce_snoc)

lemma delivered_append [simp]: "delivered (l @ m) = delivered l @ delivered m"
  by (induction l rule: delivered.induct) simp_all

lemma reported_append [simp]: "reported (l @ m) = reported l @ reported m"
  by (induction l rule: reported.induct) simp_all

lemma error_kinds [simp]:
  "re_kind worker_stop = WorkerStop" "re_kind output_queue_full = OutputQueueFull"
  "re_kind (worker_receive_panic p) = WorkerPanic" "re_kind (poll_failure e) = PollFailure"
  by (simp_all add: worker_stop_def output_queue_full_def worker_receive_panic_def poll_failure_def)

subsection \<open>The conjuncts\<close>

fun polling :: "'p worker_pc \<Rightarrow> bool" where
  "polling WLoop = True" | "polling WPoll = True" | "polling (WDeliver _) = True" | "polling (WReturned _) = True"
| "polling _ = False"

fun delivery_senders :: "'p worker_pc \<Rightarrow> nat" where
  "delivery_senders (WDropTerminal _) = 1" | "delivery_senders (WDropDeliveries _) = 1"
| "delivery_senders (WFinish _) = 0" | "delivery_senders WDone = 0"
| "delivery_senders _ = 2"

fun terminal_senders :: "'p worker_pc \<Rightarrow> nat" where
  "terminal_senders (WDropDeliveries _) = 1" | "terminal_senders (WFinish _) = 1"
| "terminal_senders WDone = 0"
| "terminal_senders _ = 2"

text \<open>How many errors the worker may still send, and how many it has left to send.\<close>

fun to_send :: "'p worker_pc \<Rightarrow> 'p receive_error list" where
  "to_send (WSend ers) = ers"
| "to_send (WDropRing (Some p)) = [worker_receive_panic p]"
| "to_send (WDropTerminal (Some p)) = [worker_receive_panic p]"
| "to_send (WDropDeliveries (Some p)) = [worker_receive_panic p]"
| "to_send (WFinish (Some p)) = [worker_receive_panic p]"
| "to_send _ = []"

fun send_budget :: "'p worker_pc \<Rightarrow> nat" where
  "send_budget WLoop = 0" | "send_budget WPoll = 0" | "send_budget (WDeliver _) = 0" | "send_budget (WReturned _) = 0"
| "send_budget (WSend _) = 2"
| "send_budget (WDropRing None) = 2" | "send_budget (WDropTerminal None) = 2"
| "send_budget (WDropDeliveries None) = 2"
| "send_budget _ = 3"

definition sent :: "'p system \<Rightarrow> nat" where
  "sent s = length (reported (sy_log s)) + length (ch_buffer (sy_terminal s))"

definition handles_inv :: "'p system \<Rightarrow> bool" where
  "handles_inv s \<longleftrightarrow>
     sy_running s = consumer_alive s \<and>
     ch_receiver (sy_deliveries s) = (sy_consumer s \<notin> {CDropTerminal, CGone}) \<and>
     ch_receiver (sy_terminal s) = (sy_consumer s \<noteq> CGone) \<and>
     ch_capacity (sy_terminal s) = 3 \<and>
     ch_senders (sy_deliveries s) = delivery_senders (sy_worker s) \<and>
     ch_senders (sy_terminal s) = terminal_senders (sy_worker s)"

definition consumer_inv :: "'p system \<Rightarrow> bool" where
  "consumer_inv s \<longleftrightarrow>
     (sy_consumer s \<in> {CNow, CStop, CUntil} \<longrightarrow> sy_pending_delivery s = None) \<and>
     (sy_consumer s \<in> {CStop, CUntil} \<longrightarrow>
        ch_buffer (sy_deliveries s) = [] \<and> ch_senders (sy_deliveries s) = 0) \<and>
     (sy_consumer s = CNow \<and> ch_buffer (sy_deliveries s) \<noteq> [] \<longrightarrow> reported (sy_log s) = [])"

definition terminal_inv :: "'p system \<Rightarrow> bool" where
  "terminal_inv s \<longleftrightarrow>
     sent s + length (to_send (sy_worker s)) \<le> send_budget (sy_worker s) \<and>
     (\<forall>er\<in>set (ch_buffer (sy_terminal s)) \<union> set (to_send (sy_worker s)). re_kind er \<noteq> WorkerStop) \<and>
     (consumer_alive s \<and> \<not> polling (sy_worker s) \<longrightarrow>
        0 < sent s + length (to_send (sy_worker s)))"

definition stream_inv :: "endian \<Rightarrow> 'p system \<Rightarrow> bool" where
  "stream_inv en s \<longleftrightarrow>
     (polling (sy_worker s) \<longrightarrow> sy_output_full_pending s = losing False (sy_history s)) \<and>
     (consumer_alive s \<longrightarrow>
        delivered (sy_log s) @ (case sy_pending_delivery s of Some d \<Rightarrow> [d] | None \<Rightarrow> []) @
        concat (map expand (ch_buffer (sy_deliveries s))) = expected en (sy_history s))"

definition stop_inv :: "'p system \<Rightarrow> bool" where
  "stop_inv s \<longleftrightarrow>
     (Terminal worker_stop \<in> set (sy_log s) \<longrightarrow> sy_worker s = WDone \<and>
        (consumer_alive s \<longrightarrow> ch_buffer (sy_deliveries s) = [] \<and> ch_buffer (sy_terminal s) = [] \<and>
           sy_pending_delivery s = None))"

definition order_inv :: "'p system \<Rightarrow> bool" where
  "order_inv s \<longleftrightarrow>
     (ch_buffer (sy_deliveries s) \<noteq> [] \<or> sy_pending_delivery s \<noteq> None \<longrightarrow> length (reported (sy_log s)) \<le> 1)"

definition queue_inv :: "nat \<Rightarrow> 'p system \<Rightarrow> bool" where
  "queue_inv capacity s \<longleftrightarrow>
     ch_capacity (sy_deliveries s) = capacity \<and> length (ch_buffer (sy_deliveries s)) \<le> capacity"

lemmas worker_defs = deliver_entry_def callback_panicked_def after_poll_def report_callback_panic_def
lemmas consumer_defs = recv_begin_def unpair_def finish_call_def
lemmas channel_facts = ch.send_frame ch.send_result ch.send_contents ch.recv_frame

lemma unwind_senders:
  "unwind payload pc = Some pc' \<Longrightarrow>
     delivery_senders pc' = delivery_senders pc \<and> terminal_senders pc' = terminal_senders pc"
  by (erule unwindE) auto

lemma worker_step_cases [consumes 1]:
  assumes "worker_step s pc = Some s'"
  obtains (again) "pc = WLoop" "s' = s\<lparr>sy_worker := (if sy_running s then WPoll else WDropRing None)\<rparr>"
  | (returned) result where "pc = WReturned result" "s' = after_poll result s"
  | (send) er ers where "pc = WSend (er # ers)"
      "s' = s\<lparr>sy_terminal := fst (ch_try_send (sy_terminal s) er), sy_worker := WSend ers\<rparr>"
  | (sent) "pc = WSend []" "s' = s\<lparr>sy_worker := WDropRing None\<rparr>"
  | (ring) p where "pc = WDropRing p"
      "s' = s\<lparr>sy_deliveries := ch_drop_sender (sy_deliveries s), sy_worker := WDropTerminal p\<rparr>"
  | (terminal_end) p where "pc = WDropTerminal p"
      "s' = s\<lparr>sy_terminal := ch_drop_sender (sy_terminal s), sy_worker := WDropDeliveries p\<rparr>"
  | (deliveries_end) p where "pc = WDropDeliveries p"
      "s' = s\<lparr>sy_deliveries := ch_drop_sender (sy_deliveries s), sy_worker := WFinish p\<rparr>"
  | (panicked) payload where "pc = WFinish (Some payload)"
      "s' = s\<lparr>sy_terminal := fst (ch_try_send (sy_terminal s) (worker_receive_panic payload)),
             sy_worker := WFinish None\<rparr>"
  | (finished) "pc = WFinish None"
      "s' = s\<lparr>sy_terminal := ch_drop_sender (sy_terminal s), sy_worker := WDone\<rparr>"
  using assms by (elim worker_stepE) blast+

subsection \<open>The steps, spelled out\<close>

text \<open>Every step as one record update, with what it found in the channels.\<close>

lemma channel_same [simp]:
  "s\<lparr>sy_deliveries := sy_deliveries s\<rparr> = s" "s\<lparr>sy_terminal := sy_terminal s\<rparr> = s"
  by simp_all

lemma delivers_cases:
  obtains (accepted) "ch_receiver (sy_deliveries s)"
      "length (ch_buffer (sy_deliveries s)) < ch_capacity (sy_deliveries s)"
      "deliver_entry en s data = (s\<lparr>sy_deliveries := (sy_deliveries s)\<lparr>ch_buffer :=
          ch_buffer (sy_deliveries s) @ [\<lparr>de_delivery = delivery_of en data,
            de_output_full_before = sy_output_full_pending s\<rparr>]\<rparr>,
        sy_output_full_pending := False, sy_history := sy_history s @ [(data, True)]\<rparr>, 0)"
  | (omitted) "ch_receiver (sy_deliveries s)"
      "deliver_entry en s data =
        (s\<lparr>sy_output_full_pending := True, sy_history := sy_history s @ [(data, False)]\<rparr>, 0)"
  | (gone) "\<not> ch_receiver (sy_deliveries s)" "deliver_entry en s data = (s\<lparr>sy_running := False\<rparr>, -1)"
  by (cases "ch_receiver (sy_deliveries s)";
      cases "length (ch_buffer (sy_deliveries s)) \<ge> ch_capacity (sy_deliveries s)")
    (auto simp: deliver_entry_def ch_try_send_def)

lemma recv_begin_cases:
  obtains (pending) d where "sy_pending_delivery s = Some d"
      "recv_begin timed s = finish_call (Delivered d) (s\<lparr>sy_pending_delivery := None\<rparr>)"
  | (plain) e es where "sy_pending_delivery s = None" "ch_buffer (sy_deliveries s) = e # es"
      "\<not> de_output_full_before e" "recv_begin timed s = finish_call (Delivered (de_delivery e))
        (s\<lparr>sy_deliveries := (sy_deliveries s)\<lparr>ch_buffer := es\<rparr>\<rparr>)"
  | (marked) e es where "sy_pending_delivery s = None" "ch_buffer (sy_deliveries s) = e # es"
      "de_output_full_before e" "recv_begin timed s = finish_call (Delivered (Inl output_queue_full))
        (s\<lparr>sy_deliveries := (sy_deliveries s)\<lparr>ch_buffer := es\<rparr>,
           sy_pending_delivery := Some (de_delivery e)\<rparr>)"
  | (empty) "sy_pending_delivery s = None" "ch_buffer (sy_deliveries s) = []"
      "recv_begin timed s = s\<lparr>sy_consumer := CNow\<rparr>"
  | (disconnected) "sy_pending_delivery s = None" "ch_buffer (sy_deliveries s) = []"
      "ch_senders (sy_deliveries s) = 0"
      "recv_begin timed s = s\<lparr>sy_consumer := (if timed then CUntil else CStop)\<rparr>"
proof (cases "sy_pending_delivery s")
  case None
  note start = recv_begin_def ch_try_recv_def unpair_def None
  show ?thesis
  proof (cases "ch_buffer (sy_deliveries s)")
    case Nil
    show ?thesis
    proof (cases "ch_senders (sy_deliveries s) = 0")
      case True
      show ?thesis by (rule disconnected) (simp_all add: start Nil True)
    next
      case False
      show ?thesis by (rule empty) (simp_all add: start Nil False)
    qed
  next
    case (Cons e es)
    show ?thesis
    proof (cases "de_output_full_before e")
      case True
      show ?thesis by (rule marked [of e es]) (simp_all add: start Cons True)
    next
      case False
      show ?thesis by (rule plain [of e es]) (simp_all add: start Cons False)
    qed
  qed
qed (rule pending, simp_all add: recv_begin_def)

lemma recv_terminal_cases:
  assumes "sy_consumer s \<in> {CNow, CStop, CUntil}"
  obtains (got) er ers where "ch_buffer (sy_terminal s) = er # ers"
      "recv_terminal (sy_consumer s) s = finish_call (Terminal er)
        (s\<lparr>sy_terminal := (sy_terminal s)\<lparr>ch_buffer := ers\<rparr>\<rparr>)"
  | (later) "sy_consumer s \<in> {CNow, CStop}" "recv_terminal (sy_consumer s) s = finish_call NotReady s"
  | (now) "sy_consumer s = CUntil" "recv_terminal (sy_consumer s) s = s\<lparr>sy_consumer := CNow\<rparr>"
  | (stop) "ch_buffer (sy_terminal s) = []" "ch_senders (sy_terminal s) = 0"
      "recv_terminal (sy_consumer s) s = finish_call (Terminal worker_stop) s"
proof (cases "ch_buffer (sy_terminal s)")
  case Nil
  with assms that(2-4) show ?thesis
    by (cases "ch_senders (sy_terminal s) = 0") (auto simp: ch_try_recv_def)
next
  case (Cons er ers)
  with assms that(1) show ?thesis
    by (auto simp: ch_try_recv_def)
qed

lemma sys_step_cases [consumes 1]:
  assumes "sys_step en s s'"
  obtains (callback) data where "sy_worker s = WPoll" "sy_running s" "s' = s\<lparr>sy_worker := WDeliver data\<rparr>"
  | (accepted) data where "sy_worker s = WDeliver data" "ch_receiver (sy_deliveries s)"
      "length (ch_buffer (sy_deliveries s)) < ch_capacity (sy_deliveries s)"
      "s' = s\<lparr>sy_deliveries := (sy_deliveries s)\<lparr>ch_buffer :=
          ch_buffer (sy_deliveries s) @ [\<lparr>de_delivery = delivery_of en data,
            de_output_full_before = sy_output_full_pending s\<rparr>]\<rparr>,
        sy_output_full_pending := False, sy_history := sy_history s @ [(data, True)], sy_worker := WPoll\<rparr>"
  | (omitted) data where "sy_worker s = WDeliver data" "ch_receiver (sy_deliveries s)"
      "s' = s\<lparr>sy_output_full_pending := True, sy_history := sy_history s @ [(data, False)],
             sy_worker := WPoll\<rparr>"
  | (gone) data where "sy_worker s = WDeliver data" "\<not> ch_receiver (sy_deliveries s)"
      "s' = s\<lparr>sy_running := False, sy_worker := WPoll\<rparr>"
  | (callback_panics) data payload where "sy_worker s = WDeliver data"
      "s' = s\<lparr>sy_callback_panic := Some payload, sy_worker := WPoll\<rparr>"
  | (poll_returns) result where "sy_worker s = WPoll" "s' = s\<lparr>sy_worker := WReturned result\<rparr>"
  | (worker) "worker_step s (sy_worker s) = Some s'"
  | (worker_panics) payload pc where "unwind payload (sy_worker s) = Some pc" "s' = s\<lparr>sy_worker := pc\<rparr>"
  | (pending) d where "sy_consumer s = CIdle" "sy_pending_delivery s = Some d"
      "s' = finish_call (Delivered d) (s\<lparr>sy_pending_delivery := None\<rparr>)"
  | (plain) e es where "sy_consumer s = CIdle" "sy_pending_delivery s = None"
      "ch_buffer (sy_deliveries s) = e # es" "\<not> de_output_full_before e"
      "s' = finish_call (Delivered (de_delivery e))
        (s\<lparr>sy_deliveries := (sy_deliveries s)\<lparr>ch_buffer := es\<rparr>\<rparr>)"
  | (marked) e es where "sy_consumer s = CIdle" "sy_pending_delivery s = None"
      "ch_buffer (sy_deliveries s) = e # es" "de_output_full_before e"
      "s' = finish_call (Delivered (Inl output_queue_full))
        (s\<lparr>sy_deliveries := (sy_deliveries s)\<lparr>ch_buffer := es\<rparr>,
           sy_pending_delivery := Some (de_delivery e)\<rparr>)"
  | (empty) "sy_consumer s = CIdle" "sy_pending_delivery s = None" "ch_buffer (sy_deliveries s) = []"
      "s' = s\<lparr>sy_consumer := CNow\<rparr>"
  | (disconnected) pc where "sy_consumer s = CIdle" "sy_pending_delivery s = None"
      "ch_buffer (sy_deliveries s) = []" "ch_senders (sy_deliveries s) = 0"
      "pc \<in> {CUntil, CStop}" "s' = s\<lparr>sy_consumer := pc\<rparr>"
  | (got) er ers where "sy_consumer s \<in> {CNow, CStop, CUntil}" "ch_buffer (sy_terminal s) = er # ers"
      "s' = finish_call (Terminal er) (s\<lparr>sy_terminal := (sy_terminal s)\<lparr>ch_buffer := ers\<rparr>\<rparr>)"
  | (later) "sy_consumer s \<in> {CNow, CStop}" "s' = finish_call NotReady s"
  | (now) "sy_consumer s = CUntil" "s' = s\<lparr>sy_consumer := CNow\<rparr>"
  | (stop) "sy_consumer s \<in> {CNow, CStop, CUntil}" "ch_buffer (sy_terminal s) = []"
      "ch_senders (sy_terminal s) = 0" "s' = finish_call (Terminal worker_stop) s"
  | (clear) "sy_consumer s = CIdle" "s' = s\<lparr>sy_running := False, sy_consumer := CDropDeliveries\<rparr>"
  | (drop_deliveries) "sy_consumer s = CDropDeliveries"
      "s' = s\<lparr>sy_deliveries := ch_drop_receiver (sy_deliveries s), sy_pending_delivery := None,
             sy_consumer := CDropTerminal\<rparr>"
  | (drop_terminal) "sy_consumer s = CDropTerminal"
      "s' = s\<lparr>sy_terminal := ch_drop_receiver (sy_terminal s), sy_consumer := CGone\<rparr>"
  using assms
proof cases
  case (delivers data)
  show ?thesis
    by (rule delivers_cases [of s en data])
      (simp_all add: delivers accepted omitted gone)
next
  case (receive timed)
  show ?thesis
  proof (cases rule: recv_begin_cases [of s timed])
    case disconnected': disconnected
    then show ?thesis using receive disconnected [of "if timed then CUntil else CStop"] by simp
  qed (simp_all add: receive pending plain marked empty)
next
  case terminal
  show ?thesis
    by (cases rule: recv_terminal_cases [OF terminal(2)])
      (use terminal got later now stop in \<open>simp_all\<close>)
next
  case drops
  then show ?thesis using clear drop_deliveries drop_terminal by auto
next
  case (callback data)
  then show ?thesis by (intro that(1)) simp_all
next
  case (callback_panics data payload)
  then show ?thesis by (intro that(5)) (simp_all add: callback_panicked_def)
next
  case (poll_returns result)
  then show ?thesis by (intro that(6))
next
  case worker
  then show ?thesis by (rule that(7))
next
  case (worker_panics payload pc)
  then show ?thesis by (intro that(8))
qed

subsection \<open>Every step keeps the invariants\<close>

lemma handles_step:
  assumes "sys_step en s s'" "handles_inv s"
  shows "handles_inv s'"
  using assms(1)
proof (cases rule: sys_step_cases)
  case worker
  then show ?thesis
    using assms(2) by (cases rule: worker_step_cases)
      (auto simp: handles_inv_def worker_defs consumer_alive_def channel_facts split: option.splits sum.splits)
qed (use assms(2) in \<open>auto simp: handles_inv_def consumer_alive_def finish_call_def unwind_senders\<close>)

lemma after_poll_sends:
  "sy_worker (after_poll result s) = WLoop \<or>
   (sy_worker (after_poll result s) = WDropRing None \<and> \<not> sy_running s) \<or>
   (\<exists>er. sy_worker (after_poll result s) = WSend (output_queue_full # [er]) \<and> re_kind er \<noteq> WorkerStop) \<or>
   (\<exists>er. sy_worker (after_poll result s) = WSend [er] \<and> re_kind er \<noteq> WorkerStop)"
  by (auto simp: after_poll_def report_callback_panic_def split: option.splits sum.splits)

lemma after_poll_frame [simp]:
  "sy_deliveries (after_poll result s) = sy_deliveries s" "sy_terminal (after_poll result s) = sy_terminal s"
  "sy_running (after_poll result s) = sy_running s" "sy_history (after_poll result s) = sy_history s"
  "sy_pending_delivery (after_poll result s) = sy_pending_delivery s"
  "sy_consumer (after_poll result s) = sy_consumer s" "sy_log (after_poll result s) = sy_log s"
  by (simp_all add: after_poll_def report_callback_panic_def split: option.splits sum.splits)

lemma unwind_sends:
  assumes "unwind payload pc = Some pc'" "n + length (to_send pc) \<le> send_budget pc"
  shows "to_send pc' = [worker_receive_panic payload] \<and> n + 1 \<le> send_budget pc'"
  using assms by (elim unwindE) auto

lemma terminal_send:
  assumes "handles_inv s" "sent s + 1 \<le> 3"
  shows "length (ch_buffer (fst (ch_try_send (sy_terminal s) er))) \<le> length (ch_buffer (sy_terminal s)) + 1"
    "consumer_alive s \<Longrightarrow> ch_buffer (fst (ch_try_send (sy_terminal s) er)) = ch_buffer (sy_terminal s) @ [er]"
    "set (ch_buffer (fst (ch_try_send (sy_terminal s) er))) \<subseteq> insert er (set (ch_buffer (sy_terminal s)))"
  using assms by (auto simp: handles_inv_def sent_def channel_facts consumer_alive_def)

lemma terminal_step:
  assumes "sys_step en s s'" "handles_inv s" "terminal_inv s"
  shows "terminal_inv s'"
  using assms(1)
proof (cases rule: sys_step_cases)
  case worker
  then show ?thesis
  proof (cases rule: worker_step_cases)
    case (returned result)
    then show ?thesis
      using after_poll_sends [of result s] assms(2,3)
      by (auto simp: terminal_inv_def handles_inv_def sent_def consumer_alive_def)
  next
    case (send er ers)
    then show ?thesis
      using terminal_send [of s er] assms(2,3)
      by (auto simp: terminal_inv_def sent_def consumer_alive_def)
  next
    case (panicked payload)
    then show ?thesis
      using terminal_send [of s "worker_receive_panic payload"] assms(2,3)
      by (auto simp: terminal_inv_def sent_def consumer_alive_def)
  next
    case (deliveries_end p)
    then show ?thesis
      using assms(3) by (cases p) (auto simp: terminal_inv_def sent_def consumer_alive_def)
  next
    case (ring p)
    then show ?thesis
      using assms(3) by (cases p) (auto simp: terminal_inv_def sent_def consumer_alive_def)
  next
    case (terminal_end p)
    then show ?thesis
      using assms(3) by (cases p) (auto simp: terminal_inv_def sent_def consumer_alive_def)
  qed (use assms(2,3) in \<open>auto simp: terminal_inv_def handles_inv_def sent_def consumer_alive_def\<close>)
next
  case (worker_panics payload pc)
  then show ?thesis
    using unwind_sends [of payload "sy_worker s" pc "sent s"] assms(3)
    by (auto simp: terminal_inv_def sent_def consumer_alive_def)
qed (use assms(2,3) in \<open>auto simp: terminal_inv_def handles_inv_def sent_def consumer_alive_def finish_call_def\<close>)

lemma polling_silent:
  "terminal_inv s \<Longrightarrow> polling (sy_worker s) \<Longrightarrow> reported (sy_log s) = []"
  by (cases "sy_worker s") (auto simp: terminal_inv_def sent_def)

lemma consumer_step:
  assumes "sys_step en s s'" "handles_inv s" "terminal_inv s" "consumer_inv s"
  shows "consumer_inv s'"
  using assms(1)
proof (cases rule: sys_step_cases)
  case worker
  then show ?thesis
    using assms(4) by (cases rule: worker_step_cases) (auto simp: consumer_inv_def)
next
  case (accepted data)
  then have "reported (sy_log s) = []" "sy_consumer s \<notin> {CStop, CUntil}"
    using polling_silent [OF assms(3)] assms(2,4) by (auto simp: handles_inv_def consumer_inv_def)
  with accepted show ?thesis
    using assms(4) by (auto simp: consumer_inv_def)
qed (use assms(4) in \<open>auto simp: consumer_inv_def finish_call_def\<close>)

lemma worker_step_stream:
  assumes "worker_step s pc = Some s'"
  shows "sy_log s' = sy_log s" "sy_history s' = sy_history s" "sy_consumer s' = sy_consumer s"
    "sy_pending_delivery s' = sy_pending_delivery s"
    "ch_buffer (sy_deliveries s') = ch_buffer (sy_deliveries s)"
  using assms by (cases rule: worker_step_cases; simp)+

lemma worker_step_pending:
  assumes "worker_step s (sy_worker s) = Some s'" "polling (sy_worker s')"
  shows "polling (sy_worker s) \<and> sy_output_full_pending s' = sy_output_full_pending s"
  using assms by (cases rule: worker_step_cases)
    (auto simp: after_poll_def report_callback_panic_def split: if_splits option.splits sum.splits)

lemma unwind_stops: "unwind payload pc = Some pc' \<Longrightarrow> \<not> polling pc'"
  by (erule unwindE) auto

lemma stream_step:
  assumes "sys_step en s s'" "stream_inv en s" "consumer_inv s"
  shows "stream_inv en s'"
  using assms(1)
proof (cases rule: sys_step_cases)
  case worker
  then show ?thesis
    using assms(2) worker_step_pending [OF worker] worker_step_stream [OF worker]
    by (auto simp: stream_inv_def consumer_alive_def)
next
  case (accepted data)
  then show ?thesis
    using assms(2) by (auto simp: stream_inv_def consumer_alive_def expected_snoc)
next
  case (omitted data)
  then show ?thesis
    using assms(2) by (auto simp: stream_inv_def consumer_alive_def expected_snoc)
qed (use assms(2) unwind_stops in
  \<open>auto simp: stream_inv_def consumer_alive_def finish_call_def expand_def\<close>)

lemma stop_step:
  assumes "sys_step en s s'" "handles_inv s" "terminal_inv s" "consumer_inv s" "stop_inv s"
  shows "stop_inv s'"
  using assms(1)
proof (cases rule: sys_step_cases)
  case worker
  then show ?thesis
    using assms(5) by (auto simp: stop_inv_def consumer_alive_def worker_step_stream)
next
  case (worker_panics payload pc)
  then show ?thesis
    using assms(5) by (auto simp: stop_inv_def)
next
  case (got er ers)
  then have "er \<noteq> worker_stop"
    using assms(3) by (auto simp: terminal_inv_def)
  with got assms(5) show ?thesis
    by (auto simp: stop_inv_def finish_call_def consumer_alive_def)
next
  case stop
  then have "sy_worker s = WDone"
    using assms(2) by (cases "sy_worker s") (auto simp: handles_inv_def)
  moreover have "consumer_alive s"
    using stop by (auto simp: consumer_alive_def)
  ultimately have "reported (sy_log s) \<noteq> []"
    using assms(3) stop by (auto simp: terminal_inv_def sent_def)
  then have "ch_buffer (sy_deliveries s) = []" "sy_pending_delivery s = None"
    using assms(4) stop by (auto simp: consumer_inv_def)
  with stop \<open>sy_worker s = WDone\<close> show ?thesis
    by (simp add: stop_inv_def finish_call_def consumer_alive_def)
qed (use assms(5) in \<open>auto simp: stop_inv_def finish_call_def consumer_alive_def\<close>)

lemma order_step:
  assumes "sys_step en s s'" "terminal_inv s" "consumer_inv s" "order_inv s"
  shows "order_inv s'"
  using assms(1)
proof (cases rule: sys_step_cases)
  case worker
  then show ?thesis
    using assms(4) by (auto simp: order_inv_def worker_step_stream)
next
  case (accepted data)
  then show ?thesis
    using polling_silent [OF assms(2)] by (simp add: order_inv_def)
next
  case (got er ers)
  then show ?thesis
    using assms(3) by (auto simp: order_inv_def consumer_inv_def finish_call_def)
qed (use assms(4) in \<open>auto simp: order_inv_def finish_call_def\<close>)

lemma worker_step_capacity:
  assumes "worker_step s pc = Some s'"
  shows "ch_capacity (sy_deliveries s') = ch_capacity (sy_deliveries s)"
  using assms by (cases rule: worker_step_cases) simp_all

lemma queue_step:
  assumes "sys_step en s s'" "queue_inv capacity s"
  shows "queue_inv capacity s'"
  using assms(1)
proof (cases rule: sys_step_cases)
  case worker
  then show ?thesis
    using assms(2) by (simp add: queue_inv_def worker_step_stream worker_step_capacity)
qed (use assms(2) in \<open>auto simp: queue_inv_def finish_call_def\<close>)

definition sys_inv :: "endian \<Rightarrow> nat \<Rightarrow> 'p system \<Rightarrow> bool" where
  "sys_inv en capacity s \<longleftrightarrow> handles_inv s \<and> terminal_inv s \<and> consumer_inv s \<and> stream_inv en s \<and>
     stop_inv s \<and> order_inv s \<and> queue_inv capacity s"

lemma sys_inv_init: "sys_inv en capacity (system_init capacity)"
  by (simp add: sys_inv_def handles_inv_def terminal_inv_def consumer_inv_def stream_inv_def stop_inv_def
      order_inv_def queue_inv_def system_init_def sync_channel_def ch_clone_sender_def consumer_alive_def
      sent_def expected_def)

lemma sys_inv_step: "sys_step en s s' \<Longrightarrow> sys_inv en capacity s \<Longrightarrow> sys_inv en capacity s'"
  unfolding sys_inv_def
  by (metis handles_step terminal_step consumer_step stream_step stop_step order_step queue_step)

lemma sys_inv_reachable: "sys_reachable en capacity s \<Longrightarrow> sys_inv en capacity s"
  by (induction rule: sys_reachable.induct) (blast intro: sys_inv_init sys_inv_step)+

subsection \<open>Shutdown\<close>

text \<open>How far the worker is from its end once \<open>running\<close> is clear.\<close>

fun worker_rank :: "'p worker_pc \<Rightarrow> nat" where
  "worker_rank (WDeliver _) = 15" | "worker_rank WPoll = 14" | "worker_rank (WReturned _) = 13"
| "worker_rank WLoop = 12" | "worker_rank (WSend ers) = 9 + length ers"
| "worker_rank (WDropRing None) = 8" | "worker_rank (WDropTerminal None) = 7"
| "worker_rank (WDropDeliveries None) = 6" | "worker_rank (WDropRing (Some _)) = 5"
| "worker_rank (WDropTerminal (Some _)) = 4" | "worker_rank (WDropDeliveries (Some _)) = 3"
| "worker_rank (WFinish (Some _)) = 2" | "worker_rank (WFinish None) = 1" | "worker_rank WDone = 0"

lemma unwind_rank:
  "unwind payload pc = Some pc' \<Longrightarrow> worker_rank pc' < worker_rank pc"
  by (erule unwindE) auto

lemma worker_step_rank:
  assumes "worker_step s (sy_worker s) = Some s'" "\<not> sy_running s"
  shows "worker_rank (sy_worker s') < worker_rank (sy_worker s)"
  using assms(1)
proof (cases rule: worker_step_cases)
  case (returned result)
  then show ?thesis using after_poll_sends [of result s] by auto
next
  case (ring p)
  then show ?thesis by (cases p) simp_all
next
  case (terminal_end p)
  then show ?thesis by (cases p) simp_all
next
  case (deliveries_end p)
  then show ?thesis by (cases p) simp_all
qed (use assms(2) in simp_all)

lemma stopped_step:
  assumes "sys_step en s s'" "\<not> sy_running s"
  shows "\<not> sy_running s' \<and>
    (sy_worker s' = sy_worker s \<or> worker_rank (sy_worker s') < worker_rank (sy_worker s))"
  using assms(1)
proof (cases rule: sys_step_cases)
  case worker
  then have "sy_running s' = sy_running s"
    by (cases rule: worker_step_cases) simp_all
  then show ?thesis using worker_step_rank [OF worker assms(2)] assms(2) by simp
qed (use assms(2) unwind_rank in \<open>auto simp: finish_call_def\<close>)

lemma worker_not_stuck:
  assumes "sy_worker s \<noteq> WDone" "\<not> sy_running s"
  shows "\<exists>s'. sys_step en s s' \<and> worker_rank (sy_worker s') < worker_rank (sy_worker s)"
proof (cases "worker_step s (sy_worker s)")
  case (Some s')
  then show ?thesis using worker_step_rank assms(2) sys_step.worker by blast
next
  case None
  then consider "sy_worker s = WPoll" | data where "sy_worker s = WDeliver data"
    using assms(1) by (elim worker_step.elims) auto
  then show ?thesis
  proof cases
    case 1
    show ?thesis by (rule exI, rule conjI, rule sys_step.poll_returns [OF 1]) (simp add: 1)
  next
    case 2
    show ?thesis by (rule exI, rule conjI, rule sys_step.delivers [OF 2]) (simp add: 2)
  qed
qed

subsection \<open>What the worker reports\<close>

text \<open>
  The terminal reports in the order the worker makes them: those already returned to the consumer, those in
  the channel and those still to be sent. Before the first poll failure or callback panic comes the
  queue-full notice, if and only if the last offered sample was omitted; a panic of the worker itself may
  cut this short at any point and is reported last.
\<close>

definition terminal_reports :: "'p system \<Rightarrow> 'p receive_error list" where
  "terminal_reports s = reported (sy_log s) @ ch_buffer (sy_terminal s) @ to_send (sy_worker s)"

definition tail_notice :: "(u8 list \<times> bool) list \<Rightarrow> 'p receive_error list" where
  "tail_notice h = (if losing False h then [output_queue_full] else [])"

fun ends_worker :: "'p receive_error \<Rightarrow> bool" where
  "ends_worker er \<longleftrightarrow> re_kind er = PollFailure \<or> re_kind er = WorkerPanic"

definition report_inv :: "'p system \<Rightarrow> bool" where
  "report_inv s \<longleftrightarrow> (consumer_alive s \<longrightarrow>
     (\<exists>k er ps. terminal_reports s = take k (tail_notice (sy_history s) @ [er]) @ ps \<and> ends_worker er \<and>
        (ps = [] \<or> send_budget (sy_worker s) = 3 \<and> (\<exists>payload. ps = [worker_receive_panic payload]))))"

lemma report_inv_empty: "terminal_reports s = [] \<Longrightarrow> report_inv s"
  unfolding report_inv_def
  by (intro impI exI [of _ 0] exI [of _ "worker_receive_panic OpaquePayload"] exI [of _ "[]"]) simp

lemma report_inv_same:
  assumes "report_inv s" "terminal_reports s' = terminal_reports s" "sy_history s' = sy_history s"
    "consumer_alive s' \<Longrightarrow> consumer_alive s"
    "send_budget (sy_worker s) = 3 \<Longrightarrow> send_budget (sy_worker s') = 3"
  shows "report_inv s'"
  using assms unfolding report_inv_def by metis

lemma unwind_report:
  assumes "unwind payload (sy_worker s) = Some pc" "report_inv s"
  shows "report_inv (s\<lparr>sy_worker := pc\<rparr>)"
proof (cases "consumer_alive s")
  case True
  have pc: "to_send pc = [worker_receive_panic payload]" "send_budget pc = 3" "send_budget (sy_worker s) \<noteq> 3"
    using assms(1) by (elim unwindE; simp)+
  define xs where "xs = reported (sy_log s) @ ch_buffer (sy_terminal s)"
  obtain k er where er: "xs @ to_send (sy_worker s) = take k (tail_notice (sy_history s) @ [er])" "ends_worker er"
    using assms(2) True pc(3) by (auto simp: report_inv_def terminal_reports_def xs_def)
  have "xs = take (length xs) (xs @ to_send (sy_worker s))"
    by simp
  then have "xs = take (min (length xs) k) (tail_notice (sy_history s) @ [er])"
    unfolding er(1) by (simp add: take_take del: take_append)
  moreover have "terminal_reports (s\<lparr>sy_worker := pc\<rparr>) = xs @ [worker_receive_panic payload]"
    by (simp add: terminal_reports_def pc(1) xs_def)
  ultimately show ?thesis
    using er(2) pc(2) unfolding report_inv_def
    by (intro impI exI [of _ "min (length xs) k"] exI [of _ er] exI [of _ "[worker_receive_panic payload]"]) auto
qed (simp add: report_inv_def consumer_alive_def)

lemma after_poll_report:
  assumes "sy_worker s = WReturned result" "stream_inv en s" "terminal_reports s = []" "consumer_alive s" "sy_running s"
  shows "report_inv (after_poll result s)"
proof -
  have idle: "reported (sy_log s) = []" "ch_buffer (sy_terminal s) = []"
    using assms(3) by (simp_all add: terminal_reports_def)
  have lost: "sy_output_full_pending s = losing False (sy_history s)"
    using assms(1,2) by (simp add: stream_inv_def)
  have "sy_worker (after_poll result s) = WLoop \<or>
      (\<exists>er. sy_worker (after_poll result s) = WSend (tail_notice (sy_history s) @ [er]) \<and> ends_worker er)"
    using assms(5) by (auto simp: after_poll_def report_callback_panic_def lost tail_notice_def split: option.splits sum.splits)
  then consider "terminal_reports (after_poll result s) = []"
    | er where "terminal_reports (after_poll result s) = tail_notice (sy_history s) @ [er]" "ends_worker er"
    by (auto simp: terminal_reports_def idle)
  then show ?thesis
  proof cases
    case (2 er)
    then show ?thesis
      unfolding report_inv_def
      by (intro impI exI [of _ "Suc (length (tail_notice (sy_history s) :: 'a receive_error list))"] exI [of _ er] exI [of _ "[]"])
        simp
  qed (rule report_inv_empty)
qed

lemma report_worker:
  assumes "worker_step s (sy_worker s) = Some s'" "sys_inv en capacity s" "report_inv s" "consumer_alive s"
  shows "report_inv s'"
proof -
  have inv: "handles_inv s" "terminal_inv s" "stream_inv en s"
    using assms(2) by (simp_all add: sys_inv_def)
  have room: "ch_buffer (fst (ch_try_send (sy_terminal s) er)) = ch_buffer (sy_terminal s) @ [er]"
    if "to_send (sy_worker s) = er # ers" for er ers
    using terminal_send(2) [OF inv(1) _ assms(4)] inv(2) that
    by (cases "sy_worker s" rule: to_send.cases) (auto simp: terminal_inv_def)
  from assms(1) show ?thesis
  proof (cases rule: worker_step_cases)
    case (returned result)
    then have "terminal_reports s = []" "sy_running s"
      using inv(1,2) assms(4) by (auto simp: terminal_inv_def handles_inv_def sent_def terminal_reports_def)
    then show ?thesis
      unfolding returned(2) by (rule after_poll_report [OF returned(1) inv(3) _ assms(4)])
  next
    case (ring p)
    then show ?thesis
      using assms(3) by (cases p) (auto simp: terminal_reports_def consumer_alive_def intro!: report_inv_same [of s])
  next
    case (terminal_end p)
    then show ?thesis
      using assms(3) by (cases p) (auto simp: terminal_reports_def ch_drop_sender_def consumer_alive_def intro!: report_inv_same [of s])
  next
    case (deliveries_end p)
    then show ?thesis
      using assms(3) by (cases p) (auto simp: terminal_reports_def consumer_alive_def intro!: report_inv_same [of s])
  qed (use assms(3,4) room in \<open>auto simp: terminal_reports_def ch_drop_sender_def consumer_alive_def intro!: report_inv_same [of s]\<close>)
qed

lemma errors_differ:
  "output_queue_full \<noteq> worker_receive_panic payload" "poll_failure p \<noteq> worker_receive_panic payload"
  "poll_failure p \<noteq> output_queue_full" "ends_worker er \<Longrightarrow> output_queue_full \<noteq> er"
  by (auto simp: output_queue_full_def worker_receive_panic_def poll_failure_def)

lemma report_step:
  assumes "sys_step en s s'" "sys_inv en capacity s" "report_inv s"
  shows "report_inv s'"
proof (cases "consumer_alive s'")
  case alive': True
  have silent: "terminal_reports s = []" if "polling (sy_worker s)"
    using assms(2) that by (cases "sy_worker s") (auto simp: sys_inv_def terminal_inv_def sent_def terminal_reports_def)
  from assms(1) show ?thesis
  proof (cases rule: sys_step_cases)
    case worker
    then have "consumer_alive s"
      using alive' worker_step_stream(3) [OF worker] by (simp add: consumer_alive_def)
    then show ?thesis
      by (rule report_worker [OF worker assms(2,3)])
  next
    case (worker_panics payload pc)
    then show ?thesis
      using unwind_report assms(3) by blast
  next
    case (accepted data)
    with silent show ?thesis
      by (intro report_inv_empty) (simp add: terminal_reports_def)
  next
    case (omitted data)
    with silent show ?thesis
      by (intro report_inv_empty) (simp add: terminal_reports_def)
  next
    case (got er ers)
    then have "re_kind er \<noteq> WorkerStop"
      using assms(2) by (simp add: sys_inv_def terminal_inv_def)
    with got assms(3) show ?thesis
      by (auto simp: terminal_reports_def finish_call_def consumer_alive_def intro!: report_inv_same [of s])
  qed (use assms(3) alive' silent in
    \<open>auto simp: terminal_reports_def finish_call_def consumer_alive_def intro!: report_inv_same [of s] intro: report_inv_empty\<close>)
qed (simp add: report_inv_def)

lemma report_inv_reachable: "sys_reachable en capacity s \<Longrightarrow> report_inv s"
proof (induction rule: sys_reachable.induct)
  case init
  show ?case
    by (rule report_inv_empty)
      (simp add: terminal_reports_def system_init_def ch_clone_sender_def sync_channel_def)
next
  case (step s s')
  then show ?case
    using report_step sys_inv_reachable by blast
qed

lemma reported_iff: "er \<in> set (reported l) \<longleftrightarrow> Terminal er \<in> set l \<and> re_kind er \<noteq> WorkerStop"
  by (induction l rule: reported.induct) auto

lemma terminal_notice_sound:
  assumes "sys_reachable en capacity s" "consumer_alive s" "Terminal output_queue_full \<in> set (sy_log s)"
  shows "losing False (sy_history s)"
proof -
  obtain k er ps where rs: "terminal_reports s = take k (tail_notice (sy_history s) @ [er]) @ ps" "ends_worker er"
    "ps = [] \<or> (\<exists>payload. ps = [worker_receive_panic payload])"
    using report_inv_reachable [OF assms(1)] assms(2) by (auto simp: report_inv_def)
  have "(output_queue_full :: 'a receive_error) \<in> set (terminal_reports s)"
    using assms(3) by (simp add: terminal_reports_def reported_iff)
  then have "(output_queue_full :: 'a receive_error) \<in> set (tail_notice (sy_history s) @ [er]) \<union> set ps"
    unfolding rs(1) by (auto dest: in_set_takeD simp del: take_append)
  moreover have "(output_queue_full :: 'a receive_error) \<noteq> er" "(output_queue_full :: 'a receive_error) \<notin> set ps"
    using rs(3) errors_differ(4) [OF rs(2)] by (auto simp: errors_differ(1))
  ultimately show ?thesis
    by (auto simp: tail_notice_def split: if_splits)
qed

lemma terminal_notice_complete:
  assumes "sys_reachable en capacity s" "consumer_alive s" "Terminal (poll_failure p) \<in> set (sy_log s)"
    "losing False (sy_history s)"
  shows "Terminal output_queue_full \<in> set (sy_log s)"
proof -
  obtain k er ps where rs: "terminal_reports s = take k [output_queue_full, er] @ ps"
    "ps = [] \<or> (\<exists>payload. ps = [worker_receive_panic payload])"
    using report_inv_reachable [OF assms(1)] assms(2,4) by (auto simp: report_inv_def tail_notice_def)
  have failed: "poll_failure p \<in> set (reported (sy_log s))"
    using assms(3) by (simp add: reported_iff)
  then have "poll_failure p \<in> set (terminal_reports s)"
    by (simp add: terminal_reports_def)
  moreover have "poll_failure p \<notin> set ps" "poll_failure p \<noteq> output_queue_full"
    using rs(2) by (auto simp: errors_differ(2,3))
  ultimately have "poll_failure p \<in> set (take k [output_queue_full, er])" "0 < k"
    unfolding rs(1) by (auto intro: ccontr)
  then have "hd (terminal_reports s) = output_queue_full"
    unfolding rs(1) by (cases k) simp_all
  with failed have "output_queue_full \<in> set (reported (sy_log s))"
    by (cases "reported (sy_log s)") (auto simp: terminal_reports_def)
  then show ?thesis
    by (simp add: reported_iff)
qed

lemma losing_last: "losing False h \<longleftrightarrow> h \<noteq> [] \<and> \<not> snd (last h)"
  by (induction h rule: rev_induct) auto

end
