(* ===== verification/Collector_Properties.thy ===== *)
theory Collector_Properties
  imports Collector_Safety
begin

text \<open>
  The collector's promises over every interleaving of worker and consumer, and an executable
  scheduler that produces concrete runs.
\<close>

subsection \<open>Executable schedules\<close>

datatype 'p action =
    Callback "u8 list" | Delivers | CallbackPanics panic_payload | PollReturns "'p + unit"
  | WorkerStep | WorkerPanics panic_payload | ReceiveStart bool | ReceiveTerminal | DropStep

fun perform :: "endian \<Rightarrow> 'p action \<Rightarrow> 'p system \<Rightarrow> 'p system option" where
  "perform en (Callback data) s =
     (case sy_worker s of WPoll \<Rightarrow> if sy_running s then Some (s\<lparr>sy_worker := WDeliver data\<rparr>) else None
      | _ \<Rightarrow> None)"
| "perform en Delivers s =
     (case sy_worker s of WDeliver data \<Rightarrow> Some ((fst (deliver_entry en s data))\<lparr>sy_worker := WPoll\<rparr>)
      | _ \<Rightarrow> None)"
| "perform en (CallbackPanics payload) s =
     (case sy_worker s of WDeliver data \<Rightarrow> Some ((fst (callback_panicked payload s))\<lparr>sy_worker := WPoll\<rparr>)
      | _ \<Rightarrow> None)"
| "perform en (PollReturns result) s =
     (case sy_worker s of WPoll \<Rightarrow> Some (s\<lparr>sy_worker := WReturned result\<rparr>) | _ \<Rightarrow> None)"
| "perform en WorkerStep s = worker_step s (sy_worker s)"
| "perform en (WorkerPanics payload) s =
     map_option (\<lambda>pc. s\<lparr>sy_worker := pc\<rparr>) (unwind payload (sy_worker s))"
| "perform en (ReceiveStart timed) s =
     (if sy_consumer s = CIdle then Some (recv_begin timed s) else None)"
| "perform en ReceiveTerminal s =
     (if sy_consumer s \<in> {CNow, CStop, CUntil} then Some (recv_terminal (sy_consumer s) s) else None)"
| "perform en DropStep s =
     (if sy_consumer s \<in> {CIdle, CDropDeliveries, CDropTerminal}
      then Some (drop_collector (sy_consumer s) s) else None)"

fun perform_all :: "endian \<Rightarrow> 'p action list \<Rightarrow> 'p system \<Rightarrow> 'p system option" where
  "perform_all en [] s = Some s"
| "perform_all en (a # as) s = Option.bind (perform en a s) (perform_all en as)"

lemma perform_step: "perform en a s = Some s' \<Longrightarrow> sys_step en s s'"
  by (cases a) (auto intro: sys_step.intros split: worker_pc.splits if_splits)

text \<open>The scheduler covers the step relation: every step is performed by some action.\<close>

lemma step_performed: "sys_step en s s' \<Longrightarrow> \<exists>a. perform en a s = Some s'"
proof (induction rule: sys_step.induct)
  case (callback s data)
  then show ?case by (intro exI [of _ "Callback data"]) simp
next
  case (delivers s data)
  then show ?case by (intro exI [of _ Delivers]) simp
next
  case (callback_panics s data payload)
  then show ?case by (intro exI [of _ "CallbackPanics payload"]) simp
next
  case (poll_returns s result)
  then show ?case by (intro exI [of _ "PollReturns result"]) simp
next
  case (worker s s')
  then show ?case by (intro exI [of _ WorkerStep]) simp
next
  case (worker_panics payload s pc)
  then show ?case by (intro exI [of _ "WorkerPanics payload"]) simp
next
  case (receive s timed)
  then show ?case by (intro exI [of _ "ReceiveStart timed"]) simp
next
  case (terminal s)
  then show ?case by (intro exI [of _ ReceiveTerminal]) simp
next
  case (drops s)
  then show ?case by (intro exI [of _ DropStep]) simp
qed

lemma perform_all_reachable:
  "perform_all en as s = Some s' \<Longrightarrow> sys_reachable en capacity s \<Longrightarrow> sys_reachable en capacity s'"
proof (induction as arbitrary: s)
  case (Cons a as)
  then show ?case
    by (auto simp: Option.bind_eq_Some_conv)
      (metis sys_reachable.step perform_step)
qed simp

definition schedule :: "endian \<Rightarrow> nat \<Rightarrow> 'p action list \<Rightarrow> 'p system" where
  "schedule en capacity as = the (perform_all en as (system_init capacity))"

lemma schedule_reachable:
  "perform_all en as (system_init capacity) \<noteq> None \<Longrightarrow> sys_reachable en capacity (schedule en capacity as)"
  unfolding schedule_def by (auto intro: perform_all_reachable sys_reachable.init)

text \<open>
  A run with a queue of one entry: the first sample is accepted, two are omitted, the consumer reads,
  a fourth is accepted with the loss mark, then the poll fails and the consumer reads to the end.
\<close>

definition lossy_run :: "string action list" where
  "lossy_run =
     [WorkerStep, Callback [1], Delivers, Callback [2], Delivers, Callback [3], Delivers,
      ReceiveStart False, Callback [4], Delivers]"

definition failing_run :: "string action list" where
  "failing_run =
     lossy_run @ [PollReturns (Inl ''EIO''), WorkerStep, WorkerStep, WorkerStep, WorkerStep, WorkerStep,
      WorkerStep, WorkerStep, ReceiveStart False, ReceiveStart False, ReceiveStart True, ReceiveTerminal,
      ReceiveStart True, ReceiveTerminal]"

lemmas run_simps = schedule_def lossy_run_def failing_run_def system_init_def sync_channel_def
  ch_clone_sender_def ch_drop_sender_def deliver_entry_def ch_try_send_def ch_try_recv_def recv_begin_def
  unpair_def finish_call_def after_poll_def report_callback_panic_def

definition lossy_system :: "string system" where
  "lossy_system = schedule LittleEndian 1 lossy_run"

definition failing_system :: "string system" where
  "failing_system = schedule LittleEndian 1 failing_run"

definition reporting_system :: "string system" where
  "reporting_system = schedule LittleEndian 1 (take 12 failing_run)"

lemma samples_reachable:
  "sys_reachable LittleEndian 1 lossy_system" "sys_reachable LittleEndian 1 failing_system"
  "sys_reachable LittleEndian 1 reporting_system"
  unfolding lossy_system_def failing_system_def reporting_system_def
  by (rule schedule_reachable, simp add: run_simps)+

lemma lossy_state:
  "consumer_alive lossy_system"
  "sy_history lossy_system = [([1], True), ([2], False), ([3], False), ([4], True)]"
  by (simp_all add: lossy_system_def run_simps consumer_alive_def)

lemma failing_state:
  "consumer_alive failing_system" "Terminal worker_stop \<in> set (sy_log failing_system)"
  "sy_history failing_system = [([1], True), ([2], False), ([3], False), ([4], True)]"
  by (simp_all add: failing_system_def run_simps consumer_alive_def)

lemma reporting_state:
  "consumer_alive reporting_system" "sy_worker reporting_system = WSend [poll_failure ''EIO'']"
  by (simp_all add: reporting_system_def run_simps consumer_alive_def)

subsection \<open>Properties\<close>

text \<open>C5. The delivery stream. In every reachable state of a collector that has not been dropped, what
  the consumer's calls returned so far, followed by the pending delivery and the entries still in the
  queue, is exactly the expected stream of the samples the callback offered: each accepted sample once
  and in arrival order, decoded or as a malformed-sample error, preceded by one queue-full notice
  exactly when samples were omitted since the previously accepted one. The queue never exceeds its
  configured capacity.\<close>

theorem collector_stream:
  assumes "sys_reachable en capacity s" "consumer_alive s"
  shows "delivered (sy_log s) @ (case sy_pending_delivery s of Some d \<Rightarrow> [d] | None \<Rightarrow> []) @
           concat (map expand (ch_buffer (sy_deliveries s))) = expected en (sy_history s) \<and>
         length (ch_buffer (sy_deliveries s)) \<le> capacity"
  using sys_inv_reachable [OF assms(1)] assms(2) by (auto simp: sys_inv_def stream_inv_def queue_inv_def)

theorem collector_stream_witness:
  "delivered (sy_log lossy_system) @
     (case sy_pending_delivery lossy_system of Some d \<Rightarrow> [d] | None \<Rightarrow> []) @
     concat (map expand (ch_buffer (sy_deliveries lossy_system))) =
   [delivery_of LittleEndian [1], Inl output_queue_full, delivery_of LittleEndian [4]]"
  using collector_stream [OF samples_reachable(1) lossy_state(1)]
  by (simp add: lossy_state(2) expected_def expand_def)

text \<open>C30. The terminal channel is never full: whenever the worker is about to report a terminal
  condition and the collector has not been dropped, the report is accepted; a queue-full notice, a poll
  failure or callback panic, and a later worker panic all have a slot.\<close>

theorem terminal_report_accepted:
  assumes "sys_reachable en capacity s" "consumer_alive s"
    "sy_worker s = WSend (er # ers) \<or> sy_worker s = WFinish (Some payload)"
  shows "snd (ch_try_send (sy_terminal s) er) = SendOk"
  using sys_inv_reachable [OF assms(1)] assms(2,3)
  by (auto simp: sys_inv_def terminal_inv_def handles_inv_def sent_def consumer_alive_def channel_facts)

theorem terminal_report_accepted_witness:
  "snd (ch_try_send (sy_terminal reporting_system) (poll_failure ''EIO'')) = SendOk"
  using terminal_report_accepted [OF samples_reachable(3) reporting_state(1)] reporting_state(2) by blast

text \<open>C11. The stopped report is final: once a receive call has returned \<open>WorkerStop\<close>, the worker has
  finished, every accepted sample has been returned to the consumer, every terminal error has been
  returned before, and there was at least one that says why the worker ended.\<close>

theorem worker_stop_final:
  assumes "sys_reachable en capacity s" "consumer_alive s" "Terminal worker_stop \<in> set (sy_log s)"
  shows "sy_worker s = WDone \<and> delivered (sy_log s) = expected en (sy_history s) \<and>
    ch_buffer (sy_terminal s) = [] \<and> reported (sy_log s) \<noteq> []"
proof -
  from sys_inv_reachable [OF assms(1)] assms(2,3)
  have "sy_worker s = WDone" "ch_buffer (sy_deliveries s) = []" "ch_buffer (sy_terminal s) = []"
    "sy_pending_delivery s = None" "stream_inv en s" "terminal_inv s"
    by (auto simp: sys_inv_def stop_inv_def)
  with assms(2) show ?thesis
    by (auto simp: stream_inv_def terminal_inv_def sent_def)
qed

theorem worker_stop_final_witness:
  "delivered (sy_log failing_system) =
     [delivery_of LittleEndian [1], Inl output_queue_full, delivery_of LittleEndian [4]]"
  using worker_stop_final [OF samples_reachable(2) failing_state(1,2)]
  by (simp add: failing_state(3) expected_def expand_def)

text \<open>Deliveries before terminal errors: while accepted samples are still waiting for the consumer, in
  the queue or as the pending delivery, at most one terminal error has been returned. So a second
  terminal error (the poll failure after a queue-full notice, a panic after a poll failure) is only seen
  after every accepted sample.\<close>

theorem at_most_one_error_overtakes:
  assumes "sys_reachable en capacity s"
    "ch_buffer (sy_deliveries s) \<noteq> [] \<or> sy_pending_delivery s \<noteq> None"
  shows "length (reported (sy_log s)) \<le> 1 \<and> (consumer_alive s \<longrightarrow> Terminal worker_stop \<notin> set (sy_log s))"
  using sys_inv_reachable [OF assms(1)] assms(2) by (auto simp: sys_inv_def order_inv_def stop_inv_def)

theorem at_most_one_error_overtakes_witness:
  "ch_buffer (sy_deliveries lossy_system) \<noteq> [] \<and> length (reported (sy_log lossy_system)) \<le> 1 \<and>
   Terminal worker_stop \<notin> set (sy_log lossy_system)"
proof -
  have "ch_buffer (sy_deliveries lossy_system) \<noteq> []"
    by (simp add: lossy_system_def run_simps)
  then show ?thesis
    using at_most_one_error_overtakes [OF samples_reachable(1)] lossy_state(1) by blast
qed

text \<open>C31. One terminal error can overtake: the poll failure may be returned while an accepted sample is
  in the queue. The consumer finds the queue empty; before it looks at the terminal channel the worker
  accepts a sample, its poll fails, and it reports the failure.\<close>

theorem poll_failure_overtakes:
  assumes "0 < capacity"
  shows "\<exists>s. sys_reachable en capacity s \<and> consumer_alive s \<and> sy_log s = [Terminal (poll_failure er)] \<and>
    map de_delivery (ch_buffer (sy_deliveries s)) = [delivery_of en data]"
proof -
  define as where "as = [WorkerStep, ReceiveStart False, Callback data, Delivers, PollReturns (Inl er),
    WorkerStep, WorkerStep, ReceiveTerminal]"
  have "perform_all en as (system_init capacity) \<noteq> None"
    using assms by (simp add: run_simps as_def)
  note reached = schedule_reachable [OF this]
  show ?thesis
    by (intro exI [of _ "schedule en capacity as"] conjI reached)
      (use assms in \<open>simp_all add: run_simps as_def consumer_alive_def\<close>)
qed

theorem poll_failure_overtakes_witness:
  "\<exists>s. sys_reachable LittleEndian 1 s \<and> consumer_alive s \<and> sy_log s = [Terminal (poll_failure ''EIO'')] \<and>
    map de_delivery (ch_buffer (sy_deliveries s)) = [delivery_of LittleEndian [7]]"
  by (rule poll_failure_overtakes) simp

text \<open>C32. Shutdown: after the collector has cleared \<open>running\<close>, every step leaves the worker where it is or
  brings it strictly closer to its end, an unfinished worker always has such a step, and the distance is
  at most 15. So dropping the collector ends the worker, whatever the polls return and whether or not
  they panic.\<close>

theorem shutdown_terminates:
  assumes "sys_reachable en capacity s" "\<not> sy_running s"
  shows "(\<forall>s'. sys_step en s s' \<longrightarrow> \<not> sy_running s' \<and>
            (sy_worker s' = sy_worker s \<or> worker_rank (sy_worker s') < worker_rank (sy_worker s))) \<and>
         (sy_worker s \<noteq> WDone \<longrightarrow>
            (\<exists>s'. sys_step en s s' \<and> worker_rank (sy_worker s') < worker_rank (sy_worker s))) \<and>
         worker_rank (sy_worker s) \<le> 15"
proof -
  have "worker_rank (sy_worker s) \<le> 15"
    using sys_inv_reachable [OF assms(1)]
    by (cases "sy_worker s" rule: worker_rank.cases) (auto simp: sys_inv_def terminal_inv_def)
  moreover have "\<forall>s'. sys_step en s s' \<longrightarrow> \<not> sy_running s' \<and>
      (sy_worker s' = sy_worker s \<or> worker_rank (sy_worker s') < worker_rank (sy_worker s))"
    using stopped_step [OF _ assms(2)] by simp
  ultimately show ?thesis
    using worker_not_stuck [OF _ assms(2)] by simp
qed

definition stopping_system :: "string system" where
  "stopping_system = schedule LittleEndian 1 (lossy_run @ [DropStep])"

lemma stopping_state:
  "sys_reachable LittleEndian 1 stopping_system" "\<not> sy_running stopping_system"
  "sy_worker stopping_system = WPoll"
  unfolding stopping_system_def
  by (rule schedule_reachable, simp_all add: run_simps)

theorem shutdown_terminates_witness:
  "\<exists>s'. sys_step LittleEndian stopping_system s' \<and> worker_rank (sy_worker s') < 14"
  using shutdown_terminates [OF stopping_state(1,2)] by (simp add: stopping_state(3))

text \<open>Configuration: a capacity is accepted exactly in the supported range 1 to 65536, any
  other is reported back in the error, and the default configuration is a valid one.\<close>

theorem config_capacity:
  "(config_build n = Inr c \<longleftrightarrow> 1 \<le> n \<and> n \<le> 65536 \<and> event_capacity c = n) \<and>
   (config_build n = Inl er \<longleftrightarrow> (n = 0 \<or> 65536 < n) \<and> er = InvalidEventCapacity n) \<and>
   config_build DEFAULT_EVENT_CAPACITY = Inr config_default"
  by (cases c) (auto simp: config_build_def MIN_EVENT_CAPACITY_def MAX_EVENT_CAPACITY_def
      DEFAULT_EVENT_CAPACITY_def config_default_def)

end
