(* ===== verification/Privilege.thy ===== *)
theory Privilege
  imports Obs_Prelude
begin

text \<open>
  \<open>src/privilege.rs\<close>: the credential transitions around collector preparation. The system calls of
  \<open>rustix\<close> and the listing of \<open>/proc/self/task\<close> are the fields of the record \<open>os\<close>, functions on a
  world of any type; the program's own logic (what is called in which order, how each answer is
  checked, what a failure leaves behind, when the process aborts) is translated.
\<close>

unbundle bit_operations_syntax

subsection \<open>Errors and system calls\<close>

datatype privilege_error_kind =
    NotSingleThreaded | MissingSetupCapability | AlreadyFinalized | Inspect | Transition | Verify

datatype ('io, 'n) privilege_error_detail = Message string | Io string 'io | Errno string 'n

datatype ('io, 'n) privilege_error =
  PrivilegeError (pe_kind: privilege_error_kind) (pe_detail: "('io, 'n) privilege_error_detail")

record capability_sets =
  cs_effective :: u64
  cs_permitted :: u64
  cs_inheritable :: u64

text \<open>
  A directory listing is the list of what the iterator yields, each entry readable or an error. The
  capability numbers and the error number \<open>EINVAL\<close> are constants of \<open>rustix\<close>.
\<close>

record ('w, 'io, 'n) os =
  os_tasks :: "'w \<Rightarrow> 'w \<times> ('io + ('io + unit) list)"
  os_capabilities :: "'w \<Rightarrow> 'w \<times> ('n + capability_sets)"
  os_set_capabilities :: "capability_sets \<Rightarrow> 'w \<Rightarrow> 'w \<times> ('n + unit)"
  os_no_new_privs :: "'w \<Rightarrow> 'w \<times> ('n + bool)"
  os_set_no_new_privs :: "bool \<Rightarrow> 'w \<Rightarrow> 'w \<times> ('n + unit)"
  os_clear_ambient :: "'w \<Rightarrow> 'w \<times> ('n + unit)"
  os_in_ambient :: "u64 \<Rightarrow> 'w \<Rightarrow> 'w \<times> ('n + bool)"
  os_in_bounding :: "u64 \<Rightarrow> 'w \<Rightarrow> 'w \<times> ('n + bool)"
  os_remove_bounding :: "u64 \<Rightarrow> 'w \<Rightarrow> 'w \<times> ('n + unit)"
  os_INVAL :: 'n
  os_CAP_BPF :: u64
  os_CAP_PERFMON :: u64
  os_CAP_SETPCAP :: u64

text \<open>Effectful code: the new world and an error or a value; \<open>?\<close> is \<open>bind_io\<close>.\<close>

type_synonym ('w, 'io, 'n, 'a) io = "'w \<Rightarrow> 'w \<times> (('io, 'n) privilege_error + 'a)"

definition return_io :: "'a \<Rightarrow> ('w, 'io, 'n, 'a) io" where
  "return_io x w = (w, Inr x)"

definition raise_io :: "('io, 'n) privilege_error \<Rightarrow> ('w, 'io, 'n, 'a) io" where
  "raise_io er w = (w, Inl er)"

definition bind_io ::
  "('w, 'io, 'n, 'a) io \<Rightarrow> ('a \<Rightarrow> ('w, 'io, 'n, 'b) io) \<Rightarrow> ('w, 'io, 'n, 'b) io" where
  "bind_io m f w = (case m w of (w', Inl er) \<Rightarrow> (w', Inl er) | (w', Inr x) \<Rightarrow> f x w')"

definition then_io ::
  "('w, 'io, 'n, unit) io \<Rightarrow> ('w, 'io, 'n, 'b) io \<Rightarrow> ('w, 'io, 'n, 'b) io" where
  "then_io m n = bind_io m (\<lambda>_. n)"

definition call_io ::
  "('n \<Rightarrow> ('io, 'n) privilege_error) \<Rightarrow> ('w \<Rightarrow> 'w \<times> ('n + 'a)) \<Rightarrow> ('w, 'io, 'n, 'a) io" where
  "call_io f m w = (case m w of (w', r) \<Rightarrow> (w', map_err f r))"

definition inspect_io :: "string \<Rightarrow> 'io \<Rightarrow> ('io, 'n) privilege_error" where
  "inspect_io operation er = PrivilegeError Inspect (Io operation er)"

definition inspect_errno :: "string \<Rightarrow> 'n \<Rightarrow> ('io, 'n) privilege_error" where
  "inspect_errno operation er = PrivilegeError Inspect (Errno operation er)"

definition transition_errno :: "string \<Rightarrow> 'n \<Rightarrow> ('io, 'n) privilege_error" where
  "transition_errno operation er = PrivilegeError Transition (Errno operation er)"

definition message :: "privilege_error_kind \<Rightarrow> string \<Rightarrow> ('io, 'n) privilege_error" where
  "message k text = PrivilegeError k (Message text)"

subsection \<open>The inspections and transitions\<close>

fun next_task :: "('io + unit) list \<Rightarrow> 'io + (unit option \<times> ('io + unit) list)" where
  "next_task [] = Inr (None, [])"
| "next_task (Inl er # ts) = Inl er"
| "next_task (Inr t # ts) = Inr (Some t, ts)"

definition check_single_threaded :: "('w, 'io, 'n) os \<Rightarrow> ('w, 'io, 'n, unit) io" where
  "check_single_threaded k w =
     (case os_tasks k w of
        (w', Inl er) \<Rightarrow> (w', Inl (inspect_io ''read /proc/self/task'' er))
      | (w', Inr tasks) \<Rightarrow>
          (w', and_then (map_err (inspect_io ''read /proc/self/task'') (next_task tasks)) (\<lambda>(first, ts).
               and_then (map_err (inspect_io ''read /proc/self/task'') (next_task ts)) (\<lambda>(second, _).
                 if first \<noteq> None \<and> second = None then Inr ()
                 else Inl (message NotSingleThreaded ''the process is not single-threaded'')))))"

definition current_capabilities :: "('w, 'io, 'n) os \<Rightarrow> ('w, 'io, 'n, capability_sets) io" where
  "current_capabilities k = call_io (inspect_errno ''read capability sets'') (os_capabilities k)"

definition change_capabilities :: "('w, 'io, 'n) os \<Rightarrow> capability_sets \<Rightarrow> ('w, 'io, 'n, unit) io" where
  "change_capabilities k sets =
     call_io (transition_errno ''set capability sets'') (os_set_capabilities k sets)"

definition current_no_new_privs :: "('w, 'io, 'n) os \<Rightarrow> ('w, 'io, 'n, bool) io" where
  "current_no_new_privs k = call_io (inspect_errno ''read no_new_privs'') (os_no_new_privs k)"

definition enable_no_new_privs :: "('w, 'io, 'n) os \<Rightarrow> ('w, 'io, 'n, unit) io" where
  "enable_no_new_privs k = call_io (transition_errno ''set no_new_privs'') (os_set_no_new_privs k True)"

definition clear_ambient :: "('w, 'io, 'n) os \<Rightarrow> ('w, 'io, 'n, unit) io" where
  "clear_ambient k = call_io (transition_errno ''clear ambient capabilities'') (os_clear_ambient k)"

definition ambient_contains :: "('w, 'io, 'n) os \<Rightarrow> u64 \<Rightarrow> ('w, 'io, 'n, bool) io" where
  "ambient_contains k c = call_io (inspect_errno ''read ambient capability set'') (os_in_ambient k c)"

definition bounding_contains :: "('w, 'io, 'n) os \<Rightarrow> u64 \<Rightarrow> ('w, 'io, 'n, bool option) io" where
  "bounding_contains k c w =
     (case os_in_bounding k c w of
        (w', Inr b) \<Rightarrow> (w', Inr (Some b))
      | (w', Inl er) \<Rightarrow>
          if er = os_INVAL k then (w', Inr None)
          else (w', Inl (inspect_errno ''read capability bounding set'' er)))"

definition remove_bounding :: "('w, 'io, 'n) os \<Rightarrow> u64 \<Rightarrow> ('w, 'io, 'n, unit) io" where
  "remove_bounding k c =
     call_io (transition_errno ''reduce capability bounding set'') (os_remove_bounding k c)"

definition KNOWN_CAPABILITY_BITS :: nat where "KNOWN_CAPABILITY_BITS = 64"

definition capability :: "nat \<Rightarrow> u64 option" where
  "capability index = (if index < 64 then Some (push_bit index 1) else None)"

fun map_while :: "('a \<Rightarrow> 'b option) \<Rightarrow> 'a list \<Rightarrow> 'b list" where
  "map_while f [] = []"
| "map_while f (x # xs) = (case f x of Some y \<Rightarrow> y # map_while f xs | None \<Rightarrow> [])"

text \<open>The loop over the supported capabilities; \<open>'a\<close> is what the closure keeps between iterations.\<close>

fun supported_loop ::
  "('w, 'io, 'n) os \<Rightarrow> (u64 \<Rightarrow> 'a \<Rightarrow> ('w, 'io, 'n, 'a) io) \<Rightarrow> u64 list \<Rightarrow> 'a \<Rightarrow> ('w, 'io, 'n, 'a) io" where
  "supported_loop k act [] x = return_io x"
| "supported_loop k act (c # cs) x =
     bind_io (bounding_contains k c) (\<lambda>r.
       if r = None then return_io x
       else bind_io (act c x) (supported_loop k act cs))"

definition each_supported_capability ::
  "('w, 'io, 'n) os \<Rightarrow> (u64 \<Rightarrow> 'a \<Rightarrow> ('w, 'io, 'n, 'a) io) \<Rightarrow> 'a \<Rightarrow> ('w, 'io, 'n, 'a) io" where
  "each_supported_capability k act x =
     supported_loop k act (map_while capability [0..<KNOWN_CAPABILITY_BITS]) x"

definition clear_bounding :: "('w, 'io, 'n) os \<Rightarrow> ('w, 'io, 'n, unit) io" where
  "clear_bounding k =
     each_supported_capability k (\<lambda>c _. bind_io (bounding_contains k c) (\<lambda>r.
       if r = Some True then remove_bounding k c else return_io ())) ()"

definition verify_capability :: "('w, 'io, 'n) os \<Rightarrow> u64 \<Rightarrow> unit \<Rightarrow> ('w, 'io, 'n, unit) io" where
  "verify_capability k c u =
     bind_io (ambient_contains k c) (\<lambda>a.
       if a then raise_io (message Verify ''the ambient capability set is not empty'')
       else bind_io (bounding_contains k c) (\<lambda>b.
         if b = Some True then raise_io (message Verify ''the capability bounding set is not empty'')
         else return_io ()))"

definition verify :: "('w, 'io, 'n) os \<Rightarrow> capability_sets \<Rightarrow> ('w, 'io, 'n, unit) io" where
  "verify k expected =
     bind_io (current_no_new_privs k) (\<lambda>n.
       if \<not> n then raise_io (message Verify ''no_new_privs is not set'')
       else bind_io (current_capabilities k) (\<lambda>sets.
         if sets \<noteq> expected
         then raise_io (message Verify ''capability sets differ from the requested state'')
         else each_supported_capability k (verify_capability k) ()))"

subsection \<open>Finalization\<close>

datatype policy = Minimized | Preserved | VerificationPending | Finished

datatype finalization_mode = Explicit | Cleanup

record ('w, 'io, 'n) finalization_ops =
  fo_check_thread :: "('w, 'io, 'n, unit) io"
  fo_clear_ambient :: "('w, 'io, 'n, unit) io"
  fo_clear_bounding :: "('w, 'io, 'n, unit) io"
  fo_clear_capabilities :: "('w, 'io, 'n, unit) io"
  fo_verify :: "('w, 'io, 'n, unit) io"

definition empty_capabilities :: capability_sets where
  "empty_capabilities = \<lparr>cs_effective = 0, cs_permitted = 0, cs_inheritable = 0\<rparr>"

definition production_ops :: "('w, 'io, 'n) os \<Rightarrow> ('w, 'io, 'n) finalization_ops" where
  "production_ops k =
     \<lparr>fo_check_thread = check_single_threaded k, fo_clear_ambient = clear_ambient k,
      fo_clear_bounding = clear_bounding k,
      fo_clear_capabilities = change_capabilities k empty_capabilities,
      fo_verify = verify k empty_capabilities\<rparr>"

definition already_finalized :: "('io, 'n) privilege_error" where
  "already_finalized =
     message AlreadyFinalized ''minimized privileges cannot be reused after final capability removal''"

definition verify_pending ::
  "('w, 'io, 'n) finalization_ops \<Rightarrow> 'w \<Rightarrow> 'w \<times> policy \<times> (('io, 'n) privilege_error + unit)" where
  "verify_pending ops w =
     (case fo_verify ops w of
        (w', Inl er) \<Rightarrow> (w', VerificationPending, Inl er)
      | (w', Inr _) \<Rightarrow> (w', Finished, Inr ()))"

definition clear_all :: "('w, 'io, 'n) finalization_ops \<Rightarrow> ('w, 'io, 'n, unit) io" where
  "clear_all ops =
     then_io (fo_check_thread ops) (then_io (fo_clear_ambient ops)
      (then_io (fo_check_thread ops) (then_io (fo_clear_bounding ops)
        (then_io (fo_check_thread ops) (fo_clear_capabilities ops)))))"

fun finish_policy_with ::
  "policy \<Rightarrow> finalization_mode \<Rightarrow> ('w, 'io, 'n) finalization_ops \<Rightarrow> 'w \<Rightarrow>
     'w \<times> policy \<times> (('io, 'n) privilege_error + unit)" where
  "finish_policy_with Preserved mode ops w = (w, Preserved, Inr ())"
| "finish_policy_with Finished mode ops w = (w, Finished, Inr ())"
| "finish_policy_with VerificationPending Explicit ops w = (w, VerificationPending, Inl already_finalized)"
| "finish_policy_with VerificationPending Cleanup ops w = verify_pending ops w"
| "finish_policy_with Minimized mode ops w =
     (case clear_all ops w of
        (w', Inl er) \<Rightarrow> (w', Minimized, Inl er)
      | (w', Inr _) \<Rightarrow> verify_pending ops w')"

text \<open>A call that may end the process: \<open>std::process::abort\<close>.\<close>

datatype 'a completion = Returned 'a | Aborted

definition cleanup :: "('w, 'io, 'n) os \<Rightarrow> policy \<Rightarrow> 'w \<Rightarrow> 'w \<times> unit completion" where
  "cleanup k p w =
     (case finish_policy_with p Cleanup (production_ops k) w of
        (w', _, Inl er) \<Rightarrow> (w', Aborted)
      | (w', _, Inr _) \<Rightarrow> (w', Returned ()))"

definition drop_privileges :: "('w, 'io, 'n) os \<Rightarrow> policy \<Rightarrow> 'w \<Rightarrow> 'w \<times> unit completion" where
  "drop_privileges k p w = cleanup k p w"

definition ensure_can_prepare :: "policy \<Rightarrow> ('io, 'n) privilege_error + unit" where
  "ensure_can_prepare p =
     (case p of VerificationPending \<Rightarrow> Inl already_finalized | Finished \<Rightarrow> Inl already_finalized
      | _ \<Rightarrow> Inr ())"

definition finish ::
  "('w, 'io, 'n) os \<Rightarrow> policy \<Rightarrow> 'w \<Rightarrow> 'w \<times> policy \<times> (('io, 'n) privilege_error + unit)" where
  "finish k p w = finish_policy_with p Explicit (production_ops k) w"

definition preserve :: policy where
  "preserve = Preserved"

subsection \<open>Minimization\<close>

definition SETUP_CAPABILITIES :: "('w, 'io, 'n) os \<Rightarrow> u64" where
  "SETUP_CAPABILITIES k = os_CAP_BPF k OR os_CAP_PERFMON k"

definition cap_contains :: "u64 \<Rightarrow> u64 \<Rightarrow> bool" where
  "cap_contains s c = (s AND c = c)"

definition setup_capabilities :: "('w, 'io, 'n) os \<Rightarrow> capability_sets" where
  "setup_capabilities k =
     \<lparr>cs_effective = SETUP_CAPABILITIES k, cs_permitted = SETUP_CAPABILITIES k, cs_inheritable = 0\<rparr>"

definition preflight_minimization :: "('w, 'io, 'n) os \<Rightarrow> ('w, 'io, 'n, unit) io" where
  "preflight_minimization k =
     then_io (check_single_threaded k) (bind_io (current_capabilities k) (\<lambda>current.
       if \<not> cap_contains (cs_permitted current) (SETUP_CAPABILITIES k)
       then raise_io (message MissingSetupCapability ''CAP_BPF and CAP_PERFMON must be permitted'')
       else bind_io (each_supported_capability k
              (\<lambda>c nonempty. bind_io (bounding_contains k c) (\<lambda>r. return_io (nonempty \<or> r = Some True)))
              False)
         (\<lambda>bounding_nonempty.
           if bounding_nonempty \<and> \<not> cap_contains (cs_effective current) (os_CAP_SETPCAP k)
           then raise_io (message MissingSetupCapability
                  ''CAP_SETPCAP is required to empty the capability bounding set'')
           else return_io ())))"

text \<open>
  What \<open>minimize\<close> does before it arms its cleanup guard, and after. A failure after that point
  drops the armed guard.
\<close>

definition minimize_prefix :: "('w, 'io, 'n) os \<Rightarrow> ('w, 'io, 'n, unit) io" where
  "minimize_prefix k =
     then_io (preflight_minimization k) (then_io (check_single_threaded k) (enable_no_new_privs k))"

definition minimize_body :: "('w, 'io, 'n) os \<Rightarrow> ('w, 'io, 'n, unit) io" where
  "minimize_body k =
     then_io (check_single_threaded k) (then_io (clear_ambient k)
      (then_io (check_single_threaded k) (then_io (clear_bounding k)
        (then_io (check_single_threaded k)
          (then_io (change_capabilities k (setup_capabilities k)) (verify k (setup_capabilities k)))))))"

definition minimize ::
  "('w, 'io, 'n) os \<Rightarrow> 'w \<Rightarrow> 'w \<times> (('io, 'n) privilege_error + policy) completion" where
  "minimize k w =
     (case minimize_prefix k w of
        (w1, Inl er) \<Rightarrow> (w1, Returned (Inl er))
      | (w1, Inr _) \<Rightarrow>
          (case minimize_body k w1 of
             (w2, Inr _) \<Rightarrow> (w2, Returned (Inr Minimized))
           | (w2, Inl er) \<Rightarrow>
               (case cleanup k Minimized w2 of
                  (w3, Returned _) \<Rightarrow> (w3, Returned (Inl er))
                | (w3, Aborted) \<Rightarrow> (w3, Aborted))))"

end
