(* ===== verification/Privilege_Properties.thy ===== *)
theory Privilege_Properties
  imports Privilege
begin

text \<open>
  What the privilege transitions guarantee. The hypotheses describe the inspection calls of Linux:
  \<open>inspections_truthful\<close> says that reading a credential does not change it and reports it as it is.
  Nothing is assumed of the calls that change credentials: the guarantees come from the program's
  own verification.
\<close>

unbundle bit_operations_syntax

text \<open>The capability of an index, as a set of one element.\<close>

definition cap_bit :: "nat \<Rightarrow> u64" where
  "cap_bit i = push_bit i 1"

subsection \<open>Credentials and the contract of the inspections\<close>

record credentials =
  cr_no_new_privs :: bool
  cr_sets :: capability_sets
  cr_ambient :: u64
  cr_bounding :: u64
  cr_supported :: nat

definition inspections_truthful :: "('w, 'io, 'n) os \<Rightarrow> ('w \<Rightarrow> credentials) \<Rightarrow> bool" where
  "inspections_truthful k view \<longleftrightarrow>
     (\<forall>w. view (fst (os_tasks k w)) = view w) \<and>
     (\<forall>w. view (fst (os_capabilities k w)) = view w \<and>
        (\<forall>x. snd (os_capabilities k w) = Inr x \<longrightarrow> x = cr_sets (view w))) \<and>
     (\<forall>w. view (fst (os_no_new_privs k w)) = view w \<and>
        (\<forall>x. snd (os_no_new_privs k w) = Inr x \<longrightarrow> x = cr_no_new_privs (view w))) \<and>
     (\<forall>w c. view (fst (os_in_ambient k c w)) = view w \<and>
        (\<forall>x. snd (os_in_ambient k c w) = Inr x \<longrightarrow> x = (cr_ambient (view w) AND c \<noteq> 0))) \<and>
     (\<forall>w c. view (fst (os_in_bounding k c w)) = view w \<and>
        (\<forall>x. snd (os_in_bounding k c w) = Inr x \<longrightarrow> x = (cr_bounding (view w) AND c \<noteq> 0))) \<and>
     (\<forall>w i. i < 64 \<and> snd (os_in_bounding k (cap_bit i) w) = Inl (os_INVAL k) \<longrightarrow>
        cr_supported (view w) \<le> i)"

definition reduced :: "capability_sets \<Rightarrow> credentials \<Rightarrow> bool" where
  "reduced sets c \<longleftrightarrow> cr_no_new_privs c \<and> cr_sets c = sets \<and>
     (\<forall>i<min 64 (cr_supported c). \<not> bit (cr_ambient c) i \<and> \<not> bit (cr_bounding c) i)"

subsection \<open>Effects of the pieces\<close>

text \<open>A program that leaves the credentials alone, whatever it returns.\<close>

definition reads_only :: "('w \<Rightarrow> credentials) \<Rightarrow> ('w, 'io, 'n, 'a) io \<Rightarrow> bool" where
  "reads_only view m \<longleftrightarrow> (\<forall>w. view (fst (m w)) = view w)"

lemma reads_only_simps [simp, intro]:
  "reads_only view (return_io x)" "reads_only view (raise_io er)"
  by (simp_all add: reads_only_def return_io_def raise_io_def)

lemma reads_only_bind [intro]:
  assumes "reads_only view m" "\<And>x. reads_only view (f x)"
  shows "reads_only view (bind_io m f)"
  using assms by (auto simp: reads_only_def bind_io_def split: prod.splits sum.splits) (metis fst_conv)+

lemma reads_only_then [intro]: "reads_only view m \<Longrightarrow> reads_only view n \<Longrightarrow> reads_only view (then_io m n)"
  by (auto simp: then_io_def)

lemma bind_io_Inr:
  "bind_io m f w = (w', Inr y) \<longleftrightarrow> (\<exists>w1 x. m w = (w1, Inr x) \<and> f x w1 = (w', Inr y))"
  by (auto simp: bind_io_def split: prod.splits sum.splits)

lemma then_io_Inr:
  "then_io m n w = (w', Inr y) \<longleftrightarrow> (\<exists>w1 x. m w = (w1, Inr x) \<and> n w1 = (w', Inr y))"
  by (simp add: then_io_def bind_io_Inr)

lemma return_raise_Inr [simp]:
  "return_io x w = (w', Inr y) \<longleftrightarrow> w' = w \<and> y = x" "raise_io er w \<noteq> (w', Inr y)"
  by (auto simp: return_io_def raise_io_def)

lemma bit_push_one: "i < 64 \<Longrightarrow> (w AND cap_bit i \<noteq> 0) = bit w i" for w :: u64
  by (simp add: cap_bit_def push_bit_eq_mult and_exp_eq_0_iff_not_bit)

lemma call_io_Inr:
  "call_io f m w = (w', Inr x) \<longleftrightarrow> m w = (w', Inr x)"
  by (auto simp: call_io_def map_err_def split: prod.splits sum.splits)

lemma call_io_fst [simp]: "fst (call_io f m w) = fst (m w)"
  by (auto simp: call_io_def split: prod.splits)

lemma bounding_contains_fst [simp]: "fst (bounding_contains k c w) = fst (os_in_bounding k c w)"
  by (auto simp: bounding_contains_def split: prod.splits sum.splits)

lemma check_single_threaded_fst [simp]: "fst (check_single_threaded k w) = fst (os_tasks k w)"
  by (auto simp: check_single_threaded_def split: prod.splits sum.splits)

lemma inspections_read_only:
  assumes "inspections_truthful k view"
  shows "reads_only view (check_single_threaded k)" "reads_only view (current_capabilities k)"
    "reads_only view (current_no_new_privs k)" "reads_only view (ambient_contains k c)"
    "reads_only view (bounding_contains k c)"
  using assms by (simp_all add: inspections_truthful_def reads_only_def current_capabilities_def
      current_no_new_privs_def ambient_contains_def)

lemma supported_loop_reads:
  assumes "inspections_truthful k view" "\<And>c x. reads_only view (act c x)"
  shows "reads_only view (supported_loop k act cs x)"
proof (induction cs arbitrary: x)
  case (Cons c cs)
  then show ?case
    using inspections_read_only(5) [OF assms(1)] assms(2)
    by (auto intro!: reads_only_bind)
qed simp

lemma verify_reads:
  assumes "inspections_truthful k view"
  shows "reads_only view (verify k sets)"
  unfolding verify_def each_supported_capability_def verify_capability_def
  by (auto intro!: reads_only_bind supported_loop_reads inspections_read_only [OF assms] assms)

lemma preflight_reads:
  assumes "inspections_truthful k view"
  shows "reads_only view (preflight_minimization k)"
  unfolding preflight_minimization_def each_supported_capability_def
  by (auto intro!: reads_only_bind reads_only_then supported_loop_reads inspections_read_only [OF assms] assms)

lemma reads_onlyD: "reads_only view m \<Longrightarrow> m w = (w', r) \<Longrightarrow> view w' = view w"
  by (metis reads_only_def fst_conv)

text \<open>The capabilities the loop visits are the single bits, in order.\<close>

lemma map_while_all: "(\<And>x. x \<in> set xs \<Longrightarrow> f x = Some (g x)) \<Longrightarrow> map_while f xs = map g xs"
  by (induction xs) auto

lemma visited_capabilities:
  "map_while capability [0..<KNOWN_CAPABILITY_BITS] = map cap_bit [0..<64]"
  unfolding KNOWN_CAPABILITY_BITS_def by (rule map_while_all) (simp add: capability_def cap_bit_def)

lemma truthful_bounding:
  assumes "inspections_truthful k view" "i < 64" "bounding_contains k (cap_bit i) w = (w', Inr r)"
  shows "view w' = view w"
    "r = Some b \<Longrightarrow> b = bit (cr_bounding (view w)) i" "r = None \<Longrightarrow> cr_supported (view w) \<le> i"
proof -
  show "view w' = view w"
    using reads_onlyD [OF inspections_read_only(5) [OF assms(1)] assms(3)] .
  show "r = Some b \<Longrightarrow> b = bit (cr_bounding (view w)) i"
    using assms bit_push_one [OF assms(2)]
    by (auto simp: inspections_truthful_def bounding_contains_def split: prod.splits sum.splits if_splits)
      (metis snd_conv)+
  show "r = None \<Longrightarrow> cr_supported (view w) \<le> i"
    using assms
    by (auto simp: inspections_truthful_def bounding_contains_def split: prod.splits sum.splits if_splits)
qed

lemma truthful_reads:
  assumes "inspections_truthful k view"
  shows "ambient_contains k (cap_bit i) w = (w', Inr a) \<Longrightarrow> i < 64 \<Longrightarrow> a = bit (cr_ambient (view w)) i"
    "current_no_new_privs k w = (w', Inr n) \<Longrightarrow> n = cr_no_new_privs (view w)"
    "current_capabilities k w = (w', Inr sets) \<Longrightarrow> sets = cr_sets (view w)"
  using assms bit_push_one [of i]
  by (auto simp: inspections_truthful_def ambient_contains_def current_no_new_privs_def
      current_capabilities_def call_io_Inr) (metis snd_conv)+

lemma verify_capability_ok:
  assumes "inspections_truthful k view" "i < 64" "verify_capability k (cap_bit i) () w = (w', Inr ())"
  shows "view w' = view w \<and> \<not> bit (cr_ambient (view w)) i \<and>
    (\<not> bit (cr_bounding (view w)) i \<or> cr_supported (view w) \<le> i)"
proof -
  from assms(3) obtain w1 b where ambient: "ambient_contains k (cap_bit i) w = (w1, Inr False)"
    and bounding: "bounding_contains k (cap_bit i) w1 = (w', Inr b)" and b: "b \<noteq> Some True"
    by (auto simp: verify_capability_def bind_io_Inr split: if_splits)
  have "view w1 = view w"
    using reads_onlyD [OF inspections_read_only(4) [OF assms(1)] ambient] .
  then show ?thesis
    using truthful_reads(1) [OF assms(1) ambient assms(2)] truthful_bounding [OF assms(1,2) bounding] b
    by (cases b) auto
qed

lemma verify_loop_ok:
  assumes "inspections_truthful k view" "sorted is" "set is \<subseteq> {..<64}"
    "supported_loop k (verify_capability k) (map cap_bit is) () w = (w', Inr ())"
  shows "view w' = view w \<and>
    (\<forall>i\<in>set is. i < cr_supported (view w) \<longrightarrow> \<not> bit (cr_ambient (view w)) i \<and> \<not> bit (cr_bounding (view w)) i)"
  using assms(2-)
proof (induction "is" arbitrary: w)
  case (Cons i "is")
  from Cons.prems(3) obtain w1 r where r: "bounding_contains k (cap_bit i) w = (w1, Inr r)"
    and rest: "(if r = None then return_io () else
      bind_io (verify_capability k (cap_bit i) ()) (supported_loop k (verify_capability k)
        (map cap_bit is))) w1 = (w', Inr ())"
    by (auto simp: bind_io_Inr)
  have i: "i < 64" using Cons.prems(2) by simp
  note same = truthful_bounding [OF assms(1) i r]
  show ?case
  proof (cases r)
    case None
    then show ?thesis using rest same(1,3) Cons.prems(1) by (auto simp: order.trans)
  next
    case (Some b)
    with rest obtain w2 where step: "verify_capability k (cap_bit i) () w1 = (w2, Inr ())"
      and loop: "supported_loop k (verify_capability k) (map cap_bit is) () w2 = (w', Inr ())"
      by (auto simp: bind_io_Inr)
    from verify_capability_ok [OF assms(1) i step] Cons.IH [OF _ _ loop] Cons.prems(1,2) same(1)
    show ?thesis by auto
  qed
qed simp

lemma verify_ok:
  assumes "inspections_truthful k view" "verify k sets w = (w', Inr ())"
  shows "view w' = view w \<and> reduced sets (view w')"
proof -
  from assms(2) obtain w1 w2 where nnp: "current_no_new_privs k w = (w1, Inr True)"
    and caps: "current_capabilities k w1 = (w2, Inr sets)"
    and loop: "supported_loop k (verify_capability k) (map cap_bit [0..<64]) () w2 = (w', Inr ())"
    by (auto simp: verify_def bind_io_Inr each_supported_capability_def visited_capabilities split: if_splits)
  have "view w1 = view w" "view w2 = view w1"
    using reads_onlyD [OF inspections_read_only(3) [OF assms(1)] nnp]
      reads_onlyD [OF inspections_read_only(2) [OF assms(1)] caps] by simp_all
  then show ?thesis
    using truthful_reads(2) [OF assms(1) nnp] truthful_reads(3) [OF assms(1) caps]
      verify_loop_ok [OF assms(1) _ _ loop]
    by (simp add: reduced_def ivl_subset lessThan_atLeast0)
qed

lemma verify_reduced:
  "inspections_truthful k view \<Longrightarrow> verify k sets w = (w', Inr u) \<Longrightarrow> reduced sets (view w')"
  using verify_ok [of k view sets w w'] by (cases u) auto

subsection \<open>Finalization\<close>

lemma verify_pending_Finished:
  assumes "inspections_truthful k view"
    "verify_pending (production_ops k) w = (w', p', Inr u)"
  shows "p' = Finished \<and> reduced empty_capabilities (view w')"
  using assms(2) verify_reduced [OF assms(1)]
  by (auto simp: verify_pending_def production_ops_def split: prod.splits sum.splits)

lemma finish_policy_reduced:
  assumes "inspections_truthful k view" "p \<in> {Minimized, VerificationPending}"
    "finish_policy_with p mode (production_ops k) w = (w', p', Inr u)"
  shows "p' = Finished \<and> reduced empty_capabilities (view w')"
  using assms verify_pending_Finished [OF assms(1)]
  by (cases mode) (auto split: prod.splits sum.splits)

lemma cleanup_reduced:
  assumes "inspections_truthful k view" "p \<in> {Minimized, VerificationPending}"
    "cleanup k p w = (w', Returned u)"
  shows "reduced empty_capabilities (view w')"
  using assms finish_policy_reduced [OF assms(1,2)]
  by (auto simp: cleanup_def split: prod.splits sum.splits)

subsection \<open>Minimization\<close>

text \<open>Setting \<open>no_new_privs\<close> touches nothing else (\<open>prctl(2)\<close>).\<close>

definition no_new_privs_isolated :: "('w, 'io, 'n) os \<Rightarrow> ('w \<Rightarrow> credentials) \<Rightarrow> bool" where
  "no_new_privs_isolated k view \<longleftrightarrow>
     (\<forall>w b. (view (fst (os_set_no_new_privs k b w)))\<lparr>cr_no_new_privs := True\<rparr> =
            (view w)\<lparr>cr_no_new_privs := True\<rparr>)"

definition same_capabilities :: "credentials \<Rightarrow> credentials \<Rightarrow> bool" where
  "same_capabilities c d \<longleftrightarrow> c\<lparr>cr_no_new_privs := True\<rparr> = d\<lparr>cr_no_new_privs := True\<rparr>"

lemma minimize_prefix_same:
  assumes "inspections_truthful k view" "no_new_privs_isolated k view" "minimize_prefix k w = (w', r)"
  shows "same_capabilities (view w') (view w)"
proof -
  have "reads_only view (then_io (preflight_minimization k) (check_single_threaded k))"
    by (intro reads_only_then preflight_reads inspections_read_only assms(1))
  then have "view (fst (then_io (preflight_minimization k) (check_single_threaded k) w)) = view w"
    by (simp add: reads_only_def)
  moreover have "minimize_prefix k w =
      then_io (then_io (preflight_minimization k) (check_single_threaded k)) (enable_no_new_privs k) w"
    by (auto simp: minimize_prefix_def then_io_def bind_io_def split: prod.splits sum.splits)
  ultimately show ?thesis
    using assms(2,3)
    by (auto simp: then_io_def bind_io_def enable_no_new_privs_def call_io_def same_capabilities_def
        no_new_privs_isolated_def split: prod.splits sum.splits) (metis fst_conv)+
qed

lemma minimize_body_reduced:
  assumes "inspections_truthful k view" "minimize_body k w = (w', Inr u)"
  shows "reduced (setup_capabilities k) (view w')"
  using assms(2) verify_reduced [OF assms(1)] by (auto simp: minimize_body_def then_io_Inr)

subsection \<open>A simulated kernel\<close>

text \<open>
  Credentials that behave as documented, with one thread and a bounding set of the first
  \<open>cr_supported\<close> capabilities. It shows that the hypotheses can hold and runs the code to success.
\<close>

definition simulated_os :: "(credentials, unit, nat) os" where
  "simulated_os =
     \<lparr>os_tasks = (\<lambda>c. (c, Inr [Inr ()])),
      os_capabilities = (\<lambda>c. (c, Inr (cr_sets c))),
      os_set_capabilities = (\<lambda>s c. (c\<lparr>cr_sets := s\<rparr>, Inr ())),
      os_no_new_privs = (\<lambda>c. (c, Inr (cr_no_new_privs c))),
      os_set_no_new_privs = (\<lambda>b c. (c\<lparr>cr_no_new_privs := b\<rparr>, Inr ())),
      os_clear_ambient = (\<lambda>c. (c\<lparr>cr_ambient := 0\<rparr>, Inr ())),
      os_in_ambient = (\<lambda>x c. (c, Inr (cr_ambient c AND x \<noteq> 0))),
      os_in_bounding = (\<lambda>x c. (c, if x AND mask (cr_supported c) = 0 then Inl 22
                                   else Inr (cr_bounding c AND x \<noteq> 0))),
      os_remove_bounding = (\<lambda>x c. (c\<lparr>cr_bounding := cr_bounding c AND NOT x\<rparr>, Inr ())),
      os_INVAL = 22, os_CAP_BPF = 2 ^ 39, os_CAP_PERFMON = 2 ^ 38, os_CAP_SETPCAP = 2 ^ 8\<rparr>"

lemma simulated_truthful: "inspections_truthful simulated_os (\<lambda>c. c)"
proof -
  have "cr_supported c \<le> i" if "i < 64" "cap_bit i AND mask (cr_supported c) = 0" for i and c :: credentials
  proof (rule ccontr)
    assume "\<not> cr_supported c \<le> i"
    then have "bit (cap_bit i AND mask (cr_supported c)) i"
      using that(1) by (simp add: cap_bit_def bit_simps)
    with that(2) show False by simp
  qed
  then show ?thesis
    by (auto simp: inspections_truthful_def simulated_os_def)
qed

lemma simulated_isolated: "no_new_privs_isolated simulated_os (\<lambda>c. c)"
  by (simp add: no_new_privs_isolated_def simulated_os_def)

definition root_credentials :: credentials where
  "root_credentials = \<lparr>cr_no_new_privs = False,
     cr_sets = \<lparr>cs_effective = 2 ^ 41 - 1, cs_permitted = 2 ^ 41 - 1, cs_inheritable = 0\<rparr>,
     cr_ambient = 0, cr_bounding = 3, cr_supported = 2\<rparr>"

lemma first_capabilities:
  "each_supported_capability k act x = supported_loop k act (1 # 2 # 4 # map cap_bit [3..<64]) x"
proof -
  have "[0..<64] = 0 # 1 # 2 # [3..<64]"
    by (simp add: upt_conv_Cons numeral_eq_Suc)
  then show ?thesis
    by (simp add: each_supported_capability_def visited_capabilities cap_bit_def)
qed

lemmas run_io = bind_io_def then_io_def return_io_def raise_io_def call_io_def map_err_def
lemmas run_inspections = check_single_threaded_def current_capabilities_def current_no_new_privs_def
  ambient_contains_def bounding_contains_def

lemma simulated_minimize: "snd (minimize simulated_os root_credentials) = Returned (Inr Minimized)"
  by (simp add: minimize_def minimize_prefix_def minimize_body_def preflight_minimization_def
      first_capabilities run_io run_inspections clear_bounding_def verify_def verify_capability_def
      enable_no_new_privs_def clear_ambient_def remove_bounding_def change_capabilities_def
      simulated_os_def root_credentials_def cap_contains_def SETUP_CAPABILITIES_def setup_capabilities_def
      mask_eq_exp_minus_1)

lemma simulated_drop: "snd (drop_privileges simulated_os Minimized root_credentials) = Aborted"
  "snd (drop_privileges simulated_os Minimized (root_credentials\<lparr>cr_no_new_privs := True\<rparr>)) = Returned ()"
  by (simp_all add: drop_privileges_def cleanup_def clear_all_def verify_pending_def production_ops_def
      first_capabilities run_io run_inspections clear_bounding_def verify_def verify_capability_def
      clear_ambient_def remove_bounding_def change_capabilities_def simulated_os_def root_credentials_def
      empty_capabilities_def mask_eq_exp_minus_1)

subsection \<open>Properties\<close>

text \<open>C17. Minimization leaves one of three states. If \<open>minimize\<close> succeeds, \<open>no_new_privs\<close> is set, the
  capability sets are exactly the setup capabilities, and no supported capability is left in the
  ambient or bounding set. If it returns an error, either no capability was touched or everything was
  removed and the removal verified. Otherwise the process is aborted. Inspections are assumed
  truthful, nothing is assumed of the calls that drop capabilities.\<close>

theorem minimize_outcomes:
  assumes "inspections_truthful k view" "no_new_privs_isolated k view"
    "minimize k w = (w', Returned r)"
  shows "case r of
      Inr p \<Rightarrow> p = Minimized \<and> reduced (setup_capabilities k) (view w')
    | Inl er \<Rightarrow> same_capabilities (view w') (view w) \<or> reduced empty_capabilities (view w')"
  using assms(3) minimize_prefix_same [OF assms(1,2)] minimize_body_reduced [OF assms(1)]
    cleanup_reduced [OF assms(1), of Minimized]
  by (auto simp: minimize_def split: prod.splits sum.splits completion.splits)

theorem minimize_outcomes_witness:
  "reduced (setup_capabilities simulated_os) (fst (minimize simulated_os root_credentials))"
proof -
  have "minimize simulated_os root_credentials =
      (fst (minimize simulated_os root_credentials), Returned (Inr Minimized))"
    by (metis simulated_minimize prod.collapse)
  from minimize_outcomes [OF simulated_truthful simulated_isolated this] show ?thesis by simp
qed

text \<open>Dropping privileges is safe: when a minimized value, or one whose removal was not yet verified,
  is dropped and the process goes on, then \<open>no_new_privs\<close> is set, all capability sets are empty and no
  supported capability is left in the ambient or bounding set.\<close>

theorem drop_privileges_safe:
  assumes "inspections_truthful k view" "p \<in> {Minimized, VerificationPending}"
    "drop_privileges k p w = (w', Returned u)"
  shows "reduced empty_capabilities (view w')"
  using cleanup_reduced [OF assms(1,2)] assms(3) by (simp add: drop_privileges_def)

theorem drop_privileges_safe_witness:
  "reduced empty_capabilities
     (fst (drop_privileges simulated_os Minimized (root_credentials\<lparr>cr_no_new_privs := True\<rparr>)))"
proof -
  let ?start = "root_credentials\<lparr>cr_no_new_privs := True\<rparr>"
  have "drop_privileges simulated_os Minimized ?start =
      (fst (drop_privileges simulated_os Minimized ?start), Returned ())"
    by (rule prod_eqI) (simp_all only: fst_conv snd_conv simulated_drop(2))
  from drop_privileges_safe [OF simulated_truthful _ this] show ?thesis by simp
qed

end
