(* ===== verification/Prepare.thy ===== *)
theory Prepare
  imports Privilege Collector
begin

text \<open>
  Collector preparation: \<open>src/collector/tracepoint.rs\<close> and \<open>prepare_resources\<close>,
  \<open>backend::prepare\<close>, \<open>finalize_prepared\<close> and \<open>CollectorConfig::prepare\<close> of \<open>src/collector.rs\<close>.
  What libbpf answers is the record \<open>libbpf\<close>. The model keeps a trace of the resources acquired and
  dropped, in the order in which Rust drops them.
\<close>

unbundle bit_operations_syntax

subsection \<open>The tracing-interface generation\<close>

definition GENERATION_1_TARGETS :: "string list" where
  "GENERATION_1_TARGETS =
     [''btf_trace_landlock_create_ruleset'',
      ''btf_trace_landlock_add_rule_path_beneath'',
      ''btf_trace_landlock_add_rule_net_port'',
      ''btf_trace_landlock_create_domain'',
      ''btf_trace_landlock_enforce_domain'',
      ''btf_trace_landlock_deny_access_fs'',
      ''btf_trace_landlock_deny_access_net'',
      ''btf_trace_landlock_deny_ptrace'',
      ''btf_trace_landlock_deny_scope_signal'',
      ''btf_trace_landlock_deny_scope_abstract_unix_socket'',
      ''btf_trace_landlock_free_domain'',
      ''btf_trace_landlock_free_ruleset'']"

definition GENERATION_1_COMPLETE :: u16 where
  "GENERATION_1_COMPLETE = push_bit (length GENERATION_1_TARGETS) 1 - 1"

text \<open>The error kinds of libbpf-rs that the code tells apart from the others.\<close>

datatype bpf_error_kind = BpfNotFound | BpfOther | BpfDistinct nat

fun should_diagnose :: "bpf_error_kind \<Rightarrow> bool" where
  "should_diagnose BpfNotFound = True"
| "should_diagnose BpfOther = True"
| "should_diagnose _ = False"

definition generation_1_target_bit :: "nat \<Rightarrow> u16 option" where
  "generation_1_target_bit index =
     Option.bind (if index < 2 ^ 32 then Some index else None)
       (\<lambda>i. if i < 16 then Some (push_bit i 1) else None)"

definition mark_generation_1_target :: "u16 \<Rightarrow> string \<Rightarrow> u16" where
  "mark_generation_1_target m name =
     (case position (\<lambda>target. name = target) GENERATION_1_TARGETS of
        None \<Rightarrow> m
      | Some i \<Rightarrow> (case generation_1_target_bit i of None \<Rightarrow> m | Some b \<Rightarrow> m OR b))"

fun target_loop :: "u16 \<Rightarrow> string option list \<Rightarrow> u16" where
  "target_loop m [] = m"
| "target_loop m (None # ts) = target_loop m ts"
| "target_loop m (Some name # ts) =
     (let m' = mark_generation_1_target m name in
      if m' = GENERATION_1_COMPLETE then m' else target_loop m' ts)"

subsection \<open>Resources\<close>

datatype resource = Object | ProgramLink nat | Ring

datatype resource_event = Acquire resource | Release resource

text \<open>
  What libbpf answers: opening and loading the object, attaching each program in turn, the names of
  the maps, adding the callback, building the ring buffer, and the names of the typedefs of the
  kernel's BTF.
\<close>

record 'e libbpf =
  lb_open :: "'e + unit"
  lb_load :: "'e + unit"
  lb_attach :: "('e + unit) list"
  lb_map_names :: "string list"
  lb_ring_add :: "'e + unit"
  lb_ring_build :: "'e + unit"
  lb_btf_typedefs :: "'e + string option list"
  lb_error_kind :: "'e \<Rightarrow> bpf_error_kind"

definition generation_1_target_mask :: "'e libbpf \<Rightarrow> 'e + u16" where
  "generation_1_target_mask lib = map_ok (target_loop 0) (lb_btf_typedefs lib)"

definition generation_1_is_missing :: "'e libbpf \<Rightarrow> 'e \<Rightarrow> bool" where
  "generation_1_is_missing lib load_error \<longleftrightarrow>
     should_diagnose (lb_error_kind lib load_error) \<and>
     (case generation_1_target_mask lib of Inr m \<Rightarrow> m \<noteq> GENERATION_1_COMPLETE | Inl _ \<Rightarrow> False)"

datatype prepare_error_kind = UnsupportedKernel | OpenStage | LoadStage | AttachStage | RingSetup | PrivilegeStage

datatype ('e, 'io, 'n) prepare_detail =
    BpfSource 'e
  | NoEventsMap
  | PrivilegeSource "('io, 'n) privilege_error"

datatype ('e, 'io, 'n) prepare_error =
  PrepareError (pr_kind: prepare_error_kind) (pr_detail: "('e, 'io, 'n) prepare_detail")

text \<open>\<open>progs_mut().map(attach).collect()\<close>: the links so far are dropped at the first failure.\<close>

fun attach_links :: "nat \<Rightarrow> ('e + unit) list \<Rightarrow> resource_event list \<times> ('e + nat)" where
  "attach_links n [] = ([], Inr n)"
| "attach_links n (Inl er # rs) = (map (Release \<circ> ProgramLink) [0..<n], Inl er)"
| "attach_links n (Inr u # rs) =
     (case attach_links (Suc n) rs of (tr, r) \<Rightarrow> (Acquire (ProgramLink n) # tr, r))"

definition release_setup :: "nat \<Rightarrow> resource_event list" where
  "release_setup n = map (Release \<circ> ProgramLink) [0..<n] @ [Release Object]"

definition build_ring :: "'e libbpf \<Rightarrow> ('e, 'io, 'n) prepare_error + unit" where
  "build_ring lib =
     (if ''events'' \<notin> set (lb_map_names lib) then Inl (PrepareError RingSetup NoEventsMap)
      else map_err (\<lambda>er. PrepareError RingSetup (BpfSource er))
             (and_then (lb_ring_add lib) (\<lambda>_. lb_ring_build lib)))"

definition prepare_resources ::
  "'e libbpf \<Rightarrow> resource_event list \<times> (('e, 'io, 'n) prepare_error + nat)" where
  "prepare_resources lib =
     (case lb_open lib of
        Inl er \<Rightarrow> ([], Inl (PrepareError OpenStage (BpfSource er)))
      | Inr _ \<Rightarrow>
          (case lb_load lib of
             Inl er \<Rightarrow>
               ([Acquire Object, Release Object],
                Inl (PrepareError (if generation_1_is_missing lib er then UnsupportedKernel else LoadStage)
                      (BpfSource er)))
           | Inr _ \<Rightarrow>
               (case attach_links 0 (lb_attach lib) of
                  (tr, Inl er) \<Rightarrow>
                    (Acquire Object # tr @ [Release Object], Inl (PrepareError AttachStage (BpfSource er)))
                | (tr, Inr n) \<Rightarrow>
                    (case build_ring lib of
                       Inl er \<Rightarrow> (Acquire Object # tr @ release_setup n, Inl er)
                     | Inr _ \<Rightarrow> (Acquire Object # tr @ [Acquire Ring], Inr n)))))"

text \<open>Dropping \<open>PreparedResources\<close>: the fields in their order.\<close>

definition release_prepared :: "nat \<Rightarrow> resource_event list" where
  "release_prepared n = Release Ring # release_setup n"

definition backend_prepare ::
  "'e libbpf \<Rightarrow> nat \<Rightarrow> resource_event list \<times> (('e, 'io, 'n) prepare_error + nat \<times> 'p system)" where
  "backend_prepare lib capacity =
     (case prepare_resources lib of
        (tr, Inl er) \<Rightarrow> (tr, Inl er)
      | (tr, Inr n) \<Rightarrow> (tr, Inr (n, system_init capacity)))"

definition from_privilege_error :: "('io, 'n) privilege_error \<Rightarrow> ('e, 'io, 'n) prepare_error" where
  "from_privilege_error er = PrepareError PrivilegeStage (PrivilegeSource er)"

text \<open>\<open>CollectorConfig::prepare\<close>; the result is the pair of halves, as the system they share.\<close>

definition prepare ::
  "('w, 'io, 'n) os \<Rightarrow> 'e libbpf \<Rightarrow> collector_config \<Rightarrow> policy \<Rightarrow> 'w \<Rightarrow>
     resource_event list \<times> 'w \<times> policy \<times> (('e, 'io, 'n) prepare_error + 'p system)" where
  "prepare k lib config p w =
     (case ensure_can_prepare p of
        Inl er \<Rightarrow> ([], w, p, Inl (from_privilege_error er))
      | Inr _ \<Rightarrow>
          (case backend_prepare lib (event_capacity config) of
             (tr, Inl er) \<Rightarrow> (tr, w, p, Inl er)
           | (tr, Inr (n, s)) \<Rightarrow>
               (case finish k p w of
                  (w', p', Inl er) \<Rightarrow> (tr @ release_prepared n, w', p', Inl (from_privilege_error er))
                | (w', p', Inr _) \<Rightarrow> (tr, w', p', Inr s))))"

end
