(* ===== verification/Prepare_Properties.thy ===== *)
theory Prepare_Properties
  imports Prepare Privilege_Properties
begin

text \<open>
  Preparation acquires every resource or none, classifies its failures by stage, and removes the
  setup privileges exactly when everything is ready.
\<close>

unbundle bit_operations_syntax

subsection \<open>The target mask\<close>

definition targets_present :: "string option list \<Rightarrow> bool" where
  "targets_present names \<longleftrightarrow> (\<forall>t\<in>set GENERATION_1_TARGETS. Some t \<in> set names)"

lemma targets_length [simp]: "length GENERATION_1_TARGETS = 12"
  by (simp add: GENERATION_1_TARGETS_def)

lemma targets_distinct: "distinct GENERATION_1_TARGETS"
  by (simp add: GENERATION_1_TARGETS_def)

lemma bit_complete: "bit GENERATION_1_COMPLETE i \<longleftrightarrow> i < 12"
proof -
  have "GENERATION_1_COMPLETE = mask 12"
    by (simp add: GENERATION_1_COMPLETE_def mask_eq_exp_minus_1)
  then have "bit GENERATION_1_COMPLETE i \<longleftrightarrow> bit (mask 12 :: u16) i" by (rule arg_cong)
  also have "\<dots> \<longleftrightarrow> i < 12" unfolding bit_mask_iff by auto
  finally show ?thesis .
qed

lemma target_position:
  "position (\<lambda>t. name = t) GENERATION_1_TARGETS = Some i \<longleftrightarrow> i < 12 \<and> name = GENERATION_1_TARGETS ! i"
proof
  assume "position (\<lambda>t. name = t) GENERATION_1_TARGETS = Some i"
  then show "i < 12 \<and> name = GENERATION_1_TARGETS ! i"
    by (auto dest: position_SomeD)
next
  assume i: "i < 12 \<and> name = GENERATION_1_TARGETS ! i"
  then obtain j where j: "position (\<lambda>t. name = t) GENERATION_1_TARGETS = Some j"
    by (cases "position (\<lambda>t. name = t) GENERATION_1_TARGETS") (auto simp: position_None_iff)
  then have "j < 12" "name = GENERATION_1_TARGETS ! j"
    by (auto dest: position_SomeD)
  with i j show "position (\<lambda>t. name = t) GENERATION_1_TARGETS = Some i"
    using nth_eq_iff_index_eq [OF targets_distinct, of i j] by auto
qed

lemma bit_mark:
  "bit (mark_generation_1_target m name) i \<longleftrightarrow> bit m i \<or> i < 12 \<and> name = GENERATION_1_TARGETS ! i"
proof (cases "position (\<lambda>t. name = t) GENERATION_1_TARGETS")
  case None
  then have "\<not> (i < 12 \<and> name = GENERATION_1_TARGETS ! i)"
    using target_position [of name i] by simp
  with None show ?thesis by (auto simp: mark_generation_1_target_def)
next
  case (Some j)
  then have "j < 12" "name = GENERATION_1_TARGETS ! j"
    using target_position by simp_all
  with targets_distinct have "i < 12 \<and> name = GENERATION_1_TARGETS ! i \<longleftrightarrow> i = j"
    by (auto simp: nth_eq_iff_index_eq)
  with Some \<open>j < 12\<close> show ?thesis
    by (auto simp: mark_generation_1_target_def generation_1_target_bit_def bit_simps)
qed

text \<open>Stopping at the complete mask does not change the answer.\<close>

lemma target_loop_bits:
  assumes "\<forall>i. bit m i \<longrightarrow> i < 12"
  shows "target_loop m names = GENERATION_1_COMPLETE \<longleftrightarrow>
    (\<forall>i<12. bit m i \<or> Some (GENERATION_1_TARGETS ! i) \<in> set names)"
  using assms
proof (induction m names rule: target_loop.induct)
  case (1 m)
  then show ?case by (auto simp: bit_eq_iff bit_complete)
next
  case (3 m name ts)
  let ?m = "mark_generation_1_target m name"
  have bits: "bit ?m i \<longleftrightarrow> bit m i \<or> i < 12 \<and> name = GENERATION_1_TARGETS ! i" for i
    by (rule bit_mark)
  show ?case
  proof (cases "?m = GENERATION_1_COMPLETE")
    case True
    then have "\<forall>i<12. bit ?m i" by (simp add: bit_complete)
    with True bits show ?thesis by auto
  next
    case False
    moreover have "\<forall>i. bit ?m i \<longrightarrow> i < 12" using bits 3(2) by auto
    ultimately show ?thesis using 3(1) [OF refl] bits by auto
  qed
qed auto

lemma generation_1_is_missing_iff:
  "generation_1_is_missing lib er \<longleftrightarrow> should_diagnose (lb_error_kind lib er) \<and>
     (\<exists>names. lb_btf_typedefs lib = Inr names \<and> \<not> targets_present names)"
proof -
  have "target_loop 0 names = GENERATION_1_COMPLETE \<longleftrightarrow> targets_present names" for names
  proof -
    have "targets_present names \<longleftrightarrow> (\<forall>i<12. Some (GENERATION_1_TARGETS ! i) \<in> set names)"
      by (simp add: targets_present_def all_set_conv_all_nth)
    then show ?thesis using target_loop_bits [of 0 names] by simp
  qed
  then show ?thesis
    by (cases "lb_btf_typedefs lib")
      (simp_all add: generation_1_is_missing_def generation_1_target_mask_def)
qed

subsection \<open>The resource trace\<close>

text \<open>What is held after a trace; \<open>None\<close> if it acquires twice or releases what is not held.\<close>

fun replay :: "resource set \<Rightarrow> resource_event list \<Rightarrow> resource set option" where
  "replay held [] = Some held"
| "replay held (Acquire r # tr) = (if r \<in> held then None else replay (insert r held) tr)"
| "replay held (Release r # tr) = (if r \<in> held then replay (held - {r}) tr else None)"

lemma replay_append: "replay h (tr @ tr') = Option.bind (replay h tr) (\<lambda>h'. replay h' tr')"
  by (induction h tr rule: replay.induct) auto

abbreviation links :: "nat \<Rightarrow> resource set" where
  "links n \<equiv> ProgramLink ` {..<n}"

lemma replay_release_links:
  assumes "ProgramLink ` set xs \<inter> A = {}" "distinct xs"
  shows "replay (A \<union> ProgramLink ` set xs) (map (Release \<circ> ProgramLink) xs) = Some A"
  using assms
proof (induction xs)
  case (Cons x xs)
  then have "A \<union> ProgramLink ` set (x # xs) - {ProgramLink x} = A \<union> ProgramLink ` set xs"
    by auto
  with Cons show ?case by simp
qed simp

lemma replay_links:
  assumes "\<And>i. ProgramLink i \<notin> A"
  shows "replay (A \<union> links n) (map (Release \<circ> ProgramLink) [0..<n]) = Some A"
  using replay_release_links [of "[0..<n]" A] assms by (auto simp: lessThan_atLeast0)

lemma replay_attach:
  assumes "\<And>i. ProgramLink i \<notin> A" "attach_links n rs = (tr, r)"
  shows "replay (A \<union> links n) tr = Some (case r of Inl er \<Rightarrow> A | Inr m \<Rightarrow> A \<union> links m)"
    and "r = Inr m \<Longrightarrow> m = n + length rs"
  using assms(2)
proof (induction n rs arbitrary: tr r rule: attach_links.induct)
  case (2 n er rs)
  {
    case 1
    then show ?case using replay_links [OF assms(1)] 2 by auto
  next
    case 2
    then show ?case by simp
  }
next
  case (3 n u rs)
  {
    case 1
    then obtain tr' where tr': "attach_links (Suc n) rs = (tr', r)" "tr = Acquire (ProgramLink n) # tr'"
      by (auto split: prod.splits)
    have "insert (ProgramLink n) (A \<union> links n) = A \<union> links (Suc n)"
      by (auto simp: lessThan_Suc)
    with 3(1) [OF tr'(1)] tr'(2) assms(1) show ?case by auto
  next
    case 2
    then show ?case using 3(2) by (auto split: prod.splits)
  }
qed auto

lemma replay_release_setup: "replay ({Object} \<union> links n) (release_setup n) = Some {}"
  using replay_links [of "{Object}" n] by (simp add: release_setup_def replay_append)

lemma replay_release_prepared: "replay ({Object, Ring} \<union> links n) (release_prepared n) = Some {}"
proof -
  have "{Object, Ring} \<union> links n - {Ring} = {Object} \<union> links n" by auto
  then show ?thesis using replay_release_setup [of n] by (simp add: release_prepared_def)
qed

lemma replay_prepare_resources:
  assumes "prepare_resources lib = (tr, r)"
  shows "replay {} tr =
    Some (case r of Inl er \<Rightarrow> {} | Inr n \<Rightarrow> {Object, Ring} \<union> links (length (lb_attach lib)))"
    and "r = Inr n \<Longrightarrow> n = length (lb_attach lib)"
proof -
  obtain tr' r' where attach: "attach_links 0 (lb_attach lib) = (tr', r')" by fastforce
  have held: "replay {Object} tr' = Some (case r' of Inl er \<Rightarrow> {Object} | Inr m \<Rightarrow> {Object} \<union> links m)"
    using replay_attach(1) [OF _ attach, of "{Object}"] by simp
  have count: "r' = Inr m \<Longrightarrow> m = length (lb_attach lib)" for m
    using replay_attach(2) [OF _ attach, of "{}"] by simp
  show "replay {} tr =
    Some (case r of Inl er \<Rightarrow> {} | Inr n \<Rightarrow> {Object, Ring} \<union> links (length (lb_attach lib)))"
    using assms attach held count replay_release_setup
    by (auto simp: prepare_resources_def replay_append split: sum.splits)
  show "r = Inr n \<Longrightarrow> n = length (lb_attach lib)"
    using assms attach count by (auto simp: prepare_resources_def split: sum.splits)
qed

text \<open>A failed final removal: a clearing step failed, or all succeeded and only the verification failed.\<close>

lemma finish_failed:
  assumes "finish k p w = (w', p', Inl er)" "ensure_can_prepare p = (Inr u :: ('io, 'n) privilege_error + unit)"
  shows "p = Minimized \<and>
    (p' = Minimized \<and> clear_all (production_ops k) w = (w', Inl er) \<or>
     p' = VerificationPending \<and>
       (\<exists>w1. clear_all (production_ops k) w = (w1, Inr ()) \<and> verify k empty_capabilities w1 = (w', Inl er)))"
proof -
  have p: "p = Minimized"
    using assms by (cases p) (auto simp: finish_def ensure_can_prepare_def)
  obtain w1 r where "clear_all (production_ops k) w = (w1, r)"
    by fastforce
  with assms(1) p show ?thesis
    by (cases r) (auto simp: finish_def verify_pending_def production_ops_def split: prod.splits sum.splits)
qed

subsection \<open>Concrete preparations\<close>

text \<open>A library on which two programs attach, and one on which the second attachment fails.\<close>

definition working_lib :: "string libbpf" where
  "working_lib = \<lparr>lb_open = Inr (), lb_load = Inr (), lb_attach = [Inr (), Inr ()],
     lb_map_names = [''events''], lb_ring_add = Inr (), lb_ring_build = Inr (),
     lb_btf_typedefs = Inr [], lb_error_kind = (\<lambda>_. BpfOther)\<rparr>"

definition refusing_lib :: "string libbpf" where
  "refusing_lib = working_lib\<lparr>lb_attach := [Inr (), Inl ''EPERM'']\<rparr>"

lemma working_prepares:
  "prepare simulated_os working_lib config_default Preserved root_credentials =
     ([Acquire Object, Acquire (ProgramLink 0), Acquire (ProgramLink 1), Acquire Ring], root_credentials,
      Preserved, Inr (system_init 1024))"
  by (simp add: prepare_def backend_prepare_def prepare_resources_def working_lib_def build_ring_def
      ensure_can_prepare_def finish_def config_default_def DEFAULT_EVENT_CAPACITY_def)

lemma refusing_fails:
  "prepare simulated_os refusing_lib config_default Minimized root_credentials =
     ([Acquire Object, Acquire (ProgramLink 0), Release (ProgramLink 0), Release Object], root_credentials,
      Minimized, Inl (PrepareError AttachStage (BpfSource ''EPERM'')))"
  by (simp add: prepare_def backend_prepare_def prepare_resources_def working_lib_def refusing_lib_def
      ensure_can_prepare_def)

text \<open>
  Preparing with minimized credentials: with \<open>no_new_privs\<close> set everything succeeds, without it the removal
  is done and its verification fails.
\<close>

lemma minimized_prepares:
  "\<exists>w'. prepare simulated_os working_lib config_default Minimized (root_credentials\<lparr>cr_no_new_privs := True\<rparr>) =
     ([Acquire Object, Acquire (ProgramLink 0), Acquire (ProgramLink 1), Acquire Ring], w',
      Finished, Inr (system_init 1024))"
  by (simp add: prepare_def backend_prepare_def prepare_resources_def working_lib_def build_ring_def
      ensure_can_prepare_def finish_def config_default_def DEFAULT_EVENT_CAPACITY_def
      clear_all_def verify_pending_def production_ops_def
      first_capabilities run_io run_inspections clear_bounding_def verify_def verify_capability_def
      clear_ambient_def remove_bounding_def change_capabilities_def simulated_os_def root_credentials_def
      empty_capabilities_def mask_eq_exp_minus_1)

lemma unverified_fails:
  "\<exists>w' er. prepare simulated_os working_lib config_default Minimized root_credentials =
     ([Acquire Object, Acquire (ProgramLink 0), Acquire (ProgramLink 1), Acquire Ring,
       Release Ring, Release (ProgramLink 0), Release (ProgramLink 1), Release Object], w',
      VerificationPending, Inl (from_privilege_error er))"
  by (simp add: prepare_def backend_prepare_def prepare_resources_def working_lib_def build_ring_def
      ensure_can_prepare_def finish_def release_prepared_def release_setup_def
      clear_all_def verify_pending_def production_ops_def
      first_capabilities run_io run_inspections clear_bounding_def verify_def verify_capability_def
      clear_ambient_def remove_bounding_def change_capabilities_def simulated_os_def root_credentials_def
      empty_capabilities_def mask_eq_exp_minus_1 from_privilege_error_def)

subsection \<open>Properties\<close>

text \<open>C18. A failed preparation leaks nothing and keeps the privileges reusable: every BPF resource that was
  acquired has been released exactly once, and one of three things happened. The failure came before the
  final removal of the privileges, and neither the credentials nor the privilege value changed. Or a
  clearing step of the removal failed, and the value is still the minimized one, so the preparation can
  be tried again. Or every clearing step succeeded and only the verification after them failed: then, and
  only then, the value cannot be used again. The error is that of the step that failed.\<close>

theorem prepare_failure_clean:
  fixes k :: "('w, 'io, 'n) os" and lib :: "'e libbpf"
  assumes "prepare k lib config p w = (tr, w', p', Inl er)"
  shows "replay {} tr = Some {} \<and>
    (w' = w \<and> p' = p \<and> (pr_kind er \<noteq> PrivilegeStage \<or> er = from_privilege_error already_finalized) \<or>
     p = Minimized \<and> p' = Minimized \<and>
       (\<exists>e. clear_all (production_ops k) w = (w', Inl e) \<and> er = from_privilege_error e) \<or>
     p = Minimized \<and> p' = VerificationPending \<and>
       (\<exists>w1 e. clear_all (production_ops k) w = (w1, Inr ()) \<and> verify k empty_capabilities w1 = (w', Inl e) \<and>
          er = from_privilege_error e))"
proof (cases "ensure_can_prepare p :: ('io, 'n) privilege_error + unit")
  case (Inr u)
  obtain tr0 and r :: "('e, 'io, 'n) prepare_error + nat" where res: "prepare_resources lib = (tr0, r)" by fastforce
  obtain w1 p1 r1 where fin: "finish k p w = (w1, p1, r1)" by (cases "finish k p w") auto
  note stages = replay_prepare_resources [OF res]
  show ?thesis
  proof (cases r)
    case (Inl er0)
    then have "tr = tr0" "w' = w" "p' = p" "er = er0"
      using assms Inr res by (simp_all add: prepare_def backend_prepare_def)
    moreover have "pr_kind er0 \<noteq> PrivilegeStage"
      using res Inl by (auto simp: prepare_resources_def build_ring_def map_err_def split: sum.splits prod.splits if_splits)
    ultimately show ?thesis
      using stages Inl by simp
  next
    case held: (Inr n)
    then obtain e where e: "r1 = Inl e" "tr = tr0 @ release_prepared n" "w' = w1" "p' = p1" "er = from_privilege_error e"
      using assms Inr res fin by (cases r1) (simp_all add: prepare_def backend_prepare_def)
    have "replay {} tr = Some {}"
      using stages held e(2) replay_release_prepared by (simp add: replay_append)
    with finish_failed [OF fin [unfolded e(1)] Inr] e show ?thesis
      by blast
  qed
qed (use assms in \<open>cases p; auto simp: prepare_def ensure_can_prepare_def\<close>)

theorem prepare_failure_clean_witness:
  "replay {} [Acquire Object, Acquire (ProgramLink 0), Release (ProgramLink 0), Release Object] = Some {} \<and>
   (\<exists>w1. clear_all (production_ops simulated_os) root_credentials = (w1, Inr ()))"
proof -
  obtain w' er where "prepare simulated_os working_lib config_default Minimized root_credentials =
     ([Acquire Object, Acquire (ProgramLink 0), Acquire (ProgramLink 1), Acquire Ring,
       Release Ring, Release (ProgramLink 0), Release (ProgramLink 1), Release Object], w',
      VerificationPending, Inl (from_privilege_error er) :: (string, unit, nat) prepare_error + string system)"
    using unverified_fails by blast
  from prepare_failure_clean [OF this]
  have "\<exists>w1. clear_all (production_ops simulated_os) root_credentials = (w1, Inr ())"
    by auto
  with prepare_failure_clean [OF refusing_fails] show ?thesis
    by blast
qed

text \<open>C33. A successful preparation is complete: the object, every program link and the ring buffer are
  held and none was released, both halves start in the initial state with the configured capacity, and
  either the credentials were preserved untouched on request, or the minimized value is finished and
  the verified credentials are empty.\<close>

theorem prepare_success_complete:
  fixes k :: "('w, 'io, 'n) os" and lib :: "'e libbpf"
  assumes "inspections_truthful k view" "prepare k lib config p w = (tr, w', p', Inr s)"
  shows "replay {} tr = Some ({Object, Ring} \<union> links (length (lb_attach lib))) \<and>
    s = system_init (event_capacity config) \<and>
    (p = Preserved \<and> p' = Preserved \<and> w' = w \<or>
     p = Minimized \<and> p' = Finished \<and> reduced empty_capabilities (view w'))"
proof (cases "ensure_can_prepare p :: ('io, 'n) privilege_error + unit")
  case (Inr u)
  then have p: "p = Preserved \<or> p = Minimized"
    by (cases p) (auto simp: ensure_can_prepare_def)
  obtain tr0 and r :: "('e, 'io, 'n) prepare_error + nat" where res: "prepare_resources lib = (tr0, r)" by fastforce
  obtain w1 p1 r1 where fin: "finish k p w = (w1, p1, r1)" by (cases "finish k p w") auto
  note reduced = finish_policy_reduced [OF assms(1), of p Explicit w w1 p1 "()"]
  from replay_prepare_resources [OF res] show ?thesis
    using assms(2) Inr p res fin reduced
    by (auto simp: prepare_def backend_prepare_def finish_def split: sum.splits)
qed (use assms in \<open>auto simp: prepare_def\<close>)

text \<open>Both cases: with preserved credentials, and with minimized ones, whose capabilities are gone after.\<close>

theorem prepare_success_complete_witness:
  "replay {} [Acquire Object, Acquire (ProgramLink 0), Acquire (ProgramLink 1), Acquire Ring] =
     Some ({Object, Ring} \<union> links (length (lb_attach working_lib))) \<and>
   (\<exists>tr w'. prepare simulated_os working_lib config_default Minimized (root_credentials\<lparr>cr_no_new_privs := True\<rparr>) =
       (tr, w', Finished, Inr (system_init 1024 :: string system)) \<and> reduced empty_capabilities w')"
proof -
  obtain w' where run: "prepare simulated_os working_lib config_default Minimized
      (root_credentials\<lparr>cr_no_new_privs := True\<rparr>) =
     ([Acquire Object, Acquire (ProgramLink 0), Acquire (ProgramLink 1), Acquire Ring], w',
      Finished, Inr (system_init 1024 :: string system))"
    using minimized_prepares by blast
  from prepare_success_complete [OF simulated_truthful run] have "reduced empty_capabilities w'"
    by simp
  with run prepare_success_complete [OF simulated_truthful working_prepares] show ?thesis
    by blast
qed

text \<open>An unsupported kernel is reported exactly on evidence: preparation fails with that kind if and only
  if the object opened, its load failed in a way that a missing target can cause, the kernel's BTF could
  be read, and at least one of the twelve tracing targets is absent from it.\<close>

theorem unsupported_kernel_iff:
  "(\<exists>d. snd (prepare_resources lib) = Inl (PrepareError UnsupportedKernel d)) \<longleftrightarrow>
   (\<exists>u er names. lb_open lib = Inr u \<and> lb_load lib = Inl er \<and> should_diagnose (lb_error_kind lib er) \<and>
      lb_btf_typedefs lib = Inr names \<and> \<not> targets_present names)"
  by (auto simp: prepare_resources_def build_ring_def generation_1_is_missing_iff
      map_err_def split: sum.splits prod.splits if_splits)

end
