(* ===== verification/Observation_Model.thy ===== *)
theory Observation_Model
  imports Aggregate Recon_State
begin

text \<open>
  \<open>lltop/src/tui/model.rs\<close>: what the interactive mode keeps about the observed system, and the order
  in which it lists the domains. \<open>domain_tree\<close> is a depth-first traversal with an explicit stack; its
  loop is a recursive function whose termination is proved for any child map, cyclic ones included.
\<close>

subsection \<open>The model and its update\<close>

definition KIND_COUNT :: nat where "KIND_COUNT = 5"

record tui_stats =
  ts_total :: u64
  ts_by_kind :: "u64 list"

record observation_model =
  om_state :: state
  om_denials :: denial_aggregator
  om_stats :: tui_stats
  om_latest_seen :: kernel_timestamp

definition model_new :: observation_model where
  "model_new = \<lparr>om_state = state_new, om_denials = aggregator_new,
     om_stats = \<lparr>ts_total = 0, ts_by_kind = replicate KIND_COUNT 0\<rparr>,
     om_latest_seen = KernelTimestamp 0\<rparr>"

text \<open>The position of the counter that an event increments.\<close>

fun kind_index :: "event \<Rightarrow> nat option" where
  "kind_index (DenyAccessFs _) = Some 0"
| "kind_index (DenyAccessNet _) = Some 1"
| "kind_index (DenyPtrace _) = Some 2"
| "kind_index (DenyScopeSignal _) = Some 3"
| "kind_index (DenyScopeAbstractUnixSocket _) = Some 4"
| "kind_index _ = None"

definition count_denial :: "event \<Rightarrow> tui_stats \<Rightarrow> tui_stats" where
  "count_denial e s =
     (case kind_index e of
        None \<Rightarrow> s
      | Some i \<Rightarrow> s\<lparr>ts_total := saturating_add (ts_total s) 1,
                   ts_by_kind := (ts_by_kind s)[i := saturating_add (ts_by_kind s ! i) 1]\<rparr>)"

definition model_observe :: "observation_model \<Rightarrow> event \<Rightarrow> observation_model" where
  "model_observe m e =
     \<lparr>om_state = apply_event (om_state m) e, om_denials = observe (om_denials m) e,
      om_stats = count_denial e (om_stats m),
      om_latest_seen = KernelTimestamp
        (max (as_nanoseconds (om_latest_seen m)) (as_nanoseconds (timestamp e)))\<rparr>"

definition allocated_domains :: "observation_model \<Rightarrow> nat" where
  "allocated_domains m =
     length (filter (\<lambda>d. dom_lifecycle d = Allocated) (hm_values (st_domains (om_state m))))"

definition allocated_rulesets :: "observation_model \<Rightarrow> nat" where
  "allocated_rulesets m =
     length (filter (\<lambda>r. rs_lifecycle r = Allocated) (hm_values (st_rulesets (om_state m))))"

definition denial_age_ns :: "observation_model \<Rightarrow> aggregated_denial \<Rightarrow> u64" where
  "denial_age_ns m d =
     saturating_sub (as_nanoseconds (om_latest_seen m)) (as_nanoseconds (ag_latest_timestamp d))"

definition model_denial :: "observation_model \<Rightarrow> denial_key \<Rightarrow> aggregated_denial option" where
  "model_denial m key = agg_get (om_denials m) key"

definition domain_ruleset :: "domain_state \<Rightarrow> ruleset_id option" where
  "domain_ruleset d = map_option rv_ruleset_id (dom_ruleset d)"

subsection \<open>The domain tree\<close>

type_synonym domain_map = "(domain_id, domain_state) hashmap"
type_synonym children = "(domain_id option, domain_id list) hashmap"
type_synonym tree_row = "domain_id \<times> bool list"

definition tree_parent :: "domain_map \<Rightarrow> domain_state \<Rightarrow> domain_id option" where
  "tree_parent ds d =
     (case dom_parent d of
        None \<Rightarrow> None
      | Some ParentRoot \<Rightarrow> None
      | Some (ParentDomain i) \<Rightarrow> if hm_contains_key ds i then Some i else None)"

fun add_children :: "domain_map \<Rightarrow> domain_state list \<Rightarrow> children \<Rightarrow> children" where
  "add_children ds [] ch = ch"
| "add_children ds (d # rest) ch =
     add_children ds rest (hm_upsert (tree_parent ds d) [] (\<lambda>ids. ids @ [dom_id d]) ch)"

definition sort_children :: "children \<Rightarrow> children" where
  "sort_children ch = map (\<lambda>(p, ids). (p, sort_key id_get ids)) ch"

definition child_rows :: "bool list \<Rightarrow> domain_id list \<Rightarrow> tree_row list" where
  "child_rows trail ids = map (\<lambda>i. (ids ! i, trail @ [i = length ids - 1])) [0..<length ids]"

definition descendants :: "children \<Rightarrow> domain_id \<Rightarrow> domain_id list" where
  "descendants ch i = (case hm_get ch (Some i) of Some ids \<Rightarrow> ids | None \<Rightarrow> [])"

text \<open>
  The \<open>while\<close> loop of \<open>append\<close>. The head of the list is the top of the stack: pushing the children
  in reverse leaves the first child on top. The output is in order; the visited set grows.
\<close>

lemma child_rows_ids: "map fst (child_rows trail ids) = ids"
  by (simp add: child_rows_def comp_def map_nth)

lemma finite_descendants: "finite (\<Union>i. set (descendants ch i))"
proof -
  have "set (descendants ch i) \<subseteq> \<Union> (set ` set (map snd ch))" for i
    by (cases "map_of ch (Some i)") (auto simp: descendants_def hm_get_def dest!: map_of_SomeD)
  then have "(\<Union>i. set (descendants ch i)) \<subseteq> \<Union> (set ` set (map snd ch))" by blast
  then show ?thesis by (rule finite_subset) simp
qed

function append_loop ::
  "children \<Rightarrow> tree_row list \<Rightarrow> domain_id set \<Rightarrow> tree_row list \<Rightarrow> domain_id set \<times> tree_row list" where
  "append_loop ch [] visited out = (visited, out)"
| "append_loop ch ((i, trail) # pending) visited out =
     (if i \<in> visited then append_loop ch pending visited out
      else append_loop ch (child_rows trail (descendants ch i) @ pending) (insert i visited)
             (out @ [(i, trail)]))"
  by pat_completeness auto

termination
proof (relation "inv_image (finite_psubset <*lex*> less_than)
    (\<lambda>(ch, pending, visited, _).
       ((\<Union>i. set (descendants ch i)) \<union> fst ` set pending - visited, length pending))", goal_cases)
  case 1
  show ?case by auto
next
  case (2 ch i trail pending visited out)
  let ?n = "\<lambda>ps. (\<Union>i. set (descendants ch i)) \<union> fst ` set ps - visited"
  have "?n pending = ?n ((i, trail) # pending)" using 2 by auto
  then show ?case by simp
next
  case (3 ch i trail pending visited out)
  have "fst ` set (child_rows trail (descendants ch i)) = set (descendants ch i)"
    by (metis child_rows_ids list.set_map)
  then have "(\<Union>i. set (descendants ch i)) \<union> fst ` set (child_rows trail (descendants ch i) @ pending)
        - insert i visited
      \<subset> (\<Union>i. set (descendants ch i)) \<union> fst ` set ((i, trail) # pending) - visited"
    using 3 by auto
  moreover have "finite ((\<Union>i. set (descendants ch i)) \<union> fst ` set ((i, trail) # pending) - visited)"
    using finite_descendants by simp
  ultimately show ?case by (simp add: finite_psubset_def)
qed

text \<open>The two loops that call \<open>append\<close>: over the roots, then over what no root reaches.\<close>

fun root_loop ::
  "children \<Rightarrow> tree_row list \<Rightarrow> domain_id set \<times> tree_row list \<Rightarrow> domain_id set \<times> tree_row list" where
  "root_loop ch [] acc = acc"
| "root_loop ch (row # rows) (visited, out) =
     root_loop ch rows (append_loop ch [row] visited out)"

fun remaining_loop ::
  "children \<Rightarrow> domain_id list \<Rightarrow> domain_id set \<times> tree_row list \<Rightarrow> domain_id set \<times> tree_row list" where
  "remaining_loop ch [] acc = acc"
| "remaining_loop ch (i # ids) (visited, out) =
     remaining_loop ch ids
       (if i \<in> visited then (visited, out) else append_loop ch [(i, [True])] visited out)"

definition tree_children :: "domain_map \<Rightarrow> children" where
  "tree_children ds = sort_children (add_children ds (hm_values ds) [])"

definition domain_tree_of :: "domain_map \<Rightarrow> tree_row list" where
  "domain_tree_of ds =
     (let ch = tree_children ds;
          roots = (case hm_get ch None of Some ids \<Rightarrow> ids | None \<Rightarrow> []);
          remaining = sort_key id_get (hm_keys ds)
      in snd (remaining_loop ch remaining (root_loop ch (child_rows [] roots) ({}, []))))"

text \<open>Collecting the state's domains into a hash map of their identifiers.\<close>

definition collect_domains :: "domain_state list \<Rightarrow> domain_map" where
  "collect_domains = foldl (\<lambda>ds d. hm_insert (dom_id d) d ds) []"

definition domain_tree :: "observation_model \<Rightarrow> tree_row list" where
  "domain_tree m =
     domain_tree_of (collect_domains (hm_values (st_domains (om_state m))))"

end
