(* ===== verification/Domain_Tree.thy ===== *)
theory Domain_Tree
  imports Observation_Model Recon_Invariant
begin

text \<open>
  Correctness of the domain listing: every domain is listed exactly once, each below its parent, and
  the listing is a function of the reconstructed domains alone. The traversal's lemmas hold for any
  child map; only the last section uses the state invariant.
\<close>

subsection \<open>The child map\<close>

definition child_list :: "children \<Rightarrow> domain_id option \<Rightarrow> domain_id list" where
  "child_list ch p = (case hm_get ch p of Some ids \<Rightarrow> ids | None \<Rightarrow> [])"

definition kids :: "domain_map \<Rightarrow> domain_state list \<Rightarrow> domain_id option \<Rightarrow> domain_id list" where
  "kids ds xs p = map dom_id (filter (\<lambda>d. tree_parent ds d = p) xs)"

lemma descendants_child_list: "descendants ch i = child_list ch (Some i)"
  by (simp add: descendants_def child_list_def)

lemma child_list_add_children: "child_list (add_children ds xs ch) p = child_list ch p @ kids ds xs p"
proof (induction xs arbitrary: ch)
  case (Cons d xs)
  then show ?case
    by (auto simp: child_list_def kids_def hm_get_upsert split: option.splits)
qed (simp add: kids_def)

lemma child_list_sort: "child_list (sort_children ch) p = sort_key id_get (child_list ch p)"
proof -
  have "map_of (map (\<lambda>(p, ids). (p, sort_key id_get ids)) ch) p = map_option (sort_key id_get) (map_of ch p)"
    by (induction ch) auto
  then show ?thesis
    by (cases "map_of ch p") (simp_all add: child_list_def sort_children_def hm_get_def)
qed

lemma child_list_tree: "child_list (tree_children ds) p = sort_key id_get (kids ds (hm_values ds) p)"
  by (simp add: tree_children_def child_list_sort child_list_add_children) (simp add: child_list_def)

subsection \<open>The traversal\<close>

text \<open>
  A row is placed correctly after the rows \<open>prev\<close>: a root, or a child of an earlier row whose trail it
  extends by its last-child bit.
\<close>

definition row_ok :: "children \<Rightarrow> tree_row list \<Rightarrow> tree_row \<Rightarrow> bool" where
  "row_ok ch prev row \<longleftrightarrow> length (snd row) = 1 \<or>
     (\<exists>(p, t)\<in>set prev. fst row \<in> set (descendants ch p) \<and>
        snd row = t @ [fst row = last (descendants ch p)])"

definition tree_ok :: "children \<Rightarrow> tree_row list \<Rightarrow> bool" where
  "tree_ok ch out \<longleftrightarrow> (\<forall>n<length out. row_ok ch (take n out) (out ! n))"

lemma row_ok_mono: "row_ok ch prev row \<Longrightarrow> set prev \<subseteq> set prev' \<Longrightarrow> row_ok ch prev' row"
  unfolding row_ok_def by blast

lemma tree_ok_snoc: "tree_ok ch (out @ [row]) \<longleftrightarrow> tree_ok ch out \<and> row_ok ch out row"
  by (auto simp: tree_ok_def nth_append less_Suc_eq)

lemma child_rows_ok:
  assumes "distinct (descendants ch p)" "(p, trail) \<in> set out" "row \<in> set (child_rows trail (descendants ch p))"
  shows "row_ok ch out row"
proof -
  let ?ids = "descendants ch p"
  from assms(3) obtain j where j: "j < length ?ids" "row = (?ids ! j, trail @ [j = length ?ids - 1])"
    by (auto simp: child_rows_def)
  then have "(j = length ?ids - 1) = (?ids ! j = last ?ids)"
    using nth_eq_iff_index_eq [OF assms(1), of j "length ?ids - 1"] last_conv_nth [of ?ids] by force
  moreover have "?ids ! j \<in> set ?ids" using j(1) by (rule nth_mem)
  ultimately show ?thesis
    unfolding row_ok_def j(2) by (intro disjI2 bexI [OF _ assms(2)]) simp
qed

definition walk_inv :: "children \<Rightarrow> domain_id set \<Rightarrow> tree_row list \<Rightarrow> bool" where
  "walk_inv ch visited out \<longleftrightarrow>
     distinct (map fst out) \<and> fst ` set out = visited \<and> tree_ok ch out"

definition children_ok :: "children \<Rightarrow> domain_id set \<Rightarrow> bool" where
  "children_ok ch D \<longleftrightarrow> (\<forall>p. distinct (child_list ch p) \<and> set (child_list ch p) \<subseteq> D)"

lemma walk_visit:
  assumes "walk_inv ch visited out" "row_ok ch out (i, trail)" "i \<notin> visited"
  shows "walk_inv ch (insert i visited) (out @ [(i, trail)])"
  using assms by (auto simp: walk_inv_def tree_ok_snoc)

lemma append_loop_walk:
  "append_loop ch pending visited out = (visited', out') \<Longrightarrow> children_ok ch D \<Longrightarrow>
    walk_inv ch visited out \<Longrightarrow> list_all (row_ok ch out) pending \<Longrightarrow> fst ` set pending \<subseteq> D \<Longrightarrow>
    walk_inv ch visited' out' \<and> visited \<union> fst ` set pending \<subseteq> visited' \<and> visited' \<subseteq> visited \<union> D"
proof (induction ch pending visited out rule: append_loop.induct)
  case (2 ch i trail pending visited out)
  show ?case
  proof (cases "i \<in> visited")
    case True
    with 2 show ?thesis by auto
  next
    case False
    let ?rows = "child_rows trail (descendants ch i)"
    have ids: "fst ` set ?rows = set (descendants ch i)"
      by (metis child_rows_ids list.set_map)
    have kids: "distinct (descendants ch i)" "set (descendants ch i) \<subseteq> D"
      using 2(4) by (auto simp: children_ok_def descendants_child_list)
    have "row_ok ch (out @ [(i, trail)]) row" if "row \<in> set (?rows @ pending)" for row
      using that child_rows_ok [OF kids(1), of trail "out @ [(i, trail)]" row] 2(6)
        row_ok_mono [of ch out row "out @ [(i, trail)]"]
      by (simp add: list_all_iff) blast
    then have "list_all (row_ok ch (out @ [(i, trail)])) (?rows @ pending)"
      by (simp add: list_all_iff)
    moreover have "walk_inv ch (insert i visited) (out @ [(i, trail)])"
      using walk_visit [OF 2(5) _ False] 2(6) by simp
    moreover have "append_loop ch (?rows @ pending) (insert i visited) (out @ [(i, trail)]) = (visited', out')"
      using 2(3) False by simp
    moreover have "fst ` set (?rows @ pending) \<subseteq> D"
      using ids kids 2(7) by auto
    ultimately have "walk_inv ch visited' out' \<and> insert i visited \<union> fst ` set (?rows @ pending) \<subseteq> visited' \<and>
        visited' \<subseteq> insert i visited \<union> D"
      using 2(2) [OF False] 2(4) by blast
    then show ?thesis using 2(7) by auto
  qed
qed auto

lemma append_root_walk:
  assumes "children_ok ch D" "walk_inv ch visited out" "length (snd row) = 1" "fst row \<in> D"
    "append_loop ch [row] visited out = (visited', out')"
  shows "walk_inv ch visited' out' \<and> insert (fst row) visited \<subseteq> visited' \<and> visited' \<subseteq> visited \<union> D"
  using append_loop_walk [OF assms(5,1,2)] assms(3,4) by (auto simp: row_ok_def)

lemma root_loop_walk:
  assumes "children_ok ch D"
  shows "root_loop ch rows (visited, out) = (visited', out') \<Longrightarrow> walk_inv ch visited out \<Longrightarrow>
    \<forall>row\<in>set rows. length (snd row) = 1 \<and> fst row \<in> D \<Longrightarrow> visited \<subseteq> D \<Longrightarrow>
    walk_inv ch visited' out' \<and> visited' \<subseteq> D"
proof (induction rows arbitrary: visited out)
  case (Cons row rows)
  obtain v1 o1 where step: "append_loop ch [row] visited out = (v1, o1)" by fastforce
  from append_root_walk [OF assms Cons.prems(2) _ _ step] Cons.prems(3,4) show ?case
    using Cons.IH [of v1 o1] Cons.prems(1,3) step by auto
qed auto

lemma remaining_loop_walk:
  assumes "children_ok ch D"
  shows "remaining_loop ch ids (visited, out) = (visited', out') \<Longrightarrow> walk_inv ch visited out \<Longrightarrow>
    set ids \<subseteq> D \<Longrightarrow> visited \<subseteq> D \<Longrightarrow>
    walk_inv ch visited' out' \<and> visited \<union> set ids \<subseteq> visited' \<and> visited' \<subseteq> D"
proof (induction ids arbitrary: visited out)
  case (Cons i ids)
  obtain v1 o1 where step: "append_loop ch [(i, [True])] visited out = (v1, o1)" by fastforce
  show ?case
  proof (cases "i \<in> visited")
    case True
    with Cons.IH [of visited out] Cons.prems show ?thesis by simp blast
  next
    case False
    from append_root_walk [OF assms Cons.prems(2) _ _ step] Cons.prems(3,4)
    have "walk_inv ch v1 o1" "insert i visited \<subseteq> v1" "v1 \<subseteq> D" by auto
    with Cons.IH [of v1 o1] Cons.prems(1,3) step False show ?thesis by auto
  qed
qed auto

lemma domain_tree_of_walk:
  assumes "children_ok (tree_children ds) (set (hm_keys ds))"
  shows "walk_inv (tree_children ds) (set (hm_keys ds)) (domain_tree_of ds)"
proof -
  let ?ch = "tree_children ds" and ?D = "set (hm_keys ds)"
  let ?rows = "child_rows [] (child_list ?ch None)"
  obtain v1 o1 where roots: "root_loop ?ch ?rows ({}, []) = (v1, o1)" by fastforce
  obtain v2 o2 where rest: "remaining_loop ?ch (sort_key id_get (hm_keys ds)) (v1, o1) = (v2, o2)"
    by fastforce
  have start: "walk_inv ?ch {} []" by (simp add: walk_inv_def tree_ok_def)
  have "fst ` set ?rows = set (child_list ?ch None)" by (metis child_rows_ids list.set_map)
  moreover have "set (child_list ?ch None) \<subseteq> ?D" using assms by (simp add: children_ok_def)
  ultimately have "\<forall>row\<in>set ?rows. length (snd row) = 1 \<and> fst row \<in> ?D"
    by (auto simp: child_rows_def)
  with root_loop_walk [OF assms roots start] have "walk_inv ?ch v1 o1" "v1 \<subseteq> ?D" by auto
  with remaining_loop_walk [OF assms rest] have "walk_inv ?ch v2 o2" "v2 = ?D" by auto
  moreover have "domain_tree_of ds = o2"
    using roots rest by (simp add: domain_tree_of_def Let_def flip: child_list_def)
  ultimately show ?thesis by simp
qed

subsection \<open>The listing of a reconstructed state\<close>

definition domains_ok :: "domain_map \<Rightarrow> bool" where
  "domains_ok ds \<longleftrightarrow> hm_wf ds \<and> (\<forall>(i, d)\<in>set ds. dom_id d = i)"

lemma state_domains_ok: "state_inv s \<Longrightarrow> domains_ok (st_domains s)"
  by (auto simp: state_inv_def domains_ok_def domain_def hm_get_eq_Some_iff domain_inv_def)

lemma ids_of_values: "domains_ok ds \<Longrightarrow> map dom_id (hm_values ds) = hm_keys ds"
  by (auto simp: domains_ok_def hm_values_def hm_keys_def)

lemma collect_append:
  "distinct (map fst ds @ map dom_id xs) \<Longrightarrow>
     foldl (\<lambda>ds d. hm_insert (dom_id d) d ds) ds xs = ds @ map (\<lambda>d. (dom_id d, d)) xs"
proof (induction xs arbitrary: ds)
  case (Cons d xs)
  have "AList.update (dom_id d) d ds = ds @ [(dom_id d, d)]"
    using Cons.prems by (induction ds) auto
  with Cons show ?case by (simp add: hm_insert_def)
qed simp

lemma collect_domains_same:
  assumes "domains_ok ds"
  shows "collect_domains (hm_values ds) = ds"
proof -
  have "map (\<lambda>d. (dom_id d, d)) (hm_values ds) = ds"
    using assms by (auto simp: domains_ok_def hm_values_def comp_def intro!: map_idI)
  moreover have "distinct (map dom_id (hm_values ds))"
    using assms ids_of_values [OF assms] by (simp add: domains_ok_def hm_wf_def hm_keys_def)
  ultimately show ?thesis
    using collect_append [of "[]" "hm_values ds"] by (simp add: collect_domains_def)
qed

lemma children_ok_tree:
  assumes "domains_ok ds"
  shows "children_ok (tree_children ds) (set (hm_keys ds))"
proof -
  have "distinct (map dom_id (hm_values ds))"
    using assms ids_of_values [OF assms] by (simp add: domains_ok_def hm_wf_def hm_keys_def)
  then have "distinct (kids ds (hm_values ds) p)" for p
    by (simp add: kids_def distinct_map_filter)
  moreover have "set (kids ds (hm_values ds) p) \<subseteq> set (hm_keys ds)" for p
    using ids_of_values [OF assms] by (auto simp: kids_def simp flip: ids_of_values [OF assms])
  ultimately show ?thesis
    by (simp add: children_ok_def child_list_tree)
qed

lemma domain_tree_walk:
  assumes "state_inv (om_state m)"
  shows "walk_inv (tree_children (st_domains (om_state m))) (set (hm_keys (st_domains (om_state m))))
    (domain_tree m)"
  using domain_tree_of_walk [OF children_ok_tree] state_domains_ok [OF assms]
  by (simp add: domain_tree_def collect_domains_same)

lemma keys_domain: "set (hm_keys (st_domains s)) = {i. domain s i \<noteq> None}"
  by (auto simp: hm_keys_def domain_def hm_get_def map_of_eq_None_iff)

lemma descendants_iff:
  assumes "state_inv s"
  shows "i \<in> set (descendants (tree_children (st_domains s)) p) \<longleftrightarrow>
    (\<exists>d. domain s i = Some d \<and> dom_parent d = Some (ParentDomain p))"
proof -
  have ok: "domains_ok (st_domains s)" using state_domains_ok [OF assms] .
  have parent: "tree_parent (st_domains s) d = Some p \<longleftrightarrow> dom_parent d = Some (ParentDomain p)"
    if "domain s j = Some d" for j d
    using assms that
    by (auto simp: tree_parent_def state_inv_def references_inv_def domain_def hm_contains_key_def
        split: option.splits domain_parent.splits)
  have "i \<in> set (descendants (tree_children (st_domains s)) p) \<longleftrightarrow>
      (\<exists>d\<in>set (hm_values (st_domains s)). dom_id d = i \<and> tree_parent (st_domains s) d = Some p)"
    by (auto simp: descendants_child_list child_list_tree kids_def)
  also have "\<dots> \<longleftrightarrow> (\<exists>d. domain s i = Some d \<and> tree_parent (st_domains s) d = Some p)"
    using ok by (force simp: domains_ok_def hm_values_def domain_def hm_get_eq_Some_iff)
  finally show ?thesis using parent by auto
qed

lemma last_child:
  fixes ids :: "domain_id list"
  assumes "sorted (map id_get ids)" "i \<in> set ids"
  shows "i = last ids \<longleftrightarrow> (\<forall>c\<in>set ids. id_get c \<le> id_get i)"
proof -
  have greatest: "id_get c \<le> id_get (last ids)" if "c \<in> set ids" for c
    using assms(1) that by (induction ids) auto
  show ?thesis
  proof
    assume "i = last ids"
    with greatest show "\<forall>c\<in>set ids. id_get c \<le> id_get i" by simp
  next
    assume "\<forall>c\<in>set ids. id_get c \<le> id_get i"
    then have "id_get (last ids) \<le> id_get i" using assms(2) by (cases ids) auto
    with greatest [OF assms(2)] show "i = last ids" by (simp add: landlock_id.expand)
  qed
qed

lemma descendants_sorted: "sorted (map id_get (descendants (tree_children ds) p))"
  by (simp add: descendants_child_list child_list_tree)

subsection \<open>The listing does not depend on the iteration order\<close>

lemma append_loop_cong:
  "\<forall>i. descendants ch i = descendants ch' i \<Longrightarrow>
     append_loop ch pending visited out = append_loop ch' pending visited out"
  by (induction ch pending visited out rule: append_loop.induct) simp_all

lemma root_loop_cong:
  "\<forall>i. descendants ch i = descendants ch' i \<Longrightarrow> root_loop ch rows acc = root_loop ch' rows acc"
  by (induction ch rows acc rule: root_loop.induct) (simp_all, metis append_loop_cong)

lemma remaining_loop_cong:
  "\<forall>i. descendants ch i = descendants ch' i \<Longrightarrow> remaining_loop ch ids acc = remaining_loop ch' ids acc"
  by (induction ch ids acc rule: remaining_loop.induct) (simp_all only: remaining_loop.simps, metis append_loop_cong)

lemma sort_ids_unique:
  fixes xs ys :: "domain_id list"
  assumes "mset xs = mset ys"
  shows "sort_key id_get xs = sort_key id_get ys"
proof -
  have sorted: "map id_get (sort_key id_get zs) = sort (map id_get zs)" for zs :: "domain_id list"
    by (rule properties_for_sort [symmetric]) simp_all
  have "mset (map id_get xs) = mset (map id_get ys)" using assms by simp
  then have "map id_get (sort_key id_get xs) = map id_get (sort_key id_get ys)"
    unfolding sorted by (intro properties_for_sort) simp_all
  then show ?thesis
    by (rule map_injective) (auto simp: inj_on_def landlock_id.expand)
qed

lemma domain_tree_of_cong:
  assumes "domains_ok ds" "domains_ok ds'" "hm_get ds = hm_get ds'"
  shows "domain_tree_of ds = domain_tree_of ds'"
proof -
  have vals: "mset (hm_values ds) = mset (hm_values ds')"
    using assms by (simp add: hm.mset_vals domains_ok_def)
  have "tree_parent ds = tree_parent ds'"
    using assms(3) by (simp add: fun_eq_iff tree_parent_def hm_contains_key_def split: option.split domain_parent.split)
  then have "mset (kids ds (hm_values ds) p) = mset (kids ds' (hm_values ds') p)" for p
    using vals by (simp add: kids_def mset_filter)
  then have lists: "child_list (tree_children ds) p = child_list (tree_children ds') p" for p
    unfolding child_list_tree by (rule sort_ids_unique)
  have "mset (hm_keys ds) = mset (hm_keys ds')"
    using vals ids_of_values [OF assms(1)] ids_of_values [OF assms(2)] by (metis mset_map)
  then have keys: "sort_key id_get (hm_keys ds) = sort_key id_get (hm_keys ds')"
    by (rule sort_ids_unique)
  have desc: "\<forall>i. descendants (tree_children ds) i = descendants (tree_children ds') i"
    by (simp add: descendants_child_list lists)
  show ?thesis
    using lists [of None] keys root_loop_cong [OF desc] remaining_loop_cong [OF desc]
    by (simp add: domain_tree_of_def Let_def flip: child_list_def)
qed

end
