(* ===== verification/Model_Properties.thy ===== *)
theory Model_Properties
  imports Domain_Tree Batch_Properties
begin

text \<open>
  Properties of the interactive mode's model: the domain listing over every run, and its agreement
  with the batch mode.
\<close>

subsection \<open>Runs\<close>

definition model_inv :: "observation_model \<Rightarrow> bool" where
  "model_inv m \<longleftrightarrow> state_inv (om_state m)"

interpretation tui: event_sink model_observe model_inv event_ok
  by unfold_locales (simp add: model_inv_def model_observe_def recon.inv_step)

lemma model_inv_new: "model_inv model_new"
  by (simp add: model_inv_def model_new_def state_inv_new)

lemma model_run_fields:
  "om_state (foldl model_observe m es) = foldl apply_event (om_state m) es"
  "om_denials (foldl model_observe m es) = foldl observe (om_denials m) es"
  "om_stats (foldl model_observe m es) = foldl (\<lambda>s e. count_denial e s) (om_stats m) es"
  by (induction es arbitrary: m) (simp_all add: model_observe_def)

lemma model_run_state_inv:
  "list_all event_ok es \<Longrightarrow> state_inv (om_state (foldl model_observe model_new es))"
  using tui.inv_run [OF model_inv_new] by (simp add: model_inv_def)

text \<open>The two modes keep the same counters under different names.\<close>

lemma kind_index_from_event: "kind_index e = map_option counter (from_event e)"
  by (cases e) simp_all

lemma count_denial_matches:
  assumes "ts_total s = total_denials t" "ts_by_kind s = denials t"
  shows "ts_total (count_denial e s) = total_denials (case from_event e of Some k \<Rightarrow> stats_observe k t | None \<Rightarrow> t)
    \<and> ts_by_kind (count_denial e s) = denials (case from_event e of Some k \<Rightarrow> stats_observe k t | None \<Rightarrow> t)"
  using assms by (simp add: count_denial_def kind_index_from_event stats_observe_def split: option.split)

lemma stats_agree:
  "ts_total (om_stats m) = total_denials (bt_stats b) \<Longrightarrow> ts_by_kind (om_stats m) = denials (bt_stats b) \<Longrightarrow>
   ts_total (om_stats (foldl model_observe m es)) = total_denials (bt_stats (foldl step_batch b es)) \<and>
   ts_by_kind (om_stats (foldl model_observe m es)) = denials (bt_stats (foldl step_batch b es))"
proof (induction es arbitrary: m b)
  case (Cons e es)
  from count_denial_matches [OF Cons.prems, of e]
  have "ts_total (om_stats (model_observe m e)) = total_denials (bt_stats (step_batch b e))"
    "ts_by_kind (om_stats (model_observe m e)) = denials (bt_stats (step_batch b e))"
    by (simp_all add: model_observe_def process_fields(3))
  from Cons.IH [OF this] show ?case by simp
qed simp

lemma stats_agree_new:
  "ts_total (om_stats model_new) = total_denials (bt_stats batch_new)"
  "ts_by_kind (om_stats model_new) = denials (bt_stats batch_new)"
  by (simp_all add: model_new_def batch_new_def stats_default_def KIND_COUNT_def DENIAL_KIND_COUNT_def)

lemma allocated_domains_card:
  assumes "state_inv (om_state m)"
  shows "allocated_domains m = card {d. \<exists>x. domain (om_state m) d = Some x \<and> dom_lifecycle x = Allocated}"
  using assms hm.length_filter_vals [of "st_domains (om_state m)"]
  by (simp add: allocated_domains_def state_inv_def domain_def)

text \<open>A state whose domain map iterates in the opposite order.\<close>

definition reorder :: "observation_model \<Rightarrow> observation_model" where
  "reorder m = m\<lparr>om_state := (om_state m)\<lparr>st_domains := rev (st_domains (om_state m))\<rparr>\<rparr>"

lemma reorder_same:
  assumes "state_inv (om_state m)"
  shows "domain (om_state (reorder m)) = domain (om_state m)" "state_inv (om_state (reorder m))"
proof -
  have wf: "distinct (map fst (st_domains (om_state m)))"
    using assms by (simp add: state_inv_def hm_wf_def)
  then have "map_of (rev (st_domains (om_state m))) = map_of (st_domains (om_state m))"
    by (intro map_of_inject_set [THEN iffD2]) (simp_all add: rev_map [symmetric])
  then show same: "domain (om_state (reorder m)) = domain (om_state m)"
    by (simp add: reorder_def domain_def fun_eq_iff hm_get_def)
  show "state_inv (om_state (reorder m))"
    using assms wf unfolding state_inv_def references_inv_def same
    by (simp add: reorder_def hm_wf_def ruleset_def rev_map [symmetric])
qed

lemma sample_domain_present: "domain (foldl apply_event state_new sample_run) (sample_id 2) \<noteq> None"
  by code_simp

lemma sample_model_inv: "state_inv (om_state (foldl model_observe model_new sample_run))"
  by (rule model_run_state_inv [OF sample_run_ok])

subsection \<open>Properties\<close>

text \<open>C15. The domain listing is complete: after any well-typed events, the interactive mode lists every
  domain of the reconstructed state exactly once, also when the recorded parents form a cycle.\<close>

theorem domain_tree_complete:
  assumes "list_all event_ok es" "m = foldl model_observe model_new es"
  shows "distinct (map fst (domain_tree m)) \<and>
    set (map fst (domain_tree m)) = {i. domain (foldl apply_event state_new es) i \<noteq> None}"
proof -
  have "state_inv (om_state m)" using model_run_state_inv [OF assms(1)] assms(2) by simp
  moreover have "om_state m = foldl apply_event state_new es"
    using assms(2) by (simp add: model_run_fields) (simp add: model_new_def)
  ultimately show ?thesis
    using domain_tree_walk [of m] by (simp add: walk_inv_def keys_domain)
qed

theorem domain_tree_complete_witness:
  "distinct (map fst (domain_tree (foldl model_observe model_new sample_run)))"
  using domain_tree_complete [OF sample_run_ok refl] by blast

text \<open>The listing is nested: every row is a root row, or an earlier row is its recorded parent and its
  trail is the parent's trail with one more bit, which says whether it is the last, that is the
  greatest, of the parent's children.\<close>

theorem domain_tree_nested:
  assumes "state_inv (om_state m)" "n < length (domain_tree m)" "domain_tree m ! n = (i, trail)"
  shows "length trail = 1 \<or>
    (\<exists>j<n. \<exists>p t d. domain_tree m ! j = (p, t) \<and> domain (om_state m) i = Some d \<and>
       dom_parent d = Some (ParentDomain p) \<and>
       trail = t @ [\<forall>c e. domain (om_state m) c = Some e \<and> dom_parent e = Some (ParentDomain p) \<longrightarrow>
                    id_get c \<le> id_get i])"
proof -
  let ?ch = "tree_children (st_domains (om_state m))"
  have "row_ok ?ch (take n (domain_tree m)) (i, trail)"
    using domain_tree_walk [OF assms(1)] assms(2,3) by (auto simp: walk_inv_def tree_ok_def)
  then consider "length trail = 1"
    | p t where "(p, t) \<in> set (take n (domain_tree m))" "i \<in> set (descendants ?ch p)"
        "trail = t @ [i = last (descendants ?ch p)]"
    by (auto simp: row_ok_def)
  then show ?thesis
  proof cases
    case (2 p t)
    then obtain j where j: "j < n" "domain_tree m ! j = (p, t)"
      using assms(2) by (auto simp: in_set_conv_nth)
    have "(i = last (descendants ?ch p)) = (\<forall>c e. domain (om_state m) c = Some e \<and>
        dom_parent e = Some (ParentDomain p) \<longrightarrow> id_get c \<le> id_get i)"
      using last_child [OF descendants_sorted 2(2)] by (auto simp: descendants_iff [OF assms(1)])
    moreover obtain d where "domain (om_state m) i = Some d" "dom_parent d = Some (ParentDomain p)"
      using 2(2) by (auto simp: descendants_iff [OF assms(1)])
    ultimately show ?thesis using j 2(3) by blast
  qed simp
qed

theorem domain_tree_nested_witness:
  "\<exists>i trail. domain_tree (foldl model_observe model_new sample_run) ! 0 = (i, trail) \<and> length trail = 1"
proof -
  let ?m = "foldl model_observe model_new sample_run"
  have "domain (om_state ?m) (sample_id 2) \<noteq> None"
    using sample_domain_present by (simp add: model_run_fields) (simp add: model_new_def)
  then have "fst ` set (domain_tree ?m) \<noteq> {}"
    using domain_tree_walk [OF sample_model_inv] by (auto simp: walk_inv_def keys_domain)
  then have "0 < length (domain_tree ?m)" by auto
  from domain_tree_nested [OF sample_model_inv this] show ?thesis
    by (cases "domain_tree ?m ! 0") auto
qed

text \<open>The listing depends on the reconstructed domains only, never on the order in which the hash maps
  iterate.\<close>

theorem domain_tree_deterministic:
  assumes "state_inv (om_state m)" "state_inv (om_state m')" "domain (om_state m) = domain (om_state m')"
  shows "domain_tree m = domain_tree m'"
proof -
  have "hm_get (st_domains (om_state m)) = hm_get (st_domains (om_state m'))"
    using assms(3) by (simp add: fun_eq_iff domain_def)
  then show ?thesis
    using domain_tree_of_cong [OF state_domains_ok [OF assms(1)] state_domains_ok [OF assms(2)]]
    by (simp add: domain_tree_def collect_domains_same state_domains_ok assms(1,2))
qed

theorem domain_tree_deterministic_witness:
  "domain_tree (reorder (foldl model_observe model_new sample_run)) =
   domain_tree (foldl model_observe model_new sample_run)"
  using domain_tree_deterministic [OF reorder_same(2) [OF sample_model_inv] sample_model_inv]
    reorder_same(1) [OF sample_model_inv] by blast

text \<open>C34. Both modes of \<open>lltop\<close> show the same facts: fed the same events, the batch mode and the interactive
  mode have the same reconstructed state, the same aggregated denials, the same statistics, and the
  allocated-domain count that the batch mode maintains incrementally is the one the interactive mode
  recomputes.\<close>

theorem modes_agree:
  assumes "list_all event_ok es"
    "m = foldl model_observe model_new es" "b = foldl step_batch batch_new es"
  shows "om_state m = bt_state b \<and> om_denials m = bt_denials b \<and>
    ts_total (om_stats m) = total_denials (bt_stats b) \<and> ts_by_kind (om_stats m) = denials (bt_stats b) \<and>
    allocated_domains m = bt_allocated_domains b"
proof -
  have "state_inv (om_state m)" using model_run_state_inv [OF assms(1)] assms(2) by simp
  moreover have "om_state m = bt_state b" "om_denials m = bt_denials b"
    by (simp_all add: assms(2,3) model_run_fields run_batch_fields)
      (simp_all add: model_new_def batch_new_def)
  moreover have "bt_allocated_domains b = card (allocated_ids (bt_state b))"
    using batch.inv_run [OF batch_inv_new assms(1)] by (simp add: batch_inv_def assms(3))
  ultimately show ?thesis
    using stats_agree [OF stats_agree_new, of es] allocated_domains_card [of m]
    by (simp add: assms(2,3) allocated_ids_def)
qed

theorem modes_agree_witness:
  "allocated_domains (foldl model_observe model_new sample_run) =
   bt_allocated_domains (foldl step_batch batch_new sample_run)"
  using modes_agree [OF sample_run_ok refl refl] by blast

end
