(* ===== verification/Captured_Display.thy ===== *)
theory Captured_Display
  imports Text_Format Captured_Bytes
begin

text \<open>
  The \<open>Display\<close> and \<open>Debug\<close> rendering of captured bytes in \<open>src/event/string.rs\<close>. A rendered Rust
  string is a list of code points. \<open>utf8_units\<close> is the standard library's \<open>utf8_chunks\<close>: the valid
  characters in order, and one by one the bytes of what is not valid UTF-8 (the bytes after the first
  of an invalid sequence are continuation bytes, which are invalid alone). The general-category
  table of the Unicode crate is the parameter \<open>hazardous\<close>: whether a character is a control, format or
  separator character.
\<close>

type_synonym ustring = "nat list"

definition ascii :: "string \<Rightarrow> ustring" where
  "ascii s = map of_char s"

subsection \<open>UTF-8\<close>

definition continuation :: "u8 \<Rightarrow> bool" where
  "continuation b \<longleftrightarrow> 0x80 \<le> unat b \<and> unat b \<le> 0xBF"

text \<open>The second byte that may follow a given first byte of a three- or four-byte sequence.\<close>

definition second_ok :: "u8 \<Rightarrow> u8 \<Rightarrow> bool" where
  "second_ok b c \<longleftrightarrow>
     (if unat b = 0xE0 then 0xA0 \<le> unat c \<and> unat c \<le> 0xBF
      else if unat b = 0xED then 0x80 \<le> unat c \<and> unat c \<le> 0x9F
      else if unat b = 0xF0 then 0x90 \<le> unat c \<and> unat c \<le> 0xBF
      else if unat b = 0xF4 then 0x80 \<le> unat c \<and> unat c \<le> 0x8F
      else continuation c)"

text \<open>The character at the head of a byte string and the bytes after it.\<close>

fun utf8_head :: "u8 list \<Rightarrow> (nat \<times> u8 list) option" where
  "utf8_head [] = None"
| "utf8_head (b # bs) =
     (if unat b < 0x80 then Some (unat b, bs)
      else if 0xC2 \<le> unat b \<and> unat b \<le> 0xDF then
        (case bs of
           c # r \<Rightarrow> if continuation c then Some ((unat b - 0xC0) * 64 + (unat c - 0x80), r) else None
         | _ \<Rightarrow> None)
      else if 0xE0 \<le> unat b \<and> unat b \<le> 0xEF then
        (case bs of
           c # d # r \<Rightarrow>
             if second_ok b c \<and> continuation d
             then Some ((unat b - 0xE0) * 4096 + (unat c - 0x80) * 64 + (unat d - 0x80), r) else None
         | _ \<Rightarrow> None)
      else if 0xF0 \<le> unat b \<and> unat b \<le> 0xF4 then
        (case bs of
           c # d # e # r \<Rightarrow>
             if second_ok b c \<and> continuation d \<and> continuation e
             then Some ((unat b - 0xF0) * 262144 + (unat c - 0x80) * 4096 + (unat d - 0x80) * 64
                        + (unat e - 0x80), r) else None
         | _ \<Rightarrow> None)
      else None)"

datatype utf8_unit = ValidChar nat | InvalidByte u8

lemma utf8_head_shorter: "utf8_head bs = Some (c, r) \<Longrightarrow> length r < length bs"
  by (cases bs) (auto split: if_splits list.splits)

function utf8_units :: "u8 list \<Rightarrow> utf8_unit list" where
  "utf8_units [] = []"
| "utf8_units (b # bs) =
     (case utf8_head (b # bs) of
        Some (c, r) \<Rightarrow> ValidChar c # utf8_units r
      | None \<Rightarrow> InvalidByte b # utf8_units bs)"
  by pat_completeness auto

termination
  by (relation "measure length") (auto dest: utf8_head_shorter simp del: utf8_head.simps)

subsection \<open>Rendering\<close>

definition ELLIPSIS :: nat where "ELLIPSIS = 0x2026"

text \<open>One character of \<open>write_valid\<close>, and one invalid byte.\<close>

fun escape_unit :: "(nat \<Rightarrow> bool) \<Rightarrow> utf8_unit \<Rightarrow> ustring" where
  "escape_unit hazardous (ValidChar c) =
     (if c = 0x5C then [0x5C, 0x5C]
      else if c \<noteq> 0x20 \<and> hazardous c then 0x5C # ascii (''u{'' @ hex c @ ''}'')
      else [c])"
| "escape_unit hazardous (InvalidByte b) = 0x5C # ascii (''x'' @ hex2 b)"

definition write_escaped :: "(nat \<Rightarrow> bool) \<Rightarrow> 'k captured_bytes \<Rightarrow> bool \<Rightarrow> ustring" where
  "write_escaped hazardous v omission =
     concat (map (escape_unit hazardous) (utf8_units (as_bytes v))) @
     (if omission \<and> bytes_omitted v then [ELLIPSIS] else [])"

definition display_captured :: "(nat \<Rightarrow> bool) \<Rightarrow> captured_bytes_origin \<Rightarrow> 'k captured_bytes \<Rightarrow> ustring" where
  "display_captured hazardous K v = ascii (DISPLAY_PREFIX K) @ write_escaped hazardous v True"

text \<open>The \<open>escaped\<close> field of the \<open>Debug\<close> rendering.\<close>

definition debug_escaped :: "(nat \<Rightarrow> bool) \<Rightarrow> captured_bytes_origin \<Rightarrow> 'k captured_bytes \<Rightarrow> ustring" where
  "debug_escaped hazardous K v =
     (let escaped = display_captured hazardous K v
      in if bytes_omitted v then butlast escaped else escaped)"

end
