(* ===== verification/Display_Properties.thy ===== *)
theory Display_Properties
  imports Captured_Display
begin

text \<open>
  The rendering of captured bytes is unambiguous and free of hazardous characters, for every category
  table.
\<close>

subsection \<open>Decoded characters are encoded back\<close>

definition utf8_encode :: "nat \<Rightarrow> u8 list" where
  "utf8_encode c =
     (if c < 0x80 then [of_nat c]
      else if c < 0x800 then [of_nat (0xC0 + c div 64), of_nat (0x80 + c mod 64)]
      else if c < 0x10000 then
        [of_nat (0xE0 + c div 4096), of_nat (0x80 + c div 64 mod 64), of_nat (0x80 + c mod 64)]
      else [of_nat (0xF0 + c div 262144), of_nat (0x80 + c div 4096 mod 64),
            of_nat (0x80 + c div 64 mod 64), of_nat (0x80 + c mod 64)])"

lemma base_64: "y < 64 \<Longrightarrow> (k * 64 + y) mod 64 = y" "y < 64 \<Longrightarrow> (k * 64 + y) div 64 = k" for k y :: nat
  by simp_all

lemma encode_two:
  assumes "2 \<le> x" "x < 32" "y < 64"
  shows "utf8_encode (x * 64 + y) = [of_nat (0xC0 + x), of_nat (0x80 + y)]"
  using assms by (simp add: utf8_encode_def)

lemma encode_three:
  assumes "x < 16" "y < 64" "z < 64" "32 \<le> y \<or> 0 < x"
  shows "utf8_encode (x * 4096 + y * 64 + z) = [of_nat (0xE0 + x), of_nat (0x80 + y), of_nat (0x80 + z)]"
proof -
  let ?c = "x * 4096 + y * 64 + z"
  have c: "?c = (x * 64 + y) * 64 + z" by simp
  have "?c div 4096 = ?c div 64 div 64" by (simp add: div_mult2_eq [symmetric])
  then have "?c div 64 = x * 64 + y" "?c mod 64 = z" "?c div 4096 = x" "(x * 64 + y) mod 64 = y"
    unfolding c by (simp_all only: base_64 assms)
  moreover have "2048 \<le> ?c" "?c < 65536" using assms by auto
  ultimately show ?thesis by (simp add: utf8_encode_def)
qed

lemma encode_four:
  assumes "x < 5" "y < 64" "z < 64" "t < 64" "16 \<le> y \<or> 0 < x"
  shows "utf8_encode (x * 262144 + y * 4096 + z * 64 + t) =
    [of_nat (0xF0 + x), of_nat (0x80 + y), of_nat (0x80 + z), of_nat (0x80 + t)]"
proof -
  let ?c = "x * 262144 + y * 4096 + z * 64 + t"
  have c: "?c = ((x * 64 + y) * 64 + z) * 64 + t" by simp
  have "?c div 4096 = ?c div 64 div 64" "?c div 262144 = ?c div 64 div 64 div 64"
    by (simp_all add: div_mult2_eq [symmetric])
  then have "?c div 64 mod 64 = z" "?c mod 64 = t" "?c div 4096 mod 64 = y" "?c div 262144 = x"
    unfolding c by (simp_all only: base_64 assms)
  moreover have "65536 \<le> ?c" using assms(5) by auto
  ultimately show ?thesis by (simp add: utf8_encode_def)
qed

lemma byte_of_unat:
  fixes b :: u8
  shows "k \<le> unat b \<Longrightarrow> of_nat (k + (unat b - k)) = b"
  by simp

lemma utf8_head_encode: "utf8_head bs = Some (c, r) \<Longrightarrow> bs = utf8_encode c @ r"
proof (cases bs)
  case (Cons b bs')
  assume head: "utf8_head bs = Some (c, r)"
  consider "unat b < 0x80" | "0xC2 \<le> unat b" "unat b \<le> 0xDF" | "0xE0 \<le> unat b" "unat b \<le> 0xEF"
    | "0xF0 \<le> unat b" "unat b \<le> 0xF4"
    using head Cons by (auto split: if_splits)
  then show ?thesis
  proof cases
    case 1
    with head Cons show ?thesis by (auto simp: utf8_encode_def)
  next
    case 2
    with head Cons obtain d where d: "bs' = d # r" "continuation d"
      "c = (unat b - 0xC0) * 64 + (unat d - 0x80)"
      by (auto split: list.splits if_splits)
    with 2 Cons show ?thesis
      using encode_two [of "unat b - 0xC0" "unat d - 0x80"] byte_of_unat [of "0xC0" b] byte_of_unat [of "0x80" d]
      by (auto simp: continuation_def)
  next
    case 3
    with head Cons obtain d e where d: "bs' = d # e # r" "second_ok b d" "continuation e"
      "c = (unat b - 0xE0) * 4096 + (unat d - 0x80) * 64 + (unat e - 0x80)"
      by (auto split: list.splits if_splits)
    moreover have ranges: "0x80 \<le> unat d" "unat d \<le> 0xBF" "0xA0 \<le> unat d \<or> 0xE0 < unat b"
      "0x80 \<le> unat e" "unat e \<le> 0xBF"
      using d(2,3) 3 by (auto simp: second_ok_def continuation_def split: if_splits)
    moreover have "utf8_encode ((unat b - 0xE0) * 4096 + (unat d - 0x80) * 64 + (unat e - 0x80)) =
        [of_nat (0xE0 + (unat b - 0xE0)), of_nat (0x80 + (unat d - 0x80)), of_nat (0x80 + (unat e - 0x80))]"
      by (rule encode_three) (use 3 ranges in auto)
    ultimately show ?thesis
      using 3(1) Cons by (simp only: byte_of_unat append_Cons append_Nil)
  next
    case 4
    with head Cons obtain d e f where d: "bs' = d # e # f # r" "second_ok b d" "continuation e" "continuation f"
      "c = (unat b - 0xF0) * 262144 + (unat d - 0x80) * 4096 + (unat e - 0x80) * 64 + (unat f - 0x80)"
      by (auto split: list.splits if_splits)
    moreover have ranges: "0x80 \<le> unat d" "unat d \<le> 0xBF" "0x90 \<le> unat d \<or> 0xF0 < unat b"
      "0x80 \<le> unat e" "unat e \<le> 0xBF" "0x80 \<le> unat f" "unat f \<le> 0xBF"
      using d(2-4) 4 by (auto simp: second_ok_def continuation_def split: if_splits)
    moreover have "utf8_encode ((unat b - 0xF0) * 262144 + (unat d - 0x80) * 4096 + (unat e - 0x80) * 64
          + (unat f - 0x80)) =
        [of_nat (0xF0 + (unat b - 0xF0)), of_nat (0x80 + (unat d - 0x80)), of_nat (0x80 + (unat e - 0x80)),
         of_nat (0x80 + (unat f - 0x80))]"
      by (rule encode_four) (use 4 ranges in auto)
    ultimately show ?thesis
      using 4(1) Cons by (simp only: byte_of_unat append_Cons append_Nil)
  qed
qed simp

fun unit_bytes :: "utf8_unit \<Rightarrow> u8 list" where
  "unit_bytes (ValidChar c) = utf8_encode c"
| "unit_bytes (InvalidByte b) = [b]"

lemma units_bytes: "concat (map unit_bytes (utf8_units bs)) = bs"
proof (induction bs rule: utf8_units.induct)
  case (2 b bs)
  then show ?case
    using utf8_head_encode [of "b # bs"]
    by (auto simp del: utf8_head.simps split: option.splits)
qed simp

subsection \<open>The escapes are a prefix code\<close>

lemma ascii_inject [simp]: "ascii s = ascii t \<longleftrightarrow> s = t"
  by (simp add: ascii_def inj_map_eq_map inj_on_def)

lemma ascii_simps [simp]: "ascii [] = []" "ascii (c # s) = of_char c # ascii s"
  "ascii (s @ t) = ascii s @ ascii t"
  by (simp_all add: ascii_def)

lemma digit_code: "d < 16 \<Longrightarrow> of_char (digit_char d) = (if d < 10 then 48 + d else 87 + d)"
  by (simp add: digit_char_def)

lemma radix_codes: "b \<le> 16 \<Longrightarrow> 2 \<le> b \<Longrightarrow> x \<in> set (ascii (radix b n)) \<Longrightarrow> 48 \<le> x \<and> x \<le> 102"
proof (induction b n rule: radix.induct)
  case (1 b n)
  have "n mod b < 16" using mod_less_divisor [of b n] 1(2,3) by linarith
  with 1 digit_code [of "n mod b"] digit_code [of n] show ?case
    by (subst (asm) (2) radix.simps) (auto split: if_splits)
qed

lemma hex_codes: "x \<in> set (ascii (hex n)) \<Longrightarrow> 48 \<le> x \<and> x \<le> 102"
  unfolding hex_def by (rule radix_codes) simp_all

lemma hex_cancel:
  assumes "ascii (hex c) @ 125 # r = ascii (hex c') @ 125 # r'"
  shows "c = c' \<and> r = r'"
proof -
  have tw: "takeWhile (\<lambda>x. x \<noteq> 125) (ascii (hex n) @ 125 # s) = ascii (hex n)" for n s
    by (subst takeWhile_append2) (use hex_codes in force, simp)
  from assms have "ascii (hex c) = ascii (hex c')" using tw by metis
  with assms show ?thesis by simp
qed

lemma hex2_cancel:
  assumes "ascii (hex2 b) @ r = ascii (hex2 b') @ r'"
  shows "b = b' \<and> r = r'"
proof -
  have "length (ascii (hex2 b)) = length (ascii (hex2 b'))" by (simp add: ascii_def)
  with assms show ?thesis by simp
qed

lemma escape_unit_cancel:
  assumes "escape_unit h u @ r = escape_unit h u' @ r'"
  shows "u = u' \<and> r = r'"
  using assms
  by (cases u; cases u') (auto split: if_splits dest: hex_cancel hex2_cancel)

lemma escapes_cancel:
  "concat (map (escape_unit h) us) @ r = concat (map (escape_unit h) us') \<Longrightarrow>
     \<exists>rest. us' = us @ rest \<and> r = concat (map (escape_unit h) rest)"
proof (induction us arbitrary: us')
  case (Cons u us)
  have "escape_unit h v \<noteq> []" for v by (cases v) auto
  with Cons.prems obtain u' vs where us': "us' = u' # vs" by (cases us') auto
  with Cons.prems escape_unit_cancel [of h u _ u'] have "u = u'"
    "concat (map (escape_unit h) us) @ r = concat (map (escape_unit h) vs)"
    by (auto simp del: escape_unit.simps)
  with Cons.IH us' show ?case by auto
qed simp

lemma ellipsis_unit:
  assumes "[ELLIPSIS] = concat (map (escape_unit h) us)"
  shows "us = [ValidChar ELLIPSIS]"
proof (cases us)
  case (Cons u vs)
  have "escape_unit h v \<noteq> []" for v by (cases v) auto
  with assms Cons have "vs = []" "escape_unit h u = [ELLIPSIS]"
    by (auto simp: Cons_eq_append_conv simp del: escape_unit.simps)
  with Cons show ?thesis by (cases u) (auto split: if_splits simp: ELLIPSIS_def)
qed (use assms in simp)

lemma escaped_same:
  assumes "concat (map (escape_unit h) (utf8_units bs)) = concat (map (escape_unit h) (utf8_units bs'))"
  shows "bs = bs'"
proof -
  from escapes_cancel [of h "utf8_units bs" "[]" "utf8_units bs'"] assms
  obtain rest where "utf8_units bs' = utf8_units bs @ rest" "concat (map (escape_unit h) rest) = []" by auto
  moreover have "escape_unit h v \<noteq> []" for v by (cases v) auto
  ultimately have "utf8_units bs' = utf8_units bs" by (cases rest) auto
  then show ?thesis by (metis units_bytes)
qed

text \<open>The omission mark is never confused with content: that would need three bytes more than fit.\<close>

lemma escaped_omission:
  assumes "concat (map (escape_unit h) (utf8_units bs)) @ [ELLIPSIS] =
    concat (map (escape_unit h) (utf8_units bs'))"
  shows "length bs' = length bs + 3"
proof -
  from escapes_cancel [OF assms] ellipsis_unit
  have "utf8_units bs' = utf8_units bs @ [ValidChar ELLIPSIS]" by blast
  then have "concat (map unit_bytes (utf8_units bs')) =
      concat (map unit_bytes (utf8_units bs)) @ utf8_encode ELLIPSIS" by simp
  then show ?thesis by (simp add: units_bytes utf8_encode_def ELLIPSIS_def)
qed

subsection \<open>Properties\<close>

text \<open>C35. Displayed captured values are unambiguous and safe: two valid values of the same origin have the
  same displayed text only if they have the same bytes and the same omission flag, and every character
  of the text is a space, a printable ASCII character, the omission mark, or a character that is not
  a control, format or separator character.\<close>

theorem display_unambiguous:
  assumes "captured_ok K v" "captured_ok K v'"
  shows "(display_captured h K v = display_captured h K v' \<longleftrightarrow> v = v') \<and>
    (\<forall>c\<in>set (write_escaped h v True). \<not> h c \<or> 32 \<le> c \<and> c \<le> 126 \<or> c = ELLIPSIS)"
proof
  have "v = v'" if eq: "write_escaped h v True = write_escaped h v' True"
  proof -
    have "bytes_omitted v = bytes_omitted v'"
    proof (rule ccontr)
      assume "bytes_omitted v \<noteq> bytes_omitted v'"
      with eq escaped_omission [of h "as_bytes v" "as_bytes v'"] escaped_omission [of h "as_bytes v'" "as_bytes v"]
      have "length (as_bytes v') = length (as_bytes v) + 3 \<and> bytes_omitted v \<or>
          length (as_bytes v) = length (as_bytes v') + 3 \<and> bytes_omitted v'"
        by (cases "bytes_omitted v") (auto simp: write_escaped_def)
      with assms show False by (auto simp: captured_ok_def)
    qed
    moreover from this eq escaped_same [of h "as_bytes v" "as_bytes v'"] have "as_bytes v = as_bytes v'"
      by (simp add: write_escaped_def)
    ultimately show ?thesis by (cases v; cases v') simp
  qed
  then show "display_captured h K v = display_captured h K v' \<longleftrightarrow> v = v'"
    by (auto simp: display_captured_def)
next
  have hex2: "x \<in> set (ascii (hex2 b)) \<Longrightarrow> 48 \<le> x \<and> x \<le> 102" for x b
    using digit_code [of "unat b div 16"] digit_code [of "unat b mod 16"] unat_u8_lt [of b]
    by (auto simp: hex2_def split: if_splits)
  have "\<not> h c \<or> 32 \<le> c \<and> c \<le> 126" if "c \<in> set (escape_unit h u)" for c u
    using that by (cases u) (auto split: if_splits dest!: hex_codes hex2)
  then show "\<forall>c\<in>set (write_escaped h v True). \<not> h c \<or> 32 \<le> c \<and> c \<le> 126 \<or> c = ELLIPSIS"
    by (auto simp: write_escaped_def simp del: escape_unit.simps split: if_splits)
qed

text \<open>A line break and an invalid byte, with the control characters as hazardous.\<close>

theorem display_unambiguous_witness:
  "display_captured (\<lambda>c. c < 32) command_consts (CapturedBytes [97, 10, 255] False :: captured_command) \<noteq>
   display_captured (\<lambda>c. c < 32) command_consts (CapturedBytes [97, 10] False :: captured_command)"
proof -
  have "captured_ok command_consts (CapturedBytes [97, 10, 255] False :: captured_command)"
    "captured_ok command_consts (CapturedBytes [97, 10] False :: captured_command)"
    by (simp_all add: captured_ok_def command_consts_def)
  from display_unambiguous [OF this, of "\<lambda>c. c < 32"] show ?thesis by simp
qed

end
