(* ===== verification/Tui_Format.thy ===== *)
theory Tui_Format
  imports Captured_Display Access_Masks
begin

text \<open>
  \<open>lltop/src/tui/format.rs\<close>: labels and line wrapping of the interactive mode. Positions
  count characters where the source counts the bytes of the same characters. The column width of a text is computed by the terminal library: \<open>uw\<close> is its width
  function on non-empty texts.
\<close>

subsection \<open>Labels\<close>

fun join_text :: "ustring \<Rightarrow> ustring list \<Rightarrow> ustring" where
  "join_text sep [] = []"
| "join_text sep [x] = x"
| "join_text sep (x # xs) = x @ sep @ join_text sep xs"

definition access_text :: "string list \<Rightarrow> u64 \<Rightarrow> ustring" where
  "access_text names unknown =
     (let parts = map ascii names @ (if unknown \<noteq> 0 then [ascii (''0x'' @ hex (unat unknown))] else [])
      in if parts = [] then ascii ''0x0'' else join_text (ascii '', '') parts)"

definition filesystem_rights :: "filesystem_access \<Rightarrow> ustring" where
  "filesystem_rights v = access_text (fs_known_names v) (fs_unknown_bits v)"

definition network_rights :: "network_access \<Rightarrow> ustring" where
  "network_rights v = access_text (net_known_names v) (net_unknown_bits v)"

definition scope_rights :: "scope_access \<Rightarrow> ustring" where
  "scope_rights v = access_text (scope_known_names v) (scope_unknown_bits v)"

definition filesystem_label :: "filesystem_access \<Rightarrow> ustring" where
  "filesystem_label v = ascii ''FS: '' @ filesystem_rights v"

definition network_label :: "network_access \<Rightarrow> ustring" where
  "network_label v = ascii ''Net: '' @ network_rights v"

fun filesystem_blocker :: "filesystem_blockers \<Rightarrow> ustring" where
  "filesystem_blocker (FsAccess a) = filesystem_label a"
| "filesystem_blocker FsChangeTopology = ascii ''FS: change_topology''"
| "filesystem_blocker (FsOther t a) =
     (if t = BT_FS_CHANGE_TOPOLOGY then ascii (''FS: change_topology, access=0x'' @ hex (unat (fs_bits a)))
      else ascii (''FS: request_type=0x'' @ hex (unat (raw t)) @ '', access=0x'' @ hex (unat (fs_bits a))))"

definition network_blocker :: "blocker_type \<Rightarrow> network_access \<Rightarrow> ustring" where
  "network_blocker t a =
     (if t = BT_NET_ACCESS then network_label a
      else ascii (''Net: request_type=0x'' @ hex (unat (raw t)) @ '', access=0x'' @ hex (unat (net_bits a))))"

definition scope_label :: "scope_access \<Rightarrow> ustring" where
  "scope_label v = ascii ''Scope: '' @ scope_rights v"

definition timestamp_text :: "kernel_timestamp option \<Rightarrow> ustring" where
  "timestamp_text v = (case v of None \<Rightarrow> ascii ''?'' | Some t \<Rightarrow> ascii (dec (unat (as_nanoseconds t)) @ ''ns''))"

subsection \<open>Wrapping\<close>

definition display_width :: "(ustring \<Rightarrow> nat) \<Rightarrow> ustring \<Rightarrow> nat" where
  "display_width uw t = (if t = [] then 0 else uw t)"

text \<open>\<open>str::rfind\<close> of a pattern: its last occurrence.\<close>

fun rfind :: "'a list \<Rightarrow> 'a list \<Rightarrow> nat option" where
  "rfind pat [] = (if pat = [] then Some 0 else None)"
| "rfind pat (x # xs) =
     (case rfind pat xs of
        Some i \<Rightarrow> Some (Suc i)
      | None \<Rightarrow> if take (length pat) (x # xs) = pat then Some 0 else None)"

text \<open>The loop over the characters that fit: the number of characters to keep, at least one.\<close>

fun fitting :: "(ustring \<Rightarrow> nat) \<Rightarrow> nat \<Rightarrow> nat \<Rightarrow> nat \<Rightarrow> ustring \<Rightarrow> nat" where
  "fitting uw width used limit [] = limit"
| "fitting uw width used limit (c # cs) =
     (let cw = display_width uw [c] in
      if used + cw > width then (if limit = 0 then 1 else limit)
      else fitting uw width (used + cw) (Suc limit) cs)"

definition or_else :: "'a option \<Rightarrow> 'a option \<Rightarrow> 'a option" where
  "or_else a b = (case a of Some x \<Rightarrow> Some x | None \<Rightarrow> b)"

definition split_point :: "(ustring \<Rightarrow> nat) \<Rightarrow> nat \<Rightarrow> ustring \<Rightarrow> nat" where
  "split_point uw width remaining =
     (let limit = fitting uw width 0 0 remaining;
          candidate = take limit remaining;
          s = or_else (map_option (\<lambda>i. i + 2) (rfind (ascii '', '') candidate))
               (or_else (map_option (\<lambda>i. i + 1) (rfind (ascii ''/'') candidate))
                 (map_option (\<lambda>i. i + 1) (rfind (ascii '' '') candidate)))
      in case s of Some i \<Rightarrow> if i \<noteq> 0 then i else limit | None \<Rightarrow> limit)"

lemma fitting_ge: "limit \<le> fitting uw width used limit cs"
  by (induction uw width used limit cs rule: fitting.induct) (auto simp: Let_def)

lemma fitting_le: "fitting uw width used limit cs \<le> limit + length cs"
  by (induction uw width used limit cs rule: fitting.induct) (auto simp: Let_def)

lemma fitting_pos: "cs \<noteq> [] \<Longrightarrow> 0 < fitting uw width used 0 cs"
  using fitting_ge [of "Suc 0"] by (cases cs) (auto simp: Let_def less_eq_Suc_le)

lemma rfind_bound: "rfind pat xs = Some i \<Longrightarrow> i + length pat \<le> length xs"
proof (induction xs arbitrary: i)
  case (Cons x xs)
  have "take (length pat) (x # xs) = pat \<Longrightarrow> length pat \<le> length (x # xs)"
    by (metis length_take min.cobounded1)
  with Cons show ?case by (auto split: option.splits if_splits)
qed (simp split: if_splits)

lemma split_point_bounds:
  assumes "remaining \<noteq> []"
  shows "0 < split_point uw width remaining"
    "split_point uw width remaining \<le> fitting uw width 0 0 remaining"
  using fitting_pos [OF assms, of uw width 0]
    rfind_bound [of _ "take (fitting uw width 0 0 remaining) remaining"]
  by (fastforce simp: split_point_def Let_def or_else_def ascii_def split: option.splits)+

function wrap_loop :: "(ustring \<Rightarrow> nat) \<Rightarrow> nat \<Rightarrow> nat \<Rightarrow> ustring \<Rightarrow> ustring list" where
  "wrap_loop uw continuation_width width remaining =
     (if display_width uw remaining > width
      then let s = split_point uw width remaining in
           take s remaining # wrap_loop uw continuation_width (max continuation_width 1) (drop s remaining)
      else [remaining])"
  by pat_completeness auto

termination
proof (relation "measure (\<lambda>(_, _, _, remaining). length remaining)", goal_cases)
  case (2 uw cw width remaining s)
  then have "remaining \<noteq> []" by (auto simp: display_width_def)
  with split_point_bounds(1) 2 show ?case by simp
qed simp

definition wrap :: "(ustring \<Rightarrow> nat) \<Rightarrow> ustring \<Rightarrow> nat \<Rightarrow> nat \<Rightarrow> ustring list" where
  "wrap uw t first_width continuation_width =
     (if t = [] then [[]] else wrap_loop uw continuation_width (max first_width 1) t)"

declare wrap_loop.simps [simp del]

subsection \<open>Nothing is lost, every line fits\<close>

lemma wrap_loop_concat: "concat (wrap_loop uw cw width remaining) = remaining"
proof (induction uw cw width remaining rule: wrap_loop.induct)
  case (1 uw cw width remaining)
  then show ?case by (subst wrap_loop.simps) (simp add: Let_def)
qed

lemma wrap_loop_nonempty: "wrap_loop uw cw width remaining \<noteq> []"
  by (subst wrap_loop.simps) (simp add: Let_def)

lemma wrap_concat: "concat (wrap uw t f c) = t"
  by (simp add: wrap_def wrap_loop_concat)

text \<open>
  The loop adds up the widths of the characters. The width of a string need not be that sum: a
  variation selector or a joiner can change the width of the characters before it.
\<close>

definition char_widths :: "(ustring \<Rightarrow> nat) \<Rightarrow> ustring \<Rightarrow> nat" where
  "char_widths uw t = sum_list (map (\<lambda>c. display_width uw [c]) t)"

lemma fitting_width:
  assumes "used \<le> width"
  shows "used + char_widths uw (take (fitting uw width used limit cs - limit) cs) \<le> width
    \<or> limit = 0 \<and> fitting uw width used limit cs = 1"
  using assms
proof (induction uw width used limit cs rule: fitting.induct)
  case (2 uw width used limit c cs)
  show ?case
  proof (cases "used + display_width uw [c] > width")
    case False
    moreover have "Suc limit \<le> fitting uw width (used + display_width uw [c]) (Suc limit) cs"
      by (rule fitting_ge)
    then have "fitting uw width (used + display_width uw [c]) (Suc limit) cs - limit =
        Suc (fitting uw width (used + display_width uw [c]) (Suc limit) cs - Suc limit)"
      by simp
    ultimately show ?thesis using 2 by (simp add: char_widths_def)
  qed (use 2(2) in \<open>simp add: Let_def char_widths_def\<close>)
qed (simp add: char_widths_def)

lemma split_fits:
  assumes "remaining \<noteq> []"
  shows "char_widths uw (take (split_point uw width remaining) remaining) \<le> width \<or>
    length (take (split_point uw width remaining) remaining) = 1"
proof -
  let ?s = "split_point uw width remaining" and ?n = "fitting uw width 0 0 remaining"
  have s: "0 < ?s" "?s \<le> ?n" using split_point_bounds [OF assms] by simp_all
  consider "char_widths uw (take ?n remaining) \<le> width" | "?n = 1"
    using fitting_width [of 0 width uw 0 remaining] by auto
  then show ?thesis
  proof cases
    case 1
    have "take ?n remaining = take ?s remaining @ take (?n - ?s) (drop ?s remaining)"
      using s(2) by (metis take_add le_add_diff_inverse)
    then show ?thesis
      using 1 by (simp add: char_widths_def)
  next
    case 2
    with s assms show ?thesis by (cases remaining) auto
  qed
qed

text \<open>
  Lines folded into a first width and a width for the others: the last is displayed within its width; any
  other was cut because what it starts does not fit, has at least one character, and the widths of its
  characters add up to no more than its width, unless it is one character that is too wide alone.
\<close>

fun folded :: "(ustring \<Rightarrow> nat) \<Rightarrow> nat \<Rightarrow> nat \<Rightarrow> ustring list \<Rightarrow> bool" where
  "folded uw first rest [] \<longleftrightarrow> False"
| "folded uw first rest [x] \<longleftrightarrow> display_width uw x \<le> first"
| "folded uw first rest (x # y # ys) \<longleftrightarrow>
     first < display_width uw (concat (x # y # ys)) \<and> x \<noteq> [] \<and>
     (char_widths uw x \<le> first \<or> length x = 1) \<and> folded uw rest rest (y # ys)"

lemma wrap_loop_folded: "folded uw width (max cw 1) (wrap_loop uw cw width remaining)"
proof (induction uw cw width remaining rule: wrap_loop.induct)
  case (1 uw cw width remaining)
  let ?s = "split_point uw width remaining"
  show ?case
  proof (cases "display_width uw remaining > width")
    case True
    then have nonempty: "remaining \<noteq> []" by (auto simp: display_width_def)
    obtain l ls where rest: "wrap_loop uw cw (max cw 1) (drop ?s remaining) = l # ls"
      using wrap_loop_nonempty by (metis neq_Nil_conv)
    have lines: "wrap_loop uw cw width remaining = take ?s remaining # l # ls"
      using True rest by (simp add: wrap_loop.simps [of uw cw width remaining] Let_def)
    have "concat (take ?s remaining # l # ls) = remaining"
      using wrap_loop_concat [of uw cw width remaining] by (simp only: lines)
    then show ?thesis
      using True 1 [OF True refl] split_fits [OF nonempty, of uw width] split_point_bounds(1) [OF nonempty, of uw width]
        nonempty unfolding lines rest by simp
  next
    case False
    then show ?thesis by (simp add: wrap_loop.simps [of uw cw width remaining])
  qed
qed

lemma wrap_folded: "folded uw (max f 1) (max c 1) (wrap uw t f c)"
  using wrap_loop_folded [of uw "max f 1" c t] by (simp add: wrap_def display_width_def)

end
