(* ===== verification/Tui_Rows.thy ===== *)
theory Tui_Rows
  imports Tui_Format Observation_Model Batch
begin

text \<open>
  The rows of \<open>lltop/src/tui/ui.rs\<close>: what the interactive mode lists for the domains,
  denials and rulesets. Colours and other styles, which only the
  terminal library interprets, are left out. \<open>tui_env\<close> holds the two tables that come from other
  crates: the column width of a text and the hazardous characters.
\<close>

record tui_env =
  te_width :: "ustring \<Rightarrow> nat"
  te_hazardous :: "nat \<Rightarrow> bool"

subsection \<open>Sorting and grouping\<close>

text \<open>\<open>slice::sort_by\<close>, a stable sort; \<open>le a b\<close> says that the comparison of \<open>a\<close> and \<open>b\<close> is not \<open>Greater\<close>.\<close>

fun insort_by :: "('a \<Rightarrow> 'a \<Rightarrow> bool) \<Rightarrow> 'a \<Rightarrow> 'a list \<Rightarrow> 'a list" where
  "insort_by le x [] = [x]"
| "insort_by le x (y # ys) = (if le x y then x # y # ys else y # insort_by le x ys)"

definition sort_by :: "('a \<Rightarrow> 'a \<Rightarrow> bool) \<Rightarrow> 'a list \<Rightarrow> 'a list" where
  "sort_by le xs = foldr (insort_by le) xs []"

text \<open>\<open>entry(key(x)).or_default().push(x)\<close> for every element.\<close>

definition group_by :: "('a \<Rightarrow> 'k) \<Rightarrow> 'a list \<Rightarrow> ('k, 'a list) hashmap" where
  "group_by key xs = foldl (\<lambda>g x. hm_upsert (key x) [] (\<lambda>l. l @ [x]) g) [] xs"

fun text_le :: "ustring \<Rightarrow> ustring \<Rightarrow> bool" where
  "text_le [] ys = True"
| "text_le (x # xs) [] = False"
| "text_le (x # xs) (y # ys) = (x < y \<or> x = y \<and> text_le xs ys)"

subsection \<open>Texts\<close>

definition AUDIT_VISIBLE_ICON :: ustring where "AUDIT_VISIBLE_ICON = [0x1F514]"
definition TRACE_ONLY_ICON :: ustring where "TRACE_ONLY_ICON = [0x1F515]"

definition visibility :: "bool \<Rightarrow> ustring \<times> ustring" where
  "visibility is_logged =
     (if is_logged then (AUDIT_VISIBLE_ICON, ascii ''audit-visible'') else (TRACE_ONLY_ICON, ascii ''trace-only''))"

text \<open>\<open>{:>6}\<close>\<close>

definition right_align :: "nat \<Rightarrow> ustring \<Rightarrow> ustring" where
  "right_align n t = replicate (n - length t) 32 @ t"

definition denial_row_text :: "tui_env \<Rightarrow> u64 \<Rightarrow> ustring \<Rightarrow> ustring \<Rightarrow> ustring \<times> nat" where
  "denial_row_text env occurrences vis target =
     (let prefix = ascii ''    '' @ right_align 6 (ascii (dec (unat occurrences))) @ ascii '' '' @ vis @ ascii ''  ''
      in (prefix @ target, display_width (te_width env) prefix))"

definition display_text :: "tui_env \<Rightarrow> captured_bytes_origin \<Rightarrow> 'k captured_bytes \<Rightarrow> ustring" where
  "display_text env K v = display_captured (te_hazardous env) K v"

definition creator_text :: "tui_env \<Rightarrow> domain_state \<Rightarrow> ustring option" where
  "creator_text env d =
     (case (dom_creator_comm d, dom_creator_tgid d) of
        (Some comm, Some tgid) \<Rightarrow>
          Some (display_text env command_consts comm @ ascii (''['' @ dec (unat (pid_get tgid)) @ '']''))
      | _ \<Rightarrow> None)"

fun tree_prefix_tail :: "bool list \<Rightarrow> ustring" where
  "tree_prefix_tail [] = []"
| "tree_prefix_tail [is_last] = (if is_last then [0x2514, 0x2500, 32] else [0x251C, 0x2500, 32])"
| "tree_prefix_tail (is_last # rest) =
     (if is_last then [32, 32, 32] else [0x2502, 32, 32]) @ tree_prefix_tail rest"

definition tree_prefix :: "bool list \<Rightarrow> ustring" where
  "tree_prefix trail = (if length trail \<le> 1 then [] else tree_prefix_tail (tl trail))"

fun lifecycle_text :: "lifecycle_state \<Rightarrow> string" where
  "lifecycle_text Allocated = ''allocated''"
| "lifecycle_text Deallocated = ''deallocated''"

fun blockers_event :: "event \<Rightarrow> ustring" where
  "blockers_event (DenyAccessFs e) = filesystem_blocker (df_blockers e)"
| "blockers_event (DenyAccessNet e) = network_blocker (dn_blockers_type e) (dn_blockers_access e)"
| "blockers_event (DenyPtrace _) = ascii ''ptrace''"
| "blockers_event (DenyScopeSignal _) = scope_label (ScopeAccess 2)"
| "blockers_event (DenyScopeAbstractUnixSocket _) = scope_label (ScopeAccess 1)"
| "blockers_event _ = ascii ''unknown''"

definition blockers_of :: "aggregated_denial \<Rightarrow> ustring" where
  "blockers_of d = blockers_event (ag_latest_event d)"

definition network_target_text :: "deny_access_net_event \<Rightarrow> ustring" where
  "network_target_text e =
     (let names = (if dn_blockers_type e = BT_NET_ACCESS then net_known_names (dn_blockers_access e) else []);
          bind = list_ex (starts_with ''bind_'') names;
          connect = list_ex (starts_with ''connect_'') names
      in if bind \<and> \<not> connect then ascii (''sport:'' @ dec (unat (dn_source_port e)))
         else if \<not> bind \<and> connect then ascii (''dport:'' @ dec (unat (dn_destination_port e)))
         else ascii (''sport:'' @ dec (unat (dn_source_port e)) @ '', dport:'' @
                dec (unat (dn_destination_port e))))"

fun target_event :: "tui_env \<Rightarrow> event \<Rightarrow> ustring" where
  "target_event env (DenyAccessFs e) = display_text env pathname_consts (df_pathname e)"
| "target_event env (DenyAccessNet e) = network_target_text e"
| "target_event env (DenyPtrace e) =
     ascii (''pid:'' @ dec (unat (pid_get (dp_tracee_pid e))) @ '' '') @
     display_text env command_consts (dp_tracee_comm e)"
| "target_event env (DenyScopeSignal e) =
     ascii (''pid:'' @ dec (unat (pid_get (ds_target_pid e))) @ '' '') @
     display_text env command_consts (ds_target_comm e)"
| "target_event env (DenyScopeAbstractUnixSocket e) =
     display_text env abstract_name_consts (du_abstract_name e)"
| "target_event env _ = ascii ''unknown''"

definition target_of :: "tui_env \<Rightarrow> aggregated_denial \<Rightarrow> ustring" where
  "target_of env d = target_event env (ag_latest_event d)"

definition total_count :: "aggregated_denial list \<Rightarrow> u64" where
  "total_count entries = foldl (\<lambda>s e. saturating_add s (ag_occurrence_count e)) 0 entries"

definition maximum_count :: "aggregated_denial list \<Rightarrow> u64" where
  "maximum_count entries = foldl (\<lambda>m e. max m (ag_occurrence_count e)) 0 entries"

subsection \<open>Rows\<close>

datatype row_kind =
    RowDomain domain_id
  | RowDenialDomain domain_id
  | RowDenial denial_key
  | RowRuleset ruleset_id
  | RowHeading

definition selectable :: "row_kind \<Rightarrow> bool" where
  "selectable k \<longleftrightarrow> k \<noteq> RowHeading"

record display_row =
  dr_kind :: row_kind
  dr_text :: ustring
  dr_continuation_indent :: "nat option"

definition domain_row :: "tui_env \<Rightarrow> domain_id \<Rightarrow> bool list \<Rightarrow> domain_state \<Rightarrow> display_row" where
  "domain_row env i trail d =
     (let creator = (case creator_text env d of Some t \<Rightarrow> t | None \<Rightarrow> ascii ''?'');
          count = (case dom_cumulative_denial_count d of None \<Rightarrow> ''?'' | Some n \<Rightarrow> dec (unat n));
          status = (if dom_lifecycle d = Allocated \<and> no_new_privs d = Some False
                    then lifecycle_text (dom_lifecycle d) @
                         ''; WARNING: missing no_new_privs means privilege gain is possible''
                    else lifecycle_text (dom_lifecycle d))
      in \<lparr>dr_kind = RowDomain i,
          dr_text = tree_prefix trail @ ascii (display_domain_id i @ ''  '') @ creator @
            ascii (''  denials='' @ count @ ''  '' @ status),
          dr_continuation_indent = None\<rparr>)"

definition domain_rows :: "tui_env \<Rightarrow> observation_model \<Rightarrow> display_row list" where
  "domain_rows env m =
     List.map_filter (\<lambda>(i, trail). map_option (domain_row env i trail) (domain (om_state m) i)) (domain_tree m)"

definition heading_row :: "ustring \<Rightarrow> display_row" where
  "heading_row t = \<lparr>dr_kind = RowHeading, dr_text = t, dr_continuation_indent = None\<rparr>"

definition denial_row :: "tui_env \<Rightarrow> aggregated_denial \<Rightarrow> display_row" where
  "denial_row env e =
     (let (t, indent) = denial_row_text env (ag_occurrence_count e) (fst (visibility (ag_logged e))) (target_of env e)
      in \<lparr>dr_kind = RowDenial (ag_key e), dr_text = t, dr_continuation_indent = Some indent\<rparr>)"

definition entry_le :: "tui_env \<Rightarrow> aggregated_denial \<Rightarrow> aggregated_denial \<Rightarrow> bool" where
  "entry_le env a b \<longleftrightarrow>
     ag_occurrence_count b < ag_occurrence_count a \<or>
     ag_occurrence_count b = ag_occurrence_count a \<and>
       (as_nanoseconds (ag_latest_timestamp b) < as_nanoseconds (ag_latest_timestamp a) \<or>
        as_nanoseconds (ag_latest_timestamp b) = as_nanoseconds (ag_latest_timestamp a) \<and>
          text_le (target_of env a) (target_of env b))"

definition group_le :: "ustring \<times> aggregated_denial list \<Rightarrow> ustring \<times> aggregated_denial list \<Rightarrow> bool" where
  "group_le a b \<longleftrightarrow>
     maximum_count (snd b) < maximum_count (snd a) \<or>
     maximum_count (snd b) = maximum_count (snd a) \<and>
       (total_count (snd b) < total_count (snd a) \<or>
        total_count (snd b) = total_count (snd a) \<and> text_le (fst a) (fst b))"

definition domain_le :: "domain_id \<times> aggregated_denial list \<Rightarrow> domain_id \<times> aggregated_denial list \<Rightarrow> bool" where
  "domain_le a b \<longleftrightarrow>
     total_count (snd b) < total_count (snd a) \<or>
     total_count (snd b) = total_count (snd a) \<and> id_get (fst a) \<le> id_get (fst b)"

definition group_rows :: "tui_env \<Rightarrow> ustring \<times> aggregated_denial list \<Rightarrow> display_row list" where
  "group_rows env g =
     heading_row (ascii ''  '' @ fst g) # map (denial_row env) (sort_by (entry_le env) (snd g))"

definition denial_domain_row :: "tui_env \<Rightarrow> observation_model \<Rightarrow> domain_id \<Rightarrow> display_row" where
  "denial_domain_row env m i =
     (let creator = (case Option.bind (domain (om_state m) i) (creator_text env) of
                       Some t \<Rightarrow> t | None \<Rightarrow> ascii ''?'')
      in \<lparr>dr_kind = RowDenialDomain i,
          dr_text = ascii (''Domain '' @ display_domain_id i @ '' ('') @ creator @ ascii '')'',
          dr_continuation_indent = None\<rparr>)"

definition domain_block ::
  "tui_env \<Rightarrow> observation_model \<Rightarrow> domain_id \<times> aggregated_denial list \<Rightarrow> display_row list" where
  "domain_block env m g =
     denial_domain_row env m (fst g) #
     concat (map (group_rows env) (sort_by group_le (group_by blockers_of (snd g))))"

definition denial_rows :: "tui_env \<Rightarrow> observation_model \<Rightarrow> display_row list" where
  "denial_rows env m =
     foldl (\<lambda>rows g. rows @ (if rows \<noteq> [] then [heading_row []] else []) @ domain_block env m g) []
       (sort_by domain_le (group_by (\<lambda>e. denial_key_domain_id (ag_key e)) (hm_values (agg_entries (om_denials m)))))"

definition ruleset_le :: "ruleset_state \<Rightarrow> ruleset_state \<Rightarrow> bool" where
  "ruleset_le a b \<longleftrightarrow>
     map_option as_nanoseconds (rs_creation_timestamp b) < map_option as_nanoseconds (rs_creation_timestamp a) \<or>
     map_option as_nanoseconds (rs_creation_timestamp b) = map_option as_nanoseconds (rs_creation_timestamp a) \<and>
       id_get (rs_id a) \<le> id_get (rs_id b)"

definition ruleset_row :: "ruleset_state \<Rightarrow> display_row" where
  "ruleset_row r =
     \<lparr>dr_kind = RowRuleset (rs_id r),
      dr_text = ascii (display_ruleset_version
          \<lparr>rv_ruleset_id = rs_id r, rv_ruleset_version = rs_max_observed_version r\<rparr> @
        ''  rules='' @ dec (usize_saturating_add (filesystem_rule_count r) (network_rule_count r)) @ ''  '' @
        lifecycle_text (rs_lifecycle r)),
      dr_continuation_indent = None\<rparr>"

definition ruleset_rows :: "observation_model \<Rightarrow> display_row list" where
  "ruleset_rows m = map ruleset_row (sort_by ruleset_le (hm_values (st_rulesets (om_state m))))"

end
