(* ===== verification/Tui_Detail.thy ===== *)
theory Tui_Detail
  imports Tui_Rows
begin

text \<open>
  The detail pane and the statistics of \<open>lltop/src/tui/ui.rs\<close>: the fields of the selected domain,
  denial or ruleset, folded into lines. A field is its label and its value.
\<close>

type_synonym field = "ustring \<times> ustring"

definition timestamp_ns :: "kernel_timestamp \<Rightarrow> ustring" where
  "timestamp_ns t = ascii (dec (unat (as_nanoseconds t)) @ ''ns'')"

definition no_new_privs_field :: "domain_state \<Rightarrow> field" where
  "no_new_privs_field d =
     (ascii ''no_new_privs: '',
      ascii (case no_new_privs d of
          None \<Rightarrow> ''unknown''
        | Some True \<Rightarrow> ''set for all latest observed enforcing TIDs''
        | Some False \<Rightarrow>
            if dom_lifecycle d = Allocated
            then ''WARNING: missing no_new_privs means privilege gain is possible''
            else ''historical observation: missing no_new_privs; privilege gain was possible''))"

definition domain_fields :: "domain_id \<Rightarrow> domain_state \<Rightarrow> field list" where
  "domain_fields i d =
     [(ascii ''Domain: '', ascii (display_domain_id i)),
      (ascii ''Status: '', ascii (lifecycle_text (dom_lifecycle d))),
      (ascii ''Parent: '', ascii (format_parent d)),
      (ascii ''Ruleset: '', ascii (case dom_ruleset d of None \<Rightarrow> ''?'' | Some v \<Rightarrow> display_ruleset_version v)),
      (ascii ''Created: '', timestamp_text (dom_creation_timestamp d)),
      (ascii ''Observed enforcing TIDs: '', ascii (dec (enforcement_event_count d))),
      no_new_privs_field d] @
     (if domain_ruleset d \<noteq> None then [([], ascii ''[Enter] View ruleset'')] else [])"

definition peer_fields :: "event \<Rightarrow> field list" where
  "peer_fields e =
     (case e of
        DenyScopeAbstractUnixSocket ev \<Rightarrow>
          [(ascii ''Latest peer PID: '',
            ascii (case du_peer_pid ev of None \<Rightarrow> ''unknown'' | Some p \<Rightarrow> dec (unat (pid_get p))))]
      | _ \<Rightarrow> [])"

definition denial_detail :: "tui_env \<Rightarrow> denial_key \<Rightarrow> aggregated_denial \<Rightarrow> field list" where
  "denial_detail env key e =
     [(ascii ''Domain: '', ascii (display_domain_id (denial_key_domain_id key))),
      (ascii ''Blocked: '', blockers_of e),
      (ascii ''Target: '', target_of env e)] @
     peer_fields (ag_latest_event e) @
     [(ascii ''Count: '', ascii (dec (unat (ag_occurrence_count e)))),
      (ascii ''First seen: '', timestamp_ns (ag_first_timestamp e)),
      (ascii ''Latest seen: '', timestamp_ns (ag_latest_timestamp e)),
      (ascii ''same_exec: '', ascii (if ag_same_exec e then ''true'' else ''false'')),
      (ascii ''Logged: '', fst (visibility (ag_logged e)) @ [32] @ snd (visibility (ag_logged e)))]"

definition label_le :: "ustring \<times> 'a \<Rightarrow> ustring \<times> 'a \<Rightarrow> bool" where
  "label_le a b \<longleftrightarrow> text_le (fst a) (fst b)"

definition filesystem_rule_fields :: "tui_env \<Rightarrow> filesystem_rule_state list \<Rightarrow> field list" where
  "filesystem_rule_fields env rules =
     (let groups = group_by fst (map (\<lambda>r. (filesystem_rights (fsr_access_rights r),
            display_text env pathname_consts (fsr_pathname r))) rules)
      in concat (map (\<lambda>(allowed, objects).
           (ascii ''FS: '', allowed) # map (\<lambda>o'. (ascii ''    '', o')) (sort_by text_le (map snd objects)))
         (sort_by label_le groups)))"

definition network_rule_fields :: "network_rule_state list \<Rightarrow> field list" where
  "network_rule_fields rules =
     (let groups = group_by fst (map (\<lambda>r. (network_rights (nr_access_rights r), nr_port r)) rules)
      in concat (map (\<lambda>(allowed, objects).
           (ascii ''Net: '', allowed) #
             map (\<lambda>o'. (ascii ''    '', ascii (''port '' @ dec (unat o')))) (sort (map snd objects)))
         (sort_by label_le groups)))"

definition ruleset_fields :: "tui_env \<Rightarrow> ruleset_id \<Rightarrow> ruleset_state \<Rightarrow> field list" where
  "ruleset_fields env i r =
     [(ascii ''Ruleset: '', ascii (display_ruleset_version
          \<lparr>rv_ruleset_id = i, rv_ruleset_version = rs_max_observed_version r\<rparr>)),
      (ascii ''Status: '', ascii (lifecycle_text (rs_lifecycle r))),
      (ascii ''Handled FS: '', case rs_handled_fs r of None \<Rightarrow> ascii ''?'' | Some v \<Rightarrow> filesystem_rights v),
      (ascii ''Handled Net: '', case rs_handled_net r of None \<Rightarrow> ascii ''?'' | Some v \<Rightarrow> network_rights v),
      (ascii ''Scoped: '', case rs_scoped r of None \<Rightarrow> ascii ''?'' | Some v \<Rightarrow> scope_rights v)] @
     filesystem_rule_fields env (hm_values (rs_filesystem_rules r)) @
     network_rule_fields (hm_values (rs_network_rules r))"

definition detail_fields :: "tui_env \<Rightarrow> observation_model \<Rightarrow> row_kind option \<Rightarrow> field list" where
  "detail_fields env m selected =
     (case selected of
        Some (RowDomain i) \<Rightarrow> (case domain (om_state m) i of Some d \<Rightarrow> domain_fields i d | None \<Rightarrow> [])
      | Some (RowDenialDomain i) \<Rightarrow> (case domain (om_state m) i of Some d \<Rightarrow> domain_fields i d | None \<Rightarrow> [])
      | Some (RowDenial key) \<Rightarrow> (case model_denial m key of Some e \<Rightarrow> denial_detail env key e | None \<Rightarrow> [])
      | Some (RowRuleset i) \<Rightarrow> (case ruleset (om_state m) i of Some r \<Rightarrow> ruleset_fields env i r | None \<Rightarrow> [])
      | _ \<Rightarrow> [])"

text \<open>One field as lines: the label and the first part, then the indented parts.\<close>

definition field_lines :: "tui_env \<Rightarrow> nat \<Rightarrow> field \<Rightarrow> ustring list" where
  "field_lines env width f =
     (let n = length (fst f); indent = min (n + 4) (width - 1)
      in case wrap (te_width env) (snd f) (width - n) (width - indent) of
           [] \<Rightarrow> []
         | part # parts \<Rightarrow> (fst f @ part) # map (\<lambda>p. replicate indent 32 @ p) parts)"

definition detail_lines :: "tui_env \<Rightarrow> observation_model \<Rightarrow> row_kind option \<Rightarrow> nat \<Rightarrow> ustring list" where
  "detail_lines env m selected width =
     (let fields = detail_fields env m selected
      in if fields = [] then [ascii ''Selection no longer retained'']
         else concat (map (field_lines env width) fields))"

definition stats_labels :: "string list" where
  "stats_labels = [''Filesystem'', ''Network'', ''Ptrace'', ''Signal'', ''Abstract Unix'']"

definition stats_lines :: "observation_model \<Rightarrow> ustring list" where
  "stats_lines m =
     [ascii (''Observed denials: '' @ dec (unat (ts_total (om_stats m))))] @
     map (\<lambda>(l, v). ascii (''  '' @ l @ '': '' @ dec (unat v))) (zip stats_labels (ts_by_kind (om_stats m))) @
     [[],
      ascii (''Domains: '' @ dec (allocated_domains m) @ '' allocated / '' @
        dec (domain_count (om_state m)) @ '' observed''),
      ascii (''Rulesets: '' @ dec (allocated_rulesets m) @ '' allocated / '' @
        dec (ruleset_count (om_state m)) @ '' observed''),
      ascii (''Latest event: '' @ dec (unat (as_nanoseconds (om_latest_seen m))) @ ''ns'')]"

definition status_line :: "bool \<Rightarrow> string option \<Rightarrow> observation_model \<Rightarrow> string" where
  "status_line paused warning m =
     '' '' @ dec (domain_count (om_state m)) @ '' domains ('' @ dec (allocated_domains m) @
     '' allocated) | '' @ dec (unat (ts_total (om_stats m))) @ '' denials'' @
     (if paused then '' | PAUSED'' else '''') @
     (if list_ex (\<lambda>d. dom_lifecycle d = Allocated \<and> no_new_privs d = Some False)
           (hm_values (st_domains (om_state m)))
      then '' | WARNING: missing no_new_privs means privilege gain is possible'' else '''') @
     (case warning of Some w \<Rightarrow> '' | COLLECTOR WARNING: '' @ w | None \<Rightarrow> '''')"

end
