(* ===== verification/Tui_App.thy ===== *)
theory Tui_App
  imports Tui_Detail
begin

text \<open>
  The application state of the interactive mode (\<open>App\<close> of \<open>lltop/src/tui/ui.rs\<close>), its drawing and its
  reaction to keys and the mouse (\<open>lltop/src/tui/mod.rs\<close>). Screen coordinates are 16-bit words with
  the checked and saturating operations of the source; the layout engine of the terminal library,
  which splits an area into smaller ones, is a parameter. Drawing returns the updated application
  state and the texts it puts on the screen.
\<close>

subsection \<open>Screen arithmetic\<close>

definition u16_checked_add :: "u16 \<Rightarrow> u16 \<Rightarrow> u16 option" where
  "u16_checked_add a b = (if unat a + unat b < 2 ^ 16 then Some (a + b) else None)"

definition u16_checked_sub :: "u16 \<Rightarrow> u16 \<Rightarrow> u16 option" where
  "u16_checked_sub a b = (if b \<le> a then Some (a - b) else None)"

definition usize_saturating_mul :: "nat \<Rightarrow> nat \<Rightarrow> nat" where
  "usize_saturating_mul a b = min (a * b) usize_max"

record rect =
  rx :: u16
  ry :: u16
  rwidth :: u16
  rheight :: u16

definition rect_default :: rect where
  "rect_default = \<lparr>rx = 0, ry = 0, rwidth = 0, rheight = 0\<rparr>"

subsection \<open>The application state\<close>

datatype tab = TabDomains | TabDenials | TabRulesets | TabStats

definition tab_ALL :: "tab list" where
  "tab_ALL = [TabDomains, TabDenials, TabRulesets, TabStats]"

fun tab_title :: "tab \<Rightarrow> string" where
  "tab_title TabDomains = ''Domains [1]''"
| "tab_title TabDenials = ''Denials [2]''"
| "tab_title TabRulesets = ''Rulesets [3]''"
| "tab_title TabStats = ''Stats [4]''"

fun tab_index :: "tab \<Rightarrow> nat" where
  "tab_index TabDomains = 0"
| "tab_index TabDenials = 1"
| "tab_index TabRulesets = 2"
| "tab_index TabStats = 3"

record hit_map =
  hit_tabs :: rect
  hit_list :: rect
  hit_rows :: "row_kind list"
  hit_header_rows :: u16

definition hit_default :: hit_map where
  "hit_default = \<lparr>hit_tabs = rect_default, hit_list = rect_default, hit_rows = [], hit_header_rows = 0\<rparr>"

record app =
  app_tab :: tab
  app_paused :: bool
  app_collector_warning :: "string option"
  app_selected :: "row_kind option"
  app_detail :: bool
  app_scroll :: nat
  app_follow_selection :: bool
  app_dragging_scrollbar :: bool
  app_hit :: hit_map

definition app_new :: app where
  "app_new = \<lparr>app_tab = TabDomains, app_paused = False, app_collector_warning = None,
     app_selected = None, app_detail = False, app_scroll = 0, app_follow_selection = True,
     app_dragging_scrollbar = False, app_hit = hit_default\<rparr>"

definition set_collector_warning :: "app \<Rightarrow> string \<Rightarrow> app" where
  "set_collector_warning a w = a\<lparr>app_collector_warning := Some w\<rparr>"

definition close_detail :: "app \<Rightarrow> app" where
  "close_detail a = a\<lparr>app_detail := False\<rparr>"

definition set_tab :: "app \<Rightarrow> tab \<Rightarrow> app" where
  "set_tab a t = a\<lparr>app_tab := t, app_selected := None, app_detail := False, app_scroll := 0,
     app_follow_selection := True\<rparr>"

definition cycle_tab :: "app \<Rightarrow> app" where
  "cycle_tab a = set_tab a
     (case app_tab a of
        TabDomains \<Rightarrow> TabDenials
      | TabDenials \<Rightarrow> TabRulesets
      | TabRulesets \<Rightarrow> TabStats
      | TabStats \<Rightarrow> TabDomains)"

definition scroll_by :: "app \<Rightarrow> int \<Rightarrow> app" where
  "scroll_by a delta = a\<lparr>app_follow_selection := False,
     app_scroll := (if delta < 0 then app_scroll a - nat (- delta)
                    else usize_saturating_add (app_scroll a) (nat delta))\<rparr>"

definition scroll_to :: "app \<Rightarrow> nat \<Rightarrow> app" where
  "scroll_to a s = a\<lparr>app_follow_selection := False, app_scroll := s\<rparr>"

text \<open>The rows that can be selected, each with the index of its first line.\<close>

definition push_selectable :: "(nat \<times> row_kind) list \<Rightarrow> nat \<times> row_kind \<Rightarrow> (nat \<times> row_kind) list" where
  "push_selectable acc r =
     (if selectable (snd r) \<and> (acc = [] \<or> snd (last acc) \<noteq> snd r) then acc @ [r] else acc)"

definition selectable_rows :: "row_kind list \<Rightarrow> (nat \<times> row_kind) list" where
  "selectable_rows rows = foldl push_selectable [] (enumerate 0 rows)"

definition next_selection :: "nat option \<Rightarrow> int \<Rightarrow> nat \<Rightarrow> nat" where
  "next_selection current delta final =
     (case current of
        None \<Rightarrow> if delta < 0 then final else 0
      | Some i \<Rightarrow> if delta < 0 then i - 1 else min (usize_saturating_add i 1) final)"

definition move_selection :: "app \<Rightarrow> int \<Rightarrow> app" where
  "move_selection a delta =
     (let a = a\<lparr>app_follow_selection := True\<rparr>;
          rows = selectable_rows (hit_rows (app_hit a));
          current = Option.bind (app_selected a) (\<lambda>s. position (\<lambda>r. snd r = s) rows)
      in if rows = [] then a
         else case slice_get rows (next_selection current delta (length rows - 1)) of
                Some r \<Rightarrow> a\<lparr>app_selected := Some (snd r), app_detail := True\<rparr>
              | None \<Rightarrow> a)"

definition viewport_scroll :: "nat \<Rightarrow> nat \<Rightarrow> nat \<Rightarrow> nat option \<Rightarrow> bool \<Rightarrow> nat" where
  "viewport_scroll scroll row_count visible selected_index follow_selection =
     (let scroll = min scroll (row_count - visible)
      in if \<not> follow_selection then scroll
         else case selected_index of
                Some i \<Rightarrow>
                  if i < scroll then i
                  else if i \<ge> usize_saturating_add scroll visible then usize_saturating_add i 1 - visible
                  else scroll
              | None \<Rightarrow> scroll)"

definition adjust_viewport :: "app \<Rightarrow> nat \<Rightarrow> nat \<Rightarrow> nat option \<Rightarrow> app" where
  "adjust_viewport a row_count visible selected_index = a\<lparr>app_scroll :=
     viewport_scroll (app_scroll a) row_count visible selected_index (app_follow_selection a)\<rparr>"

subsection \<open>Drawing\<close>

text \<open>One row of the list, folded at the content width.\<close>

definition wrap_row :: "tui_env \<Rightarrow> nat \<Rightarrow> display_row \<Rightarrow> display_row list" where
  "wrap_row env content_width row =
     (let content_start = length (takeWhile (\<lambda>c. c = 32) (dr_text row));
          indent = (case dr_continuation_indent row of Some n \<Rightarrow> n | None \<Rightarrow> usize_saturating_add content_start 4);
          continuation = min indent (content_width - 1)
      in case wrap (te_width env) (dr_text row) content_width (content_width - continuation) of
           [] \<Rightarrow> []
         | t # ts \<Rightarrow> row\<lparr>dr_text := t\<rparr> # map (\<lambda>t. row\<lparr>dr_text := replicate continuation 32 @ t\<rparr>) ts)"

definition wrap_rows :: "tui_env \<Rightarrow> rect \<Rightarrow> display_row list \<Rightarrow> display_row list" where
  "wrap_rows env area rows = concat (map (wrap_row env (unat (saturating_sub (rwidth area) 2))) rows)"

definition visible_rows :: "rect \<Rightarrow> nat" where
  "visible_rows area = unat (saturating_sub (rheight area) 2)"

definition draw_list :: "tui_env \<Rightarrow> rect \<Rightarrow> app \<Rightarrow> display_row list \<Rightarrow> app \<times> ustring list" where
  "draw_list env area a rows =
     (let rows = wrap_rows env area rows;
          visible = visible_rows area;
          selected_index = Option.bind (app_selected a) (\<lambda>s. position (\<lambda>r. dr_kind r = s) rows);
          a = adjust_viewport a (length rows) visible selected_index;
          a = a\<lparr>app_hit := (app_hit a)\<lparr>hit_list := area, hit_header_rows := 1, hit_rows := map dr_kind rows\<rparr>\<rparr>
      in (a, map dr_text (take visible (drop (app_scroll a) rows))))"

record tui_layout =
  tl_vertical :: "rect \<Rightarrow> rect list"
  tl_panes :: "rect \<Rightarrow> rect list"

fun vertical_areas :: "rect list \<Rightarrow> (rect \<times> rect \<times> rect) option" where
  "vertical_areas (tabs # main # footer # _) = Some (tabs, main, footer)"
| "vertical_areas _ = None"

fun pane_areas :: "rect list \<Rightarrow> (rect \<times> rect option) option" where
  "pane_areas (list # detail # _) = Some (list, Some detail)"
| "pane_areas [list] = Some (list, None)"
| "pane_areas [] = None"

record frame =
  fr_tab :: nat
  fr_status :: string
  fr_list :: "ustring list"
  fr_detail :: "ustring list option"

definition tab_rows :: "tui_env \<Rightarrow> observation_model \<Rightarrow> tab \<Rightarrow> display_row list" where
  "tab_rows env m t =
     (case t of
        TabDomains \<Rightarrow> domain_rows env m
      | TabDenials \<Rightarrow> denial_rows env m
      | TabRulesets \<Rightarrow> ruleset_rows m
      | TabStats \<Rightarrow> [])"

definition draw :: "tui_layout \<Rightarrow> tui_env \<Rightarrow> rect \<Rightarrow> app \<Rightarrow> observation_model \<Rightarrow> app \<times> frame" where
  "draw layout env area a m =
     (let (tabs_area, main_area, footer_area) =
            (case vertical_areas (tl_vertical layout area) of
               Some areas \<Rightarrow> areas | None \<Rightarrow> (rect_default, rect_default, rect_default));
          a = a\<lparr>app_hit := (app_hit a)\<lparr>hit_tabs := tabs_area\<rparr>\<rparr>;
          status = status_line (app_paused a) (app_collector_warning a) m;
          panes = (if app_detail a \<and> app_tab a \<noteq> TabStats then tl_panes layout main_area else [main_area]);
          (list_area, detail_area) = (case pane_areas panes of Some p \<Rightarrow> p | None \<Rightarrow> (rect_default, None));
          rows = tab_rows env m (app_tab a)
      in if app_tab a = TabStats
         then (a\<lparr>app_hit := hit_default\<lparr>hit_tabs := tabs_area\<rparr>\<rparr>,
               \<lparr>fr_tab = tab_index (app_tab a), fr_status = status, fr_list = stats_lines m, fr_detail = None\<rparr>)
         else let (a, lines) = draw_list env list_area a rows
              in (a, \<lparr>fr_tab = tab_index (app_tab a), fr_status = status, fr_list = lines,
                      fr_detail = map_option (\<lambda>d. detail_lines env m (app_selected a)
                        (unat (saturating_sub (rwidth d) 2))) detail_area\<rparr>))"

subsection \<open>Mouse\<close>

fun tab_at :: "nat \<Rightarrow> nat \<Rightarrow> tab list \<Rightarrow> tab option" where
  "tab_at relative start [] = None"
| "tab_at relative start (t # ts) =
     (let stop = start + length (tab_title t) + 2
      in if start \<le> relative \<and> relative < stop then Some t else tab_at relative (stop + 1) ts)"

definition clicked_tab :: "rect \<Rightarrow> u16 \<Rightarrow> u16 \<Rightarrow> tab option" where
  "clicked_tab area column row =
     (case u16_checked_add (ry area) 1 of
        None \<Rightarrow> None
      | Some y \<Rightarrow>
          if row \<noteq> y \<or> column \<le> rx area then None
          else case Option.bind (u16_checked_sub column (rx area)) (\<lambda>d. u16_checked_sub d 1) of
                 None \<Rightarrow> None
               | Some relative \<Rightarrow> tab_at (unat relative) 0 tab_ALL)"

definition scrollbar_hit :: "rect \<Rightarrow> u16 \<Rightarrow> u16 \<Rightarrow> bool" where
  "scrollbar_hit area column row =
     (if rwidth area = 0 then False
      else case (u16_checked_add (rx area) (saturating_sub (rwidth area) 1),
                 u16_checked_add (ry area) (saturating_sub (rheight area) 1)) of
             (Some scrollbar_column, Some scrollbar_bottom) \<Rightarrow>
               scrollbar_column = column \<and> ry area < row \<and> row < scrollbar_bottom
           | _ \<Rightarrow> False)"

definition click_row :: "app \<Rightarrow> u16 \<Rightarrow> u16 \<Rightarrow> app" where
  "click_row a column row =
     (let area = hit_list (app_hit a)
      in case (u16_checked_add (rx area) (rwidth area),
               u16_checked_add (ry area) (saturating_sub (rheight area) 1)) of
           (Some right, Some bottom) \<Rightarrow>
             if column < rx area \<or> column \<ge> right \<or> row \<le> ry area \<or> row \<ge> bottom then a
             else (case Option.bind (u16_checked_sub row (ry area))
                        (\<lambda>offset. u16_checked_sub offset (hit_header_rows (app_hit a))) of
                     None \<Rightarrow> a
                   | Some visible \<Rightarrow>
                       (case slice_get (hit_rows (app_hit a)) (usize_saturating_add (app_scroll a) (unat visible)) of
                          Some kind \<Rightarrow>
                            if kind = RowHeading then a
                            else a\<lparr>app_selected := Some kind, app_detail := True\<rparr>
                        | None \<Rightarrow> a))
         | _ \<Rightarrow> a)"

definition drag_scrollbar :: "app \<Rightarrow> u16 \<Rightarrow> app" where
  "drag_scrollbar a row =
     (let height = max (saturating_sub (rheight (hit_list (app_hit a))) 2) 1
      in case u16_checked_add (ry (hit_list (app_hit a))) 1 of
           None \<Rightarrow> scroll_to a 0
         | Some track_start \<Rightarrow>
             let relative = min (saturating_sub row track_start) (saturating_sub height 1);
                 max_scroll = length (hit_rows (app_hit a)) - unat height
             in scroll_to a (usize_saturating_mul (unat relative) max_scroll div
                   unat (max (saturating_sub height 1) 1)))"

subsection \<open>Input\<close>

definition follow_domain :: "app \<Rightarrow> observation_model \<Rightarrow> app" where
  "follow_domain a m =
     (case (case app_selected a of
              Some (RowDomain i) \<Rightarrow> Some i
            | Some (RowDenialDomain i) \<Rightarrow> Some i
            | _ \<Rightarrow> None) of
        None \<Rightarrow> a
      | Some i \<Rightarrow>
          (case Option.bind (domain (om_state m) i) domain_ruleset of
             None \<Rightarrow> a
           | Some r \<Rightarrow> (set_tab a TabRulesets)\<lparr>app_selected := Some (RowRuleset r), app_detail := True\<rparr>))"

definition WHEEL_SCROLL_ROWS :: int where "WHEEL_SCROLL_ROWS = 3"

datatype key_code = KeyChar char | KeyEsc | KeyTab | KeyUp | KeyDown | KeyEnter | KeyOther

datatype mouse_kind = MouseScrollUp | MouseScrollDown | MouseLeftDown | MouseLeftDrag | MouseLeftUp | MouseOther

datatype terminal_event = KeyPress key_code | KeyNotPress | MouseInput mouse_kind u16 u16 | OtherInput

text \<open>\<open>None\<close> is the \<open>break\<close> that ends the loop.\<close>

fun handle_key :: "observation_model \<Rightarrow> app \<Rightarrow> key_code \<Rightarrow> app option" where
  "handle_key m a (KeyChar c) =
     (if c = CHR ''q'' then None
      else if c = CHR ''1'' then Some (set_tab a TabDomains)
      else if c = CHR ''2'' then Some (set_tab a TabDenials)
      else if c = CHR ''3'' then Some (set_tab a TabRulesets)
      else if c = CHR ''4'' then Some (set_tab a TabStats)
      else if c = CHR ''p'' then Some (a\<lparr>app_paused := \<not> app_paused a\<rparr>)
      else Some a)"
| "handle_key m a KeyEsc = (if app_detail a then Some (close_detail a) else None)"
| "handle_key m a KeyTab = Some (cycle_tab a)"
| "handle_key m a KeyUp = Some (move_selection a (- 1))"
| "handle_key m a KeyDown = Some (move_selection a 1)"
| "handle_key m a KeyEnter = Some (follow_domain a m)"
| "handle_key m a KeyOther = Some a"

definition left_down :: "app \<Rightarrow> u16 \<Rightarrow> u16 \<Rightarrow> app" where
  "left_down a column row =
     (case clicked_tab (hit_tabs (app_hit a)) column row of
        Some t \<Rightarrow> set_tab a t
      | None \<Rightarrow>
          if scrollbar_hit (hit_list (app_hit a)) column row
          then drag_scrollbar (a\<lparr>app_dragging_scrollbar := True\<rparr>) row
          else click_row a column row)"

fun handle_mouse :: "app \<Rightarrow> mouse_kind \<Rightarrow> u16 \<Rightarrow> u16 \<Rightarrow> app" where
  "handle_mouse a MouseScrollUp column row = scroll_by a (- WHEEL_SCROLL_ROWS)"
| "handle_mouse a MouseScrollDown column row = scroll_by a WHEEL_SCROLL_ROWS"
| "handle_mouse a MouseLeftDown column row = left_down a column row"
| "handle_mouse a MouseLeftDrag column row = (if app_dragging_scrollbar a then drag_scrollbar a row else a)"
| "handle_mouse a MouseLeftUp column row = a\<lparr>app_dragging_scrollbar := False\<rparr>"
| "handle_mouse a MouseOther column row = a"

fun handle_input :: "observation_model \<Rightarrow> app \<Rightarrow> terminal_event \<Rightarrow> app option" where
  "handle_input m a (KeyPress k) = handle_key m a k"
| "handle_input m a KeyNotPress = Some a"
| "handle_input m a (MouseInput kind column row) = Some (handle_mouse a kind column row)"
| "handle_input m a OtherInput = Some a"

end
