(* ===== verification/Diagnostics.thy ===== *)
theory Diagnostics
  imports Collector Prepare Aggregate Text_Format
begin

text \<open>
  The \<open>Display\<close> implementations of the library's errors, which \<open>lltop\<close> prints. The texts of errors that
  come from other crates are parameters: \<open>show_poll\<close> and \<open>show_bpf\<close> for libbpf, \<open>show_io\<close> and \<open>show_errno\<close>
  for the operating system.
\<close>

fun display_captured_bytes_error :: "captured_bytes_error \<Rightarrow> string" where
  "display_captured_bytes_error (InteriorNul p) = ''captured bytes contain a NUL at position '' @ dec p"
| "display_captured_bytes_error (TooLong n maximum) =
     ''captured byte length '' @ dec n @ '' exceeds the maximum '' @ dec maximum"
| "display_captured_bytes_error OmissionNotSupported = ''this captured-byte origin cannot omit source bytes''"
| "display_captured_bytes_error (OmissionRequiresFullCapacity n capacity) =
     ''omitted source bytes require a full '' @ dec capacity @ ''-byte capture, but length is '' @ dec n"

fun display_decode_error :: "decode_error \<Rightarrow> string" where
  "display_decode_error (LengthError expected actual) =
     ''invalid event record length '' @ dec actual @ '', expected '' @ dec expected"
| "display_decode_error (BooleanError field v) = ''invalid boolean '' @ field @ '': '' @ dec (unat v)"
| "display_decode_error (CapturedBytesError field source) =
     ''invalid captured bytes for '' @ field @ '': '' @ display_captured_bytes_error source"
| "display_decode_error (AbstractUnixSocketNameLengthError v maximum) =
     ''invalid abstract UNIX socket name length '' @ dec (unat v) @ '', maximum is '' @ dec maximum"
| "display_decode_error (IdError field v) = ''invalid Landlock ID '' @ field @ '': '' @ dec (unat v)"
| "display_decode_error (TaskIdError field) = ''invalid task ID '' @ field @ '': 0''"
| "display_decode_error (EventKindError v) = ''unrecognized event kind '' @ dec (unat v)"
| "display_decode_error (FieldError field) = ''invalid field '' @ field"

definition display_worker_panic :: "string option \<Rightarrow> string" where
  "display_worker_panic payload =
     (case payload of
        Some m \<Rightarrow> ''collector worker panicked: '' @ m
      | None \<Rightarrow> ''collector worker panicked with an opaque payload'')"

fun display_error_detail :: "('p \<Rightarrow> string) \<Rightarrow> 'p error_detail \<Rightarrow> string" where
  "display_error_detail show_poll (DecodeSource er) = display_decode_error er"
| "display_error_detail show_poll (PollSource er) = show_poll er"
| "display_error_detail show_poll (PanicSource m) = display_worker_panic m"
| "display_error_detail show_poll (StaticDetail t) = t"

fun receive_description :: "receive_error_kind \<Rightarrow> string" where
  "receive_description MalformedSample = ''decode BPF event sample''"
| "receive_description OutputQueueFull = ''deliver entries through the full output queue''"
| "receive_description PollFailure = ''poll BPF ring buffer''"
| "receive_description WorkerPanic = ''receive from collector worker''"
| "receive_description WorkerStop = ''receive from the stopped collector worker''"

definition display_receive_error :: "('p \<Rightarrow> string) \<Rightarrow> 'p receive_error \<Rightarrow> string" where
  "display_receive_error show_poll er =
     ''failed to '' @ receive_description (re_kind er) @ '': '' @ display_error_detail show_poll (re_detail er)"

fun display_privilege_error :: "('io \<Rightarrow> string) \<Rightarrow> ('n \<Rightarrow> string) \<Rightarrow> ('io, 'n) privilege_error \<Rightarrow> string" where
  "display_privilege_error show_io show_errno (PrivilegeError k d) =
     ''failed to manage collector privileges: '' @
     (case d of
        Message t \<Rightarrow> t
      | Io operation source \<Rightarrow> operation @ '': '' @ show_io source
      | Errno operation source \<Rightarrow> operation @ '': '' @ show_errno source)"

fun prepare_description :: "prepare_error_kind \<Rightarrow> string" where
  "prepare_description UnsupportedKernel = ''load a supported Landlock tracing interface''"
| "prepare_description OpenStage = ''open embedded BPF object''"
| "prepare_description LoadStage = ''load BPF object''"
| "prepare_description AttachStage = ''attach BPF programs''"
| "prepare_description RingSetup = ''set up BPF ring buffer''"
| "prepare_description PrivilegeStage = ''finalize collector privileges''"

definition display_prepare_error ::
  "('e \<Rightarrow> string) \<Rightarrow> ('io \<Rightarrow> string) \<Rightarrow> ('n \<Rightarrow> string) \<Rightarrow> ('e, 'io, 'n) prepare_error \<Rightarrow> string" where
  "display_prepare_error show_bpf show_io show_errno er =
     ''failed to '' @ prepare_description (pr_kind er) @ '': '' @
     (case pr_detail er of
        BpfSource e \<Rightarrow> show_bpf e
      | NoEventsMap \<Rightarrow> ''embedded BPF object has no events map''
      | PrivilegeSource e \<Rightarrow> display_privilege_error show_io show_errno e)"

fun display_config_error :: "collector_config_error \<Rightarrow> string" where
  "display_config_error (InvalidEventCapacity configured) =
     ''collector event capacity '' @ dec configured @ '' is outside the supported range '' @
     dec MIN_EVENT_CAPACITY @ ''..='' @ dec MAX_EVENT_CAPACITY"

fun display_invalid_landlock_id :: "invalid_landlock_id_error \<Rightarrow> string" where
  "display_invalid_landlock_id (InvalidLandlockIdError v) =
     ''invalid Landlock ID '' @ dec (unat v) @ '', expected at least '' @ dec (unat MIN_LANDLOCK_ID)"

fun display_invalid_task_id :: "invalid_task_id_error \<Rightarrow> string" where
  "display_invalid_task_id (InvalidTaskIdError v) =
     ''invalid Linux task ID '' @ dec (unat v) @ '', expected a nonzero value''"

text \<open>\<open>Display\<close> of the aggregator's build error; \<open>show_reserve\<close> renders the allocator's error.\<close>

definition display_aggregator_build_error :: "('e \<Rightarrow> string) \<Rightarrow> 'e build_error \<Rightarrow> string" where
  "display_aggregator_build_error show_reserve e =
     (case be_source e of
        Some source \<Rightarrow> ''failed to reserve denial aggregation capacity '' @ dec (be_configured e) @
          '': '' @ show_reserve source
      | None \<Rightarrow> ''denial aggregation capacity must be nonzero'')"

end
