(* ===== verification/Tui_Loop.thy ===== *)
theory Tui_Loop
  imports Tui_App Diagnostics
begin

text \<open>
  The loop of the interactive mode (\<open>lltop/src/tui/mod.rs\<close>) and the terminal session around it
  (\<open>lltop/src/tui/terminal.rs\<close>). The collector and the terminal are parameters that act on a world
  \<open>'w\<close>. The loop ends only when the user quits or a call fails, and draining the ready events loops while
  recoverable errors arrive, so both are partial functions: \<open>None\<close> is a loop that does not return.
\<close>

subsection \<open>Collector errors\<close>

text \<open>\<open>ReceiveTimeoutError\<close> and \<open>TryReceiveError\<close>: no entry is ready, or the next entry is an error.\<close>

datatype 'p poll_error = NoEntry | CollectorError "'p receive_error"

type_synonym 'p received = "'p poll_error + event"

fun received_of :: "'p outcome \<Rightarrow> 'p received" where
  "received_of (Delivered (Inr e)) = Inr e"
| "received_of (Delivered (Inl er)) = Inl (CollectorError er)"
| "received_of (Terminal er) = Inl (CollectorError er)"
| "received_of NotReady = Inl NoEntry"

text \<open>The events among the results of some calls.\<close>

definition events_of :: "'p received list \<Rightarrow> event list" where
  "events_of rs = List.map_filter (\<lambda>r. case r of Inr e \<Rightarrow> Some e | Inl _ \<Rightarrow> None) rs"

lemma events_of_simps [simp]:
  "events_of [] = []" "events_of (Inr e # rs) = e # events_of rs" "events_of (Inl er # rs) = events_of rs"
  "events_of (rs @ rs') = events_of rs @ events_of rs'"
  by (simp_all add: events_of_def map_filter_def)

fun source_kind :: "'p poll_error \<Rightarrow> receive_error_kind option" where
  "source_kind NoEntry = None"
| "source_kind (CollectorError er) = Some (re_kind er)"

definition recoverable_collector_error :: "receive_error_kind option \<Rightarrow> bool" where
  "recoverable_collector_error k \<longleftrightarrow> k = Some OutputQueueFull \<or> k = Some MalformedSample"

fun display_poll_error :: "('p \<Rightarrow> string) \<Rightarrow> 'p poll_error \<Rightarrow> string" where
  "display_poll_error show_poll NoEntry = ''collector output queue is empty''"
| "display_poll_error show_poll (CollectorError er) = display_receive_error show_poll er"

definition handle_collector_error :: "('p \<Rightarrow> string) \<Rightarrow> app \<Rightarrow> 'p poll_error \<Rightarrow> 'p poll_error + app" where
  "handle_collector_error show_poll a er =
     (if recoverable_collector_error (source_kind er)
      then Inr (set_collector_warning a (display_poll_error show_poll er)) else Inl er)"

definition MAX_READY_EVENTS_PER_CYCLE :: nat where "MAX_READY_EVENTS_PER_CYCLE = 1024"

partial_function (option) drain_loop ::
  "('p \<Rightarrow> string) \<Rightarrow> ('w \<Rightarrow> 'w \<times> 'p received) \<Rightarrow> 'w \<Rightarrow> app \<Rightarrow> observation_model \<Rightarrow> nat \<Rightarrow>
     ('w \<times> ('p poll_error + app \<times> observation_model \<times> nat)) option" where
  "drain_loop show_poll receive w a m n =
     (if n < MAX_READY_EVENTS_PER_CYCLE
      then case receive w of (w', r) \<Rightarrow>
             (case r of
                Inr ev \<Rightarrow> drain_loop show_poll receive w' a (model_observe m ev) (n + 1)
              | Inl NoEntry \<Rightarrow> Some (w', Inr (a, m, n))
              | Inl (CollectorError er) \<Rightarrow>
                  (case handle_collector_error show_poll a (CollectorError er) of
                     Inl er' \<Rightarrow> Some (w', Inl er')
                   | Inr a' \<Rightarrow> drain_loop show_poll receive w' a' m n))
      else Some (w, Inr (a, m, n)))"

definition drain_ready_events ::
  "('p \<Rightarrow> string) \<Rightarrow> ('w \<Rightarrow> 'w \<times> 'p received) \<Rightarrow> 'w \<Rightarrow> app \<Rightarrow> observation_model \<Rightarrow>
     ('w \<times> ('p poll_error + app \<times> observation_model \<times> nat)) option" where
  "drain_ready_events show_poll receive w a m = drain_loop show_poll receive w a m 0"

subsection \<open>The terminal session\<close>

datatype terminal_op =
  EnableRaw | DisableRaw | EnterAlternate | LeaveAlternate | EnableMouse | DisableMouse

record ('w, 'p, 'io) tui_io =
  ti_recv_timeout :: "'w \<Rightarrow> 'w \<times> 'p received"
  ti_try_recv :: "'w \<Rightarrow> 'w \<times> 'p received"
  ti_terminal :: "'w \<Rightarrow> terminal_op \<Rightarrow> 'w \<times> ('io + unit)"
  ti_new :: "'w \<Rightarrow> 'w \<times> ('io + unit)"
  ti_area :: "'w \<Rightarrow> 'w \<times> ('io + rect)"
  ti_flush :: "'w \<Rightarrow> frame \<Rightarrow> 'w \<times> ('io + unit)"
  ti_poll :: "'w \<Rightarrow> 'w \<times> ('io + bool)"
  ti_read :: "'w \<Rightarrow> 'w \<times> ('io + terminal_event)"

record session =
  se_raw :: bool
  se_alternate :: bool
  se_mouse :: bool

text \<open>The operations that were attempted, each with its success.\<close>

type_synonym terminal_trace = "(terminal_op \<times> bool) list"

definition enter :: "('w, 'p, 'io) tui_io \<Rightarrow> 'w \<Rightarrow> 'w \<times> terminal_trace \<times> session \<times> ('io + unit)" where
  "enter io w =
     (case ti_terminal io w EnableRaw of
        (w, Inl er) \<Rightarrow> (w, [(EnableRaw, False)], \<lparr>se_raw = False, se_alternate = False, se_mouse = False\<rparr>, Inl er)
      | (w, Inr _) \<Rightarrow>
          (case ti_terminal io w EnterAlternate of
             (w, Inl er) \<Rightarrow> (w, [(EnableRaw, True), (EnterAlternate, False)],
               \<lparr>se_raw = True, se_alternate = True, se_mouse = False\<rparr>, Inl er)
           | (w, Inr _) \<Rightarrow>
               (case ti_terminal io w EnableMouse of
                  (w, r) \<Rightarrow> (w, [(EnableRaw, True), (EnterAlternate, True), (EnableMouse, r = Inr ())],
                    \<lparr>se_raw = True, se_alternate = True, se_mouse = True\<rparr>, Inr ()))))"

fun attempt_all :: "('w, 'p, 'io) tui_io \<Rightarrow> terminal_op list \<Rightarrow> 'w \<Rightarrow> 'w \<times> terminal_trace" where
  "attempt_all io [] w = (w, [])"
| "attempt_all io (op # ops) w =
     (case ti_terminal io w op of
        (w, r) \<Rightarrow> (case attempt_all io ops w of (w, tr) \<Rightarrow> (w, (op, r = Inr ()) # tr)))"

definition session_drop :: "('w, 'p, 'io) tui_io \<Rightarrow> session \<Rightarrow> 'w \<Rightarrow> 'w \<times> terminal_trace" where
  "session_drop io s w =
     attempt_all io
       ((if se_mouse s then [DisableMouse] else []) @ (if se_alternate s then [LeaveAlternate] else []) @
        (if se_raw s then [DisableRaw] else [])) w"

subsection \<open>The loop\<close>

datatype ('p, 'io) tui_error = TuiCollector "'p poll_error" | TuiIo 'io

datatype ('p, 'io) cycle = CycleNext app observation_model | CycleQuit | CycleFail "('p, 'io) tui_error"

text \<open>What an iteration receives: nothing when paused.\<close>

definition collect_events ::
  "('p \<Rightarrow> string) \<Rightarrow> ('w, 'p, 'io) tui_io \<Rightarrow> 'w \<Rightarrow> app \<Rightarrow> observation_model \<Rightarrow>
     ('w \<times> ('p poll_error + app \<times> observation_model)) option" where
  "collect_events show_poll io w a m =
     (if app_paused a then Some (w, Inr (a, m))
      else case ti_recv_timeout io w of (w, r) \<Rightarrow>
             (case (case r of
                      Inr ev \<Rightarrow> Inr (a, model_observe m ev)
                    | Inl NoEntry \<Rightarrow> Inr (a, m)
                    | Inl er \<Rightarrow> map_ok (\<lambda>a. (a, m)) (handle_collector_error show_poll a er)) of
                Inl er \<Rightarrow> Some (w, Inl er)
              | Inr (a, m) \<Rightarrow>
                  Option.bind (drain_ready_events show_poll (ti_try_recv io) w a m)
                    (\<lambda>(w, r). Some (w, map_ok (\<lambda>(a, m, _). (a, m)) r))))"

text \<open>Drawing, then at most one input.\<close>

definition draw_and_react ::
  "tui_layout \<Rightarrow> tui_env \<Rightarrow> ('w, 'p, 'io) tui_io \<Rightarrow> 'w \<Rightarrow> app \<Rightarrow> observation_model \<Rightarrow> 'w \<times> ('p, 'io) cycle" where
  "draw_and_react layout env io w a m =
     (case ti_area io w of
        (w, Inl er) \<Rightarrow> (w, CycleFail (TuiIo er))
      | (w, Inr area) \<Rightarrow>
          (case draw layout env area a m of
             (a, fr) \<Rightarrow>
               (case ti_flush io w fr of
                  (w, Inl er) \<Rightarrow> (w, CycleFail (TuiIo er))
                | (w, Inr _) \<Rightarrow>
                    (case ti_poll io w of
                       (w, Inl er) \<Rightarrow> (w, CycleFail (TuiIo er))
                     | (w, Inr ready) \<Rightarrow>
                         if \<not> ready then (w, CycleNext a m)
                         else (case ti_read io w of
                                 (w, Inl er) \<Rightarrow> (w, CycleFail (TuiIo er))
                               | (w, Inr input) \<Rightarrow>
                                   (w, case handle_input m a input of
                                         None \<Rightarrow> CycleQuit
                                       | Some a \<Rightarrow> CycleNext a m))))))"

definition tui_cycle ::
  "('p \<Rightarrow> string) \<Rightarrow> tui_layout \<Rightarrow> tui_env \<Rightarrow> ('w, 'p, 'io) tui_io \<Rightarrow> 'w \<Rightarrow> app \<Rightarrow> observation_model \<Rightarrow>
     ('w \<times> ('p, 'io) cycle) option" where
  "tui_cycle show_poll layout env io w a m =
     Option.bind (collect_events show_poll io w a m)
       (\<lambda>(w, r). Some (case r of
                    Inl er \<Rightarrow> (w, CycleFail (TuiCollector er))
                  | Inr (a, m) \<Rightarrow> draw_and_react layout env io w a m))"

partial_function (option) tui_loop ::
  "('p \<Rightarrow> string) \<Rightarrow> tui_layout \<Rightarrow> tui_env \<Rightarrow> ('w, 'p, 'io) tui_io \<Rightarrow> 'w \<Rightarrow> app \<Rightarrow> observation_model \<Rightarrow>
     ('w \<times> (('p, 'io) tui_error + unit)) option" where
  "tui_loop show_poll layout env io w a m =
     Option.bind (tui_cycle show_poll layout env io w a m)
       (\<lambda>(w, c). case c of
          CycleNext a m \<Rightarrow> tui_loop show_poll layout env io w a m
        | CycleQuit \<Rightarrow> Some (w, Inr ())
        | CycleFail er \<Rightarrow> Some (w, Inl er))"

definition tui_run ::
  "('p \<Rightarrow> string) \<Rightarrow> tui_layout \<Rightarrow> tui_env \<Rightarrow> ('w, 'p, 'io) tui_io \<Rightarrow> 'w \<Rightarrow>
     ('w \<times> terminal_trace \<times> (('p, 'io) tui_error + unit)) option" where
  "tui_run show_poll layout env io w =
     (case enter io w of (w, tr, s, r) \<Rightarrow>
        Option.bind
          (case r of
             Inl er \<Rightarrow> Some (w, Inl (TuiIo er))
           | Inr _ \<Rightarrow>
               (case ti_new io w of
                  (w, Inl er) \<Rightarrow> Some (w, Inl (TuiIo er))
                | (w, Inr _) \<Rightarrow> tui_loop show_poll layout env io w app_new model_new))
          (\<lambda>(w, r). case session_drop io s w of (w, tr') \<Rightarrow> Some (w, tr @ tr', r)))"

end
