(* ===== verification/Tui_App_Properties.thy ===== *)
theory Tui_App_Properties
  imports Tui_App
begin

text \<open>
  Properties of the interactive mode's list: folding loses no text and respects the
  columns of the pane, the keyboard selection stays on the screen, and a click selects the row drawn under it.
\<close>

subsection \<open>Folding rows\<close>

lemma wrap_nonempty: "wrap uw t f c \<noteq> []"
  by (simp add: wrap_def wrap_loop_nonempty)

lemma wrap_row_parts:
  obtains t ts k where "map dr_text (wrap_row env w row) = t # map (\<lambda>x. replicate k 32 @ x) ts"
    "wrap (te_width env) (dr_text row) w (w - k) = t # ts" "k \<le> w - 1"
    "set (map dr_kind (wrap_row env w row)) = {dr_kind row}"
proof -
  define k where "k = min (case dr_continuation_indent row of Some n \<Rightarrow> n | None \<Rightarrow>
      usize_saturating_add (length (takeWhile (\<lambda>c. c = 32) (dr_text row))) 4) (w - 1)"
  obtain t ts where parts: "wrap (te_width env) (dr_text row) w (w - k) = t # ts"
    using wrap_nonempty by (metis neq_Nil_conv)
  have "wrap_row env w row = row\<lparr>dr_text := t\<rparr> # map (\<lambda>t. row\<lparr>dr_text := replicate k 32 @ t\<rparr>) ts"
    using parts unfolding wrap_row_def Let_def k_def [symmetric] by simp
  moreover have "k \<le> w - 1" by (simp add: k_def)
  ultimately show thesis by (intro that [of t k ts]) (auto simp: parts comp_def)
qed

lemma wrap_rows_kinds: "set (map dr_kind (wrap_rows env area rows)) = set (map dr_kind rows)"
proof -
  have "dr_kind ` set (wrap_row env w row) = {dr_kind row}" for w row
    using wrap_row_parts [of env w row] by (metis set_map)
  then show ?thesis by (auto simp: wrap_rows_def image_UN)
qed

subsection \<open>The viewport\<close>

lemma viewport_clamped:
  assumes "0 < visible" "row_count \<le> usize_max" "\<And>i. index = Some i \<Longrightarrow> i < row_count"
  shows "viewport_scroll scroll row_count visible index follow \<le> row_count - visible"
proof (cases index)
  case (Some i)
  then have "i < row_count" using assms(3) by simp
  then show ?thesis
    using assms(1,2) Some by (auto simp: viewport_scroll_def Let_def usize_saturating_add_def)
qed (simp add: viewport_scroll_def Let_def)

lemma viewport_shows:
  assumes "0 < visible" "row_count \<le> usize_max" "i < row_count"
  shows "viewport_scroll scroll row_count visible (Some i) True \<le> i \<and>
    i < viewport_scroll scroll row_count visible (Some i) True + visible"
  using assms by (auto simp: viewport_scroll_def Let_def usize_saturating_add_def)

lemma draw_list_fields:
  assumes "draw_list env area a rows = (a', lines)" "ws = wrap_rows env area rows"
  shows "lines = map dr_text (take (visible_rows area) (drop (app_scroll a') ws))"
    "hit_list (app_hit a') = area" "hit_header_rows (app_hit a') = 1"
    "hit_rows (app_hit a') = map dr_kind ws"
    "app_selected a' = app_selected a" "app_tab a' = app_tab a"
    "app_scroll a' = viewport_scroll (app_scroll a) (length ws) (visible_rows area)
       (Option.bind (app_selected a) (\<lambda>s. position (\<lambda>r. dr_kind r = s) ws)) (app_follow_selection a)"
  using assms by (auto simp: draw_list_def Let_def adjust_viewport_def)

lemma move_selection_follows: "app_follow_selection (move_selection a d)"
  by (simp add: move_selection_def Let_def split: option.split)

lemma position_lt: "position p xs = Some i \<Longrightarrow> i < length xs \<and> p (xs ! i)"
  using position_SomeD by blast

subsection \<open>Clicks\<close>

lemma u16_add:
  "unat a + unat b < 2 ^ 16 \<Longrightarrow> u16_checked_add a b = Some (a + b) \<and> unat (a + b) = unat a + unat b"
  for a b :: u16
  by (simp add: u16_checked_add_def unat_word_ariths(1))

lemma u16_sub: "unat b \<le> unat a \<Longrightarrow> u16_checked_sub a b = Some (a - b) \<and> unat (a - b) = unat a - unat b"
  for a b :: u16
  by (simp add: u16_checked_sub_def word_le_nat_alt unat_sub)

lemma click_inside:
  assumes "area = hit_list (app_hit a)" "hit_header_rows (app_hit a) = 1"
    "unat (rx area) + unat (rwidth area) < 2 ^ 16" "unat (ry area) + unat (rheight area) \<le> 2 ^ 16"
    "unat (rx area) \<le> unat column" "unat column < unat (rx area) + unat (rwidth area)"
    "unat row = unat (ry area) + 1 + i" "i < visible_rows area"
    "app_scroll a + i < length (hit_rows (app_hit a))" "length (hit_rows (app_hit a)) \<le> usize_max"
  shows "click_row a column row =
    (let kind = hit_rows (app_hit a) ! (app_scroll a + i)
     in if kind = RowHeading then a else a\<lparr>app_selected := Some kind, app_detail := True\<rparr>)"
proof -
  have h: "2 + i < unat (rheight area)"
    using assms(8) by (simp add: visible_rows_def unat_saturating_sub less_diff_conv)
  then have bottom: "unat (saturating_sub (rheight area) 1) = unat (rheight area) - 1"
    by (simp add: unat_saturating_sub)
  have right: "u16_checked_add (rx area) (rwidth area) = Some (rx area + rwidth area)"
    "unat (rx area + rwidth area) = unat (rx area) + unat (rwidth area)"
    using u16_add [OF assms(3)] by simp_all
  have low: "unat (ry area) + unat (saturating_sub (rheight area) 1) < 2 ^ 16"
    using assms(4) h bottom by simp
  have bot: "u16_checked_add (ry area) (saturating_sub (rheight area) 1) =
      Some (ry area + saturating_sub (rheight area) 1)"
    "unat (ry area + saturating_sub (rheight area) 1) = unat (ry area) + (unat (rheight area) - 1)"
    using u16_add [OF low] bottom by simp_all
  have off: "u16_checked_sub row (ry area) = Some (row - ry area)" "unat (row - ry area) = Suc i"
    using u16_sub [of "ry area" row] assms(7) by simp_all
  have vis: "u16_checked_sub (row - ry area) 1 = Some (row - ry area - 1)" "unat (row - ry area - 1) = i"
    using u16_sub [of 1 "row - ry area"] off(2) by simp_all
  have "\<not> column < rx area" "\<not> column \<ge> rx area + rwidth area" "\<not> row \<le> ry area"
    "\<not> row \<ge> ry area + saturating_sub (rheight area) 1"
    using assms(5-7) right(2) bot(2) h by (simp_all add: word_le_nat_alt word_less_nat_alt)
  then show ?thesis
    using assms(1,2,9,10) right(1) bot(1) off(1) vis
    by (simp add: click_row_def Let_def slice_get_def usize_saturating_add_def)
qed

subsection \<open>Properties\<close>

text \<open>C36. Folding a row of the list, for any function that measures the width of a text: the lines of a row are
  its text cut into pieces, with nothing lost or added, each but the first behind the same number of
  blanks. A piece is cut off only when the rest of the row does not fit, it is not empty, and the widths
  of its characters add up to at most the columns left for it, unless it is a single character; the last
  piece is displayed within the columns left. (A text whose width is more than the sum of its
  characters', such as an emoji with a variation selector, can still exceed the pane.)\<close>

theorem list_lines_fit:
  assumes "0 < w"
  shows "\<exists>t ts k. map dr_text (wrap_row env w row) = t # map (\<lambda>x. replicate k 32 @ x) ts \<and>
    t @ concat ts = dr_text row \<and> k < w \<and> folded (te_width env) w (w - k) (t # ts)"
proof -
  obtain t ts k where parts: "map dr_text (wrap_row env w row) = t # map (\<lambda>x. replicate k 32 @ x) ts"
    "wrap (te_width env) (dr_text row) w (w - k) = t # ts" "k \<le> w - 1"
    by (rule wrap_row_parts)
  have "max w 1 = w" "max (w - k) 1 = w - k" "k < w" using parts(3) assms by auto
  moreover have "folded (te_width env) (max w 1) (max (w - k) 1) (t # ts)"
    using wrap_folded [of "te_width env" w "w - k" "dr_text row"] by (simp only: parts(2))
  moreover have "t @ concat ts = dr_text row"
    using wrap_concat [of "te_width env" "dr_text row" w "w - k"] parts(2) by simp
  ultimately show ?thesis using parts(1) by metis
qed

definition plain_env :: tui_env where
  "plain_env = \<lparr>te_width = length, te_hazardous = (\<lambda>c. c < 32)\<rparr>"

theorem list_lines_fit_witness:
  "\<exists>t ts k. map dr_text (wrap_row plain_env 9 (heading_row (ascii ''denied by the ruleset''))) =
       t # map (\<lambda>x. replicate k 32 @ x) ts \<and> t @ concat ts = ascii ''denied by the ruleset'' \<and>
     folded length 9 (9 - k) (t # ts)"
proof -
  have "dr_text (heading_row (ascii ''denied by the ruleset'')) = ascii ''denied by the ruleset''"
    "te_width plain_env = length"
    by (simp_all add: heading_row_def plain_env_def)
  then show ?thesis
    using list_lines_fit [of 9 plain_env "heading_row (ascii ''denied by the ruleset'')"] by fastforce
qed

text \<open>C37. The keyboard selection stays on the screen: when an arrow key selected a row and the next drawing
  still lists it, one of the drawn lines belongs to it, and the viewport does not scroll past the
  last line.\<close>

theorem moved_selection_visible:
  assumes "a = move_selection a0 delta" "app_selected a = Some s" "s \<in> set (map dr_kind rows)"
    "draw_list env area a rows = (a', lines)" "0 < visible_rows area"
    "length (wrap_rows env area rows) \<le> usize_max"
  shows "(\<exists>i<length lines. hit_rows (app_hit a') ! (app_scroll a' + i) = s) \<and>
    app_scroll a' \<le> length (hit_rows (app_hit a')) - visible_rows area"
proof -
  let ?ws = "wrap_rows env area rows"
  note fields = draw_list_fields [OF assms(4) refl]
  have "s \<in> set (map dr_kind ?ws)" using assms(3) wrap_rows_kinds by blast
  then obtain i where i: "position (\<lambda>r. dr_kind r = s) ?ws = Some i"
    by (metis (mono_tags, lifting) position_None_iff not_None_eq imageE set_map)
  have at: "i < length ?ws" "dr_kind (?ws ! i) = s" using position_lt [OF i] by auto
  have scroll: "app_scroll a' = viewport_scroll (app_scroll a) (length ?ws) (visible_rows area) (Some i) True"
    using fields(7) assms(1,2) i move_selection_follows by simp
  have "app_scroll a' \<le> i" "i < app_scroll a' + visible_rows area"
    using viewport_shows [OF assms(5,6) at(1)] scroll by simp_all
  then have "i - app_scroll a' < length lines" "app_scroll a' + (i - app_scroll a') = i"
    using at(1) fields(1) by auto
  moreover have "app_scroll a' \<le> length ?ws - visible_rows area"
    unfolding scroll by (rule viewport_clamped [OF assms(5,6)]) (use at(1) in auto)
  ultimately show ?thesis using at fields(4) by (metis length_map nth_map)
qed

text \<open>Two rows on a screen with one visible line: the second one is selected and shown.\<close>

definition sample_rows :: "display_row list" where
  "sample_rows =
     [\<lparr>dr_kind = RowRuleset (LandlockId 0x100000001), dr_text = ascii ''one'', dr_continuation_indent = None\<rparr>,
      \<lparr>dr_kind = RowRuleset (LandlockId 0x100000002), dr_text = ascii ''two'', dr_continuation_indent = None\<rparr>]"

definition sample_area :: rect where
  "sample_area = \<lparr>rx = 0, ry = 3, rwidth = 20, rheight = 3\<rparr>"

lemma sample_area_fields:
  "rx sample_area = 0" "ry sample_area = 3" "rwidth sample_area = 20" "rheight sample_area = 3"
  by (simp_all add: sample_area_def)

definition sample_app :: app where
  "sample_app = app_new\<lparr>app_hit := hit_default\<lparr>hit_rows := map dr_kind sample_rows\<rparr>\<rparr>"

lemma sample_wrapped: "wrap_rows plain_env sample_area sample_rows = sample_rows"
  by (simp add: wrap_rows_def wrap_row_def sample_rows_def sample_area_def plain_env_def wrap_def
      wrap_loop.simps display_width_def saturating_sub_def ascii_def)

lemma sample_moved: "app_selected (move_selection sample_app (- 1)) = Some (RowRuleset (LandlockId 0x100000002))"
  by (simp add: move_selection_def sample_app_def hit_default_def sample_rows_def selectable_rows_def
      push_selectable_def selectable_def next_selection_def slice_get_def app_new_def)

theorem moved_selection_visible_witness:
  "\<exists>i. hit_rows (app_hit (fst (draw_list plain_env sample_area (move_selection sample_app (- 1)) sample_rows))) !
     (app_scroll (fst (draw_list plain_env sample_area (move_selection sample_app (- 1)) sample_rows)) + i) =
   RowRuleset (LandlockId 0x100000002)"
proof -
  have "0 < visible_rows sample_area" by (simp add: visible_rows_def sample_area_def saturating_sub_def)
  moreover have "length (wrap_rows plain_env sample_area sample_rows) \<le> usize_max"
    by (simp add: sample_wrapped) (simp add: sample_rows_def)
  ultimately show ?thesis
    using moved_selection_visible [OF refl sample_moved, of sample_rows plain_env sample_area, OF _ surjective_pairing]
    by (auto simp: sample_rows_def)
qed

text \<open>What is clicked is what is drawn: a click inside the list pane on the line that shows the \<open>i\<close>-th
  drawn text selects the row this text belongs to and opens its details, and does nothing on a
  heading.\<close>

theorem click_selects_drawn_row:
  assumes "draw_list env area a rows = (a', lines)" "i < length lines"
    "unat (rx area) + unat (rwidth area) < 2 ^ 16" "unat (ry area) + unat (rheight area) \<le> 2 ^ 16"
    "unat (rx area) \<le> unat column" "unat column < unat (rx area) + unat (rwidth area)"
    "unat row = unat (ry area) + 1 + i" "length (wrap_rows env area rows) \<le> usize_max"
  shows "\<exists>r\<in>set (wrap_rows env area rows). lines ! i = dr_text r \<and>
    click_row a' column row =
      (if dr_kind r = RowHeading then a' else a'\<lparr>app_selected := Some (dr_kind r), app_detail := True\<rparr>)"
proof -
  let ?ws = "wrap_rows env area rows"
  note fields = draw_list_fields [OF assms(1) refl]
  have i: "i < visible_rows area" "app_scroll a' + i < length ?ws"
    "lines ! i = dr_text (?ws ! (app_scroll a' + i))"
    using assms(2) fields(1) by auto
  moreover have "click_row a' column row =
      (let kind = hit_rows (app_hit a') ! (app_scroll a' + i)
       in if kind = RowHeading then a' else a'\<lparr>app_selected := Some kind, app_detail := True\<rparr>)"
    by (rule click_inside [OF fields(2) [symmetric] fields(3) assms(3-7)]) (use i fields(4) assms(8) in simp_all)
  ultimately show ?thesis using fields(4) by (intro bexI [of _ "?ws ! (app_scroll a' + i)"]) (simp_all add: Let_def)
qed

theorem click_selects_drawn_row_witness:
  "app_selected (click_row (fst (draw_list plain_env sample_area sample_app sample_rows)) 5 4) \<in>
     Some ` set (map dr_kind sample_rows)"
proof -
  let ?d = "draw_list plain_env sample_area sample_app sample_rows"
  have "visible_rows sample_area = 1" by (simp add: visible_rows_def sample_area_def saturating_sub_def)
  moreover have "app_scroll (fst ?d) = 0"
    by (simp add: draw_list_def Let_def adjust_viewport_def viewport_scroll_def sample_app_def app_new_def)
  ultimately have "length (snd ?d) = 1"
    using draw_list_fields(1) [of plain_env sample_area sample_app sample_rows "fst ?d" "snd ?d"]
    by (simp add: sample_wrapped) (simp add: sample_rows_def)
  moreover have "length (wrap_rows plain_env sample_area sample_rows) \<le> usize_max"
    by (simp add: sample_wrapped) (simp add: sample_rows_def)
  ultimately have "\<exists>r\<in>set sample_rows. click_row (fst ?d) 5 4 =
      (if dr_kind r = RowHeading then fst ?d else (fst ?d)\<lparr>app_selected := Some (dr_kind r), app_detail := True\<rparr>)"
    using click_selects_drawn_row [of plain_env sample_area sample_app sample_rows "fst ?d" "snd ?d" 0 5 4]
    by (simp add: sample_wrapped sample_area_fields split del: if_split) blast
  then show ?thesis by (auto simp: sample_rows_def)
qed

end
