(* ===== verification/Row_Listing.thy ===== *)
theory Row_Listing
  imports Tui_Rows Model_Properties
begin

text \<open>
  Lemmas on the rows of the interactive mode: sorting with the comparisons of \<open>ui.rs\<close>, grouping, and
  the position of each denial row under its domain and its blocked right.
\<close>

subsection \<open>Sorting by a comparison\<close>

text \<open>What \<open>sort_by\<close> asks of its comparison function.\<close>

locale comparison =
  fixes le :: "'a \<Rightarrow> 'a \<Rightarrow> bool"
  assumes total: "le a b \<or> le b a"
    and trans: "le a b \<Longrightarrow> le b c \<Longrightarrow> le a c"
begin

lemma insort_sorted: "sorted_wrt le xs \<Longrightarrow> sorted_wrt le (insort_by le x xs)"
proof (induction xs)
  case (Cons y ys)
  have "set (insort_by le x ys) = insert x (set ys)" by (induction ys) auto
  with Cons total [of x y] show ?case by (auto intro: trans)
qed simp

lemma sort_sorted: "sorted_wrt le (sort_by le xs)"
  unfolding sort_by_def by (induction xs) (simp_all add: insort_sorted)

end

lemma mset_insort_by: "mset (insort_by le x xs) = add_mset x (mset xs)"
  by (induction xs) auto

lemma mset_sort_by [simp]: "mset (sort_by le xs) = mset xs"
  unfolding sort_by_def by (induction xs) (simp_all add: mset_insort_by)

lemma set_sort_by [simp]: "set (sort_by le xs) = set xs"
  using mset_sort_by by (metis set_mset_mset)

lemma text_le_total: "text_le xs ys \<or> text_le ys xs"
  by (induction xs ys rule: text_le.induct) auto

lemma text_le_trans: "text_le xs ys \<Longrightarrow> text_le ys zs \<Longrightarrow> text_le xs zs"
proof (induction xs ys arbitrary: zs rule: text_le.induct)
  case (3 x xs y ys)
  then show ?case by (cases zs) auto
qed simp_all

interpretation by_text: comparison text_le
  by unfold_locales (use text_le_total in \<open>blast intro: text_le_trans\<close>)+

interpretation by_entry: comparison "entry_le env" for env
  by unfold_locales (use text_le_total in \<open>auto simp: entry_le_def intro: text_le_trans\<close>)

interpretation by_group: comparison group_le
  by unfold_locales (use text_le_total in \<open>auto simp: group_le_def intro: text_le_trans\<close>)

interpretation by_domain: comparison domain_le
  by unfold_locales (auto simp: domain_le_def)

interpretation by_ruleset: comparison ruleset_le
proof
  show "ruleset_le a b \<or> ruleset_le b a" for a b
    using linorder_less_linear [of "map_option as_nanoseconds (rs_creation_timestamp a)"]
      linear [of "id_get (rs_id a)"] by (auto simp: ruleset_le_def)
  show "ruleset_le a b \<Longrightarrow> ruleset_le b c \<Longrightarrow> ruleset_le a c" for a b c
    by (auto simp: ruleset_le_def intro: less_trans order_trans)
qed

subsection \<open>Grouping\<close>

lemma group_by_snoc: "group_by key (xs @ [x]) = hm_upsert (key x) [] (\<lambda>l. l @ [x]) (group_by key xs)"
  by (simp add: group_by_def)

lemma group_by_wf: "hm_wf (group_by key xs)"
  by (induction xs rule: rev_induct) (simp_all add: group_by_snoc hm_wf_upsert group_by_def [of key "[]"])

lemma group_by_get:
  "hm_get (group_by key xs) k =
     (let l = filter (\<lambda>x. key x = k) xs in if l = [] then None else Some l)"
proof (induction xs rule: rev_induct)
  case (snoc x xs)
  then show ?case
    using group_by_wf [of key xs] by (auto simp: group_by_snoc hm_get_upsert Let_def)
qed (simp add: group_by_def)

lemma group_by_mem:
  "(k, l) \<in> set (group_by key xs) \<longleftrightarrow> l = filter (\<lambda>x. key x = k) xs \<and> l \<noteq> []"
  by (auto simp: group_by_get Let_def hm_get_eq_Some_iff [OF group_by_wf, symmetric] split: if_splits)

lemma group_byD: "g \<in> set (group_by key xs) \<Longrightarrow> snd g = filter (\<lambda>x. key x = fst g) xs"
  using group_by_mem [of "fst g" "snd g"] by simp

lemma mset_partition:
  "distinct ks \<Longrightarrow> mset (concat (map (\<lambda>k. filter (\<lambda>x. key x = k) xs) ks)) =
     filter_mset (\<lambda>x. key x \<in> set ks) (mset xs)"
proof (induction ks)
  case (Cons k ks)
  have "filter_mset (\<lambda>x. key x = k) M + filter_mset (\<lambda>x. key x \<in> set ks) M =
      filter_mset (\<lambda>x. key x \<in> set (k # ks)) M" for M
    using Cons.prems by (induction M) auto
  with Cons show ?case by simp
qed simp

lemma group_by_keys: "fst ` set (group_by key xs) = key ` set xs"
proof -
  have "k \<in> fst ` set (group_by key xs) \<longleftrightarrow> k \<in> key ` set xs" for k
    by (auto simp: image_iff Bex_def group_by_mem filter_empty_conv)
  then show ?thesis by blast
qed

lemma group_by_mset: "mset (concat (map snd (group_by key xs))) = mset xs"
proof -
  have "map snd (group_by key xs) = map (\<lambda>k. filter (\<lambda>x. key x = k) xs) (map fst (group_by key xs))"
    by (auto simp: group_by_mem)
  then have "mset (concat (map snd (group_by key xs))) =
      filter_mset (\<lambda>x. key x \<in> fst ` set (group_by key xs)) (mset xs)"
    using mset_partition [of "map fst (group_by key xs)" key xs] group_by_wf [of key xs]
    by (simp only: hm_wf_def set_map)
  also have "\<dots> = mset xs" unfolding group_by_keys by (simp add: filter_mset_eq_conv)
  finally show ?thesis .
qed

lemma mset_concat_map:
  "(\<And>g. g \<in> set gs \<Longrightarrow> mset (f g) = mset (map p (snd g))) \<Longrightarrow>
    mset (concat (map f gs)) = mset (map p (concat (map snd gs)))"
  by (induction gs) simp_all

lemma mset_concat_map_sort:
  "mset (concat (map f (sort_by le gs))) = mset (concat (map f gs))"
  by (simp add: mset_concat) (metis mset_map mset_sort_by sum_mset_sum_list)

subsection \<open>Where each denial stands\<close>

text \<open>Each denial row with the domain row and the heading above it.\<close>

fun located :: "domain_id option \<Rightarrow> ustring \<Rightarrow> display_row list \<Rightarrow> (domain_id option \<times> ustring \<times> denial_key) list" where
  "located d l [] = []"
| "located d l (r # rs) =
     (case dr_kind r of
        RowDenialDomain i \<Rightarrow> located (Some i) [] rs
      | RowHeading \<Rightarrow> located d (dr_text r) rs
      | RowDenial k \<Rightarrow> (d, l, k) # located d l rs
      | _ \<Rightarrow> located d l rs)"

lemma denial_row_kind [simp]: "dr_kind (denial_row env e) = RowDenial (ag_key e)"
  by (simp add: denial_row_def split: prod.split)

lemma heading_row_fields [simp]: "dr_kind (heading_row t) = RowHeading" "dr_text (heading_row t) = t"
  by (simp_all add: heading_row_def)

lemma denial_domain_row_kind [simp]: "dr_kind (denial_domain_row env m i) = RowDenialDomain i"
  by (simp add: denial_domain_row_def)

lemma located_denials:
  "located d l (map (denial_row env) es @ rest) = map (\<lambda>e. (d, l, ag_key e)) es @ located d l rest"
  by (induction es) simp_all

definition group_heading :: "ustring \<Rightarrow> ustring" where
  "group_heading right = ascii ''  '' @ right"

definition group_places :: "domain_id option \<Rightarrow> tui_env \<Rightarrow> ustring \<times> aggregated_denial list \<Rightarrow>
    (domain_id option \<times> ustring \<times> denial_key) list" where
  "group_places d env g = map (\<lambda>e. (d, group_heading (fst g), ag_key e)) (sort_by (entry_le env) (snd g))"

lemma located_groups:
  "\<exists>l'. located d l (concat (map (group_rows env) gs) @ rest) =
     concat (map (group_places d env) gs) @ located d l' rest"
proof (induction gs arbitrary: l)
  case (Cons g gs)
  show ?case
    using Cons [of "ascii ''  '' @ fst g"]
    by (auto simp: group_rows_def located_denials group_places_def group_heading_def)
qed auto

definition block_places :: "tui_env \<Rightarrow> domain_id \<times> aggregated_denial list \<Rightarrow>
    (domain_id option \<times> ustring \<times> denial_key) list" where
  "block_places env g =
     concat (map (group_places (Some (fst g)) env) (sort_by group_le (group_by blockers_of (snd g))))"

lemma located_block:
  "\<exists>d' l'. located d l (domain_block env m g @ rest) = block_places env g @ located d' l' rest"
  using located_groups [of "Some (fst g)" "[]" env "sort_by group_le (group_by blockers_of (snd g))" rest]
  by (auto simp: domain_block_def block_places_def)

lemma located_blocks:
  "\<exists>d' l'. located d l (concat (map (\<lambda>g. heading_row [] # domain_block env m g) gs) @ rest) =
     concat (map (block_places env) gs) @ located d' l' rest"
proof (induction gs arbitrary: d l)
  case (Cons g gs)
  let ?rest = "concat (map (\<lambda>g. heading_row [] # domain_block env m g) gs) @ rest"
  obtain d1 l1 where "located d [] (domain_block env m g @ ?rest) = block_places env g @ located d1 l1 ?rest"
    using located_block by blast
  with Cons [of d1 l1] show ?case by auto
qed auto

lemma separated_blocks:
  "foldl (\<lambda>rows g. rows @ (if rows \<noteq> [] then [heading_row []] else []) @ domain_block env m g) [] gs =
     (case gs of [] \<Rightarrow> [] | g # gs' \<Rightarrow>
        domain_block env m g @ concat (map (\<lambda>g. heading_row [] # domain_block env m g) gs'))"
proof -
  let ?f = "\<lambda>rows g. rows @ (if rows \<noteq> [] then [heading_row []] else []) @ domain_block env m g"
  have "rows \<noteq> [] \<Longrightarrow>
      foldl ?f rows gs = rows @ concat (map (\<lambda>g. heading_row [] # domain_block env m g) gs)" for rows gs
    by (induction gs arbitrary: rows) simp_all
  then show ?thesis by (cases gs) (simp_all add: domain_block_def)
qed

definition domain_groups :: "observation_model \<Rightarrow> (domain_id \<times> aggregated_denial list) list" where
  "domain_groups m =
     sort_by domain_le (group_by (\<lambda>e. denial_key_domain_id (ag_key e)) (hm_values (agg_entries (om_denials m))))"

lemma located_denial_rows: "located None [] (denial_rows env m) = concat (map (block_places env) (domain_groups m))"
proof (cases "domain_groups m")
  case (Cons g gs)
  let ?rest = "concat (map (\<lambda>g. heading_row [] # domain_block env m g) gs)"
  obtain d l where "located None [] (domain_block env m g @ ?rest) = block_places env g @ located d l ?rest"
    using located_block by blast
  moreover obtain d' l' where "located d l (?rest @ []) = concat (map (block_places env) gs) @ located d' l' []"
    using located_blocks by blast
  ultimately show ?thesis
    using Cons unfolding denial_rows_def domain_groups_def separated_blocks by simp
qed (unfold denial_rows_def domain_groups_def separated_blocks, simp)

text \<open>The place that an entry should have.\<close>

definition place :: "aggregated_denial \<Rightarrow> domain_id option \<times> ustring \<times> denial_key" where
  "place e = (Some (denial_key_domain_id (ag_key e)), group_heading (blockers_of e), ag_key e)"

lemma block_places_mset:
  assumes "\<forall>e\<in>set (snd g). denial_key_domain_id (ag_key e) = fst g"
  shows "mset (block_places env g) = mset (map place (snd g))"
proof -
  let ?hs = "group_by blockers_of (snd g)"
  have "mset (group_places (Some (fst g)) env h) = mset (map place (snd h))" if "h \<in> set ?hs" for h
    using group_byD [OF that] assms by (auto simp: group_places_def place_def intro!: image_mset_cong)
  then have "mset (block_places env g) = mset (map place (concat (map snd ?hs)))"
    unfolding block_places_def mset_concat_map_sort by (rule mset_concat_map)
  then show ?thesis by (simp only: mset_map group_by_mset)
qed

lemma denial_rows_places:
  "mset (located None [] (denial_rows env m)) = mset (map place (hm_values (agg_entries (om_denials m))))"
proof -
  let ?gs = "group_by (\<lambda>e. denial_key_domain_id (ag_key e)) (hm_values (agg_entries (om_denials m)))"
  have "mset (block_places env g) = mset (map place (snd g))" if "g \<in> set ?gs" for g
    by (rule block_places_mset) (simp add: group_byD [OF that])
  then have "mset (located None [] (denial_rows env m)) = mset (map place (concat (map snd ?gs)))"
    unfolding located_denial_rows domain_groups_def mset_concat_map_sort by (rule mset_concat_map)
  then show ?thesis by (simp only: mset_map group_by_mset)
qed

subsection \<open>The order of the rows\<close>

lemma sorted_wrt_concat:
  "sorted_wrt R (concat xss) \<longleftrightarrow>
     (\<forall>xs\<in>set xss. sorted_wrt R xs) \<and> sorted_wrt (\<lambda>xs ys. \<forall>x\<in>set xs. \<forall>y\<in>set ys. R x y) xss"
  by (induction xss) (auto simp: sorted_wrt_append)

lemma sorted_wrt_distinct_keys:
  assumes "distinct (map f gs)" "\<And>a b. a \<in> set gs \<Longrightarrow> b \<in> set gs \<Longrightarrow> f a \<noteq> f b \<Longrightarrow> R a b"
  shows "sorted_wrt R gs"
  using assms by (induction gs) (auto simp: image_iff)

lemma distinct_sorted_groups: "distinct (map fst (sort_by le (group_by key xs)))"
proof -
  have "mset (map fst (sort_by le (group_by key xs))) = mset (map fst (group_by key xs))" by simp
  then show ?thesis using group_by_wf [of key xs] mset_eq_imp_distinct_iff by (metis hm_wf_def)
qed

lemma group_heading_inject [simp]: "group_heading a = group_heading b \<longleftrightarrow> a = b"
  by (simp add: group_heading_def)

text \<open>Under one domain and one heading, the counts do not increase.\<close>

definition ranked :: "(denial_key \<Rightarrow> u64) \<Rightarrow> domain_id option \<times> ustring \<times> denial_key \<Rightarrow>
    domain_id option \<times> ustring \<times> denial_key \<Rightarrow> bool" where
  "ranked occ p q \<longleftrightarrow> fst p = fst q \<and> fst (snd p) = fst (snd q) \<longrightarrow> occ (snd (snd q)) \<le> occ (snd (snd p))"

lemma group_places_ranked:
  assumes "\<forall>e\<in>set (snd g). occ (ag_key e) = ag_occurrence_count e"
  shows "sorted_wrt (ranked occ) (group_places d env g)"
proof -
  have "sorted_wrt (entry_le env) (sort_by (entry_le env) (snd g))" by (rule by_entry.sort_sorted)
  then show ?thesis
    unfolding group_places_def sorted_wrt_map
    by (rule sorted_wrt_mono_rel [rotated]) (use assms in \<open>auto simp: ranked_def entry_le_def\<close>)
qed

lemma group_places_fields:
  "p \<in> set (group_places d env g) \<Longrightarrow> fst p = d \<and> fst (snd p) = group_heading (fst g)"
  by (auto simp: group_places_def)

lemma block_places_ranked:
  assumes "\<forall>e\<in>set (snd g). occ (ag_key e) = ag_occurrence_count e"
  shows "sorted_wrt (ranked occ) (block_places env g)"
proof -
  let ?gs = "sort_by group_le (group_by blockers_of (snd g))"
  have "sorted_wrt (ranked occ) (group_places (Some (fst g)) env h)" if "h \<in> set ?gs" for h
    by (rule group_places_ranked) (use that assms in \<open>auto dest!: group_byD\<close>)
  moreover have "sorted_wrt (\<lambda>h h'. \<forall>x\<in>set (group_places (Some (fst g)) env h).
      \<forall>y\<in>set (group_places (Some (fst g)) env h'). ranked occ x y) ?gs"
    by (rule sorted_wrt_distinct_keys [OF distinct_sorted_groups])
      (auto simp: ranked_def dest!: group_places_fields)
  ultimately show ?thesis unfolding block_places_def sorted_wrt_concat sorted_wrt_map by auto
qed

lemma block_places_domain: "p \<in> set (block_places env g) \<Longrightarrow> fst p = Some (fst g)"
  by (auto simp: block_places_def dest!: group_places_fields)

lemma denial_rows_ranked:
  assumes "\<forall>e\<in>set (hm_values (agg_entries (om_denials m))). occ (ag_key e) = ag_occurrence_count e"
  shows "sorted_wrt (ranked occ) (located None [] (denial_rows env m))"
proof -
  have "sorted_wrt (ranked occ) (block_places env g)" if "g \<in> set (domain_groups m)" for g
    by (rule block_places_ranked) (use that assms in \<open>auto simp: domain_groups_def dest!: group_byD\<close>)
  moreover have "sorted_wrt (\<lambda>g g'. \<forall>x\<in>set (block_places env g). \<forall>y\<in>set (block_places env g'). ranked occ x y)
      (domain_groups m)"
    unfolding domain_groups_def by (rule sorted_wrt_distinct_keys [OF distinct_sorted_groups])
      (auto simp: ranked_def dest!: block_places_domain)
  ultimately show ?thesis unfolding located_denial_rows sorted_wrt_concat sorted_wrt_map by auto
qed

text \<open>The domain rows, from the most denied domain to the least.\<close>

definition headings :: "display_row list \<Rightarrow> domain_id list" where
  "headings rows = List.map_filter (\<lambda>r. case dr_kind r of RowDenialDomain i \<Rightarrow> Some i | _ \<Rightarrow> None) rows"

lemma headings_simps [simp]:
  "headings [] = []" "headings (xs @ ys) = headings xs @ headings ys"
  "headings (r # rs) = (case dr_kind r of RowDenialDomain i \<Rightarrow> [i] | _ \<Rightarrow> []) @ headings rs"
  by (simp_all add: headings_def map_filter_def split: row_kind.split)

lemma headings_denials: "headings (map (denial_row env) es) = []"
  by (induction es) simp_all

lemma headings_groups: "headings (concat (map (group_rows env) gs)) = []"
  by (induction gs) (simp_all add: group_rows_def headings_denials)

lemma headings_block: "headings (domain_block env m g) = [fst g]"
  by (simp add: domain_block_def headings_groups)

lemma headings_denial_rows: "headings (denial_rows env m) = map fst (domain_groups m)"
proof -
  have "headings (concat (map (\<lambda>g. heading_row [] # domain_block env m g) gs)) = map fst gs" for gs
    by (induction gs) (simp_all add: headings_block)
  then show ?thesis
    unfolding denial_rows_def domain_groups_def separated_blocks
    by (simp add: headings_block split: list.split)
qed

definition domain_total :: "observation_model \<Rightarrow> domain_id \<Rightarrow> u64" where
  "domain_total m i =
     total_count (filter (\<lambda>e. denial_key_domain_id (ag_key e) = i) (hm_values (agg_entries (om_denials m))))"

lemma headings_sorted:
  "sorted_wrt (\<lambda>a b. domain_total m b \<le> domain_total m a) (headings (denial_rows env m))"
proof -
  have "sorted_wrt domain_le (domain_groups m)"
    unfolding domain_groups_def by (rule by_domain.sort_sorted)
  moreover have "total_count (snd g) = domain_total m (fst g)" if "g \<in> set (domain_groups m)" for g
    using that by (auto simp: domain_groups_def domain_total_def dest!: group_byD)
  ultimately show ?thesis
    unfolding headings_denial_rows sorted_wrt_map
    by (auto simp: domain_le_def elim!: sorted_wrt_mono_rel [rotated])
qed

subsection \<open>Property\<close>

lemma model_run_agg_inv: "agg_inv (om_denials (foldl model_observe model_new es))"
proof -
  have "agg_inv (om_denials model_new)"
    by (simp add: model_new_def aggregator_new_def agg_inv_empty DEFAULT_CAPACITY_def)
  then show ?thesis unfolding model_run_fields by (rule agg.inv_run) (simp add: list.pred_True)
qed

lemma agg_values:
  assumes "agg_inv (om_denials m)"
  shows "distinct (map ag_key (hm_values (agg_entries (om_denials m))))"
    "e \<in> set (hm_values (agg_entries (om_denials m))) \<longleftrightarrow> model_denial m (ag_key e) = Some e"
    "model_denial m k = Some e \<Longrightarrow> ag_key e = k"
proof -
  let ?es = "agg_entries (om_denials m)"
  have wf: "hm_wf ?es" and key: "\<And>k e. hm_get ?es k = Some e \<Longrightarrow> ag_key e = k"
    using assms by (auto simp: agg_inv_def entry_inv_def)
  have "map ag_key (map snd ?es) = map fst ?es"
    using key hm_get_eq_Some_iff [OF wf] by auto
  then show "distinct (map ag_key (hm_values ?es))" using wf by (simp only: hm_values_def hm_wf_def)
  have "e \<in> set (hm_values ?es) \<longleftrightarrow> (\<exists>k. hm_get ?es k = Some e)"
    using hm.set_vals [OF wf] by (simp add: ran_def)
  then show "e \<in> set (hm_values ?es) \<longleftrightarrow> model_denial m (ag_key e) = Some e"
    using key by (auto simp: model_denial_def agg_get_def)
  show "model_denial m k = Some e \<Longrightarrow> ag_key e = k"
    using key by (simp add: model_denial_def agg_get_def)
qed

text \<open>C16. The denials tab is complete and ordered: after any events, it has one row per retained denial,
  under the row of its domain and the heading of its blocked right; under one heading the counts do
  not increase, and the domains come from the most denied to the least.\<close>

theorem denial_rows_complete:
  assumes "m = foldl model_observe model_new es" "rows = denial_rows env m"
  shows "distinct (map (\<lambda>p. snd (snd p)) (located None [] rows)) \<and>
    set (located None [] rows) =
      {(Some (denial_key_domain_id k), group_heading (blockers_of e), k) |k e. model_denial m k = Some e} \<and>
    sorted_wrt (ranked (\<lambda>k. ag_occurrence_count (the (model_denial m k)))) (located None [] rows) \<and>
    sorted_wrt (\<lambda>a b. domain_total m b \<le> domain_total m a) (headings rows)"
proof (intro conjI)
  let ?vs = "hm_values (agg_entries (om_denials m))"
  have inv: "agg_inv (om_denials m)" using assms(1) model_run_agg_inv by simp
  have places: "mset (located None [] rows) = mset (map place ?vs)"
    using assms(2) denial_rows_places by simp
  then have "mset (map (\<lambda>p. snd (snd p)) (located None [] rows)) = mset (map ag_key ?vs)"
    by (simp add: multiset.map_comp comp_def place_def)
  then show "distinct (map (\<lambda>p. snd (snd p)) (located None [] rows))"
    using agg_values(1) [OF inv] mset_eq_imp_distinct_iff by blast
  have "set (located None [] rows) = place ` set ?vs"
    using mset_eq_setD [OF places] by simp
  also have "\<dots> = {place e |k e. model_denial m k = Some e}"
    using agg_values(2,3) [OF inv] by auto
  also have "\<dots> =
      {(Some (denial_key_domain_id k), group_heading (blockers_of e), k) |k e. model_denial m k = Some e}"
    unfolding place_def using agg_values(3) [OF inv] by metis
  finally show "set (located None [] rows) =
      {(Some (denial_key_domain_id k), group_heading (blockers_of e), k) |k e. model_denial m k = Some e}" .
  show "sorted_wrt (ranked (\<lambda>k. ag_occurrence_count (the (model_denial m k)))) (located None [] rows)"
    unfolding assms(2) by (rule denial_rows_ranked) (simp add: agg_values(2) [OF inv])
  show "sorted_wrt (\<lambda>a b. domain_total m b \<le> domain_total m a) (headings rows)"
    unfolding assms(2) by (rule headings_sorted)
qed

theorem denial_rows_complete_witness:
  "sorted_wrt (\<lambda>a b. domain_total (foldl model_observe model_new sample_run) b \<le>
       domain_total (foldl model_observe model_new sample_run) a)
     (headings (denial_rows \<lparr>te_width = length, te_hazardous = (\<lambda>c. c < 32)\<rparr>
       (foldl model_observe model_new sample_run)))"
  using denial_rows_complete [OF refl refl] by blast

end
