(* ===== verification/Tui_Loop_Properties.thy ===== *)
theory Tui_Loop_Properties
  imports Tui_Loop Tui_App_Properties Row_Listing
begin

text \<open>
  Properties of the interactive loop: draining the ready events, the states the loop goes through,
  and the terminal session.
\<close>

subsection \<open>Draining\<close>

definition only_warned :: "app \<Rightarrow> app \<Rightarrow> bool" where
  "only_warned a a' \<longleftrightarrow> (\<exists>x. a' = a\<lparr>app_collector_warning := x\<rparr>)"

lemma only_warned_refl [simp]: "only_warned a a"
  unfolding only_warned_def by (rule exI [of _ "app_collector_warning a"]) simp



text \<open>The results of successive calls, and what the errors among them leave as the warning.\<close>

primrec receives :: "('w \<Rightarrow> 'w \<times> 'p received) \<Rightarrow> nat \<Rightarrow> 'w \<Rightarrow> 'w \<times> 'p received list" where
  "receives receive 0 w = (w, [])"
| "receives receive (Suc k) w =
     (case receive w of (w1, r) \<Rightarrow> (case receives receive k w1 of (w2, rs) \<Rightarrow> (w2, r # rs)))"

fun warned :: "('p \<Rightarrow> string) \<Rightarrow> app \<Rightarrow> 'p received \<Rightarrow> app" where
  "warned show_poll a (Inl (CollectorError er)) = set_collector_warning a (display_receive_error show_poll er)"
| "warned show_poll a _ = a"

text \<open>The results after which a drain goes on.\<close>

fun recoverable :: "'p received \<Rightarrow> bool" where
  "recoverable (Inl er) \<longleftrightarrow> recoverable_collector_error (source_kind er)"
| "recoverable (Inr _) \<longleftrightarrow> True"

lemma NoEntry_not_recoverable [simp]: "\<not> recoverable_collector_error None"
  by (simp add: recoverable_collector_error_def)


text \<open>What a drain that returned has done, in terms of the results of its calls.\<close>

definition drained ::
  "('p \<Rightarrow> string) \<Rightarrow> ('w \<Rightarrow> 'w \<times> 'p received) \<Rightarrow> 'w \<Rightarrow> app \<Rightarrow> observation_model \<Rightarrow> nat \<Rightarrow>
     'w \<times> ('p poll_error + app \<times> observation_model \<times> nat) \<Rightarrow> bool" where
  "drained show_poll receive w a m n res \<longleftrightarrow>
     (\<exists>k rs. receives receive k w = (fst res, rs) \<and> (\<forall>r\<in>set (butlast rs). recoverable r) \<and>
        (case snd res of
           Inl er \<Rightarrow> rs \<noteq> [] \<and> last rs = Inl er \<and> er \<noteq> NoEntry \<and> \<not> recoverable_collector_error (source_kind er)
         | Inr (a', m', n') \<Rightarrow>
             n' = n + length (events_of rs) \<and> n' \<le> MAX_READY_EVENTS_PER_CYCLE \<and>
             m' = foldl model_observe m (events_of rs) \<and> a' = foldl (warned show_poll) a rs \<and>
             (rs \<noteq> [] \<and> last rs = Inl NoEntry \<or> n' = MAX_READY_EVENTS_PER_CYCLE \<and> (\<forall>r\<in>set rs. recoverable r))))"

lemma drained_full:
  "n = MAX_READY_EVENTS_PER_CYCLE \<Longrightarrow> drained show_poll receive w a m n (w, Inr (a, m, n))"
  unfolding drained_def by (intro exI [of _ 0] exI [of _ "[]"]) simp

lemma drained_last:
  assumes "receive w = (w', r)"
  shows "r = Inl NoEntry \<Longrightarrow> n \<le> MAX_READY_EVENTS_PER_CYCLE \<Longrightarrow>
      drained show_poll receive w a m n (w', Inr (a, m, n))"
    "r = Inl er \<Longrightarrow> er \<noteq> NoEntry \<Longrightarrow> \<not> recoverable r \<Longrightarrow> drained show_poll receive w a m n (w', Inl er)"
  unfolding drained_def by (intro exI [of _ "Suc 0"] exI [of _ "[r]"]; simp add: assms)+

lemma drained_step:
  assumes "receive w = (w1, r)" "recoverable r"
    "drained show_poll receive w1 (warned show_poll a r) (foldl model_observe m (events_of [r]))
       (n + length (events_of [r])) res"
  shows "drained show_poll receive w a m n res"
proof -
  obtain k rs where rs: "receives receive k w1 = (fst res, rs)" "\<forall>r\<in>set (butlast rs). recoverable r"
    "case snd res of
       Inl er \<Rightarrow> rs \<noteq> [] \<and> last rs = Inl er \<and> er \<noteq> NoEntry \<and> \<not> recoverable_collector_error (source_kind er)
     | Inr (a', m', n') \<Rightarrow>
         n' = n + length (events_of [r]) + length (events_of rs) \<and> n' \<le> MAX_READY_EVENTS_PER_CYCLE \<and>
         m' = foldl model_observe (foldl model_observe m (events_of [r])) (events_of rs) \<and>
         a' = foldl (warned show_poll) (warned show_poll a r) rs \<and>
         (rs \<noteq> [] \<and> last rs = Inl NoEntry \<or> n' = MAX_READY_EVENTS_PER_CYCLE \<and> (\<forall>r\<in>set rs. recoverable r))"
    using assms(3) unfolding drained_def by blast
  have "events_of (r # rs) = events_of [r] @ events_of rs"
    by (cases r) simp_all
  with rs assms(1,2) show ?thesis
    unfolding drained_def
    by (intro exI [of _ "Suc k"] exI [of _ "r # rs"]) (auto split: sum.splits)
qed

lemma drain_step:
  assumes "n < MAX_READY_EVENTS_PER_CYCLE" "receive w = (w', r)"
  shows "drain_loop show_poll receive w a m n =
    (case r of
       Inr ev \<Rightarrow> drain_loop show_poll receive w' a (model_observe m ev) (n + 1)
     | Inl NoEntry \<Rightarrow> Some (w', Inr (a, m, n))
     | Inl (CollectorError er) \<Rightarrow>
         (case handle_collector_error show_poll a (CollectorError er) of
            Inl er' \<Rightarrow> Some (w', Inl er')
          | Inr a' \<Rightarrow> drain_loop show_poll receive w' a' m n))"
  using assms by (subst drain_loop.simps) (simp only: if_True prod.case)

lemma handle_collector_error_iff:
  "handle_collector_error show_poll a (CollectorError er) =
     (if recoverable (Inl (CollectorError er) :: 'p received)
      then Inr (warned show_poll a (Inl (CollectorError er))) else Inl (CollectorError (er :: 'p receive_error)))"
  by (simp add: handle_collector_error_def)

text \<open>Draining returns when recoverable errors use up a budget, in worlds that satisfy \<open>I\<close>.\<close>

definition errors_use_up :: "('w \<Rightarrow> bool) \<Rightarrow> ('w \<Rightarrow> nat) \<Rightarrow> ('w \<Rightarrow> 'w \<times> 'p received) \<Rightarrow> bool" where
  "errors_use_up I budget receive \<longleftrightarrow>
     (\<forall>w w' r. I w \<and> receive w = (w', r) \<longrightarrow> I w' \<and>
        (\<forall>er. r = Inl (CollectorError er) \<and> recoverable_collector_error (Some (re_kind er)) \<longrightarrow>
           budget w' < budget w))"

lemma drain_loop_returns:
  assumes budget: "errors_use_up I budget receive"
    and "I w" "n \<le> MAX_READY_EVENTS_PER_CYCLE"
  shows "\<exists>res. drain_loop show_poll receive w a m n = Some res"
  using assms(2,3)
proof (induction "(MAX_READY_EVENTS_PER_CYCLE - n, budget w)" arbitrary: n w a m
    rule: wf_induct_rule [OF wf_lex_prod [OF wf_less_than wf_less_than]])
  case (1 n w a m)
  show ?case
  proof (cases "n < MAX_READY_EVENTS_PER_CYCLE")
    case False
    then show ?thesis
      by (subst drain_loop.simps) simp
  next
    case True
    obtain w' r where rec: "receive w = (w', r)" by fastforce
    have inv': "I w'" using budget "1.prems"(1) rec by (simp add: errors_use_up_def)
    note step = drain_step [of n receive w w' r show_poll a m, OF True rec]
    consider ev where "r = Inr ev" | "r = Inl NoEntry" | er where "r = Inl (CollectorError er)"
      by (metis sumE poll_error.exhaust)
    then show ?thesis
    proof cases
      case (1 ev)
      have "MAX_READY_EVENTS_PER_CYCLE - (n + 1) < MAX_READY_EVENTS_PER_CYCLE - n" using True by simp
      then show ?thesis
        using "1.hyps" [of "n + 1" w' a "model_observe m ev"] inv' True step 1 by simp
    next
      case 2
      then show ?thesis using step by simp
    next
      case (3 er)
      show ?thesis
      proof (cases "recoverable_collector_error (Some (re_kind er))")
        case True
        have "budget w' < budget w" using budget rec 3 True "1.prems"(1) by (simp add: errors_use_up_def)
        then show ?thesis
          using "1.hyps" [of n w' "warned show_poll a r" m] "1.prems" inv' step 3 True
          by (simp add: handle_collector_error_iff)
      next
        case False
        then show ?thesis using step 3 by (simp add: handle_collector_error_iff)
      qed
    qed
  qed
qed

subsection \<open>What the loop keeps\<close>














subsection \<open>The states of the loop\<close>


lemma drain_loop_done:
  fixes show_poll :: "'p \<Rightarrow> string" and receive :: "'w \<Rightarrow> 'w \<times> 'p received"
  assumes "drain_loop show_poll receive w a m n = Some res" "n \<le> MAX_READY_EVENTS_PER_CYCLE"
  shows "drained show_poll receive w a m n res"
proof -
  have "n \<le> MAX_READY_EVENTS_PER_CYCLE \<longrightarrow> drained show_poll receive w a m n res"
  proof (rule drain_loop.raw_induct [where P = "\<lambda>s r w a m n res. n \<le> MAX_READY_EVENTS_PER_CYCLE \<longrightarrow>
        drained s r w a m n res", OF _ assms(1)], intro impI)
    fix f and s :: "'p \<Rightarrow> string" and rec :: "'w \<Rightarrow> 'w \<times> 'p received" and w a m n res
    assume IH: "\<And>s rec w a m n res. f s rec w a m n = Some res \<Longrightarrow>
        n \<le> MAX_READY_EVENTS_PER_CYCLE \<longrightarrow> drained s (rec :: 'w \<Rightarrow> 'w \<times> 'p received) w a m n res"
      and eq: "(if n < MAX_READY_EVENTS_PER_CYCLE
        then case rec w of (w', r) \<Rightarrow>
           (case r of
              Inl NoEntry \<Rightarrow> Some (w', Inr (a, m, n))
            | Inl (CollectorError er) \<Rightarrow>
                (case handle_collector_error s a (CollectorError er) of
                   Inl er' \<Rightarrow> Some (w', Inl er')
                 | Inr a' \<Rightarrow> f s rec w' a' m n)
            | Inr ev \<Rightarrow> f s rec w' a (model_observe m ev) (n + 1))
        else Some (w, Inr (a, m, n))) = Some res"
      and le: "n \<le> MAX_READY_EVENTS_PER_CYCLE"
    obtain w' r where rec: "rec w = (w', r)" by (cases "rec w")
    show "drained s rec w a m n res"
    proof (cases "n < MAX_READY_EVENTS_PER_CYCLE")
      case True
      consider ev where "r = Inr ev" | "r = Inl NoEntry" | er where "r = Inl (CollectorError er)" "recoverable r"
        | er where "r = Inl (CollectorError er)" "\<not> recoverable r"
        by (metis sumE poll_error.exhaust)
      then show ?thesis
      proof cases
        case (1 ev)
        then have "f s rec w' a (model_observe m ev) (n + 1) = Some res" using eq rec True by simp
        from IH [OF this] True 1 show ?thesis by (intro drained_step [where w = w and ?w1.0 = w' and r = r]) (simp_all add: rec)
      next
        case 2
        then show ?thesis using eq rec True drained_last(1) [of rec w w' r] by auto
      next
        case (3 er)
        then have "f s rec w' (warned s a r) m n = Some res"
          using eq rec True by (simp add: handle_collector_error_iff)
        from IH [OF this] le 3 show ?thesis by (intro drained_step [where w = w and ?w1.0 = w' and r = r]) (simp_all add: rec)
      next
        case (4 er)
        then have "res = (w', Inl (CollectorError er))"
          using eq rec True by (simp add: handle_collector_error_iff)
        with drained_last(2) [of rec w w' r] rec 4 show ?thesis by simp
      qed
    next
      case False
      then show ?thesis using eq le drained_full [of n s rec w a m] by auto
    qed
  qed
  then show ?thesis using assms(2) by simp
qed






subsection \<open>The terminal session\<close>

text \<open>
  The modes that may still be active after a trace. A failed write may have reached the terminal, so it
  counts as an activation; a failed deactivation may not have, so it leaves the mode active.
\<close>

fun settle :: "terminal_op \<times> bool \<Rightarrow> terminal_op set \<Rightarrow> terminal_op set" where
  "settle (EnableRaw, ok) s = (if ok then insert EnableRaw s else s)"
| "settle (EnterAlternate, ok) s = insert EnterAlternate s"
| "settle (EnableMouse, ok) s = insert EnableMouse s"
| "settle (DisableRaw, ok) s = (if ok then s - {EnableRaw} else s)"
| "settle (LeaveAlternate, ok) s = (if ok then s - {EnterAlternate} else s)"
| "settle (DisableMouse, ok) s = (if ok then s - {EnableMouse} else s)"

definition active_modes :: "terminal_trace \<Rightarrow> terminal_op set" where
  "active_modes tr = fold settle tr {}"

fun deactivation :: "terminal_op \<Rightarrow> terminal_op" where
  "deactivation EnableRaw = DisableRaw"
| "deactivation EnterAlternate = LeaveAlternate"
| "deactivation EnableMouse = DisableMouse"
| "deactivation op = op"

text \<open>A terminal on which every call succeeds and the user presses one key again and again.\<close>

definition key_io :: "key_code \<Rightarrow> (nat, nat, nat) tui_io" where
  "key_io k = \<lparr>ti_recv_timeout = (\<lambda>w. (w, Inl NoEntry)), ti_try_recv = (\<lambda>w. (w, Inl NoEntry)),
     ti_terminal = (\<lambda>w op. (w, Inr ())), ti_new = (\<lambda>w. (w, Inr ())), ti_area = (\<lambda>w. (w, Inr sample_area)),
     ti_flush = (\<lambda>w fr. (w, Inr ())), ti_poll = (\<lambda>w. (w, Inr True)), ti_read = (\<lambda>w. (w, Inr (KeyPress k)))\<rparr>"

definition plain_layout :: tui_layout where
  "plain_layout = \<lparr>tl_vertical = (\<lambda>r. [r, r, r]), tl_panes = (\<lambda>r. [r, r])\<rparr>"

lemma idle_drain: "drain_ready_events show_poll (\<lambda>w. (w, Inl NoEntry)) w a m = Some (w, Inr (a, m, 0))"
  unfolding drain_ready_events_def by (subst drain_loop.simps) (simp add: MAX_READY_EVENTS_PER_CYCLE_def)

lemma key_collect: "collect_events show_poll (key_io k) w a m = Some (w, Inr (a, m))"
  by (simp add: collect_events_def key_io_def idle_drain)

lemma key_cycle:
  "tui_cycle show_poll layout env (key_io k) w a m =
     Some (w, case handle_key m (fst (draw layout env sample_area a m)) k of
                None \<Rightarrow> CycleQuit | Some a' \<Rightarrow> CycleNext a' m)"
proof -
  have "draw_and_react layout env (key_io k) w a m =
      (w, case handle_key m (fst (draw layout env sample_area a m)) k of
         None \<Rightarrow> CycleQuit | Some a' \<Rightarrow> CycleNext a' m)"
    by (cases "draw layout env sample_area a m") (simp add: draw_and_react_def key_io_def)
  then show ?thesis by (simp add: tui_cycle_def key_collect)
qed

subsection \<open>Properties\<close>



text \<open>C22. Draining ends: if, under an invariant of the collector, every recoverable error it reports uses up part of a
  budget, a drain of the ready events returns. Take the results of its calls in order, up to the world it
  returned: the model has observed exactly the events among them, in that order and at most 1024; the
  warning is that of the last error among them; it stopped before 1024 events only at the first result
  that says nothing is ready. When it returns an error instead, that is the last result, the
  first one that is not recoverable.\<close>

theorem drain_returns:
  assumes "errors_use_up I budget receive" "I w"
  shows "\<exists>k rs w' res. receives receive k w = (w', rs) \<and> (\<forall>r\<in>set (butlast rs). recoverable r) \<and>
    drain_ready_events show_poll receive w a m = Some (w', res) \<and>
    (case res of
       Inl er \<Rightarrow> rs \<noteq> [] \<and> last rs = Inl er \<and> er \<noteq> NoEntry \<and> \<not> recoverable_collector_error (source_kind er)
     | Inr (a', m', n) \<Rightarrow>
         n = length (events_of rs) \<and> n \<le> 1024 \<and> m' = foldl model_observe m (events_of rs) \<and>
         a' = foldl (warned show_poll) a rs \<and>
         (rs \<noteq> [] \<and> last rs = Inl NoEntry \<or> n = 1024 \<and> (\<forall>r\<in>set rs. recoverable r)))"
proof -
  obtain w' r where res: "drain_loop show_poll receive w a m 0 = Some (w', r)"
    using drain_loop_returns [OF assms le0, of show_poll a m] by auto
  from drain_loop_done [OF this le0] obtain k rs where
    "receives receive k w = (w', rs)" "\<forall>r\<in>set (butlast rs). recoverable r"
    "case r of
       Inl er \<Rightarrow> rs \<noteq> [] \<and> last rs = Inl er \<and> er \<noteq> NoEntry \<and> \<not> recoverable_collector_error (source_kind er)
     | Inr (a', m', n) \<Rightarrow>
         n = length (events_of rs) \<and> n \<le> 1024 \<and> m' = foldl model_observe m (events_of rs) \<and>
         a' = foldl (warned show_poll) a rs \<and>
         (rs \<noteq> [] \<and> last rs = Inl NoEntry \<or> n = 1024 \<and> (\<forall>r\<in>set rs. recoverable r))"
    unfolding drained_def MAX_READY_EVENTS_PER_CYCLE_def add_0 fst_conv snd_conv by blast
  then show ?thesis
    unfolding drain_ready_events_def res by blast
qed

text \<open>A collector that has a list of results ready: a recoverable error, then an event.\<close>

definition list_receive :: "'p received list \<Rightarrow> 'p received list \<times> 'p received" where
  "list_receive w = (case w of [] \<Rightarrow> ([], Inl NoEntry) | r # rs \<Rightarrow> (rs, r))"

lemma list_receives: "snd (receives list_receive k w) = take k w @ replicate (k - length w) (Inl NoEntry)"
proof (induction k arbitrary: w)
  case (Suc k)
  from Suc.IH [of "tl w"] show ?case
    by (cases w) (auto simp: list_receive_def split: prod.splits)
qed simp

lemma list_receive_errors: "errors_use_up (\<lambda>_. True) length list_receive"
  by (auto simp: errors_use_up_def list_receive_def split: list.splits)

definition ready_event :: event where
  "ready_event = FreeDomain \<lparr>fd_timestamp = KernelTimestamp 9, fd_domain_id = LandlockId 0x100000001,
     fd_denial_count = 3\<rparr>"

definition ready_results :: "unit received list" where
  "ready_results = [Inl (CollectorError output_queue_full), Inr ready_event]"

theorem drain_returns_witness:
  "\<exists>w' a'. drain_ready_events (\<lambda>_. []) list_receive ready_results app_new model_new =
     Some (w', Inr (a', model_observe model_new ready_event, 1))"
proof -
  from drain_returns [OF list_receive_errors TrueI, of ready_results "\<lambda>_. []" app_new model_new]
  obtain k rs w' res where drain: "receives list_receive k ready_results = (w', rs)"
    "drain_ready_events (\<lambda>_. []) list_receive ready_results app_new model_new = Some (w', res)"
    "case res of
       Inl er \<Rightarrow> rs \<noteq> [] \<and> last rs = Inl er \<and> er \<noteq> NoEntry \<and> \<not> recoverable_collector_error (source_kind er)
     | Inr (a', m', n) \<Rightarrow>
         n = length (events_of rs) \<and> n \<le> 1024 \<and> m' = foldl model_observe model_new (events_of rs) \<and>
         a' = foldl (warned (\<lambda>_. [])) app_new rs \<and>
         (rs \<noteq> [] \<and> last rs = Inl NoEntry \<or> n = 1024 \<and> (\<forall>r\<in>set rs. recoverable r))"
    by blast
  have rs: "rs = take k ready_results @ replicate (k - 2) (Inl NoEntry)"
    using list_receives [of k ready_results] drain(1) by (simp add: ready_results_def)
  have "k = 0 \<or> k = 1 \<or> k = 2 \<or> 2 < k"
    by arith
  then consider "rs = []" | "rs = [Inl (CollectorError output_queue_full)]" | "rs = ready_results"
    | j where "rs = ready_results @ replicate (Suc j) (Inl NoEntry)"
    unfolding rs by (auto simp: ready_results_def dest: less_imp_Suc_add)
  then show ?thesis
  proof cases
    case (4 j)
    have "events_of (replicate (Suc j) (Inl NoEntry :: unit received)) = []"
      by (induction j) simp_all
    with 4 have "events_of rs = [ready_event]" "last rs = Inl NoEntry"
      by (simp_all add: ready_results_def)
    with drain(2,3) show ?thesis
      by (cases res) auto
  qed (use drain(3) in \<open>auto simp: ready_results_def recoverable_collector_error_def output_queue_full_def split: sum.splits\<close>)
qed

text \<open>C38. The limit of 1024 events does not bound a drain by itself: errors are not counted, so while the collector keeps
  reporting malformed samples the drain does not return, and nothing is drawn or read meanwhile.\<close>

theorem drain_starved:
  "drain_ready_events show_poll (\<lambda>w. (w, Inl (CollectorError (ReceiveError MalformedSample d)))) w a m = None"
proof (rule ccontr)
  fix show_poll :: "'p \<Rightarrow> string" and d :: "'p error_detail" and w :: 'w
  let ?rec = "\<lambda>w :: 'w. (w, Inl (CollectorError (ReceiveError MalformedSample d)) :: 'p received)"
  assume "drain_ready_events show_poll ?rec w a m \<noteq> None"
  then obtain res where res: "drain_loop show_poll ?rec w a m 0 = Some res"
    unfolding drain_ready_events_def by blast
  have "0 < MAX_READY_EVENTS_PER_CYCLE \<and> ?rec = ?rec \<longrightarrow> False"
  proof (rule drain_loop.raw_induct [where P = "\<lambda>s r w a m n res. n < MAX_READY_EVENTS_PER_CYCLE \<and> r = ?rec \<longrightarrow> False",
        OF _ res], intro impI)
    fix f and s :: "'p \<Rightarrow> string" and r :: "'w \<Rightarrow> 'w \<times> 'p received" and w a m n res
    assume IH: "\<And>s r w a m n res. f s r w a m n = Some res \<Longrightarrow> n < MAX_READY_EVENTS_PER_CYCLE \<and> r = ?rec \<longrightarrow> False"
      and eq: "(if n < MAX_READY_EVENTS_PER_CYCLE
        then case r w of (w', x) \<Rightarrow>
           (case x of
              Inl NoEntry \<Rightarrow> Some (w', Inr (a, m, n))
            | Inl (CollectorError er) \<Rightarrow>
                (case handle_collector_error s a (CollectorError er) of
                   Inl er' \<Rightarrow> Some (w', Inl er')
                 | Inr a' \<Rightarrow> f s r w' a' m n)
            | Inr ev \<Rightarrow> f s r w' a (model_observe m ev) (n + 1))
        else Some (w, Inr (a, m, n))) = Some res"
      and now: "n < MAX_READY_EVENTS_PER_CYCLE \<and> r = ?rec"
    then have "\<exists>a'. f s ?rec w a' m n = Some res"
      by (auto simp: handle_collector_error_def recoverable_collector_error_def)
    then show False using IH now by blast
  qed
  then show False by (simp add: MAX_READY_EVENTS_PER_CYCLE_def)
qed

text \<open>C19. The terminal is restored: whenever the interactive mode returns, after quitting, a collector error or a
  failed terminal call at any point, it has attempted to deactivate each mode that may have been activated,
  in the reverse order and whether or not an earlier deactivation failed. A mode can still be active only
  when its own deactivation was attempted and failed; when every attempted deactivation succeeded, none is.\<close>

theorem terminal_restored:
  assumes "tui_run show_poll layout env io w = Some (w', tr, r)"
  shows "active_modes tr = {mode \<in> {EnableRaw, EnterAlternate, EnableMouse}. (deactivation mode, False) \<in> set tr} \<and>
    map fst tr \<in> {[EnableRaw], [EnableRaw, EnterAlternate, LeaveAlternate, DisableRaw],
      [EnableRaw, EnterAlternate, EnableMouse, DisableMouse, LeaveAlternate, DisableRaw]} \<and>
    (map fst tr = [EnableRaw] \<longrightarrow> tr = [(EnableRaw, False)])"
proof -
  obtain w1 tr1 s r1 where en: "enter io w = (w1, tr1, s, r1)" by (metis prod_cases4)
  then obtain w2 where "tr = tr1 @ snd (session_drop io s w2)"
    using assms by (auto simp: tui_run_def bind_eq_Some_conv split_beta)
  moreover have "(tr1, s) = ([(EnableRaw, False)], \<lparr>se_raw = False, se_alternate = False, se_mouse = False\<rparr>) \<or>
      (tr1, s) = ([(EnableRaw, True), (EnterAlternate, False)], \<lparr>se_raw = True, se_alternate = True, se_mouse = False\<rparr>) \<or>
      (\<exists>b. (tr1, s) = ([(EnableRaw, True), (EnterAlternate, True), (EnableMouse, b)],
         \<lparr>se_raw = True, se_alternate = True, se_mouse = True\<rparr>))"
    using en by (auto simp: enter_def split: prod.splits sum.splits)
  moreover have "\<exists>b1 b2 b3. snd (session_drop io s w2) =
      (if se_mouse s then [(DisableMouse, b1)] else []) @ (if se_alternate s then [(LeaveAlternate, b2)] else []) @
      (if se_raw s then [(DisableRaw, b3)] else [])"
    by (auto simp: session_drop_def split: prod.split)
  ultimately consider "tr = [(EnableRaw, False)]"
    | b2 b3 where "tr = [(EnableRaw, True), (EnterAlternate, False), (LeaveAlternate, b2), (DisableRaw, b3)]"
    | b b1 b2 b3 where "tr = [(EnableRaw, True), (EnterAlternate, True), (EnableMouse, b), (DisableMouse, b1),
        (LeaveAlternate, b2), (DisableRaw, b3)]"
    by auto
  then show ?thesis
  proof cases
    case (2 b2 b3)
    then show ?thesis
      by (cases b2; cases b3) (auto simp: active_modes_def)
  next
    case (3 b b1 b2 b3)
    then show ?thesis
      by (cases b1; cases b2; cases b3) (auto simp: active_modes_def)
  qed (auto simp: active_modes_def)
qed

text \<open>
  The user quits at once, on a terminal that works, and on one that refuses to leave the alternate screen.
\<close>

definition stuck_io :: "(nat, nat, nat) tui_io" where
  "stuck_io = (key_io (KeyChar CHR ''q''))\<lparr>ti_terminal := \<lambda>w op. (w, if op = LeaveAlternate then Inl 5 else Inr ())\<rparr>"

lemma quits_at_once:
  "tui_loop show_poll layout env (key_io (KeyChar CHR ''q'')) w app_new model_new = Some (w, Inr ())"
  "tui_loop show_poll layout env stuck_io w app_new model_new = Some (w, Inr ())"
proof -
  have "collect_events show_poll stuck_io w app_new model_new = Some (w, Inr (app_new, model_new))"
    by (simp add: stuck_io_def key_io_def collect_events_def idle_drain)
  moreover have "snd (draw_and_react layout env stuck_io w app_new model_new) = CycleQuit"
    "fst (draw_and_react layout env stuck_io w app_new model_new) = w"
    by (simp_all add: stuck_io_def key_io_def draw_and_react_def split_beta)
  ultimately have "tui_cycle show_poll layout env stuck_io w app_new model_new = Some (w, CycleQuit)"
    by (simp add: tui_cycle_def prod_eq_iff)
  then show "tui_loop show_poll layout env stuck_io w app_new model_new = Some (w, Inr ())"
    by (subst tui_loop.simps) simp
  show "tui_loop show_poll layout env (key_io (KeyChar CHR ''q'')) w app_new model_new = Some (w, Inr ())"
    by (subst tui_loop.simps) (simp add: key_cycle)
qed

theorem terminal_restored_witness:
  "(\<exists>w' tr r. tui_run (\<lambda>_. []) plain_layout plain_env (key_io (KeyChar CHR ''q'')) 0 = Some (w', tr, r) \<and>
     active_modes tr = {}) \<and>
   (\<exists>w' tr r. tui_run (\<lambda>_. []) plain_layout plain_env stuck_io 0 = Some (w', tr, r) \<and>
     active_modes tr = {EnterAlternate})"
proof (intro conjI)
  let ?io = "key_io (KeyChar CHR ''q'')"
  obtain w' r where run: "tui_run (\<lambda>_. []) plain_layout plain_env ?io 0 = Some (w', [(EnableRaw, True),
      (EnterAlternate, True), (EnableMouse, True), (DisableMouse, True), (LeaveAlternate, True), (DisableRaw, True)], r)"
    using quits_at_once(1) [of "\<lambda>_. []" plain_layout plain_env 0]
    by (auto simp: tui_run_def enter_def session_drop_def key_io_def)
  from terminal_restored [OF this] run
  show "\<exists>w' tr r. tui_run (\<lambda>_. []) plain_layout plain_env ?io 0 = Some (w', tr, r) \<and> active_modes tr = {}"
    by auto
  obtain w' r where run: "tui_run (\<lambda>_. []) plain_layout plain_env stuck_io 0 = Some (w', [(EnableRaw, True),
      (EnterAlternate, True), (EnableMouse, True), (DisableMouse, True), (LeaveAlternate, False), (DisableRaw, True)], r)"
    using quits_at_once(2) [of "\<lambda>_. []" plain_layout plain_env 0]
    by (auto simp: tui_run_def enter_def session_drop_def stuck_io_def key_io_def)
  have failed: "{mode \<in> {EnableRaw, EnterAlternate, EnableMouse}. (deactivation mode, False) \<in>
      set [(EnableRaw, True), (EnterAlternate, True), (EnableMouse, True), (DisableMouse, True),
        (LeaveAlternate, False), (DisableRaw, True)]} = {EnterAlternate}"
    by auto
  show "\<exists>w' tr r. tui_run (\<lambda>_. []) plain_layout plain_env stuck_io 0 = Some (w', tr, r) \<and>
      active_modes tr = {EnterAlternate}"
    by (intro exI conjI, rule run, rule trans [OF terminal_restored [OF run, THEN conjunct1] failed])
qed

end
