(* ===== verification/Lltop_Main.thy ===== *)
theory Lltop_Main
  imports Tui_Loop Batch
begin

text \<open>
  \<open>lltop/src/main.rs\<close>: the choice of the mode, the batch loop, and the order in which the program minimizes
  its privileges, prepares the collector, starts the worker and runs. The collector's receive calls,
  the two output streams, the thread functions and the world they act on are parameters. The batch loop
  ends only with an error; \<open>None\<close> is a loop that does not return.
\<close>

subsection \<open>Arguments and diagnostics\<close>

datatype mode = BatchMode | InteractiveMode

text \<open>An argument is its bytes; \<open>lossy\<close> is \<open>to_string_lossy\<close>.\<close>

type_synonym os_string = "u8 list"

definition batch_flag :: os_string where
  "batch_flag = map of_char ''--batch''"

definition parse_mode :: "(os_string \<Rightarrow> string) \<Rightarrow> os_string list \<Rightarrow> string + mode" where
  "parse_mode lossy args =
     (let program = (case args of [] \<Rightarrow> [] | p # _ \<Rightarrow> p);
          usage = ''usage: '' @ lossy program @ '' [--batch]''
      in case drop 1 args of
           [] \<Rightarrow> Inr InteractiveMode
         | [argument] \<Rightarrow> if argument = batch_flag then Inr BatchMode else Inl usage
         | _ \<Rightarrow> Inl usage)"

definition write_diagnostic ::
  "('w \<Rightarrow> string \<Rightarrow> 'w \<times> ('io + unit)) \<Rightarrow> ('w \<Rightarrow> 'w \<times> ('io + unit)) \<Rightarrow> string \<Rightarrow> string \<Rightarrow> 'w \<Rightarrow> 'w \<times> ('io + unit)" where
  "write_diagnostic wr fl prefix shown w =
     (case wr w (''lltop: '' @ prefix @ shown @ [CHR 0x0A]) of
        (w, Inl er) \<Rightarrow> (w, Inl er)
      | (w, Inr _) \<Rightarrow> fl w)"

subsection \<open>The batch mode\<close>

record ('w, 'p, 'io) batch_io =
  bi_recv_timeout :: "'w \<Rightarrow> 'w \<times> 'p received"
  bi_stdout :: "'w \<Rightarrow> string \<Rightarrow> 'w \<times> ('io + unit)"
  bi_stdout_flush :: "'w \<Rightarrow> 'w \<times> ('io + unit)"
  bi_stderr :: "'w \<Rightarrow> string \<Rightarrow> 'w \<times> ('io + unit)"
  bi_stderr_flush :: "'w \<Rightarrow> 'w \<times> ('io + unit)"

datatype ('p, 'io) batch_error = BatchIo 'io | BatchCollector "'p receive_error"

definition READY_SIGNAL :: string where "READY_SIGNAL = ''LLTOP_READY''"

partial_function (option) batch_loop ::
  "('p \<Rightarrow> string) \<Rightarrow> ('w, 'p, 'io) batch_io \<Rightarrow> batch \<Rightarrow> 'w \<Rightarrow> ('w \<times> (('p, 'io) batch_error + unit)) option" where
  "batch_loop show_poll io b w =
     (case bi_recv_timeout io w of (w, r) \<Rightarrow>
        (case r of
           Inr ev \<Rightarrow>
             (case process_and_write (bi_stdout io) (bi_stdout_flush io) b ev w of (b, w, res) \<Rightarrow>
                (case res of
                   Inl er \<Rightarrow> Some (w, Inl (BatchIo er))
                 | Inr _ \<Rightarrow> batch_loop show_poll io b w))
         | Inl NoEntry \<Rightarrow> batch_loop show_poll io b w
         | Inl (CollectorError er) \<Rightarrow>
             if re_kind er = OutputQueueFull \<or> re_kind er = MalformedSample
             then (case write_diagnostic (bi_stderr io) (bi_stderr_flush io) ''warning: ''
                          (display_receive_error show_poll er) w of (w, res) \<Rightarrow>
                     (case res of
                        Inl er \<Rightarrow> Some (w, Inl (BatchIo er))
                      | Inr _ \<Rightarrow> batch_loop show_poll io b w))
             else Some (w, Inl (BatchCollector er))))"

definition run_batch ::
  "('p \<Rightarrow> string) \<Rightarrow> ('w, 'p, 'io) batch_io \<Rightarrow> 'w \<Rightarrow> ('w \<times> (('p, 'io) batch_error + unit)) option" where
  "run_batch show_poll io w =
     (case bi_stderr io w (READY_SIGNAL @ [CHR 0x0A]) of
        (w, Inl er) \<Rightarrow> Some (w, Inl (BatchIo er))
      | (w, Inr _) \<Rightarrow>
          (case bi_stderr_flush io w of
             (w, Inl er) \<Rightarrow> Some (w, Inl (BatchIo er))
           | (w, Inr _) \<Rightarrow> batch_loop show_poll io batch_new w))"

subsection \<open>The program\<close>

datatype ('e, 'p, 'io, 'n) lltop_error =
    MinimizeError "('io, 'n) privilege_error"
  | UsageError string
  | PrepareFailed "('e, 'io, 'n) prepare_error"
  | SpawnError 'io
  | BatchFailed "('p, 'io) batch_error"
  | TuiFailed "('p, 'io) tui_error"
  | WorkerThreadPanicked
  | ExecutionAndWorker "('e, 'p, 'io, 'n) lltop_error" "('e, 'p, 'io, 'n) lltop_error"

definition join_worker :: "bool \<Rightarrow> ('e, 'p, 'io, 'n) lltop_error + unit" where
  "join_worker panicked = (if panicked then Inl WorkerThreadPanicked else Inr ())"

fun combine_execution_and_worker_results ::
  "('e, 'p, 'io, 'n) lltop_error + unit \<Rightarrow> ('e, 'p, 'io, 'n) lltop_error + unit \<Rightarrow>
     ('e, 'p, 'io, 'n) lltop_error + unit" where
  "combine_execution_and_worker_results (Inr _) (Inr _) = Inr ()"
| "combine_execution_and_worker_results (Inl primary) (Inr _) = Inl primary"
| "combine_execution_and_worker_results (Inr _) (Inl worker) = Inl worker"
| "combine_execution_and_worker_results (Inl primary) (Inl worker) = Inl (ExecutionAndWorker primary worker)"

fun error_source :: "('e, 'p, 'io, 'n) lltop_error \<Rightarrow> ('e, 'p, 'io, 'n) lltop_error option" where
  "error_source (ExecutionAndWorker primary worker) = Some primary"
| "error_source _ = None"

record ('w, 'e, 'p, 'io, 'n) program =
  pg_os :: "('w, 'io, 'n) os"
  pg_lib :: "'e libbpf"
  pg_args :: "os_string list"
  pg_lossy :: "os_string \<Rightarrow> string"
  pg_show_poll :: "'p \<Rightarrow> string"
  pg_spawn :: "'w \<Rightarrow> 'w \<times> ('io + unit)"
  pg_join :: "'w \<Rightarrow> 'w \<times> bool"
  pg_batch_io :: "'p system \<Rightarrow> ('w, 'p, 'io) batch_io"
  pg_tui_io :: "'p system \<Rightarrow> ('w, 'p, 'io) tui_io"
  pg_layout :: tui_layout
  pg_env :: tui_env

definition run_mode ::
  "('w, 'e, 'p, 'io, 'n) program \<Rightarrow> mode \<Rightarrow> 'p system \<Rightarrow> 'w \<Rightarrow> ('w \<times> (('e, 'p, 'io, 'n) lltop_error + unit)) option" where
  "run_mode pg md s w =
     (case md of
        BatchMode \<Rightarrow>
          map_option (\<lambda>(w, r). (w, map_err BatchFailed r)) (run_batch (pg_show_poll pg) (pg_batch_io pg s) w)
      | InteractiveMode \<Rightarrow>
          map_option (\<lambda>(w, _, r). (w, map_err TuiFailed r))
            (tui_run (pg_show_poll pg) (pg_layout pg) (pg_env pg) (pg_tui_io pg s) w))"

text \<open>
  The first part of \<open>run\<close>, up to the start of the worker thread. An error comes with the privilege
  value that leaving the function drops, if there is one.
\<close>

definition lltop_setup ::
  "('w, 'e, 'p, 'io, 'n) program \<Rightarrow> 'w \<Rightarrow>
     'w \<times> (policy option \<times> ('e, 'p, 'io, 'n) lltop_error + policy \<times> mode \<times> 'p system) completion" where
  "lltop_setup pg w =
     (case minimize (pg_os pg) w of
        (w, Aborted) \<Rightarrow> (w, Aborted)
      | (w, Returned (Inl er)) \<Rightarrow> (w, Returned (Inl (None, MinimizeError er)))
      | (w, Returned (Inr p)) \<Rightarrow>
          (case parse_mode (pg_lossy pg) (pg_args pg) of
             Inl usage \<Rightarrow> (w, Returned (Inl (Some p, UsageError usage)))
           | Inr md \<Rightarrow>
               (case prepare (pg_os pg) (pg_lib pg) config_default p w of
                  (_, w, p, Inl er) \<Rightarrow> (w, Returned (Inl (Some p, PrepareFailed er)))
                | (_, w, p, Inr s) \<Rightarrow>
                    (case pg_spawn pg w of
                       (w, Inl er) \<Rightarrow> (w, Returned (Inl (Some p, SpawnError er)))
                     | (w, Inr _) \<Rightarrow> (w, Returned (Inr (p, md, s)))))))"

text \<open>Returning from \<open>run\<close> drops the privilege value.\<close>

definition leave_run :: "('w, 'io, 'n) os \<Rightarrow> policy \<Rightarrow> 'w \<Rightarrow> 'r \<Rightarrow> 'w \<times> 'r completion" where
  "leave_run k p w r =
     (case drop_privileges k p w of (w, Returned _) \<Rightarrow> (w, Returned r) | (w, Aborted) \<Rightarrow> (w, Aborted))"

definition lltop_run ::
  "('w, 'e, 'p, 'io, 'n) program \<Rightarrow> 'w \<Rightarrow> ('w \<times> (('e, 'p, 'io, 'n) lltop_error + unit) completion) option" where
  "lltop_run pg w =
     (case lltop_setup pg w of
        (w, Aborted) \<Rightarrow> Some (w, Aborted)
      | (w, Returned (Inl (None, er))) \<Rightarrow> Some (w, Returned (Inl er))
      | (w, Returned (Inl (Some p, er))) \<Rightarrow> Some (leave_run (pg_os pg) p w (Inl er))
      | (w, Returned (Inr (p, md, s))) \<Rightarrow>
          Option.bind (run_mode pg md s w)
            (\<lambda>(w, r). case pg_join pg w of (w, panicked) \<Rightarrow>
               Some (leave_run (pg_os pg) p w
                 (combine_execution_and_worker_results r (join_worker panicked)))))"

subsection \<open>Reporting\<close>

text \<open>The texts of the errors of other crates.\<close>

record ('e, 'p, 'io, 'n) texts =
  tx_bpf :: "'e \<Rightarrow> string"
  tx_poll :: "'p \<Rightarrow> string"
  tx_io :: "'io \<Rightarrow> string"
  tx_errno :: "'n \<Rightarrow> string"

fun display_lltop_error :: "('e, 'p, 'io, 'n) texts \<Rightarrow> ('e, 'p, 'io, 'n) lltop_error \<Rightarrow> string" where
  "display_lltop_error tx (MinimizeError er) = display_privilege_error (tx_io tx) (tx_errno tx) er"
| "display_lltop_error tx (UsageError usage) = usage"
| "display_lltop_error tx (PrepareFailed er) = display_prepare_error (tx_bpf tx) (tx_io tx) (tx_errno tx) er"
| "display_lltop_error tx (SpawnError er) = tx_io tx er"
| "display_lltop_error tx (BatchFailed (BatchIo er)) = tx_io tx er"
| "display_lltop_error tx (BatchFailed (BatchCollector er)) = display_receive_error (tx_poll tx) er"
| "display_lltop_error tx (TuiFailed (TuiIo er)) = tx_io tx er"
| "display_lltop_error tx (TuiFailed (TuiCollector er)) = display_poll_error (tx_poll tx) er"
| "display_lltop_error tx WorkerThreadPanicked = ''collector worker thread panicked''"
| "display_lltop_error tx (ExecutionAndWorker primary worker) =
     ''primary execution failure: '' @ display_lltop_error tx primary @
     ''; additional worker shutdown/join failure: '' @ display_lltop_error tx worker"

text \<open>The program with its exit status; an aborted process has none.\<close>

definition lltop_main ::
  "('e, 'p, 'io, 'n) texts \<Rightarrow> ('w \<Rightarrow> string \<Rightarrow> 'w \<times> ('io + unit)) \<Rightarrow> ('w \<Rightarrow> 'w \<times> ('io + unit)) \<Rightarrow>
     ('w, 'e, 'p, 'io, 'n) program \<Rightarrow> 'w \<Rightarrow> ('w \<times> nat option) option" where
  "lltop_main tx wr fl pg w =
     map_option (\<lambda>(w, c). case c of
         Returned (Inr _) \<Rightarrow> (w, Some 0)
       | Returned (Inl er) \<Rightarrow> (fst (write_diagnostic wr fl [] (display_lltop_error tx er) w), Some 1)
       | Aborted \<Rightarrow> (w, None))
       (lltop_run pg w)"

end
