(* ===== verification/Main_Properties.thy ===== *)
theory Main_Properties
  imports Lltop_Main Prepare_Properties
begin

text \<open>
  Properties of the program as a whole: its privileges when it starts to observe, how it ends, and
  the transcript of the batch mode.
\<close>

subsection \<open>Starting\<close>

lemma minimize_Minimized: "minimize k w = (w', Returned (Inr p)) \<Longrightarrow> p = Minimized"
  by (auto simp: minimize_def split: prod.splits sum.splits completion.splits)

lemma minimize_failed:
  assumes "inspections_truthful k view" "no_new_privs_isolated k view"
    "minimize k w = (w', Returned (Inl er))"
  shows "same_capabilities (view w') (view w) \<or> reduced empty_capabilities (view w')"
  using assms(3) minimize_prefix_same [OF assms(1,2)] cleanup_reduced [OF assms(1), of Minimized]
  by (auto simp: minimize_def split: prod.splits sum.splits completion.splits)

lemma prepare_policy:
  fixes k :: "('w, 'io, 'n) os" and lib :: "'e libbpf"
  assumes "inspections_truthful k view" "prepare k lib config Minimized w = (tr, w', p', r)"
  shows "case r of
      Inl er \<Rightarrow> p' \<in> {Minimized, VerificationPending}
    | Inr s \<Rightarrow> p' = Finished \<and> reduced empty_capabilities (view w') \<and> s = system_init (event_capacity config)"
proof -
  obtain w1 p1 r1 where fin: "finish k Minimized w = (w1, p1, r1)" by (cases "finish k Minimized w") auto
  have ok: "r1 = Inr u \<Longrightarrow> p1 = Finished \<and> reduced empty_capabilities (view w1)" for u
    using finish_policy_reduced [OF assms(1), of Minimized Explicit w w1 p1] fin by (simp add: finish_def)
  have failed: "r1 = Inl er \<Longrightarrow> p1 = Minimized \<or> p1 = VerificationPending" for er
    using finish_failed [of k Minimized w w1 p1 er] fin by (auto simp: ensure_can_prepare_def)
  have "ensure_can_prepare Minimized = (Inr () :: ('io, 'n) privilege_error + unit)"
    by (simp add: ensure_can_prepare_def)
  with assms(2) fin ok failed show ?thesis
    by (cases r1) (auto simp: prepare_def backend_prepare_def split: prod.splits sum.splits)
qed

text \<open>Starting a thread leaves the credentials alone.\<close>

definition spawn_keeps :: "('w, 'e, 'p, 'io, 'n) program \<Rightarrow> ('w \<Rightarrow> credentials) \<Rightarrow> bool" where
  "spawn_keeps pg view \<longleftrightarrow> (\<forall>w. view (fst (pg_spawn pg w)) = view w)"

lemma setup_cases:
  fixes pg :: "('w, 'e, 'p, 'io, 'n) program"
  assumes "inspections_truthful (pg_os pg) view" "no_new_privs_isolated (pg_os pg) view"
    "lltop_setup pg w = (w', Returned r)"
  shows "case r of
      Inr (p, md, s) \<Rightarrow> p = Finished \<and> parse_mode (pg_lossy pg) (pg_args pg) = Inr md \<and>
        s = system_init DEFAULT_EVENT_CAPACITY \<and> (spawn_keeps pg view \<longrightarrow> reduced empty_capabilities (view w'))
    | Inl (None, er) \<Rightarrow> same_capabilities (view w') (view w) \<or> reduced empty_capabilities (view w')
    | Inl (Some p, er) \<Rightarrow> p \<in> {Minimized, VerificationPending} \<or>
        p = Finished \<and> (spawn_keeps pg view \<longrightarrow> reduced empty_capabilities (view w'))"
proof -
  obtain w1 r1 where min: "minimize (pg_os pg) w = (w1, Returned r1)"
    using assms(3) by (cases "minimize (pg_os pg) w") (auto simp: lltop_setup_def split: completion.splits)
  show ?thesis
  proof (cases r1)
    case (Inl er)
    then show ?thesis
      using assms(3) min minimize_failed [OF assms(1,2), of w w1 er] by (auto simp: lltop_setup_def)
  next
    case (Inr p)
    then have p: "p = Minimized" using min minimize_Minimized [of "pg_os pg" w w1 p] by simp
    obtain tr w2 p2 and r2 :: "('e, 'io, 'n) prepare_error + 'p system" where prep: "prepare (pg_os pg) (pg_lib pg) config_default Minimized w1 = (tr, w2, p2, r2)"
      by (metis prod_cases4)
    obtain w3 r3 where spawn: "pg_spawn pg w2 = (w3, r3)" by (cases "pg_spawn pg w2")
    have "spawn_keeps pg view \<Longrightarrow> view w3 = view w2"
      using spawn unfolding spawn_keeps_def by (metis fst_conv)
    then show ?thesis
      using assms(3) min Inr p prep spawn prepare_policy [OF assms(1) prep]
      by (auto simp: lltop_setup_def config_default_def split: sum.splits)
  qed
qed

lemma leave_finished: "leave_run k Finished w r = (w, Returned r)"
  by (simp add: leave_run_def drop_privileges_def cleanup_def)

lemma leave_reduced:
  assumes "inspections_truthful k view" "p \<in> {Minimized, VerificationPending}"
    "leave_run k p w r = (w', Returned r')"
  shows "r' = r \<and> reduced empty_capabilities (view w')"
  using assms(3) cleanup_reduced [OF assms(1,2), of w w'] 
  by (auto simp: leave_run_def drop_privileges_def split: prod.splits completion.splits)

subsection \<open>The transcript of the batch mode\<close>

text \<open>A collector that returns the given results and then stops, and streams that record what is written.\<close>

record 'p script =
  sc_results :: "'p received list"
  sc_stdout :: "string list"
  sc_stderr :: "string list"

definition script_recv :: "'p script \<Rightarrow> 'p script \<times> 'p received" where
  "script_recv w =
     (case sc_results w of
        [] \<Rightarrow> (w, Inl (CollectorError worker_stop))
      | r # rs \<Rightarrow> (w\<lparr>sc_results := rs\<rparr>, r))"

definition script_io :: "('p script, 'p, 'io) batch_io" where
  "script_io = \<lparr>bi_recv_timeout = script_recv,
     bi_stdout = (\<lambda>w l. (w\<lparr>sc_stdout := sc_stdout w @ [l]\<rparr>, Inr ())), bi_stdout_flush = (\<lambda>w. (w, Inr ())),
     bi_stderr = (\<lambda>w l. (w\<lparr>sc_stderr := sc_stderr w @ [l]\<rparr>, Inr ())), bi_stderr_flush = (\<lambda>w. (w, Inr ()))\<rparr>"

definition nonfatal :: "'p receive_error \<Rightarrow> bool" where
  "nonfatal er \<longleftrightarrow> re_kind er = OutputQueueFull \<or> re_kind er = MalformedSample"

text \<open>The results before the first fatal error, and that error.\<close>

fun before_fatal :: "'p received list \<Rightarrow> 'p received list" where
  "before_fatal [] = []"
| "before_fatal (Inl (CollectorError er) # rs) =
     (if nonfatal er then Inl (CollectorError er) # before_fatal rs else [])"
| "before_fatal (r # rs) = r # before_fatal rs"

fun first_fatal :: "'p received list \<Rightarrow> 'p receive_error" where
  "first_fatal [] = worker_stop"
| "first_fatal (Inl (CollectorError er) # rs) = (if nonfatal er then first_fatal rs else er)"
| "first_fatal (r # rs) = first_fatal rs"

definition warning_line :: "('p \<Rightarrow> string) \<Rightarrow> 'p receive_error \<Rightarrow> string" where
  "warning_line show_poll er = ''lltop: warning: '' @ display_receive_error show_poll er @ [CHR 0x0A]"

definition warnings_of :: "('p \<Rightarrow> string) \<Rightarrow> 'p received list \<Rightarrow> string list" where
  "warnings_of show_poll rs = List.map_filter (\<lambda>r. case r of
       Inl (CollectorError er) \<Rightarrow> Some (warning_line show_poll er)
     | _ \<Rightarrow> None) rs"

lemma warnings_of_simps [simp]:
  "warnings_of show_poll [] = []" "warnings_of show_poll (Inr e # rs) = warnings_of show_poll rs"
  "warnings_of show_poll (Inl NoEntry # rs) = warnings_of show_poll rs"
  "warnings_of show_poll (Inl (CollectorError er) # rs) = warning_line show_poll er # warnings_of show_poll rs"
  by (simp_all add: warnings_of_def map_filter_def)

fun batch_records :: "batch \<Rightarrow> event list \<Rightarrow> string list" where
  "batch_records b [] = []"
| "batch_records b (e # es) =
     map (\<lambda>l. l @ [CHR 0x0A]) (snd (process b e)) @ batch_records (fst (process b e)) es"

lemma script_write_lines:
  "write_lines (bi_stdout script_io) w ls =
     (w\<lparr>sc_stdout := sc_stdout w @ map (\<lambda>l. l @ [CHR 0x0A]) ls\<rparr>, Inr ())"
  by (induction ls arbitrary: w) (simp_all add: script_io_def)

lemma script_process:
  "process_and_write (bi_stdout script_io) (bi_stdout_flush script_io) b e w =
     (fst (process b e), w\<lparr>sc_stdout := sc_stdout w @ map (\<lambda>l. l @ [CHR 0x0A]) (snd (process b e))\<rparr>, Inr ())"
  by (simp add: process_and_write_def script_write_lines split: prod.split) (simp add: script_io_def)

lemma script_diagnostic:
  "write_diagnostic (bi_stderr script_io) (bi_stderr_flush script_io) ''warning: ''
       (display_receive_error show_poll er) w =
     (w\<lparr>sc_stderr := sc_stderr w @ [warning_line show_poll er]\<rparr>, Inr ())"
  by (simp add: write_diagnostic_def script_io_def warning_line_def)

lemma script_recv_io [simp]: "bi_recv_timeout script_io w = script_recv w"
  by (simp add: script_io_def)

lemma batch_loop_script:
  "batch_loop show_poll (script_io :: ('p script, 'p, 'io) batch_io) b w =
     Some (\<lparr>sc_results = drop (length (before_fatal (sc_results w)) + 1) (sc_results w),
        sc_stdout = sc_stdout w @ batch_records b (events_of (before_fatal (sc_results w))),
        sc_stderr = sc_stderr w @ warnings_of show_poll (before_fatal (sc_results w))\<rparr>,
       Inl (BatchCollector (first_fatal (sc_results w))))"
proof (induction "sc_results w" arbitrary: b w)
  case Nil
  then show ?case
    by (subst batch_loop.simps) (simp add: script_recv_def worker_stop_def)
next
  case (Cons r rs)
  note results = Cons(2) [symmetric]
  consider e where "r = Inr e" | "r = Inl NoEntry" | er where "r = Inl (CollectorError er)" "nonfatal er"
    | er where "r = Inl (CollectorError er)" "\<not> nonfatal er"
    by (metis poll_error.exhaust sumE)
  then show ?case
  proof cases
    case (1 e)
    let ?w = "w\<lparr>sc_results := rs, sc_stdout := sc_stdout w @ map (\<lambda>l. l @ [CHR 0x0A]) (snd (process b e))\<rparr>"
    have "batch_loop show_poll (script_io :: ('p script, 'p, 'io) batch_io) b w =
        batch_loop show_poll script_io (fst (process b e)) ?w"
      by (subst batch_loop.simps) (simp add: script_recv_def results 1 script_process)
    then show ?thesis using Cons(1) [of ?w "fst (process b e)"] by (simp add: results 1)
  next
    case 2
    have "batch_loop show_poll (script_io :: ('p script, 'p, 'io) batch_io) b w =
        batch_loop show_poll script_io b (w\<lparr>sc_results := rs\<rparr>)"
      by (subst batch_loop.simps) (simp add: script_recv_def results 2)
    then show ?thesis using Cons(1) [of "w\<lparr>sc_results := rs\<rparr>" b] by (simp add: results 2)
  next
    case (3 er)
    let ?w = "w\<lparr>sc_results := rs, sc_stderr := sc_stderr w @ [warning_line show_poll er]\<rparr>"
    have "batch_loop show_poll (script_io :: ('p script, 'p, 'io) batch_io) b w =
        batch_loop show_poll script_io b ?w"
      using 3 by (subst batch_loop.simps) (simp add: script_recv_def results script_diagnostic nonfatal_def)
    then show ?thesis using Cons(1) [of ?w b] 3 by (simp add: results)
  next
    case (4 er)
    then show ?thesis by (subst batch_loop.simps) (simp add: script_recv_def results nonfatal_def)
  qed
qed

lemma run_batch_script:
  "run_batch show_poll script_io \<lparr>sc_results = rs, sc_stdout = [], sc_stderr = []\<rparr> =
     Some (\<lparr>sc_results = drop (length (before_fatal rs) + 1) rs,
        sc_stdout = batch_records batch_new (events_of (before_fatal rs)),
        sc_stderr = (READY_SIGNAL @ [CHR 0x0A]) # warnings_of show_poll (before_fatal rs)\<rparr>,
       Inl (BatchCollector (first_fatal rs)))"
proof -
  let ?w = "\<lparr>sc_results = rs, sc_stdout = [], sc_stderr = [READY_SIGNAL @ [CHR 0x0A]]\<rparr>"
  have "run_batch show_poll script_io \<lparr>sc_results = rs, sc_stdout = [], sc_stderr = []\<rparr> =
      batch_loop show_poll script_io batch_new ?w"
    by (simp add: run_batch_def script_io_def)
  then show ?thesis by (simp add: batch_loop_script)
qed

subsection \<open>Properties\<close>

text \<open>C12. Events are handled without privileges: when \<open>lltop\<close> gets to run its mode, the mode is the one the
  arguments ask for, the collector has the default capacity, the privilege value is finished, so that
  dropping it does nothing, and \<open>no_new_privs\<close> is set with every capability set empty. When it stops before
  that and the process goes on, either the minimization failed before it changed any capability, or
  the capabilities are verified empty.\<close>

theorem lltop_observes_unprivileged:
  fixes pg :: "('w, 'e, 'p, 'io, 'n) program"
  assumes "inspections_truthful (pg_os pg) view" "no_new_privs_isolated (pg_os pg) view" "spawn_keeps pg view"
    "lltop_setup pg w = (w1, Returned r)"
  shows "case r of
      Inr (p, md, s) \<Rightarrow> p = Finished \<and> reduced empty_capabilities (view w1) \<and>
        parse_mode (pg_lossy pg) (pg_args pg) = Inr md \<and> s = system_init 1024
    | Inl (_, er) \<Rightarrow> (\<forall>w2 out. lltop_run pg w = Some (w2, Returned out) \<longrightarrow> out = Inl er \<and>
        (same_capabilities (view w2) (view w) \<and> (\<exists>e. er = MinimizeError e) \<or>
         reduced empty_capabilities (view w2)))"
proof (cases r)
  case (Inr x)
  then show ?thesis
    using setup_cases [OF assms(1,2,4)] assms(3) by (auto simp: DEFAULT_EVENT_CAPACITY_def)
next
  case (Inl x)
  obtain po er where x: "x = (po, er)" by (cases x)
  have minimize_er: "po = None \<Longrightarrow> \<exists>e. er = MinimizeError e"
    using assms(4) Inl x by (auto simp: lltop_setup_def split: prod.splits sum.splits completion.splits)
  show ?thesis
  proof (cases po)
    case None
    then show ?thesis
      using Inl x setup_cases [OF assms(1,2,4)] minimize_er assms(4) by (auto simp: lltop_run_def)
  next
    case (Some p)
    then have run: "lltop_run pg w = Some (leave_run (pg_os pg) p w1 (Inl er))"
      using Inl x assms(4) by (simp add: lltop_run_def)
    consider "p \<in> {Minimized, VerificationPending}" | "p = Finished" "reduced empty_capabilities (view w1)"
      using setup_cases [OF assms(1,2,4)] assms(3) Inl x Some by auto
    then show ?thesis
      using run Inl x leave_reduced [OF assms(1), of p w1 "Inl er"]
      by cases (auto simp: leave_finished)
  qed
qed

text \<open>A program with a wrong argument on the simulated kernel.\<close>

definition misused_program :: "(credentials, string, unit, unit, nat) program" where
  "misused_program = \<lparr>pg_os = simulated_os, pg_lib = working_lib, pg_args = [[108], [45]], pg_lossy = (\<lambda>_. ''lltop''),
     pg_show_poll = (\<lambda>_. []), pg_spawn = (\<lambda>w. (w, Inr ())), pg_join = (\<lambda>w. (w, False)),
     pg_batch_io = (\<lambda>_. \<lparr>bi_recv_timeout = (\<lambda>w. (w, Inl NoEntry)), bi_stdout = (\<lambda>w _. (w, Inr ())),
       bi_stdout_flush = (\<lambda>w. (w, Inr ())), bi_stderr = (\<lambda>w _. (w, Inr ())), bi_stderr_flush = (\<lambda>w. (w, Inr ()))\<rparr>),
     pg_tui_io = (\<lambda>_. \<lparr>ti_recv_timeout = (\<lambda>w. (w, Inl NoEntry)), ti_try_recv = (\<lambda>w. (w, Inl NoEntry)),
       ti_terminal = (\<lambda>w _. (w, Inr ())), ti_new = (\<lambda>w. (w, Inr ())), ti_area = (\<lambda>w. (w, Inr rect_default)),
       ti_flush = (\<lambda>w _. (w, Inr ())), ti_poll = (\<lambda>w. (w, Inr True)), ti_read = (\<lambda>w. (w, Inr OtherInput))\<rparr>),
     pg_layout = \<lparr>tl_vertical = (\<lambda>_. []), tl_panes = (\<lambda>_. [])\<rparr>,
     pg_env = \<lparr>te_width = length, te_hazardous = (\<lambda>_. False)\<rparr>\<rparr>"

lemma misused_parse: "parse_mode (\<lambda>_. ''lltop'') [[108], [45]] = Inl (''usage: '' @ ''lltop'' @ '' [--batch]'')"
  by (simp add: parse_mode_def batch_flag_def)

theorem lltop_observes_unprivileged_witness:
  "\<exists>w1 po er. lltop_setup misused_program root_credentials = (w1, Returned (Inl (po, er))) \<and>
     (\<forall>w2 out. lltop_run misused_program root_credentials = Some (w2, Returned out) \<longrightarrow> out = Inl er)"
proof -
  obtain w1 where "minimize simulated_os root_credentials = (w1, Returned (Inr Minimized))"
    by (metis simulated_minimize prod.collapse)
  then have "lltop_setup misused_program root_credentials =
      (w1, Returned (Inl (Some Minimized, UsageError (''usage: '' @ ''lltop'' @ '' [--batch]''))))"
    by (simp add: lltop_setup_def misused_program_def misused_parse)
  moreover have "inspections_truthful (pg_os misused_program) (\<lambda>c. c)"
    "no_new_privs_isolated (pg_os misused_program) (\<lambda>c. c)" "spawn_keeps misused_program (\<lambda>c. c)"
    using simulated_truthful simulated_isolated by (simp_all add: misused_program_def spawn_keeps_def)
  ultimately show ?thesis
    using lltop_observes_unprivileged [of misused_program "\<lambda>c. c" root_credentials] by fastforce
qed

text \<open>C14. The transcript of the batch mode: on a collector that yields any finite sequence of results, with working output
  streams, it prints the ready signal, then for each event received before the first fatal error exactly
  the records of processing it, in order, and one warning per non-fatal error; it returns that fatal
  error, and never success.\<close>

theorem batch_transcript:
  "run_batch show_poll script_io \<lparr>sc_results = rs, sc_stdout = [], sc_stderr = []\<rparr> =
     Some (\<lparr>sc_results = drop (length (before_fatal rs) + 1) rs,
        sc_stdout = batch_records batch_new (events_of (before_fatal rs)),
        sc_stderr = (READY_SIGNAL @ [CHR 0x0A]) # warnings_of show_poll (before_fatal rs)\<rparr>,
       Inl (BatchCollector (first_fatal rs)))"
  by (rule run_batch_script)

end
