(* ===== verification/Tui_Style.thy ===== *)
theory Tui_Style
  imports Row_Listing
begin

text \<open>
  The styles of \<open>lltop/src/tui/theme.rs\<close> and how the rows of \<open>ui.rs\<close> choose theirs. The style type is
  that of the terminal library, so it is a parameter: \<open>style_ops\<close> has the constructor and the methods
  the sources call. The styled rows follow the row functions of \<open>Tui_Rows\<close> with the style added; the
  selection only enters through the styles.
\<close>

subsection \<open>The theme\<close>

datatype color = LightCyan | LightGreen | LightMagenta | LightRed | DarkGray | Gray | Indexed u8

datatype modifier = Bold | Dim | Italic

record 's style_ops =
  so_new :: 's
  so_fg :: "'s \<Rightarrow> color \<Rightarrow> 's"
  so_bg :: "'s \<Rightarrow> color \<Rightarrow> 's"
  so_add_modifier :: "'s \<Rightarrow> modifier \<Rightarrow> 's"
  so_patch :: "'s \<Rightarrow> 's \<Rightarrow> 's"

definition theme_normal :: "'s style_ops \<Rightarrow> 's" where
  "theme_normal S = so_new S"

definition theme_heading :: "'s style_ops \<Rightarrow> 's" where
  "theme_heading S = so_add_modifier S (so_fg S (so_new S) LightCyan) Bold"

definition theme_selected :: "'s style_ops \<Rightarrow> 's" where
  "theme_selected S = so_bg S (so_new S) (Indexed 238)"

definition theme_related :: "'s style_ops \<Rightarrow> 's" where
  "theme_related S = so_bg S (so_new S) (Indexed 236)"

definition theme_observed :: "'s style_ops \<Rightarrow> 's" where
  "theme_observed S = so_fg S (so_new S) LightGreen"

definition theme_tombstone :: "'s style_ops \<Rightarrow> 's" where
  "theme_tombstone S = so_add_modifier S (so_fg S (so_new S) DarkGray) Dim"

definition theme_unknown :: "'s style_ops \<Rightarrow> 's" where
  "theme_unknown S = so_add_modifier S (so_fg S (so_new S) DarkGray) Italic"

definition theme_trace_only :: "'s style_ops \<Rightarrow> 's" where
  "theme_trace_only S = so_fg S (so_new S) LightMagenta"

definition theme_hot :: "'s style_ops \<Rightarrow> 's" where
  "theme_hot S = so_add_modifier S (so_fg S (so_new S) LightRed) Bold"

definition theme_recent :: "'s style_ops \<Rightarrow> 's" where
  "theme_recent S = so_fg S (so_new S) LightRed"

definition theme_cooling :: "'s style_ops \<Rightarrow> 's" where
  "theme_cooling S = so_fg S (so_new S) Gray"

definition theme_cold :: "'s style_ops \<Rightarrow> 's" where
  "theme_cold S = so_fg S (so_new S) DarkGray"

definition recency :: "'s style_ops \<Rightarrow> u64 \<Rightarrow> 's" where
  "recency S age_ns =
     (if age_ns < 1000000000 then theme_hot S
      else if age_ns < 5000000000 then theme_recent S
      else if age_ns < 30000000000 then theme_cooling S
      else theme_cold S)"

subsection \<open>Styled rows\<close>

definition selected_style :: "'s style_ops \<Rightarrow> row_kind \<Rightarrow> row_kind option \<Rightarrow> 's \<Rightarrow> 's" where
  "selected_style S kind sel base = (if sel = Some kind then so_patch S base (theme_selected S) else base)"

fun lifecycle_style :: "'s style_ops \<Rightarrow> lifecycle_state \<Rightarrow> 's" where
  "lifecycle_style S Allocated = theme_observed S"
| "lifecycle_style S Deallocated = theme_tombstone S"

type_synonym 's styled_row = "display_row \<times> 's"

definition styled_domain_rows ::
  "'s style_ops \<Rightarrow> tui_env \<Rightarrow> observation_model \<Rightarrow> row_kind option \<Rightarrow> 's styled_row list" where
  "styled_domain_rows S env m sel =
     List.map_filter (\<lambda>(i, trail).
         map_option (\<lambda>d. (domain_row env i trail d,
             selected_style S (RowDomain i) sel (lifecycle_style S (dom_lifecycle d))))
           (domain (om_state m) i)) (domain_tree m)"

text \<open>The target of the selected denial, when there is one.\<close>

definition selected_target :: "tui_env \<Rightarrow> observation_model \<Rightarrow> row_kind option \<Rightarrow> ustring option" where
  "selected_target env m sel =
     (case sel of Some (RowDenial key) \<Rightarrow> map_option (target_of env) (model_denial m key) | _ \<Rightarrow> None)"

definition denial_style ::
  "'s style_ops \<Rightarrow> tui_env \<Rightarrow> observation_model \<Rightarrow> row_kind option \<Rightarrow> aggregated_denial \<Rightarrow> 's" where
  "denial_style S env m sel e =
     (let key = RowDenial (ag_key e);
          style = recency S (denial_age_ns m e);
          style = (if selected_target env m sel = Some (target_of env e) \<and> sel \<noteq> Some key
                   then so_patch S style (theme_related S) else style)
      in selected_style S key sel style)"

definition styled_group_rows ::
  "'s style_ops \<Rightarrow> tui_env \<Rightarrow> observation_model \<Rightarrow> row_kind option \<Rightarrow> ustring \<times> aggregated_denial list \<Rightarrow>
     's styled_row list" where
  "styled_group_rows S env m sel g =
     (heading_row (ascii ''  '' @ fst g), theme_heading S) #
     map (\<lambda>e. (denial_row env e, denial_style S env m sel e)) (sort_by (entry_le env) (snd g))"

definition styled_domain_block ::
  "'s style_ops \<Rightarrow> tui_env \<Rightarrow> observation_model \<Rightarrow> row_kind option \<Rightarrow> domain_id \<times> aggregated_denial list \<Rightarrow>
     's styled_row list" where
  "styled_domain_block S env m sel g =
     (denial_domain_row env m (fst g),
      selected_style S (RowDenialDomain (fst g)) sel (so_add_modifier S (theme_observed S) Bold)) #
     concat (map (styled_group_rows S env m sel) (sort_by group_le (group_by blockers_of (snd g))))"

definition styled_denial_rows ::
  "'s style_ops \<Rightarrow> tui_env \<Rightarrow> observation_model \<Rightarrow> row_kind option \<Rightarrow> 's styled_row list" where
  "styled_denial_rows S env m sel =
     foldl (\<lambda>rows g. rows @ (if rows \<noteq> [] then [(heading_row [], theme_normal S)] else []) @
         styled_domain_block S env m sel g) []
       (sort_by domain_le (group_by (\<lambda>e. denial_key_domain_id (ag_key e)) (hm_values (agg_entries (om_denials m)))))"

definition styled_ruleset_rows ::
  "'s style_ops \<Rightarrow> observation_model \<Rightarrow> row_kind option \<Rightarrow> 's styled_row list" where
  "styled_ruleset_rows S m sel =
     map (\<lambda>r. (ruleset_row r, selected_style S (RowRuleset (rs_id r)) sel (lifecycle_style S (rs_lifecycle r))))
       (sort_by ruleset_le (hm_values (st_rulesets (om_state m))))"

subsection \<open>The selection only highlights\<close>

text \<open>A denial row whose target is that of the selected denial.\<close>

definition shares_target :: "tui_env \<Rightarrow> observation_model \<Rightarrow> row_kind option \<Rightarrow> row_kind \<Rightarrow> bool" where
  "shares_target env m sel kind =
     (case kind of
        RowDenial key \<Rightarrow>
          (case model_denial m key of
             Some e \<Rightarrow> selected_target env m sel = Some (target_of env e)
           | None \<Rightarrow> False)
      | _ \<Rightarrow> False)"

text \<open>How a row with a given style looks when \<open>sel\<close> is selected.\<close>

definition highlight ::
  "'s style_ops \<Rightarrow> tui_env \<Rightarrow> observation_model \<Rightarrow> row_kind option \<Rightarrow> 's styled_row \<Rightarrow> 's styled_row" where
  "highlight S env m sel row =
     (fst row,
      if sel = Some (dr_kind (fst row)) then so_patch S (snd row) (theme_selected S)
      else if shares_target env m sel (dr_kind (fst row)) then so_patch S (snd row) (theme_related S)
      else snd row)"

text \<open>\<open>denial_rows\<close> separates the blocks of its domains; a row transformation can be moved inside.\<close>

lemma map_separated:
  assumes "\<forall>g\<in>set gs. map F (f g) = f' g" "F h = h'"
  shows "map F (foldl (\<lambda>rows g. rows @ (if rows \<noteq> [] then [h] else []) @ f g) [] gs) =
    foldl (\<lambda>rows g. rows @ (if rows \<noteq> [] then [h'] else []) @ f' g) [] gs"
  using assms(1)
proof (induction gs rule: rev_induct)
  case (snoc g gs)
  define R where "R = foldl (\<lambda>rows g. rows @ (if rows \<noteq> [] then [h] else []) @ f g) [] gs"
  define R' where "R' = foldl (\<lambda>rows g. rows @ (if rows \<noteq> [] then [h'] else []) @ f' g) [] gs"
  have "map F R = R'"
    using snoc unfolding R_def R'_def by simp
  moreover have "map F (f g) = f' g"
    using snoc.prems by simp
  ultimately have "map F (R @ (if R \<noteq> [] then [h] else []) @ f g) = R' @ (if R' \<noteq> [] then [h'] else []) @ f' g"
    using assms(2) by (cases R) auto
  then show ?case
    by (simp only: foldl_append foldl.simps R_def R'_def)
qed simp

lemma map_map_filter: "map F (List.map_filter f xs) = List.map_filter (\<lambda>x. map_option F (f x)) xs"
  by (induction xs) (auto simp: map_filter_simps split: option.splits)

lemma domain_row_kind: "dr_kind (domain_row env i trail d) = RowDomain i"
  by (simp add: domain_row_def Let_def)

lemma highlight_domain:
  "highlight S env m sel (domain_row env i trail d, selected_style S (RowDomain i) None st) =
     (domain_row env i trail d, selected_style S (RowDomain i) sel st)"
  by (simp add: highlight_def shares_target_def selected_style_def domain_row_kind)

lemma highlight_heading: "sel \<noteq> Some RowHeading \<Longrightarrow> highlight S env m sel (heading_row t, st) = (heading_row t, st)"
  by (simp add: highlight_def shares_target_def)

lemma highlight_denial:
  "model_denial m (ag_key e) = Some e \<Longrightarrow>
     highlight S env m sel (denial_row env e, denial_style S env m None e) =
       (denial_row env e, denial_style S env m sel e)"
  by (auto simp: highlight_def shares_target_def denial_style_def selected_style_def selected_target_def Let_def)

lemma highlight_group:
  assumes "sel \<noteq> Some RowHeading" "\<forall>e\<in>set (snd g). model_denial m (ag_key e) = Some e"
  shows "map (highlight S env m sel) (styled_group_rows S env m None g) = styled_group_rows S env m sel g"
  using assms by (simp add: styled_group_rows_def highlight_heading highlight_denial)

lemma highlight_block:
  assumes "sel \<noteq> Some RowHeading" "\<forall>e\<in>set (snd g). model_denial m (ag_key e) = Some e"
  shows "map (highlight S env m sel) (styled_domain_block S env m None g) = styled_domain_block S env m sel g"
proof -
  have "\<forall>g'\<in>set (group_by blockers_of (snd g)). set (snd g') \<subseteq> set (snd g)"
    using group_byD by fastforce
  then have "map (map (highlight S env m sel) \<circ> styled_group_rows S env m None)
      (sort_by group_le (group_by blockers_of (snd g))) =
    map (styled_group_rows S env m sel) (sort_by group_le (group_by blockers_of (snd g)))"
    using assms(2) by (intro map_cong refl) (auto intro!: highlight_group [OF assms(1)])
  moreover have "highlight S env m sel (denial_domain_row env m i, selected_style S (RowDenialDomain i) None st) =
      (denial_domain_row env m i, selected_style S (RowDenialDomain i) sel st)" for i st
    by (simp add: highlight_def shares_target_def selected_style_def)
  ultimately show ?thesis
    by (simp only: styled_domain_block_def list.map map_concat map_map)
qed

lemma erase_block: "map fst (styled_domain_block S env m sel g) = domain_block env m g"
  by (simp add: styled_domain_block_def domain_block_def map_concat comp_def styled_group_rows_def [abs_def]
      group_rows_def [abs_def])

lemma erase_styles:
  "map fst (styled_domain_rows S env m sel) = domain_rows env m"
  "map fst (styled_denial_rows S env m sel) = denial_rows env m"
  "map fst (styled_ruleset_rows S m sel) = ruleset_rows m"
proof -
  show "map fst (styled_domain_rows S env m sel) = domain_rows env m"
    unfolding styled_domain_rows_def domain_rows_def map_map_filter
    by (simp add: option.map_comp comp_def split_def)
  show "map fst (styled_denial_rows S env m sel) = denial_rows env m"
    unfolding styled_denial_rows_def denial_rows_def
    by (rule map_separated) (simp_all add: erase_block)
  show "map fst (styled_ruleset_rows S m sel) = ruleset_rows m"
    by (simp add: styled_ruleset_rows_def ruleset_rows_def)
qed

subsection \<open>Properties\<close>

text \<open>C23. The selection only highlights: after any events, the rows of a tab drawn with a selection are
  those drawn without one, in the same order and with the same texts; the selected row has the selected
  style patched in, every other denial of the same target the related style, and no other row changes.
  Without styles, the rows are those of the row functions.\<close>

theorem selection_highlights:
  assumes "m = foldl model_observe model_new es" "sel \<noteq> Some RowHeading"
  shows "styled_domain_rows S env m sel = map (highlight S env m sel) (styled_domain_rows S env m None) \<and>
    styled_denial_rows S env m sel = map (highlight S env m sel) (styled_denial_rows S env m None) \<and>
    styled_ruleset_rows S m sel = map (highlight S env m sel) (styled_ruleset_rows S m None) \<and>
    map fst (styled_denial_rows S env m sel) = denial_rows env m"
proof (intro conjI erase_styles)
  have inv: "agg_inv (om_denials m)"
    using assms(1) model_run_agg_inv by simp
  let ?gs = "sort_by domain_le (group_by (\<lambda>e. denial_key_domain_id (ag_key e)) (hm_values (agg_entries (om_denials m))))"
  have "\<forall>g\<in>set ?gs. set (snd g) \<subseteq> set (hm_values (agg_entries (om_denials m)))"
    using group_byD by fastforce
  then have "\<forall>g\<in>set ?gs. map (highlight S env m sel) (styled_domain_block S env m None g) =
      styled_domain_block S env m sel g"
    using agg_values(2) [OF inv] by (auto intro!: highlight_block [OF assms(2)])
  then show "styled_denial_rows S env m sel = map (highlight S env m sel) (styled_denial_rows S env m None)"
    unfolding styled_denial_rows_def
    by (subst map_separated [where f' = "styled_domain_block S env m sel" and h' = "(heading_row [], theme_normal S)"])
      (simp_all add: highlight_heading [OF assms(2)])
  show "styled_domain_rows S env m sel = map (highlight S env m sel) (styled_domain_rows S env m None)"
    unfolding styled_domain_rows_def map_map_filter
    by (simp add: option.map_comp comp_def split_def highlight_domain)
  show "styled_ruleset_rows S m sel = map (highlight S env m sel) (styled_ruleset_rows S m None)"
    by (simp add: styled_ruleset_rows_def highlight_def shares_target_def selected_style_def ruleset_row_def)
qed

definition list_styles :: "string list style_ops" where
  "list_styles = \<lparr>so_new = [], so_fg = (\<lambda>s c. s @ [''fg'']), so_bg = (\<lambda>s c. s @ [''bg'']),
     so_add_modifier = (\<lambda>s c. s @ [''mod'']), so_patch = (@)\<rparr>"

theorem selection_highlights_witness:
  "map fst (styled_denial_rows list_styles \<lparr>te_width = length, te_hazardous = (\<lambda>c. c < 32)\<rparr>
       (foldl model_observe model_new sample_run) (Some (RowDenialDomain (LandlockId 0x100000001)))) =
     denial_rows \<lparr>te_width = length, te_hazardous = (\<lambda>c. c < 32)\<rparr> (foldl model_observe model_new sample_run)"
  using selection_highlights [OF refl] by blast

text \<open>The recency bands have the boundaries 1, 5 and 30 seconds, and every age has exactly one.\<close>

lemma recency_boundaries:
  "recency S 999999999 = theme_hot S" "recency S 1000000000 = theme_recent S"
  "recency S 4999999999 = theme_recent S" "recency S 5000000000 = theme_cooling S"
  "recency S 29999999999 = theme_cooling S" "recency S 30000000000 = theme_cold S"
  by (simp_all add: recency_def)

end
