(* ===== verification/Bpf_Programs.thy ===== *)
theory Bpf_Programs
  imports Wire_Properties
begin

text \<open>
  The producer: \<open>src/bpf/landlock_observability.bpf.c\<close>, the twelve tracepoint programs that fill a
  \<open>struct landlock_observability_event\<close> and submit it to the ring buffer. A record is its 352 bytes
  in memory, and each assignment to a field is a store at the offset \<open>event.h\<close> asserts for that
  field. The kernel structures are those \<open>vmlinux.h\<close> declares, with a pointer as an option: a CO-RE
  read through \<open>NULL\<close> gives zero. The helper functions of the kernel are a parameter,
  \<open>bpf_helpers\<close>, and \<open>helpers_ok\<close> states their documented behaviour. A \<open>const char *\<close> is given by
  the bytes that can be read from it, up to the first address that faults.
\<close>

subsection \<open>Kernel structures\<close>

record k_pid =
  k_nr :: u32

record k_details =
  k_pid :: "k_pid option"
  k_details_comm :: "u8 list"

datatype k_hierarchy = Hierarchy
  (k_parent: "k_hierarchy option") (k_id: u64) (k_num_denials: u64) (k_details: "k_details option")

record k_domain =
  k_hierarchy :: "k_hierarchy option"

record k_blockers =
  k_access :: u64
  k_type :: u32

record k_ruleset =
  k_ruleset_id :: u64
  k_version :: u64
  k_fs :: "17 word"
  k_net :: "4 word"
  k_scope :: "2 word"

record k_super_block =
  k_s_dev :: u32

record k_inode =
  k_i_ino :: u64

record k_dentry =
  k_d_sb :: "k_super_block option"
  k_d_inode :: "k_inode option"

record k_path =
  k_path_dentry :: "k_dentry option"

record k_task =
  k_tgid :: u32
  k_task_comm :: "u8 list"

record k_sockaddr =
  k_sa_family :: u16
  k_sin_port :: u16

record k_unix_address =
  k_len :: u32
  k_sun_path :: "u8 list"

record k_sock =
  k_sk_peer_pid :: "k_pid option"
  k_addr :: "k_unix_address option"

definition core_read :: "('o \<Rightarrow> 'v :: zero) \<Rightarrow> 'o option \<Rightarrow> 'v" where
  "core_read field p = (case p of None \<Rightarrow> 0 | Some o' \<Rightarrow> field o')"

subsection \<open>Helper functions\<close>

text \<open>
  \<open>bh_probe_read_kernel n src\<close> is the memory read, or \<open>None\<close> for an error; \<open>bh_probe_read_kernel_str
  dst src\<close> returns the helper's result and what it leaves in the buffer that held \<open>dst\<close>.
\<close>

record bpf_helpers =
  bh_ringbuf_reserve :: "nat \<Rightarrow> u8 list option"
  bh_ktime_get_ns :: u64
  bh_get_current_pid_tgid :: u64
  bh_get_current_comm :: "nat \<Rightarrow> u8 list"
  bh_probe_read_kernel :: "nat \<Rightarrow> u8 list \<Rightarrow> u8 list option"
  bh_probe_read_kernel_str :: "u8 list \<Rightarrow> u8 list \<Rightarrow> int \<times> u8 list"

abbreviation c_str :: "u8 list \<Rightarrow> u8 list" where
  "c_str src \<equiv> takeWhile (\<lambda>b. b \<noteq> 0) src"

text \<open>
  \<open>bpf_probe_read_kernel_str\<close> copies a string with its terminator and returns the length with the
  terminator, leaving the rest of the buffer alone; a string that does not fit is cut to the size of
  the buffer, terminator included; a fault before that is an error.
\<close>

definition read_str_documented :: "(u8 list \<Rightarrow> u8 list \<Rightarrow> int \<times> u8 list) \<Rightarrow> bool" where
  "read_str_documented rd \<longleftrightarrow>
     (\<forall>dst src. length (snd (rd dst src)) = length dst \<and>
       (dst \<noteq> [] \<longrightarrow>
         (if length (c_str src) < min (length dst) (length src)
          then rd dst src = (int (length (c_str src)) + 1,
                 c_str src @ 0 # drop (length (c_str src) + 1) dst)
          else if length dst \<le> length src
          then rd dst src = (int (length dst), take (length dst - 1) src @ [0])
          else fst (rd dst src) < 0)))"

definition helpers_ok :: "bpf_helpers \<Rightarrow> bool" where
  "helpers_ok k \<longleftrightarrow>
     read_str_documented (bh_probe_read_kernel_str k) \<and>
     (\<forall>n src. bh_probe_read_kernel k n src = (if n \<le> length src then Some (take n src) else None)) \<and>
     (\<forall>n. 0 < n \<longrightarrow> length (bh_get_current_comm k n) = n \<and> 0 \<in> set (bh_get_current_comm k n))"

subsection \<open>The record in memory\<close>

definition store :: "nat \<Rightarrow> u8 list \<Rightarrow> u8 list \<Rightarrow> u8 list" where
  "store offset bs ev = take offset ev @ bs @ drop (offset + length bs) ev"

fun stores :: "(nat \<times> u8 list) list \<Rightarrow> u8 list \<Rightarrow> u8 list" where
  "stores [] ev = ev"
| "stores ((offset, bs) # ws) ev = stores ws (store offset bs ev)"

definition alloc_event :: "bpf_helpers \<Rightarrow> u8 list option" where
  "alloc_event k = map_option (\<lambda>_. replicate RECORD_SIZE 0) (bh_ringbuf_reserve k RECORD_SIZE)"

text \<open>What a program did with the ring buffer.\<close>

datatype bpf_outcome = NoReservation | Discarded | Submitted "u8 list"

definition EVENT_CREATE_RULESET :: u8 where "EVENT_CREATE_RULESET = 1"
definition EVENT_ADD_RULE_PATH_BENEATH :: u8 where "EVENT_ADD_RULE_PATH_BENEATH = 2"
definition EVENT_ADD_RULE_NET_PORT :: u8 where "EVENT_ADD_RULE_NET_PORT = 3"
definition EVENT_CREATE_DOMAIN :: u8 where "EVENT_CREATE_DOMAIN = 4"
definition EVENT_DENY_ACCESS_FS :: u8 where "EVENT_DENY_ACCESS_FS = 5"
definition EVENT_DENY_ACCESS_NET :: u8 where "EVENT_DENY_ACCESS_NET = 6"
definition EVENT_DENY_PTRACE :: u8 where "EVENT_DENY_PTRACE = 7"
definition EVENT_DENY_SCOPE_SIGNAL :: u8 where "EVENT_DENY_SCOPE_SIGNAL = 8"
definition EVENT_DENY_SCOPE_ABSTRACT_UNIX_SOCKET :: u8 where
  "EVENT_DENY_SCOPE_ABSTRACT_UNIX_SOCKET = 9"
definition EVENT_FREE_DOMAIN :: u8 where "EVENT_FREE_DOMAIN = 10"
definition EVENT_FREE_RULESET :: u8 where "EVENT_FREE_RULESET = 11"
definition EVENT_ENFORCE_DOMAIN :: u8 where "EVENT_ENFORCE_DOMAIN = 12"

lemmas event_kind_defs = EVENT_CREATE_RULESET_def EVENT_ADD_RULE_PATH_BENEATH_def EVENT_ADD_RULE_NET_PORT_def
  EVENT_CREATE_DOMAIN_def EVENT_DENY_ACCESS_FS_def EVENT_DENY_ACCESS_NET_def
  EVENT_DENY_PTRACE_def EVENT_DENY_SCOPE_SIGNAL_def EVENT_DENY_SCOPE_ABSTRACT_UNIX_SOCKET_def
  EVENT_FREE_DOMAIN_def EVENT_FREE_RULESET_def EVENT_ENFORCE_DOMAIN_def

subsection \<open>Network ports\<close>

definition AF_UNSPEC :: u16 where "AF_UNSPEC = 0"
definition AF_INET :: u16 where "AF_INET = 2"
definition AF_INET6 :: u16 where "AF_INET6 = 10"
definition LANDLOCK_ACCESS_NET_BIND :: u64 where "LANDLOCK_ACCESS_NET_BIND = 0b0101"
definition LANDLOCK_ACCESS_NET_CONNECT_SEND :: u64 where "LANDLOCK_ACCESS_NET_CONNECT_SEND = 0b1010"
definition SOCKADDR_PORT_END :: int where "SOCKADDR_PORT_END = 4"

definition HAS_CHECKED_PORT :: "u32 \<Rightarrow> u16 \<Rightarrow> u16 \<Rightarrow> bool" where
  "HAS_CHECKED_PORT addrlen address_family socket_family \<longleftrightarrow>
     sint addrlen \<ge> SOCKADDR_PORT_END \<and>
     (address_family = AF_INET \<or> address_family = AF_INET6 \<or>
      address_family = AF_UNSPEC \<and> socket_family = AF_INET)"

unbundle bit_operations_syntax

definition LEGACY_SOURCE_PORT :: "u64 \<Rightarrow> bool \<Rightarrow> u64 \<Rightarrow> u64" where
  "LEGACY_SOURCE_PORT access has_port port =
     (if has_port \<and> access AND LANDLOCK_ACCESS_NET_BIND \<noteq> 0 then port else 0)"

definition LEGACY_DESTINATION_PORT :: "u64 \<Rightarrow> bool \<Rightarrow> u64 \<Rightarrow> u64" where
  "LEGACY_DESTINATION_PORT access has_port port =
     (if has_port \<and> access AND LANDLOCK_ACCESS_NET_CONNECT_SEND \<noteq> 0 then port else 0)"

text \<open>\<open>bpf_ntohs\<close>: the value of the two bytes in memory, most significant first.\<close>

definition bpf_ntohs :: "endian \<Rightarrow> u16 \<Rightarrow> u16" where
  "bpf_ntohs en v = from_ne_bytes BigEndian (to_ne_bytes en 2 v)"

definition project_checked_port :: "endian \<Rightarrow> u64 \<Rightarrow> u16 \<Rightarrow> k_sockaddr \<Rightarrow> u32 \<Rightarrow> u64 \<times> u64" where
  "project_checked_port en blockers_access socket_family address addrlen =
     (let has_port = HAS_CHECKED_PORT addrlen (k_sa_family address) socket_family;
          port = (if has_port then ucast (bpf_ntohs en (k_sin_port address)) else 0)
      in (LEGACY_SOURCE_PORT blockers_access has_port port,
          LEGACY_DESTINATION_PORT blockers_access has_port port))"

text \<open>The static assertions of the source on these macros.\<close>

lemma port_static_asserts:
  "LEGACY_SOURCE_PORT 1 True 7 = 7" "LEGACY_DESTINATION_PORT 2 True 7 = 7"
  "LEGACY_DESTINATION_PORT 2 True 0 = 0"
  "LEGACY_SOURCE_PORT 1 False 7 = 0" "LEGACY_DESTINATION_PORT 2 False 7 = 0"
  "LEGACY_SOURCE_PORT (push_bit 63 1) True 7 = 0" "LEGACY_DESTINATION_PORT (push_bit 63 1) True 7 = 0"
  "HAS_CHECKED_PORT 4 AF_INET AF_INET6" "HAS_CHECKED_PORT 4 AF_UNSPEC AF_INET"
  "\<not> HAS_CHECKED_PORT 3 AF_INET AF_INET" "\<not> HAS_CHECKED_PORT (- 1) AF_INET AF_INET"
  "\<not> HAS_CHECKED_PORT 4 AF_UNSPEC AF_INET6"
  by (simp_all add: LEGACY_SOURCE_PORT_def LEGACY_DESTINATION_PORT_def LANDLOCK_ACCESS_NET_BIND_def
      LANDLOCK_ACCESS_NET_CONNECT_SEND_def HAS_CHECKED_PORT_def SOCKADDR_PORT_END_def AF_INET_def AF_INET6_def
      AF_UNSPEC_def)

subsection \<open>Captured bytes\<close>

text \<open>The name and its length, or \<open>None\<close> where the function returns 0.\<close>

definition capture_abstract_unix_socket_name :: "bpf_helpers \<Rightarrow> k_sock \<Rightarrow> (u8 list \<times> u32) option" where
  "capture_abstract_unix_socket_name k peer =
     (case k_addr peer of
        None \<Rightarrow> Some ([], 0)
      | Some addr \<Rightarrow>
          (let prefix_len = 2 + 1; sockaddr_len = sint (k_len addr) in
           if sockaddr_len < prefix_len \<or>
              sockaddr_len > prefix_len + int ABSTRACT_UNIX_SOCKET_NAME_MAX_LEN
           then None
           else
             (let name_len = (word_of_int (sockaddr_len - prefix_len) :: u32) in
              case bh_probe_read_kernel k 1 (k_sun_path addr) of
                None \<Rightarrow> None
              | Some ns \<Rightarrow>
                  if ns \<noteq> [0] then None
                  else if name_len = 0 then Some ([], 0)
                  else (case bh_probe_read_kernel k (unat name_len) (drop 1 (k_sun_path addr)) of
                          None \<Rightarrow> None
                        | Some name \<Rightarrow> Some (name, name_len)))))"

definition capture_path :: "bpf_helpers \<Rightarrow> u8 list \<Rightarrow> (u8 list \<times> bool) option" where
  "capture_path k source =
     (case bh_probe_read_kernel_str k (replicate (PATH_SIZE + 2) 0) source of
        (len, buffer) \<Rightarrow>
          if len < 0 then None else Some (take PATH_SIZE buffer, len > int PATH_SIZE + 1))"

definition fill_deny_header :: "endian \<Rightarrow> bpf_helpers \<Rightarrow> k_hierarchy \<Rightarrow> u8 list \<Rightarrow> u8 list" where
  "fill_deny_header en k h ev =
     (let ev = stores [(16, c_u64 en (k_id h)), (56, c_u64 en (k_num_denials h)),
                       (24, c_u64 en (case k_parent h of Some p \<Rightarrow> k_id p | None \<Rightarrow> 0))] ev
      in case k_details h of
           Some d \<Rightarrow>
             (let ev = store 32 (c_u32 en (case k_pid d of Some p \<Rightarrow> k_nr p | None \<Rightarrow> 0)) ev
              in store 36 (snd (bh_probe_read_kernel_str k (take 16 (drop 36 ev)) (k_details_comm d))) ev)
         | None \<Rightarrow> stores [(32, c_u32 en 0), (36, [0])] ev)"

subsection \<open>The programs\<close>

definition handle_create_ruleset :: "endian \<Rightarrow> bpf_helpers \<Rightarrow> k_ruleset \<Rightarrow> bpf_outcome" where
  "handle_create_ruleset en k ruleset =
     (case alloc_event k of
        None \<Rightarrow> NoReservation
      | Some ev \<Rightarrow>
          Submitted (stores
            [(0, c_u64 en (bh_ktime_get_ns k)), (8, c_u8 EVENT_CREATE_RULESET),
             (16, c_u64 en (k_ruleset_id ruleset)), (24, c_u64 en (k_version ruleset)),
             (32, c_u64 en (ucast (k_fs ruleset))), (40, c_u64 en (ucast (k_net ruleset))),
             (48, c_u64 en (ucast (k_scope ruleset)))] ev))"

definition handle_add_rule_path_beneath ::
  "endian \<Rightarrow> bpf_helpers \<Rightarrow> k_ruleset \<Rightarrow> u32 \<Rightarrow> u64 \<Rightarrow> k_path \<Rightarrow> u8 list \<Rightarrow> bpf_outcome" where
  "handle_add_rule_path_beneath en k ruleset flags access_rights path pathname =
     (case alloc_event k of
        None \<Rightarrow> NoReservation
      | Some ev \<Rightarrow>
          (let ev = stores
             [(0, c_u64 en (bh_ktime_get_ns k)), (8, c_u8 EVENT_ADD_RULE_PATH_BENEATH),
              (16, c_u64 en (k_ruleset_id ruleset)), (24, c_u64 en (k_version ruleset)),
              (32, c_u64 en access_rights),
              (40, c_u32 en (core_read k_s_dev (Option.bind (k_path_dentry path) k_d_sb))),
              (48, c_u64 en (core_read k_i_ino (Option.bind (k_path_dentry path) k_d_inode)))] ev
           in case capture_path k pathname of
                None \<Rightarrow> Discarded
              | Some (dst, omitted) \<Rightarrow> Submitted (stores [(56, dst), (44, c_bool omitted)] ev)))"

definition handle_add_rule_net_port ::
  "endian \<Rightarrow> bpf_helpers \<Rightarrow> k_ruleset \<Rightarrow> u32 \<Rightarrow> u64 \<Rightarrow> u64 \<Rightarrow> bpf_outcome" where
  "handle_add_rule_net_port en k ruleset flags access_rights port =
     (case alloc_event k of
        None \<Rightarrow> NoReservation
      | Some ev \<Rightarrow>
          Submitted (stores
            [(0, c_u64 en (bh_ktime_get_ns k)), (8, c_u8 EVENT_ADD_RULE_NET_PORT),
             (16, c_u64 en (k_ruleset_id ruleset)), (24, c_u64 en (k_version ruleset)),
             (32, c_u64 en access_rights), (40, c_u64 en port)] ev))"

definition handle_create_domain ::
  "endian \<Rightarrow> bpf_helpers \<Rightarrow> k_domain \<Rightarrow> k_ruleset \<Rightarrow> bpf_outcome" where
  "handle_create_domain en k new_dom ruleset =
     (case alloc_event k of
        None \<Rightarrow> NoReservation
      | Some ev \<Rightarrow>
          Submitted (stores
            [(0, c_u64 en (bh_ktime_get_ns k)), (8, c_u8 EVENT_CREATE_DOMAIN),
             (16, c_u64 en (k_ruleset_id ruleset)), (24, c_u64 en (k_version ruleset)),
             (32, c_u64 en (core_read k_id (k_hierarchy new_dom))),
             (40, c_u64 en (core_read k_id (Option.bind (k_hierarchy new_dom) k_parent))),
             (48, c_u32 en (ucast (drop_bit 32 (bh_get_current_pid_tgid k)))),
             (52, bh_get_current_comm k 16)] ev))"

definition handle_enforce_domain ::
  "endian \<Rightarrow> bpf_helpers \<Rightarrow> k_domain \<Rightarrow> bool \<Rightarrow> bool \<Rightarrow> bool \<Rightarrow> bpf_outcome" where
  "handle_enforce_domain en k domain complete process_wide no_new_privs =
     (case alloc_event k of
        None \<Rightarrow> NoReservation
      | Some ev \<Rightarrow>
          Submitted (stores
            [(0, c_u64 en (bh_ktime_get_ns k)), (8, c_u8 EVENT_ENFORCE_DOMAIN),
             (16, c_u64 en (core_read k_id (k_hierarchy domain))),
             (24, c_u32 en (ucast (bh_get_current_pid_tgid k))),
             (28, c_bool complete), (29, c_bool process_wide), (30, c_bool no_new_privs)] ev))"

definition handle_deny_access_fs ::
  "endian \<Rightarrow> bpf_helpers \<Rightarrow> k_hierarchy \<Rightarrow> bool \<Rightarrow> bool \<Rightarrow> k_blockers \<Rightarrow> k_path \<Rightarrow> u8 list \<Rightarrow> bpf_outcome" where
  "handle_deny_access_fs en k h same lg blockers path pathname =
     (case alloc_event k of
        None \<Rightarrow> NoReservation
      | Some ev \<Rightarrow>
          (let ev = stores [(0, c_u64 en (bh_ktime_get_ns k)), (8, c_u8 EVENT_DENY_ACCESS_FS)] ev;
               ev = fill_deny_header en k h ev;
               ev = stores
                 [(52, c_u32 en (k_type blockers)), (64, c_u64 en (k_access blockers)),
                  (72, c_bool same), (73, c_bool lg),
                  (80, c_u32 en (core_read k_s_dev (Option.bind (k_path_dentry path) k_d_sb))),
                  (88, c_u64 en (core_read k_i_ino (Option.bind (k_path_dentry path) k_d_inode)))] ev
           in case capture_path k pathname of
                None \<Rightarrow> Discarded
              | Some (dst, omitted) \<Rightarrow> Submitted (stores [(96, dst), (84, c_bool omitted)] ev)))"

definition handle_deny_access_net ::
  "endian \<Rightarrow> bpf_helpers \<Rightarrow> k_hierarchy \<Rightarrow> bool \<Rightarrow> bool \<Rightarrow> k_blockers \<Rightarrow> u16 \<Rightarrow> k_sockaddr \<Rightarrow> u32 \<Rightarrow>
     bpf_outcome" where
  "handle_deny_access_net en k h same lg blockers socket_family address addrlen =
     (case alloc_event k of
        None \<Rightarrow> NoReservation
      | Some ev \<Rightarrow>
          (let ev = stores [(0, c_u64 en (bh_ktime_get_ns k)), (8, c_u8 EVENT_DENY_ACCESS_NET)] ev;
               ev = fill_deny_header en k h ev;
               (sport, dport) = project_checked_port en (k_access blockers) socket_family address addrlen
           in Submitted (stores
                [(52, c_u32 en (k_type blockers)), (64, c_u64 en (k_access blockers)),
                 (72, c_bool same), (73, c_bool lg), (80, c_u64 en sport), (88, c_u64 en dport)] ev)))"

definition handle_deny_ptrace ::
  "endian \<Rightarrow> bpf_helpers \<Rightarrow> k_hierarchy \<Rightarrow> bool \<Rightarrow> bool \<Rightarrow> u64 \<Rightarrow> k_task \<Rightarrow> bpf_outcome" where
  "handle_deny_ptrace en k h same lg tracee_domain_id tracee =
     (case alloc_event k of
        None \<Rightarrow> NoReservation
      | Some ev \<Rightarrow>
          (let ev = stores [(0, c_u64 en (bh_ktime_get_ns k)), (8, c_u8 EVENT_DENY_PTRACE)] ev;
               ev = fill_deny_header en k h ev;
               ev = stores
                 [(64, c_u64 en 0), (72, c_bool same), (73, c_bool lg),
                  (80, c_u64 en tracee_domain_id), (88, c_u32 en (k_tgid tracee))] ev
           in Submitted
                (store 92 (snd (bh_probe_read_kernel_str k (take 16 (drop 92 ev)) (k_task_comm tracee))) ev)))"

definition handle_deny_scope_signal ::
  "endian \<Rightarrow> bpf_helpers \<Rightarrow> k_hierarchy \<Rightarrow> bool \<Rightarrow> bool \<Rightarrow> u64 \<Rightarrow> k_task \<Rightarrow> bpf_outcome" where
  "handle_deny_scope_signal en k h same lg target_domain_id target =
     (case alloc_event k of
        None \<Rightarrow> NoReservation
      | Some ev \<Rightarrow>
          (let ev = stores [(0, c_u64 en (bh_ktime_get_ns k)), (8, c_u8 EVENT_DENY_SCOPE_SIGNAL)] ev;
               ev = fill_deny_header en k h ev;
               ev = stores
                 [(64, c_u64 en 0), (72, c_bool same), (73, c_bool lg),
                  (80, c_u64 en target_domain_id), (88, c_u32 en (k_tgid target))] ev
           in Submitted
                (store 92 (snd (bh_probe_read_kernel_str k (take 16 (drop 92 ev)) (k_task_comm target))) ev)))"

definition handle_deny_scope_abstract_unix_socket ::
  "endian \<Rightarrow> bpf_helpers \<Rightarrow> k_hierarchy \<Rightarrow> bool \<Rightarrow> bool \<Rightarrow> u64 \<Rightarrow> k_sock \<Rightarrow> bpf_outcome" where
  "handle_deny_scope_abstract_unix_socket en k h same lg peer_domain_id peer =
     (case alloc_event k of
        None \<Rightarrow> NoReservation
      | Some ev \<Rightarrow>
          (case capture_abstract_unix_socket_name k peer of
             None \<Rightarrow> Discarded
           | Some (name, name_len) \<Rightarrow>
               (let ev = stores [(96, name), (92, c_u32 en name_len),
                      (0, c_u64 en (bh_ktime_get_ns k)),
                      (8, c_u8 EVENT_DENY_SCOPE_ABSTRACT_UNIX_SOCKET)] ev;
                    ev = fill_deny_header en k h ev
                in Submitted (stores
                     [(64, c_u64 en 0), (72, c_bool same), (73, c_bool lg),
                      (80, c_u64 en peer_domain_id),
                      (88, c_u32 en (core_read k_nr (k_sk_peer_pid peer)))] ev))))"

definition handle_free_domain :: "endian \<Rightarrow> bpf_helpers \<Rightarrow> k_hierarchy \<Rightarrow> bpf_outcome" where
  "handle_free_domain en k h =
     (case alloc_event k of
        None \<Rightarrow> NoReservation
      | Some ev \<Rightarrow>
          Submitted (stores
            [(0, c_u64 en (bh_ktime_get_ns k)), (8, c_u8 EVENT_FREE_DOMAIN),
             (16, c_u64 en (k_id h)), (24, c_u64 en (k_num_denials h))] ev))"

definition handle_free_ruleset :: "endian \<Rightarrow> bpf_helpers \<Rightarrow> k_ruleset \<Rightarrow> bpf_outcome" where
  "handle_free_ruleset en k ruleset =
     (case alloc_event k of
        None \<Rightarrow> NoReservation
      | Some ev \<Rightarrow>
          Submitted (stores
            [(0, c_u64 en (bh_ktime_get_ns k)), (8, c_u8 EVENT_FREE_RULESET),
             (16, c_u64 en (k_ruleset_id ruleset)), (24, c_u64 en (k_version ruleset))] ev))"

text \<open>The tracepoints with their arguments, and the program attached to each.\<close>

datatype tracepoint =
    Tp_create_ruleset k_ruleset
  | Tp_add_rule_path_beneath k_ruleset u32 u64 k_path "u8 list"
  | Tp_add_rule_net_port k_ruleset u32 u64 u64
  | Tp_create_domain k_domain k_ruleset
  | Tp_enforce_domain k_domain bool bool bool
  | Tp_deny_access_fs k_hierarchy bool bool k_blockers k_path "u8 list"
  | Tp_deny_access_net k_hierarchy bool bool k_blockers u16 k_sockaddr u32
  | Tp_deny_ptrace k_hierarchy bool bool u64 k_task
  | Tp_deny_scope_signal k_hierarchy bool bool u64 k_task
  | Tp_deny_scope_abstract_unix_socket k_hierarchy bool bool u64 k_sock
  | Tp_free_domain k_hierarchy
  | Tp_free_ruleset k_ruleset

fun run_program :: "endian \<Rightarrow> bpf_helpers \<Rightarrow> tracepoint \<Rightarrow> bpf_outcome" where
  "run_program en k (Tp_create_ruleset r) = handle_create_ruleset en k r"
| "run_program en k (Tp_add_rule_path_beneath r f a p n) = handle_add_rule_path_beneath en k r f a p n"
| "run_program en k (Tp_add_rule_net_port r f a p) = handle_add_rule_net_port en k r f a p"
| "run_program en k (Tp_create_domain d r) = handle_create_domain en k d r"
| "run_program en k (Tp_enforce_domain d c w n) = handle_enforce_domain en k d c w n"
| "run_program en k (Tp_deny_access_fs h s l b p n) = handle_deny_access_fs en k h s l b p n"
| "run_program en k (Tp_deny_access_net h s l b f a n) = handle_deny_access_net en k h s l b f a n"
| "run_program en k (Tp_deny_ptrace h s l d t) = handle_deny_ptrace en k h s l d t"
| "run_program en k (Tp_deny_scope_signal h s l d t) = handle_deny_scope_signal en k h s l d t"
| "run_program en k (Tp_deny_scope_abstract_unix_socket h s l d p) =
     handle_deny_scope_abstract_unix_socket en k h s l d p"
| "run_program en k (Tp_free_domain h) = handle_free_domain en k h"
| "run_program en k (Tp_free_ruleset r) = handle_free_ruleset en k r"

end
