(* ===== verification/Bpf_Records.thy ===== *)
theory Bpf_Records
  imports Bpf_Programs
begin

text \<open>
  What a tracepoint means, as the semantic event an observer should see, and the lemmas that show
  the record a program submits decodes to it: how a field read behaves over a sequence of stores,
  and what the two capture functions and the denial header leave in the record.
\<close>

subsection \<open>The event a tracepoint stands for\<close>

definition obs_path :: "u8 list \<Rightarrow> captured_path" where
  "obs_path src = CapturedBytes (take 256 (c_str src)) (256 < length (c_str src))"

definition obs_command :: "u8 list \<Rightarrow> captured_command" where
  "obs_command comm = CapturedBytes (c_str comm) False"

definition obs_name :: "k_sock \<Rightarrow> captured_abstract_name" where
  "obs_name peer = CapturedBytes
     (case k_addr peer of None \<Rightarrow> []
      | Some a \<Rightarrow> take (nat (sint (k_len a)) - 3) (tl (k_sun_path a))) False"

definition obs_membership :: "u64 \<Rightarrow> domain_membership" where
  "obs_membership v = (if v = 0 then Unsandboxed else Sandboxed (LandlockId v))"

definition obs_peer :: "k_sock \<Rightarrow> process_id option" where
  "obs_peer peer =
     (case k_sk_peer_pid peer of None \<Rightarrow> None
      | Some q \<Rightarrow> if k_nr q = 0 then None else Some (ProcessId (k_nr q)))"

definition obs_parent :: "k_hierarchy \<Rightarrow> domain_id option" where
  "obs_parent h = map_option (\<lambda>p. LandlockId (k_id p)) (k_parent h)"

definition obs_context :: "k_hierarchy \<Rightarrow> bool \<Rightarrow> bool \<Rightarrow> denial_context" where
  "obs_context h same lg =
     \<lparr>hierarchy = \<lparr>h_domain_id = LandlockId (k_id h), h_parent_id = obs_parent h,
        h_creator_tgid = ProcessId (k_nr (the (k_pid (the (k_details h))))),
        h_creator_comm = obs_command (k_details_comm (the (k_details h)))\<rparr>,
      cumulative_denial_count = k_num_denials h, same_exec = same, logged = lg\<rparr>"

text \<open>The port Landlock checked, when the address has one.\<close>

definition checked_port :: "endian \<Rightarrow> u16 \<Rightarrow> k_sockaddr \<Rightarrow> u32 \<Rightarrow> u64 option" where
  "checked_port en socket_family address addrlen =
     (if HAS_CHECKED_PORT addrlen (k_sa_family address) socket_family
      then Some (ucast (bpf_ntohs en (k_sin_port address))) else None)"

definition obs_device :: "k_path \<Rightarrow> u32" where
  "obs_device p = core_read k_s_dev (Option.bind (k_path_dentry p) k_d_sb)"

definition obs_inode :: "k_path \<Rightarrow> u64" where
  "obs_inode p = core_read k_i_ino (Option.bind (k_path_dentry p) k_d_inode)"

definition obs_domain :: "k_domain \<Rightarrow> k_hierarchy" where
  "obs_domain d = the (k_hierarchy d)"

fun observed :: "endian \<Rightarrow> bpf_helpers \<Rightarrow> tracepoint \<Rightarrow> event" where
  "observed en k (Tp_create_ruleset r) = CreateRuleset
     \<lparr>cr_timestamp = KernelTimestamp (bh_ktime_get_ns k), cr_ruleset_id = LandlockId (k_ruleset_id r),
      cr_ruleset_version = k_version r, cr_handled_fs = FilesystemAccess (ucast (k_fs r)),
      cr_handled_net = NetworkAccess (ucast (k_net r)), cr_scoped = ScopeAccess (ucast (k_scope r))\<rparr>"
| "observed en k (Tp_add_rule_path_beneath r f a p n) = AddRulePathBeneath
     \<lparr>ap_timestamp = KernelTimestamp (bh_ktime_get_ns k), ap_ruleset_id = LandlockId (k_ruleset_id r),
      ap_ruleset_version = k_version r, ap_access_rights = FilesystemAccess a,
      ap_device = obs_device p, ap_inode = obs_inode p, ap_pathname = obs_path n\<rparr>"
| "observed en k (Tp_add_rule_net_port r f a p) = AddRuleNetPort
     \<lparr>an_timestamp = KernelTimestamp (bh_ktime_get_ns k), an_ruleset_id = LandlockId (k_ruleset_id r),
      an_ruleset_version = k_version r, an_access_rights = NetworkAccess a, an_port = p\<rparr>"
| "observed en k (Tp_create_domain d r) = CreateDomain
     \<lparr>cd_timestamp = KernelTimestamp (bh_ktime_get_ns k), cd_ruleset_id = LandlockId (k_ruleset_id r),
      cd_ruleset_version = k_version r, cd_domain_id = LandlockId (k_id (obs_domain d)),
      cd_parent_id = obs_parent (obs_domain d),
      cd_creator_tgid = ProcessId (ucast (drop_bit 32 (bh_get_current_pid_tgid k))),
      cd_creator_comm = obs_command (bh_get_current_comm k 16)\<rparr>"
| "observed en k (Tp_enforce_domain d c w n) = EnforceDomain
     \<lparr>ed_timestamp = KernelTimestamp (bh_ktime_get_ns k), ed_domain_id = LandlockId (k_id (obs_domain d)),
      ed_enforcing_tid = ThreadId (ucast (bh_get_current_pid_tgid k)), ed_complete = c,
      ed_process_wide = w, ed_no_new_privs = n\<rparr>"
| "observed en k (Tp_deny_access_fs h s l b p n) = DenyAccessFs
     \<lparr>df_timestamp = KernelTimestamp (bh_ktime_get_ns k), df_context = obs_context h s l,
      df_blockers_type = BlockerType (k_type b), df_blockers_access = FilesystemAccess (k_access b),
      df_device = obs_device p, df_inode = obs_inode p, df_pathname = obs_path n\<rparr>"
| "observed en k (Tp_deny_access_net h s l b f a n) = DenyAccessNet
     \<lparr>dn_timestamp = KernelTimestamp (bh_ktime_get_ns k), dn_context = obs_context h s l,
      dn_blockers_type = BlockerType (k_type b), dn_blockers_access = NetworkAccess (k_access b),
      dn_source_port =
        (case checked_port en f a n of
           Some port \<Rightarrow> if k_access b AND LANDLOCK_ACCESS_NET_BIND \<noteq> 0 then port else 0
         | None \<Rightarrow> 0),
      dn_destination_port =
        (case checked_port en f a n of
           Some port \<Rightarrow> if k_access b AND LANDLOCK_ACCESS_NET_CONNECT_SEND \<noteq> 0 then port else 0
         | None \<Rightarrow> 0)\<rparr>"
| "observed en k (Tp_deny_ptrace h s l d t) = DenyPtrace
     \<lparr>dp_timestamp = KernelTimestamp (bh_ktime_get_ns k), dp_context = obs_context h s l,
      dp_tracee_domain = obs_membership d, dp_tracee_pid = ProcessId (k_tgid t),
      dp_tracee_comm = obs_command (k_task_comm t)\<rparr>"
| "observed en k (Tp_deny_scope_signal h s l d t) = DenyScopeSignal
     \<lparr>ds_timestamp = KernelTimestamp (bh_ktime_get_ns k), ds_context = obs_context h s l,
      ds_target_domain = obs_membership d, ds_target_pid = ProcessId (k_tgid t),
      ds_target_comm = obs_command (k_task_comm t)\<rparr>"
| "observed en k (Tp_deny_scope_abstract_unix_socket h s l d p) = DenyScopeAbstractUnixSocket
     \<lparr>du_timestamp = KernelTimestamp (bh_ktime_get_ns k), du_context = obs_context h s l,
      du_peer_domain = obs_membership d,
      du_peer_pid = obs_peer p,
      du_abstract_name = obs_name p\<rparr>"
| "observed en k (Tp_free_domain h) = FreeDomain
     \<lparr>fd_timestamp = KernelTimestamp (bh_ktime_get_ns k), fd_domain_id = LandlockId (k_id h),
      fd_denial_count = k_num_denials h\<rparr>"
| "observed en k (Tp_free_ruleset r) = FreeRuleset
     \<lparr>fr_timestamp = KernelTimestamp (bh_ktime_get_ns k), fr_ruleset_id = LandlockId (k_ruleset_id r),
      fr_ruleset_version = k_version r\<rparr>"

subsection \<open>What the kernel guarantees\<close>

text \<open>
  Landlock identifiers start at 2^32; a domain has details with the creator's identifier, which is
  not zero; a command is a terminated array of sixteen bytes; an event about the current task comes
  from a task with a nonzero identifier.
\<close>

definition command_array :: "u8 list \<Rightarrow> bool" where
  "command_array comm \<longleftrightarrow> length comm = 16 \<and> 0 \<in> set comm"

definition ruleset_kernel_ok :: "k_ruleset \<Rightarrow> bool" where
  "ruleset_kernel_ok r \<longleftrightarrow> MIN_LANDLOCK_ID \<le> k_ruleset_id r"

definition hierarchy_ids_ok :: "k_hierarchy \<Rightarrow> bool" where
  "hierarchy_ids_ok h \<longleftrightarrow>
     MIN_LANDLOCK_ID \<le> k_id h \<and> pred_option (\<lambda>p. MIN_LANDLOCK_ID \<le> k_id p) (k_parent h)"

definition details_kernel_ok :: "k_details \<Rightarrow> bool" where
  "details_kernel_ok d \<longleftrightarrow>
     (case k_pid d of Some p \<Rightarrow> k_nr p \<noteq> 0 | None \<Rightarrow> False) \<and> command_array (k_details_comm d)"

definition hierarchy_kernel_ok :: "k_hierarchy \<Rightarrow> bool" where
  "hierarchy_kernel_ok h \<longleftrightarrow>
     hierarchy_ids_ok h \<and> (case k_details h of Some d \<Rightarrow> details_kernel_ok d | None \<Rightarrow> False)"

definition domain_kernel_ok :: "k_domain \<Rightarrow> bool" where
  "domain_kernel_ok d \<longleftrightarrow> (case k_hierarchy d of Some h \<Rightarrow> hierarchy_ids_ok h | None \<Rightarrow> False)"

definition task_kernel_ok :: "k_task \<Rightarrow> bool" where
  "task_kernel_ok t \<longleftrightarrow> k_tgid t \<noteq> 0 \<and> command_array (k_task_comm t)"

definition other_domain_ok :: "u64 \<Rightarrow> bool" where
  "other_domain_ok v \<longleftrightarrow> v = 0 \<or> MIN_LANDLOCK_ID \<le> v"

fun tracepoint_ok :: "bpf_helpers \<Rightarrow> tracepoint \<Rightarrow> bool" where
  "tracepoint_ok k (Tp_create_ruleset r) = ruleset_kernel_ok r"
| "tracepoint_ok k (Tp_add_rule_path_beneath r f a p n) = ruleset_kernel_ok r"
| "tracepoint_ok k (Tp_add_rule_net_port r f a p) = ruleset_kernel_ok r"
| "tracepoint_ok k (Tp_create_domain d r) =
     (domain_kernel_ok d \<and> ruleset_kernel_ok r \<and>
      (ucast (drop_bit 32 (bh_get_current_pid_tgid k)) :: u32) \<noteq> 0)"
| "tracepoint_ok k (Tp_enforce_domain d c w n) =
     (domain_kernel_ok d \<and> (ucast (bh_get_current_pid_tgid k) :: u32) \<noteq> 0)"
| "tracepoint_ok k (Tp_deny_access_fs h s l b p n) = hierarchy_kernel_ok h"
| "tracepoint_ok k (Tp_deny_access_net h s l b f a n) = hierarchy_kernel_ok h"
| "tracepoint_ok k (Tp_deny_ptrace h s l d t) =
     (hierarchy_kernel_ok h \<and> other_domain_ok d \<and> task_kernel_ok t)"
| "tracepoint_ok k (Tp_deny_scope_signal h s l d t) =
     (hierarchy_kernel_ok h \<and> other_domain_ok d \<and> task_kernel_ok t)"
| "tracepoint_ok k (Tp_deny_scope_abstract_unix_socket h s l d p) =
     (hierarchy_kernel_ok h \<and> other_domain_ok d)"
| "tracepoint_ok k (Tp_free_domain h) = hierarchy_ids_ok h"
| "tracepoint_ok k (Tp_free_ruleset r) = ruleset_kernel_ok r"

text \<open>When the bytes the programs capture can be captured.\<close>

definition readable_path :: "u8 list \<Rightarrow> bool" where
  "readable_path src \<longleftrightarrow> 0 \<in> set src \<or> 258 \<le> length src"

definition abstract_address :: "k_sock \<Rightarrow> bool" where
  "abstract_address peer \<longleftrightarrow>
     (case k_addr peer of
        None \<Rightarrow> True
      | Some a \<Rightarrow> 3 \<le> sint (k_len a) \<and> sint (k_len a) \<le> 110 \<and>
          nat (sint (k_len a)) - 2 \<le> length (k_sun_path a) \<and> hd (k_sun_path a) = 0)"

fun capturable :: "tracepoint \<Rightarrow> bool" where
  "capturable (Tp_add_rule_path_beneath r f a p n) = readable_path n"
| "capturable (Tp_deny_access_fs h s l b p n) = readable_path n"
| "capturable (Tp_deny_scope_abstract_unix_socket h s l d p) = abstract_address p"
| "capturable _ = True"

subsection \<open>Reading over stores\<close>

lemma length_store [simp]:
  "offset + length bs \<le> length ev \<Longrightarrow> length (store offset bs ev) = length ev"
  by (simp add: store_def)

lemma slice_at_store:
  assumes "offset + length bs \<le> length ev" "length ev \<le> usize_max"
  shows slice_at_store_hit: "n = length bs \<Longrightarrow> slice_at (store offset bs ev) offset n f = Inr bs"
    and slice_at_store_before: "off + n \<le> offset \<Longrightarrow>
      slice_at (store offset bs ev) off n f = slice_at ev off n f"
    and slice_at_store_after: "offset + length bs \<le> off \<Longrightarrow>
      slice_at (store offset bs ev) off n f = slice_at ev off n f"
  using assms by (auto simp: slice_at_def slice_range_def store_def take_drop min_def ok_or_def)

lemma slice_get_store:
  assumes "offset + length bs \<le> length ev"
  shows slice_get_store_hit: "bs = [v] \<Longrightarrow> slice_get (store offset bs ev) offset = Some v"
    and slice_get_store_before: "i < offset \<Longrightarrow> slice_get (store offset bs ev) i = slice_get ev i"
    and slice_get_store_after: "offset + length bs \<le> i \<Longrightarrow>
      slice_get (store offset bs ev) i = slice_get ev i"
  using assms by (auto simp: slice_get_def store_def nth_append min_def)

lemmas store_reads = slice_at_store_hit slice_at_store_before slice_at_store_after
  slice_get_store_hit slice_get_store_before slice_get_store_after

lemma c_singletons: "c_u8 v = [v]" "c_bool b = [if b then 1 else 0]"
  by (simp_all add: c_u8_def c_bool_def)

lemma hd_c: "hd (c_u8 v) = v" "hd (c_bool b) = (if b then 1 else 0)"
  by (simp_all add: c_singletons)

lemma slice_get_u8_store:
  "offset < length ev \<Longrightarrow> slice_get (store offset (c_u8 v) ev) offset = Some v"
  by (simp add: c_singletons slice_get_store_hit)

text \<open>
  A whole sequence of stores at once: the last store at the place that is read, when every other store
  is apart from it.
\<close>

fun last_write :: "(nat \<times> u8 list) list \<Rightarrow> nat \<Rightarrow> nat \<Rightarrow> u8 list option \<Rightarrow> u8 list option" where
  "last_write [] off n acc = acc"
| "last_write ((offset, bs) # ws) off n acc =
     last_write ws off n (if offset = off \<and> length bs = n then Some bs else acc)"

fun apart :: "(nat \<times> u8 list) list \<Rightarrow> nat \<Rightarrow> nat \<Rightarrow> bool" where
  "apart [] off n = True"
| "apart ((offset, bs) # ws) off n =
     (offset + length bs \<le> 352 \<and>
      (offset = off \<and> length bs = n \<or> offset + length bs \<le> off \<or> off + n \<le> offset) \<and> apart ws off n)"

lemma length_stores [simp]: "length ev = 352 \<Longrightarrow> apart ws 352 0 \<Longrightarrow> length (stores ws ev) = 352"
  by (induction ws ev rule: stores.induct) auto

lemma last_write_keeps: "\<exists>y. last_write ws off n (Some b) = Some y"
  by (induction ws arbitrary: b rule: list.induct) auto

lemma slice_at_stores_acc:
  assumes "length ev = 352" "apart ws off n" "\<And>bs. acc = Some bs \<Longrightarrow> slice_at ev off n f = Inr bs"
  shows "slice_at (stores ws ev) off n f =
    (case last_write ws off n acc of Some bs \<Rightarrow> Inr bs | None \<Rightarrow> slice_at ev off n f)"
  using assms
proof (induction ws ev arbitrary: acc rule: stores.induct)
  case (1 ev)
  then show ?case
    by (cases acc) simp_all
next
  case (2 offset bs ws ev)
  let ?acc = "if offset = off \<and> length bs = n then Some bs else acc"
  have len: "length (store offset bs ev) = 352" and fits: "offset + length bs \<le> length ev"
    using 2(2,3) by simp_all
  have rest: "slice_at (store offset bs ev) off n f = slice_at ev off n f" if "\<not> (offset = off \<and> length bs = n)"
    using that 2(2,3) by (auto simp: slice_at_store_before slice_at_store_after)
  have "slice_at (store offset bs ev) off n f = Inr bs'" if "?acc = Some bs'" for bs'
    using that rest 2(2,4) fits by (auto simp: slice_at_store_hit split: if_splits)
  with 2(1) [OF len, of ?acc] 2(3)
  have "slice_at (stores ((offset, bs) # ws) ev) off n f =
      (case last_write ws off n ?acc of Some bs \<Rightarrow> Inr bs | None \<Rightarrow> slice_at (store offset bs ev) off n f)"
    by simp
  note step = this
  show ?case
  proof (cases "offset = off \<and> length bs = n")
    case True
    then obtain y where "last_write ws off n (Some bs) = Some y"
      using last_write_keeps by blast
    with step True show ?thesis
      by simp
  next
    case False
    with step show ?thesis
      by (simp only: last_write.simps if_False rest [OF False])
  qed
qed

lemma slice_at_stores:
  "length ev = 352 \<Longrightarrow> apart ws off n \<Longrightarrow>
     slice_at (stores ws ev) off n f =
       (case last_write ws off n None of Some bs \<Rightarrow> Inr bs | None \<Rightarrow> slice_at ev off n f)"
  by (rule slice_at_stores_acc) simp_all

lemma slice_at_one: "i < 352 \<Longrightarrow> length r = 352 \<Longrightarrow> slice_at r i 1 f = Inr [r ! i]"
  by (simp add: slice_at_def slice_range_def take_Suc_conv_app_nth hd_drop_conv_nth take_Suc)

lemma slice_get_stores:
  assumes "length ev = 352" "i < 352" "apart ws i 1" "apart ws 352 0"
  shows "slice_get (stores ws ev) i =
    (case last_write ws i 1 None of Some bs \<Rightarrow> Some (hd bs) | None \<Rightarrow> slice_get ev i)"
  using slice_at_stores [OF assms(1,3), of "[]"] slice_at_one [OF assms(2), of "stores ws ev" "[]"]
    slice_at_one [OF assms(2,1), of "[]"] assms
  by (auto simp: slice_get_def split: option.splits)

text \<open>The readers of the decoder, down to the bytes they take from the record.\<close>

lemmas reader_defs = u64_at_def u32_at_def bytes_at_def boolean_at_def id_at_def parent_at_def
  membership_at_def process_id_at_def thread_id_at_def command_at_def wire_consts

lemma decode_submitted:
  assumes "length r = 352" "slice_get r 8 = Some t" "slice_at r 0 8 ''timestamp'' = Inr (c_u64 en ts)"
  shows "decode en r = decode_body en r t (KernelTimestamp ts)"
  using assms by (simp add: decode_def reader_defs)

subsection \<open>Values\<close>

lemma wire_id_kernel: "MIN_LANDLOCK_ID \<le> v \<Longrightarrow> wire_id v f = Inr (LandlockId v)"
  using wire_id_ok [of "LandlockId v"] by (simp add: id_ok_def)

lemma wire_parent_kernel:
  "hierarchy_ids_ok h \<Longrightarrow> wire_parent (core_read k_id (k_parent h)) f = Inr (obs_parent h)"
  by (cases "k_parent h")
    (auto simp: hierarchy_ids_ok_def wire_parent_def obs_parent_def core_read_def wire_id_kernel
      dest: MIN_LANDLOCK_ID_pos)

lemma optional_peer: "optional_process_id (core_read k_nr (k_sk_peer_pid p)) = obs_peer p"
  by (cases "k_sk_peer_pid p")
    (simp_all add: optional_process_id_def process_id_new_def obs_peer_def core_read_def result_ok_def)

lemma wire_membership_kernel:
  "other_domain_ok v \<Longrightarrow> wire_domain_membership v f = Inr (obs_membership v)"
  by (auto simp: other_domain_ok_def wire_domain_membership_def obs_membership_def wire_id_kernel)

lemma c_str_no_nul: "0 \<notin> set (c_str src)"
  by (metis (mono_tags, lifting) set_takeWhileD)

lemma length_c_str_less: "length (c_str src) < length src \<longleftrightarrow> 0 \<in> set src"
proof
  assume "length (c_str src) < length src"
  then have "src ! length (c_str src) = 0"
    using nth_length_takeWhile [of "\<lambda>b. b \<noteq> 0" src] by simp
  with \<open>length (c_str src) < length src\<close> show "0 \<in> set src"
    by (metis nth_mem)
next
  assume "0 \<in> set src"
  then have "c_str src \<noteq> src"
    using c_str_no_nul [of src] by metis
  then show "length (c_str src) < length src"
    by (metis length_takeWhile_le nat_less_le takeWhile_eq_take take_all_iff)
qed

lemma c_str_id: "0 \<notin> set xs \<Longrightarrow> c_str xs = xs"
  by (subst takeWhile_eq_all_conv) auto

lemma c_str_terminated: "0 \<notin> set xs \<Longrightarrow> c_str (xs @ 0 # ys) = xs"
  by (simp add: takeWhile_append c_str_id)

lemma c_str_take_terminated: "0 \<notin> set xs \<Longrightarrow> c_str (take n (xs @ 0 # ys)) = take n xs"
proof (cases "n \<le> length xs")
  case True
  assume "0 \<notin> set xs"
  then have "0 \<notin> set (take n xs)"
    by (meson in_set_takeD)
  with True show ?thesis
    by (simp add: c_str_id)
next
  case False
  assume "0 \<notin> set xs"
  with False show ?thesis
    by (cases "n - length xs") (simp_all add: c_str_terminated)
qed

lemma take_c_str: "n \<le> length (c_str src) \<Longrightarrow> take n src = take n (c_str src)"
  by (metis min.absorb1 takeWhile_eq_take take_take)

lemma command_captured:
  assumes "command_array (comm :: u8 list)" "c_str bs = c_str comm"
  shows "captured_c_string command_consts bs False f = Inr (obs_command comm)"
proof -
  have "length (c_str comm) \<le> 15"
    using assms(1) length_c_str_less [of comm] by (simp add: command_array_def)
  then have "captured_ok command_consts (CapturedBytes (c_str comm) False :: captured_command)"
    using c_str_no_nul [of comm] by (simp add: captured_ok_def command_consts_def)
  from captured_new_self [OF this] show ?thesis
    by (simp add: captured_c_string_eq assms(2) obs_command_def)
qed

subsection \<open>The capture functions\<close>

lemma read_str_length:
  "helpers_ok k \<Longrightarrow> length (snd (bh_probe_read_kernel_str k dst src)) = length dst"
  by (simp add: helpers_ok_def read_str_documented_def)

lemma read_str_fits:
  "helpers_ok k \<Longrightarrow> dst \<noteq> [] \<Longrightarrow> length (c_str src) < length dst \<Longrightarrow> 0 \<in> set src \<Longrightarrow>
     bh_probe_read_kernel_str k dst src =
       (int (length (c_str src)) + 1, c_str src @ 0 # drop (length (c_str src) + 1) dst)"
  by (simp add: helpers_ok_def read_str_documented_def length_c_str_less)

lemma read_str_cut:
  "helpers_ok k \<Longrightarrow> dst \<noteq> [] \<Longrightarrow> length dst \<le> length (c_str src) \<Longrightarrow>
     bh_probe_read_kernel_str k dst src = (int (length dst), take (length dst - 1) src @ [0])"
  using length_takeWhile_le [of "\<lambda>b. b \<noteq> 0" src]
  by (simp add: helpers_ok_def read_str_documented_def)

lemma read_str_faults:
  "helpers_ok k \<Longrightarrow> dst \<noteq> [] \<Longrightarrow> length src < length dst \<Longrightarrow> 0 \<notin> set src \<Longrightarrow>
     fst (bh_probe_read_kernel_str k dst src) < 0"
  by (simp add: helpers_ok_def read_str_documented_def length_c_str_less)

lemma read_command:
  "helpers_ok k \<Longrightarrow> command_array comm \<Longrightarrow> length dst = 16 \<Longrightarrow>
     c_str (snd (bh_probe_read_kernel_str k dst comm)) = c_str comm"
  using length_c_str_less [of comm]
  by (subst read_str_fits) (auto simp: command_array_def c_str_terminated c_str_no_nul)

text \<open>\<open>capture_path\<close> succeeds exactly on readable paths, and then captures what the path is.\<close>

lemma capture_path_unreadable:
  assumes "helpers_ok k" "\<not> readable_path src"
  shows "capture_path k src = None"
proof -
  have "fst (bh_probe_read_kernel_str k (replicate 258 0) src) < 0"
    using assms by (intro read_str_faults) (auto simp: readable_path_def)
  then show ?thesis
    by (cases "bh_probe_read_kernel_str k (replicate 258 0) src") (simp add: capture_path_def PATH_SIZE_def)
qed

lemma capture_path_readable:
  assumes "helpers_ok k" "readable_path src"
  shows "\<exists>dst. capture_path k src = Some (dst, 256 < length (c_str src)) \<and> length dst = 256 \<and>
    c_str dst = take 256 (c_str src)"
proof (cases "length (c_str src) < 258")
  case True
  with assms(2) have "0 \<in> set src"
    using length_c_str_less [of src] by (auto simp: readable_path_def)
  with True show ?thesis
    using read_str_fits [OF assms(1), of "replicate 258 0" src] c_str_no_nul [of src]
    by (auto simp: capture_path_def PATH_SIZE_def c_str_take_terminated simp del: take_append)
next
  case False
  then have "take 256 src = take 256 (c_str src)"
    by (intro take_c_str) simp
  moreover have "0 \<notin> set (take 256 (c_str src))"
    using c_str_no_nul by (meson in_set_takeD)
  ultimately have "c_str (take 256 src) = take 256 (c_str src)"
    by (metis c_str_id)
  moreover have "256 \<le> length src"
    using False length_takeWhile_le [of "\<lambda>b. b \<noteq> 0" src] by simp
  ultimately show ?thesis
    using False read_str_cut [OF assms(1), of "replicate 258 0" src]
    by (auto simp: capture_path_def PATH_SIZE_def)
qed

lemma path_captured:
  assumes "slice_at r off 256 f = Inr dst" "slice_get r ooff = Some (if 256 < length (c_str src) then 1 else 0)"
    "c_str dst = take 256 (c_str src)"
  shows "captured_at pathname_consts r off 256 ooff f g = Inr (obs_path src)"
proof -
  have "0 \<notin> set (take 256 (c_str src))"
    using c_str_no_nul by (meson in_set_takeD)
  then have "path_ok (obs_path src)"
    by (simp add: captured_ok_def obs_path_def pathname_consts_def)
  from captured_new_self [OF this] show ?thesis
    using assms by (cases "256 < length (c_str src)")
      (simp_all add: captured_at_def boolean_at_def captured_c_string_eq obs_path_def)
qed

text \<open>\<open>capture_abstract_unix_socket_name\<close> succeeds exactly on unnamed and abstract addresses.\<close>

lemma capture_name_eq:
  assumes "helpers_ok k"
  shows "capture_abstract_unix_socket_name k peer =
    (if abstract_address peer
     then Some (as_bytes (obs_name peer), of_nat (length (as_bytes (obs_name peer)))) else None)"
proof (cases "k_addr peer")
  case None
  then show ?thesis
    by (simp add: capture_abstract_unix_socket_name_def abstract_address_def obs_name_def)
next
  case (Some a)
  show ?thesis
  proof (cases "3 \<le> sint (k_len a) \<and> sint (k_len a) \<le> 110")
    case False
    with Some show ?thesis
      by (auto simp: capture_abstract_unix_socket_name_def abstract_address_def
          ABSTRACT_UNIX_SOCKET_NAME_MAX_LEN_def)
  next
    case True
    then obtain m where m: "sint (k_len a) = int m + 3" "m \<le> 107"
      by (intro that [of "nat (sint (k_len a) - 3)"]) auto
    then have small: "unat (of_nat m :: u32) = m" "(of_nat m :: u32) = 0 \<longleftrightarrow> m = 0"
      by (simp_all add: unat_of_nat flip: unat_eq_zero)
    have reads: "bh_probe_read_kernel k i src = (if i \<le> length src then Some (take i src) else None)"
      for i src using assms by (simp add: helpers_ok_def)
    show ?thesis
      using m(2) small
      by (cases "k_sun_path a")
        (simp_all add: capture_abstract_unix_socket_name_def Some m(1) reads abstract_address_def
          obs_name_def ABSTRACT_UNIX_SOCKET_NAME_MAX_LEN_def nat_add_distrib Let_def)
  qed
qed

lemma name_captured:
  assumes "abstract_address peer"
    "u32_at en r off ''abstract_unix_socket_name_length'' = Inr (of_nat (length (as_bytes (obs_name peer))))"
    "\<And>f. slice_at r noff (length (as_bytes (obs_name peer))) f = Inr (as_bytes (obs_name peer))"
  shows "abstract_unix_socket_name_at en r off noff = Inr (obs_name peer)"
proof (rule abstract_name_at_hit [OF _ assms(2,3)])
  show "abstract_name_ok (obs_name peer)"
    using assms(1) by (auto simp: captured_ok_def abstract_name_consts_def obs_name_def abstract_address_def
        split: option.splits)
qed

subsection \<open>The denial header\<close>

lemma fill_reads:
  assumes "helpers_ok k" "length ev = 352"
  shows length_fill: "length (fill_deny_header en k h ev) = 352"
    and fill_id: "slice_at (fill_deny_header en k h ev) 16 8 f = Inr (c_u64 en (k_id h))"
    and fill_parent: "slice_at (fill_deny_header en k h ev) 24 8 f =
      Inr (c_u64 en (core_read k_id (k_parent h)))"
    and fill_count: "slice_at (fill_deny_header en k h ev) 56 8 f = Inr (c_u64 en (k_num_denials h))"
    and fill_tgid: "slice_at (fill_deny_header en k h ev) 32 4 f =
      Inr (c_u32 en (core_read k_nr (Option.bind (k_details h) k_pid)))"
    and fill_slice_before: "off + n \<le> 16 \<Longrightarrow>
      slice_at (fill_deny_header en k h ev) off n f = slice_at ev off n f"
    and fill_slice_after: "64 \<le> off \<Longrightarrow>
      slice_at (fill_deny_header en k h ev) off n f = slice_at ev off n f"
    and fill_get_before: "i < 16 \<Longrightarrow> slice_get (fill_deny_header en k h ev) i = slice_get ev i"
    and fill_get_after: "64 \<le> i \<Longrightarrow> slice_get (fill_deny_header en k h ev) i = slice_get ev i"
  using assms
  by (cases "k_details h"; cases "k_parent h";
      simp add: fill_deny_header_def Let_def read_str_length store_reads core_read_def)+

lemma fill_command:
  assumes "helpers_ok k" "length ev = 352" "hierarchy_kernel_ok h"
  shows "and_then (slice_at (fill_deny_header en k h ev) 36 16 f)
      (\<lambda>v. captured_c_string command_consts v False g) = Inr (obs_command (k_details_comm (the (k_details h))))"
proof -
  obtain d where d: "k_details h = Some d" "command_array (k_details_comm d)"
    using assms(3) by (auto simp: hierarchy_kernel_ok_def details_kernel_ok_def split: option.splits)
  have "c_str (snd (bh_probe_read_kernel_str k dst (k_details_comm d))) = c_str (k_details_comm d)"
    if "length dst = 16" for dst
    by (rule read_command [OF assms(1) d(2) that])
  with assms(1,2) d show ?thesis
    by (simp add: fill_deny_header_def Let_def read_str_length store_reads)
      (rule command_captured, simp_all)
qed

end
