(* ===== verification/Bpf_Decode.thy ===== *)
theory Bpf_Decode
  imports Bpf_Records
begin

text \<open>
  The producer and the decoder together, program by program: the record a program submits decodes
  to the event its tracepoint stands for; a program that gets no record of the ring buffer does
  nothing, and one that cannot capture its bytes discards the record.
\<close>

subsection \<open>Decoding the submitted records\<close>

lemma denial_context_read:
  assumes "hierarchy_kernel_ok h"
    and "\<And>f. slice_at r 16 8 f = Inr (c_u64 en (k_id h))"
    and "\<And>f. slice_at r 24 8 f = Inr (c_u64 en (core_read k_id (k_parent h)))"
    and "\<And>f. slice_at r 32 4 f = Inr (c_u32 en (core_read k_nr (Option.bind (k_details h) k_pid)))"
    and "\<And>f g. and_then (slice_at r 36 16 f) (\<lambda>v. captured_c_string command_consts v False g) =
      Inr (obs_command (k_details_comm (the (k_details h))))"
    and "\<And>f. slice_at r 56 8 f = Inr (c_u64 en (k_num_denials h))"
    and "slice_get r 72 = Some (if same then 1 else 0)" "slice_get r 73 = Some (if lg then 1 else 0)"
  shows "wire_denial_context en r = Inr (obs_context h same lg)"
proof -
  obtain d p where d: "k_details h = Some d" "k_pid d = Some p" "k_nr p \<noteq> 0"
    and ids: "hierarchy_ids_ok h"
    using assms(1) by (auto simp: hierarchy_kernel_ok_def details_kernel_ok_def split: option.splits)
  then have "MIN_LANDLOCK_ID \<le> k_id h"
    by (simp add: hierarchy_ids_ok_def)
  then show ?thesis
    using assms(2-8) d wire_parent_kernel [OF ids]
    by (simp add: wire_id_kernel wire_denial_context_def reader_defs obs_context_def wire_process_id_def process_id_new_def
        core_read_def del: stores.simps)
qed

lemmas fill_rules = length_fill fill_id fill_parent fill_count fill_tgid fill_slice_before fill_slice_after
  fill_get_before fill_get_after fill_command

lemmas decode_rules = decode_submitted decode_body_def event_kind_defs slice_at_stores slice_get_stores
  hd_c store_reads

lemma alloc_length: "alloc_event k = Some ev \<Longrightarrow> length ev = 352"
  by (auto simp: alloc_event_def RECORD_SIZE_def)

definition reports :: "endian \<Rightarrow> bpf_outcome \<Rightarrow> event \<Rightarrow> bool" where
  "reports en out e = (case out of Submitted data \<Rightarrow> decode en data = Inr e | _ \<Rightarrow> False)"

lemma create_ruleset_reports:
  "helpers_ok k \<Longrightarrow> alloc_event k = Some ev \<Longrightarrow> tp = Tp_create_ruleset r \<Longrightarrow> tracepoint_ok k tp \<Longrightarrow>
     reports en (run_program en k tp) (observed en k tp)"
  by (auto simp: handle_create_ruleset_def alloc_length reports_def decode_rules
      decode_create_ruleset_def reader_defs wire_id_kernel ruleset_kernel_ok_def simp del: stores.simps)

lemma add_rule_net_port_reports:
  "helpers_ok k \<Longrightarrow> alloc_event k = Some ev \<Longrightarrow> tp = Tp_add_rule_net_port r f a p \<Longrightarrow> tracepoint_ok k tp \<Longrightarrow>
     reports en (run_program en k tp) (observed en k tp)"
  by (auto simp: handle_add_rule_net_port_def alloc_length reports_def decode_rules
      decode_add_rule_net_port_def reader_defs wire_id_kernel ruleset_kernel_ok_def simp del: stores.simps)

lemma enforce_domain_reports:
  "helpers_ok k \<Longrightarrow> alloc_event k = Some ev \<Longrightarrow> tp = Tp_enforce_domain d c w n \<Longrightarrow> tracepoint_ok k tp \<Longrightarrow>
     reports en (run_program en k tp) (observed en k tp)"
  by (auto simp: handle_enforce_domain_def alloc_length reports_def decode_rules
      decode_enforce_domain_def reader_defs wire_id_kernel domain_kernel_ok_def
      hierarchy_ids_ok_def obs_domain_def core_read_def wire_thread_id_def thread_id_new_def simp del: stores.simps split: option.splits)

lemma free_domain_reports:
  "helpers_ok k \<Longrightarrow> alloc_event k = Some ev \<Longrightarrow> tp = Tp_free_domain h \<Longrightarrow> tracepoint_ok k tp \<Longrightarrow>
     reports en (run_program en k tp) (observed en k tp)"
  by (auto simp: handle_free_domain_def alloc_length reports_def decode_rules
      decode_free_domain_def reader_defs wire_id_kernel hierarchy_ids_ok_def simp del: stores.simps)

lemma free_ruleset_reports:
  "helpers_ok k \<Longrightarrow> alloc_event k = Some ev \<Longrightarrow> tp = Tp_free_ruleset r \<Longrightarrow> tracepoint_ok k tp \<Longrightarrow>
     reports en (run_program en k tp) (observed en k tp)"
  by (auto simp: handle_free_ruleset_def alloc_length reports_def decode_rules
      decode_free_ruleset_def reader_defs wire_id_kernel ruleset_kernel_ok_def simp del: stores.simps)

lemma create_domain_reports:
  assumes "helpers_ok k" "alloc_event k = Some ev" "tp = Tp_create_domain d r" "tracepoint_ok k tp"
  shows "reports en (run_program en k tp) (observed en k tp)"
proof -
  obtain h where h: "k_hierarchy d = Some h" "hierarchy_ids_ok h"
    using assms(3,4) by (auto simp: domain_kernel_ok_def split: option.splits)
  then have ids: "MIN_LANDLOCK_ID \<le> k_id h" "MIN_LANDLOCK_ID \<le> k_ruleset_id r"
    using assms(3,4) by (auto simp: hierarchy_ids_ok_def ruleset_kernel_ok_def)
  have comm: "command_array (bh_get_current_comm k 16)"
    using assms(1) by (simp add: helpers_ok_def command_array_def)
  then have "length (bh_get_current_comm k 16) = 16"
    by (simp add: command_array_def)
  with assms h ids comm wire_parent_kernel [OF h(2)] show ?thesis
    by (simp add: handle_create_domain_def alloc_length reports_def decode_rules decode_create_domain_def
        reader_defs wire_id_kernel obs_domain_def command_captured wire_process_id_def process_id_new_def del: stores.simps)
      (simp add: core_read_def wire_id_kernel)
qed

lemma add_rule_path_beneath_reports:
  assumes "helpers_ok k" "alloc_event k = Some ev" "tp = Tp_add_rule_path_beneath r f a p n"
    "tracepoint_ok k tp" "readable_path n"
  shows "reports en (run_program en k tp) (observed en k tp)"
proof -
  obtain dst where dst: "capture_path k n = Some (dst, 256 < length (c_str n))" "length dst = 256"
    "c_str dst = take 256 (c_str n)"
    using capture_path_readable [OF assms(1,5)] by blast
  with assms(2-4) show ?thesis
    by (simp add: handle_add_rule_path_beneath_def alloc_length reports_def decode_rules
        decode_add_rule_path_beneath_def reader_defs wire_id_kernel ruleset_kernel_ok_def
        obs_device_def obs_inode_def path_captured [OF _ _ dst(3)] del: stores.simps)
qed

lemma deny_access_fs_reports:
  assumes "helpers_ok k" "alloc_event k = Some ev" "tp = Tp_deny_access_fs h s l b p n"
    "tracepoint_ok k tp" "readable_path n"
  shows "reports en (run_program en k tp) (observed en k tp)"
proof -
  obtain dst where dst: "capture_path k n = Some (dst, 256 < length (c_str n))" "length dst = 256"
    "c_str dst = take 256 (c_str n)"
    using capture_path_readable [OF assms(1,5)] by blast
  with assms(1-4) show ?thesis
    by (simp add: handle_deny_access_fs_def alloc_length reports_def decode_rules fill_rules
        denial_context_read [where h = h and same = s and lg = l] decode_deny_access_fs_def reader_defs
        obs_device_def obs_inode_def path_captured [OF _ _ dst(3)] del: stores.simps)
qed

lemma deny_access_net_reports:
  "helpers_ok k \<Longrightarrow> alloc_event k = Some ev \<Longrightarrow> tp = Tp_deny_access_net h s l b f a n \<Longrightarrow> tracepoint_ok k tp \<Longrightarrow>
     reports en (run_program en k tp) (observed en k tp)"
  by (simp add: handle_deny_access_net_def Let_def alloc_length reports_def decode_rules fill_rules
      denial_context_read [where h = h and same = s and lg = l] decode_deny_access_net_def reader_defs
      project_checked_port_def checked_port_def LEGACY_SOURCE_PORT_def LEGACY_DESTINATION_PORT_def del: stores.simps)

lemma deny_ptrace_reports:
  assumes "helpers_ok k" "alloc_event k = Some ev" "tp = Tp_deny_ptrace h s l d t" "tracepoint_ok k tp"
  shows "reports en (run_program en k tp) (observed en k tp)"
  using assms
  by (simp add: handle_deny_ptrace_def Let_def alloc_length reports_def decode_rules fill_rules read_str_length
      denial_context_read [where h = h and same = s and lg = l] decode_deny_ptrace_def reader_defs
      wire_membership_kernel wire_process_id_def process_id_new_def task_kernel_ok_def
      command_captured [OF _ read_command] del: stores.simps)

lemma deny_scope_signal_reports:
  assumes "helpers_ok k" "alloc_event k = Some ev" "tp = Tp_deny_scope_signal h s l d t" "tracepoint_ok k tp"
  shows "reports en (run_program en k tp) (observed en k tp)"
  using assms
  by (simp add: handle_deny_scope_signal_def Let_def alloc_length reports_def decode_rules fill_rules read_str_length
      denial_context_read [where h = h and same = s and lg = l] decode_deny_scope_signal_def reader_defs
      wire_membership_kernel wire_process_id_def process_id_new_def task_kernel_ok_def
      command_captured [OF _ read_command] del: stores.simps)

lemma deny_scope_abstract_unix_socket_reports:
  assumes "helpers_ok k" "alloc_event k = Some ev" "tp = Tp_deny_scope_abstract_unix_socket h s l d p"
    "tracepoint_ok k tp" "abstract_address p"
  shows "reports en (run_program en k tp) (observed en k tp)"
proof -
  have "length (as_bytes (obs_name p)) \<le> 107"
    using assms(5) by (auto simp: obs_name_def abstract_address_def split: option.splits)
  moreover have "capture_abstract_unix_socket_name k p =
      Some (as_bytes (obs_name p), of_nat (length (as_bytes (obs_name p))))"
    using capture_name_eq [OF assms(1)] assms(5) by simp
  ultimately show ?thesis
    using assms
    by (simp add: handle_deny_scope_abstract_unix_socket_def Let_def alloc_length reports_def decode_rules
        fill_rules denial_context_read [where h = h and same = s and lg = l]
        decode_deny_scope_abstract_unix_socket_def reader_defs wire_membership_kernel name_captured optional_peer del: stores.simps)
qed

lemma reports_observed:
  "helpers_ok k \<Longrightarrow> tracepoint_ok k tp \<Longrightarrow> alloc_event k = Some ev \<Longrightarrow> capturable tp \<Longrightarrow>
     reports en (run_program en k tp) (observed en k tp)"
  by (cases tp; simp only: capturable.simps)
    (rule create_ruleset_reports add_rule_path_beneath_reports add_rule_net_port_reports create_domain_reports
      enforce_domain_reports deny_access_fs_reports deny_access_net_reports deny_ptrace_reports
      deny_scope_signal_reports deny_scope_abstract_unix_socket_reports free_domain_reports
      free_ruleset_reports; (assumption | rule refl))+

lemmas handler_defs = handle_create_ruleset_def handle_add_rule_path_beneath_def handle_add_rule_net_port_def
  handle_create_domain_def handle_enforce_domain_def handle_deny_access_fs_def handle_deny_access_net_def
  handle_deny_ptrace_def handle_deny_scope_signal_def handle_deny_scope_abstract_unix_socket_def
  handle_free_domain_def handle_free_ruleset_def

lemma run_program_unreserved: "alloc_event k = None \<Longrightarrow> run_program en k tp = NoReservation"
  by (cases tp) (simp_all add: handler_defs)

lemma run_program_uncapturable:
  "helpers_ok k \<Longrightarrow> alloc_event k = Some ev \<Longrightarrow> \<not> capturable tp \<Longrightarrow> run_program en k tp = Discarded"
  by (cases tp) (simp_all add: handler_defs capture_path_unreadable capture_name_eq)

end
