(* ===== verification/Bpf_Properties.thy ===== *)
theory Bpf_Properties
  imports Bpf_Decode
begin

text \<open>
  The properties of the tracepoint programs: every submitted record is a whole record of the kind its
  tracepoint names, it decodes to the event the tracepoint stands for, and a missing creator, which
  the programs write as zero, is rejected by the decoder.
\<close>

subsection \<open>The shape of a submitted record\<close>

lemma capture_path_length: "helpers_ok k \<Longrightarrow> capture_path k src = Some (dst, om) \<Longrightarrow> length dst = 256"
  using read_str_length [of k "replicate 258 0" src]
  by (auto simp: capture_path_def PATH_SIZE_def split: prod.splits if_splits)

lemma capture_name_length:
  "helpers_ok k \<Longrightarrow> capture_abstract_unix_socket_name k p = Some (name, n) \<Longrightarrow> length name \<le> 107"
  by (auto simp: capture_name_eq obs_name_def abstract_address_def split: if_splits option.splits)

lemma current_comm_length: "helpers_ok k \<Longrightarrow> length (bh_get_current_comm k 16) = 16"
  by (simp add: helpers_ok_def)

definition record_shape :: "endian \<Rightarrow> bpf_helpers \<Rightarrow> u8 \<Rightarrow> u8 list \<Rightarrow> bool" where
  "record_shape en k t r \<longleftrightarrow>
     length r = 352 \<and> slice_get r 8 = Some t \<and> (\<forall>f. slice_at r 0 8 f = Inr (c_u64 en (bh_ktime_get_ns k)))"

lemma shape_init:
  "length ev = 352 \<Longrightarrow> record_shape en k t (store 8 (c_u8 t) (store 0 (c_u64 en (bh_ktime_get_ns k)) ev))"
  by (simp add: record_shape_def store_reads slice_get_u8_store)

lemma shape_store:
  "record_shape en k t r \<Longrightarrow> 16 \<le> offset \<Longrightarrow> offset + length bs \<le> 352 \<Longrightarrow>
     record_shape en k t (store offset bs r)"
  by (simp add: record_shape_def store_reads)

lemma shape_fill: "helpers_ok k \<Longrightarrow> record_shape en k t r \<Longrightarrow> record_shape en k t (fill_deny_header en k h r)"
  by (simp add: record_shape_def fill_rules)

lemma shape_length: "record_shape en k t r \<Longrightarrow> length r = 352"
  by (simp add: record_shape_def)

lemma submitted_shape:
  assumes "helpers_ok k" "run_program en k tp = Submitted data"
  shows "record_shape en k (event_type_code (observed en k tp)) data"
proof (cases "alloc_event k")
  case None
  with assms(2) show ?thesis
    by (simp add: run_program_unreserved)
next
  case (Some ev)
  with assms alloc_length [OF Some] show ?thesis
    by (cases tp) (auto simp: handler_defs Let_def event_kind_defs current_comm_length read_str_length length_fill
        intro!: shape_store shape_fill shape_init dest: capture_path_length capture_name_length
        split: option.splits prod.splits)
qed

subsection \<open>A missing creator\<close>

fun denial_hierarchy :: "tracepoint \<Rightarrow> k_hierarchy option" where
  "denial_hierarchy (Tp_deny_access_fs h s l b p n) = Some h"
| "denial_hierarchy (Tp_deny_access_net h s l b f a n) = Some h"
| "denial_hierarchy (Tp_deny_ptrace h s l d t) = Some h"
| "denial_hierarchy (Tp_deny_scope_signal h s l d t) = Some h"
| "denial_hierarchy (Tp_deny_scope_abstract_unix_socket h s l d p) = Some h"
| "denial_hierarchy _ = None"

text \<open>The header fields of a record, kept by stores behind it.\<close>

definition header_fields :: "endian \<Rightarrow> k_hierarchy \<Rightarrow> u8 list \<Rightarrow> bool" where
  "header_fields en h r \<longleftrightarrow> length r = 352 \<and>
     (\<forall>f. slice_at r 16 8 f = Inr (c_u64 en (k_id h))) \<and>
     (\<forall>f. slice_at r 24 8 f = Inr (c_u64 en (core_read k_id (k_parent h)))) \<and>
     (\<forall>f. slice_at r 32 4 f = Inr (c_u32 en (core_read k_nr (Option.bind (k_details h) k_pid))))"

lemma header_fill: "helpers_ok k \<Longrightarrow> length ev = 352 \<Longrightarrow> header_fields en h (fill_deny_header en k h ev)"
  by (simp add: header_fields_def fill_rules)

lemma header_store:
  "header_fields en h r \<Longrightarrow> 52 \<le> offset \<Longrightarrow> offset + length bs \<le> 352 \<Longrightarrow> header_fields en h (store offset bs r)"
  by (simp add: header_fields_def store_reads)

lemma submitted_header:
  assumes "helpers_ok k" "run_program en k tp = Submitted data" "denial_hierarchy tp = Some h"
  shows "header_fields en h data"
proof (cases "alloc_event k")
  case None
  with assms(2) show ?thesis
    by (simp add: run_program_unreserved)
next
  case (Some ev)
  with assms alloc_length [OF Some] show ?thesis
    by (cases tp) (auto simp: handler_defs Let_def read_str_length length_fill
        intro!: header_store header_fill dest: capture_path_length capture_name_length
        split: option.splits prod.splits)
qed

lemma header_zero_creator:
  assumes "header_fields en h r" "hierarchy_ids_ok h" "core_read k_nr (Option.bind (k_details h) k_pid) = 0"
  shows "wire_denial_context en r = Inl (TaskIdError ''creator_tgid'')"
proof -
  have "MIN_LANDLOCK_ID \<le> k_id h"
    using assms(2) by (simp add: hierarchy_ids_ok_def)
  then show ?thesis
    using assms(1,3) wire_parent_kernel [OF assms(2)]
    by (simp add: wire_denial_context_def header_fields_def reader_defs wire_id_kernel wire_process_id_def
        process_id_new_def)
qed

subsection \<open>Sample helpers\<close>

text \<open>Helpers that behave as documented, on a machine where every reservation succeeds.\<close>

definition copy_str :: "u8 list \<Rightarrow> u8 list \<Rightarrow> int \<times> u8 list" where
  "copy_str dst src =
     (if dst = [] then (0, [])
      else if length (c_str src) < min (length dst) (length src)
      then (int (length (c_str src)) + 1, c_str src @ 0 # drop (length (c_str src) + 1) dst)
      else if length dst \<le> length src then (int (length dst), take (length dst - 1) src @ [0])
      else (-14, map (\<lambda>_. 0) dst))"

definition sample_helpers :: bpf_helpers where
  "sample_helpers =
     \<lparr>bh_ringbuf_reserve = (\<lambda>n. Some (replicate n 0xAA)), bh_ktime_get_ns = 900,
      bh_get_current_pid_tgid = 0x700000009, bh_get_current_comm = (\<lambda>n. replicate n 0),
      bh_probe_read_kernel = (\<lambda>n src. if n \<le> length src then Some (take n src) else None),
      bh_probe_read_kernel_str = copy_str\<rparr>"

lemma sample_helpers_ok: "helpers_ok sample_helpers"
  by (auto simp: helpers_ok_def sample_helpers_def read_str_documented_def copy_str_def)

definition sample_hierarchy :: "k_details option \<Rightarrow> k_hierarchy" where
  "sample_hierarchy d = Hierarchy None 0x100000005 3 d"

definition sample_details :: k_details where
  "sample_details = \<lparr>k_pid = Some \<lparr>k_nr = 42\<rparr>, k_details_comm = [0x73, 0x68] @ replicate 14 0\<rparr>"

definition sample_path :: k_path where
  "sample_path = \<lparr>k_path_dentry = Some \<lparr>k_d_sb = Some \<lparr>k_s_dev = 8\<rparr>, k_d_inode = None\<rparr>\<rparr>"

definition sample_denial :: tracepoint where
  "sample_denial = Tp_deny_access_fs (sample_hierarchy (Some sample_details)) True False
     \<lparr>k_access = 4, k_type = 3\<rparr> sample_path ([0x2F, 0x61] @ [0])"

definition orphan_denial :: tracepoint where
  "orphan_denial = Tp_deny_ptrace (sample_hierarchy None) True True 0
     \<lparr>k_tgid = 9, k_task_comm = replicate 16 0\<rparr>"

lemma sample_denial_ok:
  "tracepoint_ok sample_helpers sample_denial" "capturable sample_denial" "alloc_event sample_helpers \<noteq> None"
  by (simp_all add: sample_denial_def sample_hierarchy_def sample_details_def hierarchy_kernel_ok_def
      hierarchy_ids_ok_def details_kernel_ok_def command_array_def MIN_LANDLOCK_ID_def readable_path_def
      alloc_event_def sample_helpers_def)

subsection \<open>Properties\<close>

text \<open>C1. The tracepoint programs and the decoder agree. For helpers that behave as documented and
  arguments with the kernel's guarantees, a program does nothing only when the ring buffer has no room,
  discards its record exactly when the path or socket name cannot be captured, and otherwise submits a
  record that decodes, in either byte order, to exactly the event the tracepoint stands for: the path cut
  to 256 bytes with the omission flag set exactly when bytes were cut, commands up to their terminator,
  the parent and creator of the domain, and the checked port projected on the requested direction.\<close>

theorem programs_report:
  assumes "helpers_ok k" "tracepoint_ok k tp"
  shows "case run_program en k tp of
      NoReservation \<Rightarrow> bh_ringbuf_reserve k RECORD_SIZE = None
    | Discarded \<Rightarrow> bh_ringbuf_reserve k RECORD_SIZE \<noteq> None \<and> \<not> capturable tp
    | Submitted data \<Rightarrow> bh_ringbuf_reserve k RECORD_SIZE \<noteq> None \<and> capturable tp \<and>
        decode en data = Inr (observed en k tp)"
proof (cases "alloc_event k")
  case None
  then show ?thesis
    by (simp add: run_program_unreserved) (simp add: alloc_event_def)
next
  case (Some ev)
  then have res: "bh_ringbuf_reserve k RECORD_SIZE \<noteq> None"
    by (auto simp: alloc_event_def)
  show ?thesis
  proof (cases "capturable tp")
    case True
    with reports_observed [OF assms Some, of en] res show ?thesis
      by (auto simp: reports_def split: bpf_outcome.splits)
  next
    case False
    with run_program_uncapturable [OF assms(1) Some] res show ?thesis
      by simp
  qed
qed

theorem programs_report_witness:
  "\<exists>data. run_program BigEndian sample_helpers sample_denial = Submitted data \<and>
     decode BigEndian data = Inr (observed BigEndian sample_helpers sample_denial)"
  using programs_report [OF sample_helpers_ok sample_denial_ok(1), of BigEndian] sample_denial_ok(2,3)
  by (auto simp: alloc_event_def split: bpf_outcome.splits)

text \<open>C39. Every submitted record is whole: whatever the arguments, no store of a program leaves the
  352 bytes of the record, the kind byte is that of the tracepoint and one the decoder knows, and the
  timestamp is the time the program read. So what the decoder can reject in a record of the producer is
  only the value of a field, never its size or its kind.\<close>

theorem submitted_records_whole:
  assumes "helpers_ok k" "run_program en k tp = Submitted data"
  shows "length data = RECORD_SIZE \<and> data ! TYPE_OFFSET = event_type_code (observed en k tp) \<and>
    data ! TYPE_OFFSET \<in> event_kinds \<and>
    u64_at en data TIMESTAMP_OFFSET ''timestamp'' = Inr (bh_ktime_get_ns k)"
  using submitted_shape [OF assms]
  by (cases tp) (auto simp: record_shape_def slice_get_def reader_defs event_kinds_def split: if_splits)

theorem submitted_records_whole_witness:
  "\<exists>data. run_program LittleEndian sample_helpers orphan_denial = Submitted data \<and> data ! TYPE_OFFSET = 7"
proof -
  obtain data where "run_program LittleEndian sample_helpers orphan_denial = Submitted data"
    by (simp add: orphan_denial_def handle_deny_ptrace_def alloc_event_def sample_helpers_def Let_def)
  with submitted_records_whole [OF sample_helpers_ok this] show ?thesis
    by (auto simp: orphan_denial_def)
qed

text \<open>C40. A denial without a known creator is rejected: when the domain has no details or no referenced
  process, the program writes a zero creator, and the decoder reports exactly that field as a malformed
  sample instead of inventing a process.\<close>

theorem unknown_creator_rejected:
  assumes "helpers_ok k" "denial_hierarchy tp = Some h" "hierarchy_ids_ok h"
    "core_read k_nr (Option.bind (k_details h) k_pid) = 0" "run_program en k tp = Submitted data"
  shows "decode en data = Inl (TaskIdError ''creator_tgid'')"
proof -
  have "decode en data = decode_body en data (event_type_code (observed en k tp)) (KernelTimestamp (bh_ktime_get_ns k))"
    using submitted_shape [OF assms(1,5)] by (intro decode_submitted) (auto simp: record_shape_def)
  with assms(2) header_zero_creator [OF submitted_header [OF assms(1,5,2)] assms(3,4)] show ?thesis
    by (cases tp) (simp_all add: decode_body_def decode_arm_defs)
qed

theorem unknown_creator_rejected_witness:
  "\<exists>data. run_program LittleEndian sample_helpers orphan_denial = Submitted data \<and>
     decode LittleEndian data = Inl (TaskIdError ''creator_tgid'')"
proof -
  obtain data where "run_program LittleEndian sample_helpers orphan_denial = Submitted data"
    by (simp add: orphan_denial_def handle_deny_ptrace_def alloc_event_def sample_helpers_def Let_def)
  with unknown_creator_rejected [OF sample_helpers_ok _ _ _ this, of "sample_hierarchy None"] show ?thesis
    by (auto simp: orphan_denial_def sample_hierarchy_def hierarchy_ids_ok_def MIN_LANDLOCK_ID_def core_read_def)
qed

end
