(* ===== verification/Pipeline.thy ===== *)
theory Pipeline
  imports Bpf_Properties Main_Properties Collector_Properties
begin

text \<open>
  The components in sequence: tracepoint programs, ring buffer and collector, and the batch mode
  that reads from it. A run of a program that submitted a record is given by the helpers' results and
  the tracepoint; the records the collector's callback is offered are those of such runs.
\<close>

subsection \<open>Records of the programs\<close>

fun producer_run :: "endian \<Rightarrow> bpf_helpers \<times> tracepoint \<Rightarrow> u8 list \<Rightarrow> bool" where
  "producer_run en (k, tp) data \<longleftrightarrow>
     helpers_ok k \<and> tracepoint_ok k tp \<and> run_program en k tp = Submitted data"

fun run_event :: "endian \<Rightarrow> bpf_helpers \<times> tracepoint \<Rightarrow> event" where
  "run_event en (k, tp) = observed en k tp"

lemma producer_decodes: "producer_run en run data \<Longrightarrow> decode en data = Inr (run_event en run)"
proof (cases run)
  case (Pair k tp)
  assume "producer_run en run data"
  then have run: "helpers_ok k" "tracepoint_ok k tp" "run_program en k tp = Submitted data"
    by (simp_all add: Pair)
  then obtain ev where ev: "alloc_event k = Some ev"
    by (cases "alloc_event k") (auto simp: run_program_unreserved)
  then have "capturable tp"
    using run run_program_uncapturable [OF run(1) ev, of tp en] by fastforce
  with reports_observed [OF run(1,2) ev, of en] run(3) show ?thesis
    by (simp add: Pair reports_def)
qed

text \<open>The events of the runs whose records the queue accepted.\<close>

definition accepted_events ::
  "endian \<Rightarrow> (bpf_helpers \<times> tracepoint) list \<Rightarrow> (u8 list \<times> bool) list \<Rightarrow> event list" where
  "accepted_events en runs hist = map (run_event en \<circ> fst) (filter (\<lambda>(_, _, accepted). accepted) (zip runs hist))"

subsection \<open>The events of a delivery stream\<close>

definition stream_events :: "'p delivery list \<Rightarrow> event list" where
  "stream_events ds = List.map_filter (\<lambda>d. case d of Inr e \<Rightarrow> Some e | Inl _ \<Rightarrow> None) ds"

lemma stream_events_simps [simp]:
  "stream_events [] = []" "stream_events (Inr e # ds) = e # stream_events ds"
  "stream_events (Inl er # ds) = stream_events ds"
  "stream_events (ds @ ds') = stream_events ds @ stream_events ds'"
  by (simp_all add: stream_events_def map_filter_def)

lemma events_of_log: "events_of (map received_of l) = stream_events (delivered l)"
proof (induction l)
  case (Cons r l)
  then show ?case
    by (cases r rule: received_of.cases) simp_all
qed simp

lemma coalesce_events:
  "list_all2 (producer_run en) runs (map fst h) \<Longrightarrow>
     stream_events (concat (map expand (coalesce en lost h :: 'p delivery_entry list))) = accepted_events en runs h"
proof (induction h arbitrary: lost runs)
  case Nil
  then show ?case
    by (simp add: accepted_events_def)
next
  case (Cons x h)
  obtain data accepted where x: "x = (data, accepted)"
    by (cases x)
  from Cons.prems obtain run runs' where runs: "runs = run # runs'" "producer_run en run data"
    "list_all2 (producer_run en) runs' (map fst h)"
    by (auto simp: x list_all2_Cons2)
  have "delivery_of en data = (Inr (run_event en run) :: 'p delivery)"
    using producer_decodes [OF runs(2)] by (simp add: delivery_of_def)
  with Cons.IH [OF runs(3), of "\<not> accepted"] show ?case
    by (simp add: x runs(1) accepted_events_def expand_def)
qed

lemma coalesce_errors:
  "list_all2 (producer_run en) runs (map fst h) \<Longrightarrow>
     Inl er \<in> set (concat (map expand (coalesce en lost h :: 'p delivery_entry list))) \<Longrightarrow>
     er = output_queue_full \<and> (lost \<or> (\<exists>(_, accepted) \<in> set h. \<not> accepted))"
proof (induction h arbitrary: lost runs)
  case (Cons x h)
  obtain data accepted where x: "x = (data, accepted)"
    by (cases x)
  from Cons.prems(1) obtain run runs' where runs: "runs = run # runs'" "producer_run en run data"
    "list_all2 (producer_run en) runs' (map fst h)"
    by (auto simp: x list_all2_Cons2)
  have "delivery_of en data = (Inr (run_event en run) :: 'p delivery)"
    using producer_decodes [OF runs(2)] by (simp add: delivery_of_def)
  with Cons.IH [OF runs(3), of "\<not> accepted"] Cons.prems(2) show ?case
    by (auto simp: x expand_def split: if_splits)
qed simp

lemma expected_errors:
  assumes "list_all2 (producer_run en) runs (map fst h)" "Inl er \<in> set (expected en h)"
  shows "er = output_queue_full \<and> (\<exists>(_, accepted) \<in> set h. \<not> accepted)"
  using coalesce_errors [OF assms(1) assms(2) [unfolded expected_def]] by simp

lemma before_fatal_prefix: "\<exists>ys. rs = before_fatal rs @ ys"
  by (induction rs rule: before_fatal.induct) auto

lemma prefix_take: "zs = xs @ ys \<Longrightarrow> xs = take (length xs) zs"
  by simp

lemma before_fatal_all: "\<forall>er. Inl (CollectorError er) \<in> set rs \<longrightarrow> nonfatal er \<Longrightarrow> before_fatal rs = rs"
  by (induction rs rule: before_fatal.induct) auto

lemma delivered_iff: "d \<in> set (delivered l) \<longleftrightarrow> Delivered d \<in> set l"
  by (induction l rule: delivered.induct) auto

text \<open>What the consumer has and what is still on its way, for records of the programs.\<close>

definition waiting :: "'p system \<Rightarrow> 'p delivery list" where
  "waiting s = (case sy_pending_delivery s of Some d \<Rightarrow> [d] | None \<Rightarrow> []) @
     concat (map expand (ch_buffer (sy_deliveries s)))"

lemma stream_split:
  assumes "sys_reachable en capacity s" "consumer_alive s"
  shows "delivered (sy_log s) @ waiting s = expected en (sy_history s)"
  using sys_inv_reachable [OF assms(1)] assms(2) by (simp add: sys_inv_def stream_inv_def waiting_def)

lemma events_split:
  assumes "sys_reachable en capacity s" "consumer_alive s"
    "list_all2 (producer_run en) runs (map fst (sy_history s))"
  shows "events_of (map received_of (sy_log s)) @ stream_events (waiting s) =
    accepted_events en runs (sy_history s)"
  using arg_cong [where f = stream_events, OF stream_split [OF assms(1,2)]] coalesce_events [OF assms(3)]
  by (simp add: events_of_log expected_def)

subsection \<open>A sample run\<close>

text \<open>A denial and the end of its domain, read by the consumer; a third record stays in the queue.\<close>

definition sample_tracepoints :: "(bpf_helpers \<times> tracepoint) list" where
  "sample_tracepoints =
     [(sample_helpers, Tp_free_domain (sample_hierarchy None)),
      (sample_helpers, Tp_free_ruleset \<lparr>k_ruleset_id = 0x100000001, k_version = 4, k_fs = 0, k_net = 0, k_scope = 0\<rparr>)]"

definition record_of :: "endian \<Rightarrow> bpf_helpers \<times> tracepoint \<Rightarrow> u8 list" where
  "record_of en run = (case run_program en (fst run) (snd run) of Submitted data \<Rightarrow> data | _ \<Rightarrow> [])"

definition sample_system :: "string system" where
  "sample_system = schedule LittleEndian 4
     ([WorkerStep] @ concat (map (\<lambda>run. [Callback (record_of LittleEndian run), Delivers]) sample_tracepoints) @
      [ReceiveStart False])"

lemma sample_tracepoints_run:
  "list_all2 (producer_run LittleEndian) sample_tracepoints (map (record_of LittleEndian) sample_tracepoints)"
  by (simp add: sample_tracepoints_def sample_helpers_ok hierarchy_ids_ok_def sample_hierarchy_def
      ruleset_kernel_ok_def MIN_LANDLOCK_ID_def record_of_def handle_free_domain_def handle_free_ruleset_def)
    (simp add: alloc_event_def sample_helpers_def)

lemma sample_system_state:
  "sys_reachable LittleEndian 4 sample_system" "consumer_alive sample_system"
  "sy_history sample_system = map (\<lambda>run. (record_of LittleEndian run, True)) sample_tracepoints"
  "list_all2 (producer_run LittleEndian) sample_tracepoints (map fst (sy_history sample_system))"
proof -
  have "perform_all LittleEndian
      ([WorkerStep] @ concat (map (\<lambda>run. [Callback (record_of LittleEndian run), Delivers]) sample_tracepoints) @
       [ReceiveStart False]) (system_init 4 :: string system) \<noteq> None"
    by (simp add: run_simps sample_tracepoints_def del: not_None_eq)
  from schedule_reachable [OF this] show "sys_reachable LittleEndian 4 sample_system"
    by (simp only: sample_system_def)
  show "consumer_alive sample_system"
    by (simp add: sample_system_def run_simps sample_tracepoints_def consumer_alive_def)
  show hist: "sy_history sample_system = map (\<lambda>run. (record_of LittleEndian run, True)) sample_tracepoints"
    by (simp add: sample_system_def run_simps sample_tracepoints_def)
  show "list_all2 (producer_run LittleEndian) sample_tracepoints (map fst (sy_history sample_system))"
    using sample_tracepoints_run by (simp add: hist comp_def)
qed

text \<open>
  A queue of one entry: the first record is accepted, the second is omitted, then the poll fails and the
  consumer reads to the end.
\<close>

definition overflow_actions :: "string action list" where
  "overflow_actions =
     [WorkerStep] @ concat (map (\<lambda>run. [Callback (record_of LittleEndian run), Delivers]) sample_tracepoints) @
     [PollReturns (Inl ''EIO'')] @ replicate 8 WorkerStep @
     [ReceiveStart False, ReceiveStart False, ReceiveTerminal, ReceiveStart False, ReceiveTerminal,
      ReceiveStart False, ReceiveTerminal]"

definition overflow_system :: "string system" where
  "overflow_system = schedule LittleEndian 1 overflow_actions"

lemmas overflow_run = overflow_system_def overflow_actions_def run_simps sample_tracepoints_def eval_nat_numeral

lemma overflow_system_state:
  "sys_reachable LittleEndian 1 overflow_system" "consumer_alive overflow_system"
  "sy_history overflow_system = zip (map (record_of LittleEndian) sample_tracepoints) [True, False]"
  "Terminal worker_stop \<in> set (sy_log overflow_system)"
  "Terminal (poll_failure ''EIO'') \<in> set (sy_log overflow_system)"
proof -
  have "perform_all LittleEndian overflow_actions (system_init 1 :: string system) \<noteq> None"
    by (simp add: overflow_run del: not_None_eq)
  from schedule_reachable [OF this] show "sys_reachable LittleEndian 1 overflow_system"
    by (simp only: overflow_system_def)
qed (simp_all add: overflow_run consumer_alive_def)

lemma overflow_runs:
  "list_all2 (producer_run LittleEndian) sample_tracepoints (map fst (sy_history overflow_system))"
  using sample_tracepoints_run by (simp add: overflow_system_state(3) sample_tracepoints_def)

subsection \<open>Properties\<close>

text \<open>C2. From the kernel to the consumer. When the samples the collector is offered are records the
  tracepoint programs submitted, then in every reachable state the events the consumer received are, in
  order, a prefix of the events the accepted tracepoints stand for, and all of them once the stopped
  report was returned. No sample is ever reported as malformed, and a delivered error is a queue-full
  notice with an omitted sample behind it. A queue-full notice among the terminal reports means that the
  last sample offered was omitted, and when it was, the notice has been returned by the time a poll failure
  is.\<close>

theorem kernel_to_consumer:
  assumes "sys_reachable en capacity s" "consumer_alive s"
    "list_all2 (producer_run en) runs (map fst (sy_history s))"
    "got = events_of (map received_of (sy_log s))" "es = accepted_events en runs (sy_history s)"
    "tail_lost \<longleftrightarrow> sy_history s \<noteq> [] \<and> \<not> snd (last (sy_history s))"
  shows "got = take (length got) es \<and> (Terminal worker_stop \<in> set (sy_log s) \<longrightarrow> got = es) \<and>
    (\<forall>er. Delivered (Inl er) \<in> set (sy_log s) \<longrightarrow>
       er = output_queue_full \<and> (\<exists>(_, accepted) \<in> set (sy_history s). \<not> accepted)) \<and>
    (Terminal output_queue_full \<in> set (sy_log s) \<longrightarrow> tail_lost) \<and>
    (\<forall>p. Terminal (poll_failure p) \<in> set (sy_log s) \<and> tail_lost \<longrightarrow>
       Terminal output_queue_full \<in> set (sy_log s))"
proof (intro conjI allI impI)
  note split = events_split [OF assms(1-3), folded assms(4,5)]
  show "got = take (length got) es"
    by (rule prefix_take [OF split [symmetric]])
  assume "Terminal worker_stop \<in> set (sy_log s)"
  then have "waiting s = []"
    using sys_inv_reachable [OF assms(1)] assms(2) by (auto simp: sys_inv_def stop_inv_def waiting_def)
  with split show "got = es"
    by simp
next
  fix er
  assume "Delivered (Inl er) \<in> set (sy_log s)"
  then have "Inl er \<in> set (expected en (sy_history s))"
    unfolding stream_split [OF assms(1,2), symmetric] by (simp add: delivered_iff)
  from expected_errors [OF assms(3) this]
  show "er = output_queue_full" "\<exists>(_, accepted) \<in> set (sy_history s). \<not> accepted"
    by simp_all
next
  assume "Terminal output_queue_full \<in> set (sy_log s)"
  from terminal_notice_sound [OF assms(1,2) this] show tail_lost
    using assms(6) by (simp add: losing_last)
next
  fix p
  assume "Terminal (poll_failure p) \<in> set (sy_log s) \<and> tail_lost"
  then show "Terminal output_queue_full \<in> set (sy_log s)"
    using terminal_notice_complete [OF assms(1,2), of p] assms(6) by (simp add: losing_last)
qed

text \<open>The run that overflows: the accepted event is received, then the notice before the poll failure.\<close>

theorem kernel_to_consumer_witness:
  "events_of (map received_of (sy_log overflow_system)) = [run_event LittleEndian (hd sample_tracepoints)] \<and>
   Terminal output_queue_full \<in> set (sy_log overflow_system)"
proof -
  note holds = kernel_to_consumer [OF overflow_system_state(1,2) overflow_runs refl refl refl]
  have es: "accepted_events LittleEndian sample_tracepoints (sy_history overflow_system) =
      [run_event LittleEndian (hd sample_tracepoints)]"
    by (simp add: accepted_events_def overflow_system_state(3) sample_tracepoints_def)
  have "sy_history overflow_system \<noteq> [] \<and> \<not> snd (last (sy_history overflow_system))"
    by (simp add: overflow_system_state(3) sample_tracepoints_def)
  then show ?thesis
    using holds overflow_system_state(4,5) unfolding es by blast
qed

text \<open>C21. From the kernel to the output. Under the same conditions the batch mode, fed with what the
  collector returned, writes to its standard output exactly the records of a prefix of the events the
  accepted tracepoints stand for, in order; and of all of them when no terminal error came and nothing is
  waiting in the collector.\<close>

theorem kernel_to_stdout:
  assumes "sys_reachable en capacity s" "consumer_alive s"
    "list_all2 (producer_run en) runs (map fst (sy_history s))"
    "es = accepted_events en runs (sy_history s)" "rs = map received_of (sy_log s)"
  shows "\<exists>n w'. run_batch show_poll script_io \<lparr>sc_results = rs, sc_stdout = [], sc_stderr = []\<rparr> =
      Some (w', Inl (BatchCollector (first_fatal rs))) \<and>
    sc_stdout w' = batch_records batch_new (take n es) \<and>
    ((\<forall>er. Terminal er \<notin> set (sy_log s)) \<and> waiting s = [] \<longrightarrow> n = length es)"
proof -
  note split = events_split [OF assms(1-3), folded assms(4,5)]
  define n where "n = length (events_of (before_fatal rs))"
  obtain ys where "rs = before_fatal rs @ ys"
    using before_fatal_prefix by blast
  then have "events_of rs = events_of (before_fatal rs) @ events_of ys"
    by (metis events_of_simps(4))
  with split have "events_of (before_fatal rs) @ events_of ys @ stream_events (waiting s) = es"
    by simp
  from prefix_take [OF this [symmetric]] have pre: "events_of (before_fatal rs) = take n es"
    by (simp add: n_def)
  have "n = length es" if "\<forall>er. Terminal er \<notin> set (sy_log s)" "waiting s = []"
  proof -
    have "nonfatal er" if "Inl (CollectorError er) \<in> set rs" for er
    proof -
      have "Delivered (Inl er) \<in> set (sy_log s)"
        using that \<open>\<forall>er. Terminal er \<notin> set (sy_log s)\<close> unfolding assms(5)
        by (auto elim!: received_of.elims [OF sym])
      then have "Inl er \<in> set (expected en (sy_history s))"
        unfolding stream_split [OF assms(1,2), symmetric] by (simp add: delivered_iff)
      from expected_errors [OF assms(3) this] show ?thesis
        by (simp add: nonfatal_def)
    qed
    then have "before_fatal rs = rs"
      by (intro before_fatal_all) simp
    with split that(2) show ?thesis
      by (simp add: n_def)
  qed
  then show ?thesis
    using pre by (intro exI [of _ n]) (simp add: run_batch_script)
qed

theorem kernel_to_stdout_witness:
  "\<exists>n w'. run_batch (\<lambda>_. []) (script_io :: (string script, string, unit) batch_io)
      \<lparr>sc_results = map received_of (sy_log sample_system), sc_stdout = [], sc_stderr = []\<rparr> =
      Some (w', Inl (BatchCollector (first_fatal (map received_of (sy_log sample_system))))) \<and>
    sc_stdout w' = batch_records batch_new (take n (map (run_event LittleEndian) sample_tracepoints))"
  using kernel_to_stdout [OF sample_system_state(1,2,4) refl refl, where show_poll = "\<lambda>_. []"]
  unfolding sample_system_state(3)
  by (auto simp: accepted_events_def sample_tracepoints_def)

end
