(* ===== verification/Live_Drain.thy ===== *)
theory Live_Drain
  imports Pipeline Tui_Loop_Properties
begin

text \<open>
  The drain of the interactive loop over the collector itself, while the worker runs. Between the
  consumer's calls, and between the two halves of a call, the worker takes any steps a plan gives.
  With records of the tracepoint programs nothing is malformed; a queue-full notice leaves the next
  delivery pending, and the terminal channel holds at most three errors. So recoverable errors cannot
  keep a drain from returning.
\<close>

subsection \<open>The collector with a running worker\<close>

fun worker_action :: "'p action \<Rightarrow> bool" where
  "worker_action (ReceiveStart _) = False"
| "worker_action ReceiveTerminal = False"
| "worker_action DropStep = False"
| "worker_action _ = True"

text \<open>The worker's steps; what is not one of its steps, or not possible now, is left out.\<close>

fun worker_acts :: "endian \<Rightarrow> 'p action list \<Rightarrow> 'p system \<Rightarrow> 'p system" where
  "worker_acts en [] s = s"
| "worker_acts en (a # as) s =
     worker_acts en as
       (if worker_action a then (case perform en a s of Some s' \<Rightarrow> s' | None \<Rightarrow> s) else s)"

type_synonym 'p plan = "nat \<Rightarrow> 'p action list \<times> 'p action list"

definition live_try_recv :: "endian \<Rightarrow> 'p system \<times> 'p plan \<Rightarrow> ('p system \<times> 'p plan) \<times> 'p received" where
  "live_try_recv en w =
     (case w of (s, plan) \<Rightarrow>
        (let s1 = recv_begin False (worker_acts en (fst (plan 0)) s);
             s2 = (if sy_consumer s1 = CIdle then s1
                   else (let s' = worker_acts en (snd (plan 0)) s1 in recv_terminal (sy_consumer s') s'))
         in ((s2, \<lambda>i. plan (Suc i)), received_of (last (sy_log s2)))))"

subsection \<open>Systems without malformed samples\<close>

definition decodable :: "endian \<Rightarrow> u8 list \<Rightarrow> bool" where
  "decodable en data \<longleftrightarrow> (\<exists>e. decode en data = Inr e)"

definition clean :: "endian \<Rightarrow> 'p system \<Rightarrow> bool" where
  "clean en s \<longleftrightarrow>
     (\<forall>entry\<in>set (ch_buffer (sy_deliveries s)). \<exists>e. de_delivery entry = Inr e) \<and>
     (\<forall>d. sy_pending_delivery s = Some d \<longrightarrow> (\<exists>e. d = Inr e)) \<and>
     (\<forall>data. sy_worker s = WDeliver data \<longrightarrow> decodable en data)"

definition clean_action :: "endian \<Rightarrow> 'p action \<Rightarrow> bool" where
  "clean_action en a \<longleftrightarrow> (\<forall>data. a = Callback data \<longrightarrow> decodable en data)"

definition clean_plan :: "endian \<Rightarrow> 'p plan \<Rightarrow> bool" where
  "clean_plan en plan \<longleftrightarrow> (\<forall>i. \<forall>a\<in>set (fst (plan i)) \<union> set (snd (plan i)). clean_action en a)"

lemma clean_plan_next: "clean_plan en plan \<Longrightarrow> clean_plan en (\<lambda>i. plan (Suc i))"
  by (simp add: clean_plan_def)

lemma worker_step_clean: "worker_step s pc = Some s' \<Longrightarrow> clean en s \<Longrightarrow> clean en s'"
  by (erule worker_stepE)
    (auto simp: clean_def ch_drop_sender_def after_poll_def report_callback_panic_def split: option.splits sum.splits)

lemma deliver_clean:
  "sy_worker s = WDeliver data \<Longrightarrow> clean en s \<Longrightarrow> clean en ((fst (deliver_entry en s data))\<lparr>sy_worker := WPoll\<rparr>)"
  by (auto simp: clean_def decodable_def deliver_entry_def delivery_of_def ch_try_send_def)

lemma perform_clean:
  assumes "perform en a s = Some s'" "worker_action a" "clean_action en a" "clean en s"
  shows "clean en s'"
  using assms
  by (cases a) (auto simp: clean_action_def callback_panicked_def intro: deliver_clean worker_step_clean
      split: worker_pc.splits if_splits, auto simp: clean_def elim: unwindE)

lemma perform_consumer:
  assumes "perform en a s = Some s'" "worker_action a"
  shows "sy_log s' = sy_log s" "sy_consumer s' = sy_consumer s" "sy_pending_delivery s' = sy_pending_delivery s"
  using assms
  by (cases a; auto simp: deliver_entry_def callback_panicked_def worker_step_stream Let_def
      split: worker_pc.splits if_splits prod.splits send_result.splits)+

lemma worker_acts_keep:
  assumes "sys_reachable en capacity s" "clean en s" "\<forall>a\<in>set as. clean_action en a"
  shows "sys_reachable en capacity (worker_acts en as s) \<and> clean en (worker_acts en as s) \<and>
    sy_log (worker_acts en as s) = sy_log s \<and> sy_consumer (worker_acts en as s) = sy_consumer s \<and>
    sy_pending_delivery (worker_acts en as s) = sy_pending_delivery s"
  using assms
proof (induction as arbitrary: s)
  case (Cons a as)
  show ?case
  proof (cases "worker_action a \<and> perform en a s \<noteq> None")
    case True
    then obtain s' where s': "perform en a s = Some s'" "worker_action a"
      by auto
    have "sys_reachable en capacity s'" "clean en s'"
      using Cons.prems sys_reachable.step [OF _ perform_step [OF s'(1)]] perform_clean [OF s'] by auto
    with Cons.IH [of s'] Cons.prems(3) perform_consumer [OF s'] show ?thesis
      by (simp add: s')
  next
    case False
    with Cons.IH [of s] Cons.prems show ?thesis
      by auto
  qed
qed simp

lemma few_reports: "sys_reachable en capacity s \<Longrightarrow> length (reported (sy_log s)) \<le> 3"
  using sys_inv_reachable [of en capacity s]
  by (cases "sy_worker s" rule: send_budget.cases) (auto simp: sys_inv_def terminal_inv_def sent_def)

definition live_inv :: "endian \<Rightarrow> nat \<Rightarrow> 'p system \<times> 'p plan \<Rightarrow> bool" where
  "live_inv en capacity w \<longleftrightarrow>
     sys_reachable en capacity (fst w) \<and> sy_consumer (fst w) = CIdle \<and> clean en (fst w) \<and> clean_plan en (snd w)"

definition live_budget :: "'p system \<times> 'p plan \<Rightarrow> nat" where
  "live_budget w = 2 * (3 - length (reported (sy_log (fst w)))) +
     (if sy_pending_delivery (fst w) = None then 1 else 0)"

text \<open>The first half of a call, from an idle consumer.\<close>

lemma live_begin_cases:
  assumes "sys_reachable en capacity s" "sy_consumer s = CIdle" "clean en s" "s1 = recv_begin False s"
  shows "sys_reachable en capacity s1 \<and> clean en s1 \<and>
    (sy_consumer s1 = CIdle \<and>
       (\<exists>e. sy_log s1 = sy_log s @ [Delivered (Inr e)] \<or>
            sy_log s1 = sy_log s @ [Delivered (Inl output_queue_full)] \<and>
            sy_pending_delivery s = None \<and> sy_pending_delivery s1 = Some (Inr e)) \<or>
     sy_consumer s1 \<in> {CNow, CStop} \<and> sy_log s1 = sy_log s \<and>
       sy_pending_delivery s = None \<and> sy_pending_delivery s1 = None)"
proof -
  have "sys_reachable en capacity s1"
    unfolding assms(4) by (rule sys_reachable.step [OF assms(1) sys_step.receive [OF assms(2)]])
  with assms(2-4) show ?thesis
    by (cases "sy_pending_delivery s"; cases "ch_buffer (sy_deliveries s)")
      (auto simp: recv_begin_def ch_try_recv_def unpair_def finish_call_def clean_def Let_def split: if_splits)
qed

lemma live_terminal_cases:
  assumes "sys_reachable en capacity s" "sy_consumer s \<in> {CNow, CStop}" "clean en s"
    "s1 = recv_terminal (sy_consumer s) s"
  shows "sys_reachable en capacity s1 \<and> clean en s1 \<and> sy_consumer s1 = CIdle \<and>
    sy_pending_delivery s1 = sy_pending_delivery s \<and>
    (sy_log s1 = sy_log s @ [NotReady] \<or> (\<exists>er. sy_log s1 = sy_log s @ [Terminal er]))"
proof -
  have "sys_reachable en capacity s1"
    unfolding assms(4) using assms(2) by (intro sys_reachable.step [OF assms(1)] sys_step.terminal) auto
  with assms(2-4) show ?thesis
    by (cases "ch_buffer (sy_terminal s)"; cases "ch_senders (sy_terminal s) = 0")
      (auto simp: ch_try_recv_def finish_call_def clean_def Let_def)
qed

lemma live_step:
  assumes "live_inv en capacity w" "live_try_recv en w = (w', r)"
  shows "live_inv en capacity w' \<and> (\<exists>out. sy_log (fst w') = sy_log (fst w) @ [out] \<and> r = received_of out) \<and>
    (\<forall>er. r = Inl (CollectorError er) \<and> recoverable_collector_error (Some (re_kind er)) \<longrightarrow>
       live_budget w' < live_budget w)"
proof -
  obtain s plan where w: "w = (s, plan)"
    by (cases w)
  define s0 where "s0 = worker_acts en (fst (plan 0)) s"
  define s1 where "s1 = recv_begin False s0"
  have plan: "\<forall>a\<in>set (fst (plan 0)). clean_action en a" "\<forall>a\<in>set (snd (plan 0)). clean_action en a"
    "clean_plan en (\<lambda>i. plan (Suc i))"
    using assms(1) by (auto simp: live_inv_def w clean_plan_def)
  have s0: "sys_reachable en capacity s0" "clean en s0" "sy_log s0 = sy_log s" "sy_consumer s0 = CIdle"
    "sy_pending_delivery s0 = sy_pending_delivery s"
    using worker_acts_keep [of en capacity s "fst (plan 0)"] assms(1) plan(1)
    by (simp_all add: live_inv_def w s0_def)
  note first = live_begin_cases [OF s0(1,4,2) s1_def]
  show ?thesis
  proof (cases "sy_consumer s1 = CIdle")
    case True
    then have "w' = (s1, \<lambda>i. plan (Suc i))" "r = received_of (last (sy_log s1))"
      using assms(2) by (simp_all add: live_try_recv_def w Let_def s0_def s1_def)
    with first True plan(3) s0(3,5) show ?thesis
      by (auto simp: live_inv_def live_budget_def w)
  next
    case False
    define s2 where "s2 = worker_acts en (snd (plan 0)) s1"
    define s3 where "s3 = recv_terminal (sy_consumer s2) s2"
    have s1: "sys_reachable en capacity s1" "clean en s1" "sy_consumer s1 \<in> {CNow, CStop}"
      "sy_log s1 = sy_log s" "sy_pending_delivery s1 = None" "sy_pending_delivery s = None"
      using first False s0(3,5) by auto
    have s2: "sys_reachable en capacity s2" "clean en s2" "sy_consumer s2 \<in> {CNow, CStop}"
      "sy_log s2 = sy_log s" "sy_pending_delivery s2 = None"
      using worker_acts_keep [OF s1(1,2) plan(2)] s1 by (simp_all add: s2_def)
    note second = live_terminal_cases [OF s2(1,3,2) s3_def]
    have res: "w' = (s3, \<lambda>i. plan (Suc i))" "r = received_of (last (sy_log s3))"
      using assms(2) False by (simp_all add: live_try_recv_def w Let_def s0_def s1_def s2_def s3_def)
    have "length (reported (sy_log s3)) \<le> 3"
      using second few_reports by blast
    with second res plan(3) s1(6) s2(4,5) show ?thesis
      by (auto simp: live_inv_def live_budget_def w recoverable_collector_error_def)
  qed
qed

lemma live_errors_use_up: "errors_use_up (live_inv en capacity) live_budget (live_try_recv en)"
  unfolding errors_use_up_def using live_step by blast

lemma live_receives:
  "live_inv en capacity w \<Longrightarrow> receives (live_try_recv en) k w = (w', rs) \<Longrightarrow>
     live_inv en capacity w' \<and> (\<exists>outs. sy_log (fst w') = sy_log (fst w) @ outs \<and> rs = map received_of outs)"
proof (induction k arbitrary: w rs)
  case (Suc k)
  obtain w1 r where call: "live_try_recv en w = (w1, r)"
    by fastforce
  from live_step [OF Suc.prems(1) this] obtain out where out: "live_inv en capacity w1"
    "sy_log (fst w1) = sy_log (fst w) @ [out]" "r = received_of out"
    by blast
  obtain rs1 where rs1: "receives (live_try_recv en) k w1 = (w', rs1)" "rs = r # rs1"
    using Suc.prems(2) call by (auto split: prod.splits)
  from Suc.IH [OF out(1) rs1(1)] obtain outs where "live_inv en capacity w'"
    "sy_log (fst w') = sy_log (fst w1) @ outs" "rs1 = map received_of outs"
    by blast
  then show ?case
    using out(2,3) rs1(2) by (intro conjI exI [of _ "out # outs"]) simp_all
qed simp

subsection \<open>Where the deliveries come from\<close>

text \<open>Every delivery on its way to the consumer is that of a sample the callback offered.\<close>

definition offered :: "endian \<Rightarrow> 'p system \<Rightarrow> 'p delivery \<Rightarrow> bool" where
  "offered en s d \<longleftrightarrow> (\<exists>data\<in>set (map fst (sy_history s)). d = delivery_of en data)"

definition origin_inv :: "endian \<Rightarrow> 'p system \<Rightarrow> bool" where
  "origin_inv en s \<longleftrightarrow> (\<forall>entry\<in>set (ch_buffer (sy_deliveries s)). offered en s (de_delivery entry)) \<and>
     (\<forall>d. sy_pending_delivery s = Some d \<longrightarrow> offered en s d)"

lemma origin_step:
  assumes "sys_step en s s'" "origin_inv en s"
  shows "origin_inv en s'"
  using assms(1)
proof (cases rule: sys_step_cases)
  case worker
  then show ?thesis
    using assms(2) by (simp add: origin_inv_def offered_def worker_step_stream)
qed (use assms(2) in \<open>auto simp: origin_inv_def offered_def finish_call_def ch_drop_receiver_def\<close>)

lemma origin_reachable: "sys_reachable en capacity s \<Longrightarrow> origin_inv en s"
proof (induction rule: sys_reachable.induct)
  case init
  show ?case
    by (simp add: origin_inv_def system_init_def ch_clone_sender_def sync_channel_def)
qed (rule origin_step)

text \<open>The samples offered so far, and the one the callback is working on, are records of the programs.\<close>

definition producer_samples :: "endian \<Rightarrow> 'p system \<Rightarrow> bool" where
  "producer_samples en s \<longleftrightarrow>
     (\<forall>data. data \<in> set (map fst (sy_history s)) \<or> sy_worker s = WDeliver data \<longrightarrow> (\<exists>run. producer_run en run data))"

lemma producer_samples_clean:
  assumes "sys_reachable en capacity s" "producer_samples en s"
  shows "clean en s"
proof -
  have decodes: "decodable en data" if "data \<in> set (map fst (sy_history s)) \<or> sy_worker s = WDeliver data" for data
    using assms(2) that producer_decodes unfolding producer_samples_def decodable_def by blast
  have "\<exists>e. d = Inr e" if "offered en s d" for d
    using that decodes unfolding offered_def delivery_of_def decodable_def by fastforce
  then show ?thesis
    using origin_reachable [OF assms(1)] decodes by (simp add: origin_inv_def clean_def)
qed

subsection \<open>Properties\<close>

definition producer_plan :: "endian \<Rightarrow> 'p plan \<Rightarrow> bool" where
  "producer_plan en plan \<longleftrightarrow>
     (\<forall>i data. Callback data \<in> set (fst (plan i)) \<union> set (snd (plan i)) \<longrightarrow> (\<exists>run. producer_run en run data))"

lemma producer_plan_clean: "producer_plan en plan \<Longrightarrow> clean_plan en plan"
  unfolding producer_plan_def clean_plan_def clean_action_def decodable_def
  by (metis producer_decodes)

text \<open>C20. A drain over the running collector returns. Take any reachable state of the collector with its
  consumer between two calls, whatever it has received before and with or without a pending delivery, and
  let the worker take any steps at all between and inside the drain's calls, with any panics and poll
  results. If the samples, past and coming, are records the tracepoint programs submitted, then draining the
  ready events returns, after at most 1024 events, with the consumer between two calls again. Unless it
  returns the error of its last call, which then ends the mode, the model has observed exactly the events
  its calls returned, in their order, and before 1024 events it stopped only where no entry was ready.
  Queue-full notices cannot starve the display.\<close>

theorem live_drain_returns:
  fixes plan :: "'p plan"
  assumes "sys_reachable en capacity s" "sy_consumer s = CIdle" "producer_samples en s" "producer_plan en plan"
  shows "\<exists>w' r outs. drain_ready_events show_poll (live_try_recv en) (s, plan) a m = Some (w', r) \<and>
    sy_log (fst w') = sy_log s @ outs \<and> sys_reachable en capacity (fst w') \<and> sy_consumer (fst w') = CIdle \<and>
    (case r of
       Inl er \<Rightarrow> outs \<noteq> [] \<and> received_of (last outs) = Inl er \<and> \<not> recoverable_collector_error (source_kind er)
     | Inr (a', m', n) \<Rightarrow>
         n = length (events_of (map received_of outs)) \<and> n \<le> 1024 \<and>
         m' = foldl model_observe m (events_of (map received_of outs)) \<and>
         (outs \<noteq> [] \<and> received_of (last outs) = Inl NoEntry \<or> n = 1024))"
proof -
  have inv: "live_inv en capacity (s, plan)"
    using producer_samples_clean [OF assms(1,3)] producer_plan_clean [OF assms(4)] assms(1,2)
    by (simp add: live_inv_def)
  from drain_loop_returns [OF live_errors_use_up inv le0, of show_poll a m]
  obtain w' r where res: "drain_loop show_poll (live_try_recv en) (s, plan) a m 0 = Some (w', r)"
    by auto
  from drain_loop_done [OF this le0] obtain k rs where
    calls: "receives (live_try_recv en) k (s, plan) = (w', rs)" and
    did: "case r of
       Inl er \<Rightarrow> rs \<noteq> [] \<and> last rs = Inl er \<and> \<not> recoverable_collector_error (source_kind er)
     | Inr (a', m', n) \<Rightarrow> n = length (events_of rs) \<and> n \<le> 1024 \<and>
         m' = foldl model_observe m (events_of rs) \<and> (rs \<noteq> [] \<and> last rs = Inl NoEntry \<or> n = 1024)"
    unfolding drained_def MAX_READY_EVENTS_PER_CYCLE_def by (cases r) auto
  from live_receives [OF inv calls] obtain outs where outs: "live_inv en capacity w'"
    "sy_log (fst w') = sy_log s @ outs" "rs = map received_of outs"
    by auto
  have "rs \<noteq> [] \<longleftrightarrow> outs \<noteq> []" "outs \<noteq> [] \<Longrightarrow> last rs = received_of (last outs)"
    by (simp_all add: outs(3) last_map)
  with res outs(1,2) did show ?thesis
    unfolding drain_ready_events_def
    by (intro exI [of _ w'] exI [of _ r] exI [of _ outs]) (cases r; auto simp: live_inv_def outs(3))
qed

text \<open>
  A queue of one entry that loses a record; the consumer has waited for two entries, so it has the event
  and the notice, and a delivery is pending. Then the worker floods the queue.
\<close>

definition flooded_record :: "u8 list" where
  "flooded_record = record_of LittleEndian (hd sample_tracepoints)"

definition pending_actions :: "string action list" where
  "pending_actions = WorkerStep # concat (replicate 2 [Callback flooded_record, Delivers]) @
     [ReceiveStart True, Callback flooded_record, Delivers, ReceiveStart True]"

definition pending_system :: "string system" where
  "pending_system = schedule LittleEndian 1 pending_actions"

definition flooding_plan :: "string plan" where
  "flooding_plan = (\<lambda>_. (WorkerStep # concat (replicate 3 [Callback flooded_record, Delivers]), []))"

lemma flooded_run: "\<exists>run. producer_run LittleEndian run flooded_record"
  using sample_tracepoints_run unfolding flooded_record_def sample_tracepoints_def
  by (auto simp del: split_paired_Ex producer_run.simps)

lemma flooding_plan_ok: "producer_plan LittleEndian flooding_plan"
  using flooded_run unfolding producer_plan_def flooding_plan_def
  by (auto simp del: split_paired_Ex producer_run.simps)

lemma pending_system_state:
  "sys_reachable LittleEndian 1 pending_system" "sy_consumer pending_system = CIdle"
  "sy_pending_delivery pending_system \<noteq> None" "producer_samples LittleEndian pending_system"
proof -
  have "perform_all LittleEndian pending_actions (system_init 1 :: string system) \<noteq> None"
    by (simp add: pending_actions_def run_simps eval_nat_numeral del: not_None_eq)
  from schedule_reachable [OF this] show "sys_reachable LittleEndian 1 pending_system"
    by (simp only: pending_system_def)
  show "sy_consumer pending_system = CIdle" "sy_pending_delivery pending_system \<noteq> None"
    by (simp_all add: pending_system_def pending_actions_def run_simps eval_nat_numeral)
  have "sy_history pending_system = [(flooded_record, True), (flooded_record, False), (flooded_record, True)]"
    "sy_worker pending_system = WPoll"
    by (simp_all add: pending_system_def pending_actions_def run_simps eval_nat_numeral)
  with flooded_run show "producer_samples LittleEndian pending_system"
    by (simp add: producer_samples_def del: split_paired_Ex producer_run.simps)
qed

theorem live_drain_returns_witness:
  "sy_pending_delivery pending_system \<noteq> None \<and>
   (\<exists>w' r. drain_ready_events (\<lambda>_. []) (live_try_recv LittleEndian) (pending_system, flooding_plan) app_new model_new =
     Some (w', r) \<and> sy_consumer (fst w') = CIdle)"
  using live_drain_returns [OF pending_system_state(1,2,4) flooding_plan_ok, of "\<lambda>_. []" app_new model_new]
    pending_system_state(3)
  by blast

end
