(* ===== verification/Receive_Deadline.thy ===== *)
theory Receive_Deadline
  imports Collector
begin

text \<open>
  \<open>ReceiveDeadline\<close> of \<open>src/collector.rs\<close>: the one monotonic budget that \<open>recv_timeout\<close> spends on waiting
  for a delivery and then for the terminal status. Times are nanoseconds of the monotonic clock; how
  long a wait takes, and how much later the clock is read again, is arbitrary.
\<close>

record receive_deadline =
  rd_started :: nat
  rd_timeout :: nat

definition deadline_new :: "nat \<Rightarrow> nat \<Rightarrow> receive_deadline" where
  "deadline_new now timeout = \<lparr>rd_started = now, rd_timeout = timeout\<rparr>"

text \<open>\<open>Instant::elapsed\<close> and \<open>Duration::saturating_sub\<close> both saturate at zero.\<close>

definition deadline_remaining :: "nat \<Rightarrow> receive_deadline \<Rightarrow> nat" where
  "deadline_remaining now d = rd_timeout d - (now - rd_started d)"

text \<open>
  The waits of one call: it reads the clock at \<open>now\<close>, waits for a delivery with what remains at \<open>t1\<close>,
  and only after a disconnected channel waits for the terminal status with what remains at \<open>t2\<close>.
\<close>

definition recv_timeout_waits :: "nat \<Rightarrow> nat \<Rightarrow> nat \<Rightarrow> nat \<Rightarrow> nat \<times> nat" where
  "recv_timeout_waits timeout now t1 t2 =
     (let d = deadline_new now timeout in (deadline_remaining t1 d, deadline_remaining t2 d))"

text \<open>
  Whatever part of its budget the first wait used, both waits together never last longer than the
  timeout: the second starts after the first has taken \<open>w1\<close>, and takes at most what then remains.
\<close>

lemma recv_timeout_budget:
  assumes "recv_timeout_waits timeout now t1 t2 = (r1, r2)" "now \<le> t1" "w1 \<le> r1" "t1 + w1 \<le> t2" "w2 \<le> r2"
  shows "w1 + w2 \<le> timeout \<and> (0 < w2 \<longrightarrow> t2 + w2 \<le> now + timeout)"
  using assms by (auto simp: recv_timeout_waits_def deadline_new_def deadline_remaining_def Let_def)

end
