(* ===== verification/Builders.thy ===== *)
theory Builders
  imports Aggregate Collector
begin

text \<open>
  The builders: the typestate builders that the macros of \<open>src/event/mod.rs\<close> generate for the events,
  and the builders of the collector's configuration and of the denial aggregator. A typestate builder
  has one slot per field; what the compiler rejects, a field supplied twice or a field missing at
  \<open>build\<close>, is \<open>None\<close>. The values of the fields are of one type \<open>'v\<close> here.
\<close>

subsection \<open>Typestate builders\<close>

datatype 'v slot = Missing | Present (into_inner: 'v)

type_synonym 'v builder = "'v slot list"

definition builder_new :: "nat \<Rightarrow> 'v builder" where
  "builder_new n = replicate n Missing"

definition builder_set :: "nat \<times> 'v \<Rightarrow> 'v builder \<Rightarrow> 'v builder option" where
  "builder_set fv b =
     (if fst fv < length b \<and> b ! fst fv = Missing then Some (b[fst fv := Present (snd fv)]) else None)"

definition builder_build :: "'v builder \<Rightarrow> 'v list option" where
  "builder_build b = (if list_all (\<lambda>s. s \<noteq> Missing) b then Some (map into_inner b) else None)"

text \<open>A chain of setter calls followed by \<open>build\<close>.\<close>

fun builder_sets :: "(nat \<times> 'v) list \<Rightarrow> 'v builder \<Rightarrow> 'v builder option" where
  "builder_sets [] b = Some b"
| "builder_sets (fv # fvs) b = Option.bind (builder_set fv b) (builder_sets fvs)"

definition builder_chain :: "nat \<Rightarrow> (nat \<times> 'v) list \<Rightarrow> 'v list option" where
  "builder_chain n fvs = Option.bind (builder_sets fvs (builder_new n)) builder_build"

text \<open>The slots after a chain: supplied fields are present with their value, the others missing.\<close>

lemma builder_sets_Some:
  "builder_sets fvs b = Some b' \<longleftrightarrow>
     distinct (map fst fvs) \<and> (\<forall>i\<in>fst ` set fvs. i < length b \<and> b ! i = Missing) \<and>
     b' = map (\<lambda>i. case map_of fvs i of Some v \<Rightarrow> Present v | None \<Rightarrow> b ! i) [0..<length b]"
proof (induction fvs arbitrary: b)
  case Nil
  then show ?case
    by (auto simp: map_nth)
next
  case (Cons fv fvs)
  obtain f v where fv: "fv = (f, v)"
    by (cases fv)
  show ?case
  proof (cases "f < length b \<and> b ! f = Missing")
    case True
    have "map (\<lambda>i. case map_of fvs i of Some v \<Rightarrow> Present v | None \<Rightarrow> b[f := Present v] ! i) [0..<length b] =
        map (\<lambda>i. case map_of (fv # fvs) i of Some v \<Rightarrow> Present v | None \<Rightarrow> b ! i) [0..<length b]"
      if "f \<notin> fst ` set fvs"
      using that map_of_eq_None_iff [of fvs f] by (auto simp: fv nth_list_update split: option.splits)
    moreover have "(\<forall>i\<in>fst ` set fvs. i < length b \<and> b[f := Present v] ! i = Missing) \<longleftrightarrow>
        f \<notin> fst ` set fvs \<and> (\<forall>i\<in>fst ` set fvs. i < length b \<and> b ! i = Missing)"
      using True by (auto simp: nth_list_update)
    ultimately show ?thesis
      using Cons.IH [of "b[f := Present v]"] True by (auto simp: fv builder_set_def)
  next
    case False
    then show ?thesis
      by (auto simp: fv builder_set_def)
  qed
qed

definition filled :: "nat \<Rightarrow> (nat \<times> 'v) list \<Rightarrow> 'v builder" where
  "filled n fvs = map (\<lambda>i. case map_of fvs i of Some v \<Rightarrow> Present v | None \<Rightarrow> Missing) [0..<n]"

lemma builder_new_slots [simp]: "length (builder_new n) = n" "i < n \<Longrightarrow> builder_new n ! i = Missing"
  by (simp_all add: builder_new_def)

lemma builder_sets_new:
  "builder_sets fvs (builder_new n) = Some b \<longleftrightarrow>
     distinct (map fst fvs) \<and> fst ` set fvs \<subseteq> {..<n} \<and> b = filled n fvs"
proof -
  have "map (\<lambda>i. case map_of fvs i of Some v \<Rightarrow> Present v | None \<Rightarrow> builder_new n ! i) [0..<n] = filled n fvs"
    unfolding filled_def by (auto split: option.splits)
  then show ?thesis
    by (auto simp: builder_sets_Some)
qed

lemma builder_build_filled:
  "builder_build (filled n fvs) =
     (if {..<n} \<subseteq> fst ` set fvs then Some (map (\<lambda>i. the (map_of fvs i)) [0..<n]) else None)"
proof -
  have "list_all (\<lambda>s. s \<noteq> Missing) (filled n fvs) \<longleftrightarrow> (\<forall>i<n. map_of fvs i \<noteq> None)"
    by (auto simp: filled_def list_all_iff split: option.splits)
  also have "\<dots> \<longleftrightarrow> {..<n} \<subseteq> fst ` set fvs"
    by (auto simp: map_of_eq_None_iff subset_iff)
  finally have all: "list_all (\<lambda>s. s \<noteq> Missing) (filled n fvs) \<longleftrightarrow> {..<n} \<subseteq> fst ` set fvs" .
  have "map into_inner (filled n fvs) = map (\<lambda>i. the (map_of fvs i)) [0..<n]" if "{..<n} \<subseteq> fst ` set fvs"
  proof -
    have "\<forall>i<n. map_of fvs i \<noteq> None"
      using that by (auto simp: map_of_eq_None_iff subset_iff)
    then show ?thesis
      by (auto simp: filled_def split: option.splits)
  qed
  with all show ?thesis
    by (simp add: builder_build_def)
qed

text \<open>
  The builders' documentation: setters may be called in any order, no field twice, and \<open>build\<close> is
  available exactly when every field was supplied; the built value has the supplied values.
\<close>

lemma builder_any_order:
  "builder_chain n fvs = Some vs \<longleftrightarrow>
     distinct (map fst fvs) \<and> fst ` set fvs = {..<n} \<and> vs = map (\<lambda>i. the (map_of fvs i)) [0..<n]"
  unfolding builder_chain_def Option.bind_eq_Some_conv builder_sets_new
  using builder_build_filled [of n fvs] by (auto split: if_splits)

subsection \<open>Configuration builders\<close>

datatype collector_config_builder = CollectorConfigBuilder (cb_event_capacity: nat)

definition collector_config_builder :: collector_config_builder where
  "collector_config_builder = CollectorConfigBuilder DEFAULT_EVENT_CAPACITY"

definition cb_set_event_capacity :: "nat \<Rightarrow> collector_config_builder \<Rightarrow> collector_config_builder" where
  "cb_set_event_capacity n b = CollectorConfigBuilder n"

definition cb_build :: "collector_config_builder \<Rightarrow> collector_config_error + collector_config" where
  "cb_build b = config_build (cb_event_capacity b)"

datatype denial_aggregator_builder = DenialAggregatorBuilder (db_capacity: nat)

definition denial_aggregator_builder :: denial_aggregator_builder where
  "denial_aggregator_builder = DenialAggregatorBuilder DEFAULT_CAPACITY"

definition db_set_capacity :: "nat \<Rightarrow> denial_aggregator_builder \<Rightarrow> denial_aggregator_builder" where
  "db_set_capacity n b = DenialAggregatorBuilder n"

definition db_build ::
  "(nat \<Rightarrow> 'e option) \<Rightarrow> denial_aggregator_builder \<Rightarrow> 'e build_error + denial_aggregator" where
  "db_build try_reserve b = aggregator_build try_reserve (db_capacity b)"

text \<open>
  Unlike the event builders, these may set a value again and the last one counts; the defaults are
  accepted wherever the storage can be reserved.
\<close>

lemma config_builders_last_counts:
  "cb_build (cb_set_event_capacity n (cb_set_event_capacity k b)) = config_build n"
  "db_build try_reserve (db_set_capacity n (db_set_capacity k d)) = aggregator_build try_reserve n"
  by (simp_all add: cb_build_def cb_set_event_capacity_def db_build_def db_set_capacity_def)

lemma config_builders_default:
  "cb_build collector_config_builder = Inr config_default"
  "try_reserve DEFAULT_CAPACITY = None \<Longrightarrow>
     \<exists>a. db_build try_reserve denial_aggregator_builder = Inr a \<and> agg_capacity a = DEFAULT_CAPACITY"
  by (simp_all add: cb_build_def collector_config_builder_def config_build_def config_default_def
      MIN_EVENT_CAPACITY_def MAX_EVENT_CAPACITY_def DEFAULT_EVENT_CAPACITY_def db_build_def
      denial_aggregator_builder_def aggregator_build_def DEFAULT_CAPACITY_def)

end
