(* ===== verification/Unit_Tests.thy ===== *)
theory Unit_Tests
  imports Events Text_Format "HOL-Library.Monad_Syntax"
begin

text \<open>
  Vocabulary for the unit tests of the sources, which the theories named
  \<open>..._Tests\<close> translate and run on the model. A test is a computation in
  the option monad: a failed assertion, an \<open>unwrap\<close> of an error and an irrefutable pattern that
  does not match panic, which is \<open>None\<close>; a test that runs to its end is \<open>Some ()\<close>.
\<close>

type_synonym test = "unit option"

definition assert_that :: "bool \<Rightarrow> test" where
  "assert_that b = (if b then Some () else None)"

definition assert_eq :: "'a \<Rightarrow> 'a \<Rightarrow> test" where
  "assert_eq x y = assert_that (x = y)"

definition unwrap :: "'e + 'a \<Rightarrow> 'a option" where
  "unwrap r = (case r of Inl _ \<Rightarrow> None | Inr v \<Rightarrow> Some v)"

text \<open>A loop whose body is a test.\<close>

fun for_each :: "'a list \<Rightarrow> ('a \<Rightarrow> test) \<Rightarrow> test" where
  "for_each [] f = Some ()"
| "for_each (x # xs) f = do { f x; for_each xs f }"

lemma assert_that_True [simp]: "assert_that True = Some ()"
  by (simp add: assert_that_def)

lemma assert_that_iff [simp]: "assert_that b = Some () \<longleftrightarrow> b"
  by (simp add: assert_that_def)

lemma assert_that_bind [simp]: "(assert_that b \<bind> f = Some ()) \<longleftrightarrow> b \<and> f () = Some ()"
  by (simp add: assert_that_def)

lemma unwrap_simps [simp]: "unwrap (Inl e) = None" "unwrap (Inr v) = Some v"
  by (simp_all add: unwrap_def)

subsection \<open>Evaluating numbers as text\<close>

lemma radix_last: "n < b \<Longrightarrow> radix b n = [digit_char n]"
  by (subst radix.simps) simp

lemma radix_next: "2 \<le> b \<Longrightarrow> b \<le> n \<Longrightarrow> radix b n = radix b (n div b) @ [digit_char (n mod b)]"
  by (subst radix.simps) simp

lemma digit_chars:
  "digit_char 0 = CHR ''0''" "digit_char (Suc 0) = CHR ''1''" "digit_char 2 = CHR ''2''"
  "digit_char 3 = CHR ''3''" "digit_char 4 = CHR ''4''" "digit_char 5 = CHR ''5''"
  "digit_char 6 = CHR ''6''" "digit_char 7 = CHR ''7''" "digit_char 8 = CHR ''8''"
  "digit_char 9 = CHR ''9''" "digit_char 10 = CHR ''a''" "digit_char 11 = CHR ''b''"
  "digit_char 12 = CHR ''c''" "digit_char 13 = CHR ''d''" "digit_char 14 = CHR ''e''"
  "digit_char 15 = CHR ''f''"
  by code_simp+

lemmas number_texts = hex_def dec_def radix_next radix_last digit_chars

text \<open>
  The number of a word as text over binary integers, so that an evaluation does not count up to the
  word: the identifiers of the tests start at \<open>2\<^sup>3\<^sup>2\<close>.
\<close>

definition digit_int :: "int \<Rightarrow> char" where
  "digit_int d =
     (if d = 0 then CHR ''0'' else if d = 1 then CHR ''1'' else if d = 2 then CHR ''2''
      else if d = 3 then CHR ''3'' else if d = 4 then CHR ''4'' else if d = 5 then CHR ''5''
      else if d = 6 then CHR ''6'' else if d = 7 then CHR ''7'' else if d = 8 then CHR ''8''
      else if d = 9 then CHR ''9'' else if d = 10 then CHR ''a'' else if d = 11 then CHR ''b''
      else if d = 12 then CHR ''c'' else if d = 13 then CHR ''d'' else if d = 14 then CHR ''e''
      else if d = 15 then CHR ''f'' else digit_char (nat d))"

lemma digit_int: "digit_int d = digit_char (nat d)"
  by (simp add: digit_int_def digit_chars)

function radix_int :: "int \<Rightarrow> int \<Rightarrow> string" where
  "radix_int b n =
     (if b < 2 \<or> n < b then [digit_int n]
      else radix_int b (n div b) @ [digit_int (n mod b)])"
  by pat_completeness auto

termination
  by (relation "measure (\<lambda>(b, n). nat n)") (auto simp: nat_less_iff int_div_less_self)

declare radix_int.simps [simp del]

lemma radix_int: "radix b n = radix_int (int b) (int n)"
proof (induction b n rule: radix.induct)
  case (1 b n)
  then show ?case
    by (subst radix.simps, subst radix_int.simps)
      (auto simp: digit_int nat_div_distrib nat_mod_distrib zdiv_int zmod_int)
qed

lemma word_texts [code_unfold]:
  "dec (Word.the_nat w) = radix_int 10 (uint w)"
  "hex (Word.the_nat w) = radix_int 16 (uint w)"
  by (simp_all add: dec_def hex_def radix_int)

text \<open>The bound of \<open>usize\<close> is compared over integers too.\<close>

lemma usize_saturating_add_code [code]:
  "usize_saturating_add x y =
     (if int x + int y \<le> 0xFFFFFFFFFFFFFFFF then x + y else 2 ^ 64 - 1)"
  unfolding usize_saturating_add_def by auto

subsection \<open>Evaluating words and positions\<close>

lemma one_below_minimum: "\<not> (0x100000000 :: u64) \<le> 1"
  by (simp add: word_le_nat_alt)

lemma position_replicate: "\<not> p x \<Longrightarrow> position p (replicate n x) = None"
  by (simp add: position_None_iff)

subsection \<open>Fixtures the test modules share\<close>

text \<open>A byte-string literal \<open>b"\<dots>"\<close>.\<close>

definition lit :: "string \<Rightarrow> u8 list" where
  "lit s = map of_char s"

definition t_pid :: "u32 \<Rightarrow> process_id option" where
  "t_pid v = unwrap (process_id_new v)"

definition t_tid :: "u32 \<Rightarrow> thread_id option" where
  "t_tid v = unwrap (thread_id_new v)"

definition t_path :: "u8 list \<Rightarrow> captured_path option" where
  "t_path v = unwrap (captured_new pathname_consts v False)"

definition t_command :: "u8 list \<Rightarrow> captured_command option" where
  "t_command v = unwrap (captured_new command_consts v False)"

definition t_abstract_name :: "u8 list \<Rightarrow> captured_abstract_name option" where
  "t_abstract_name v = unwrap (captured_new abstract_name_consts v False)"

text \<open>\<open>DomainId::new(MIN_LANDLOCK_ID + offset).unwrap()\<close> and the same for a ruleset.\<close>

definition t_domain :: "u64 \<Rightarrow> domain_id option" where
  "t_domain offset = unwrap (landlock_id_new (MIN_LANDLOCK_ID + offset))"

definition t_ruleset :: "u64 \<Rightarrow> ruleset_id option" where
  "t_ruleset offset = unwrap (landlock_id_new (MIN_LANDLOCK_ID + offset))"

lemmas fixture_defs = t_pid_def t_tid_def t_path_def t_command_def t_abstract_name_def t_domain_def
  t_ruleset_def lit_def

end
