(* ===== verification/State_Tests.thy ===== *)
theory State_Tests
  imports Unit_Tests Batch
begin

text \<open>
  The unit tests of \<open>src/state.rs\<close>, run on the reconstructed state of \<open>Recon_State\<close>. Each test is
  translated assertion by assertion; \<open>state_tests_pass\<close> evaluates all of them in the kernel. They
  tie the definitions to the behaviour the sources themselves assert, on late creations, tombstones,
  merged rules, cross references and the enforcement history.
\<close>

subsection \<open>Fixtures\<close>

text \<open>\<open>hierarchy\<close>, \<open>context\<close> and the repeated \<open>apply\<close> of the test module.\<close>

definition t_hierarchy ::
  "u64 \<Rightarrow> u64 option \<Rightarrow> u32 \<Rightarrow> u8 list \<Rightarrow> hierarchy_snapshot option" where
  "t_hierarchy domain_offset parent_offset creator_tgid creator_comm = do {
     d \<leftarrow> t_domain domain_offset;
     p \<leftarrow> (case parent_offset of None \<Rightarrow> Some None | Some q \<Rightarrow> map_option Some (t_domain q));
     tgid \<leftarrow> t_pid creator_tgid;
     comm \<leftarrow> t_command creator_comm;
     Some \<lparr>h_domain_id = d, h_parent_id = p, h_creator_tgid = tgid, h_creator_comm = comm\<rparr>
   }"

definition t_context :: "hierarchy_snapshot \<Rightarrow> u64 \<Rightarrow> denial_context" where
  "t_context h cnt =
     \<lparr>hierarchy = h, cumulative_denial_count = cnt, same_exec = False, logged = True\<rparr>"

definition apply_all :: "state \<Rightarrow> event list \<Rightarrow> state" where
  "apply_all st es = foldl apply_event st es"

text \<open>The event literals of the tests, one function per builder call.\<close>

definition ev_create_domain ::
  "u64 \<Rightarrow> ruleset_id \<Rightarrow> u64 \<Rightarrow> domain_id \<Rightarrow> domain_id option \<Rightarrow> u32 \<Rightarrow> string \<Rightarrow> event option" where
  "ev_create_domain ts r version d p tgid comm = do {
     tgid \<leftarrow> t_pid tgid;
     comm \<leftarrow> t_command (lit comm);
     Some (CreateDomain \<lparr>cd_timestamp = KernelTimestamp ts, cd_ruleset_id = r,
       cd_ruleset_version = version, cd_domain_id = d, cd_parent_id = p, cd_creator_tgid = tgid,
       cd_creator_comm = comm\<rparr>)
   }"

definition ev_enforce :: "u64 \<Rightarrow> domain_id \<Rightarrow> u32 \<Rightarrow> bool \<Rightarrow> bool \<Rightarrow> bool \<Rightarrow> event option" where
  "ev_enforce ts d thread complete process_wide nnp = do {
     t \<leftarrow> t_tid thread;
     Some (EnforceDomain \<lparr>ed_timestamp = KernelTimestamp ts, ed_domain_id = d, ed_enforcing_tid = t,
       ed_complete = complete, ed_process_wide = process_wide, ed_no_new_privs = nnp\<rparr>)
   }"

definition ev_free_domain :: "u64 \<Rightarrow> domain_id \<Rightarrow> u64 \<Rightarrow> event" where
  "ev_free_domain ts d cnt =
     FreeDomain \<lparr>fd_timestamp = KernelTimestamp ts, fd_domain_id = d, fd_denial_count = cnt\<rparr>"

definition ev_free_ruleset :: "u64 \<Rightarrow> ruleset_id \<Rightarrow> u64 \<Rightarrow> event" where
  "ev_free_ruleset ts r version =
     FreeRuleset \<lparr>fr_timestamp = KernelTimestamp ts, fr_ruleset_id = r, fr_ruleset_version = version\<rparr>"

definition ev_add_path ::
  "u64 \<Rightarrow> ruleset_id \<Rightarrow> u64 \<Rightarrow> u64 \<Rightarrow> u32 \<Rightarrow> u64 \<Rightarrow> string \<Rightarrow> event option" where
  "ev_add_path ts r version rights device inode pathname = do {
     path \<leftarrow> t_path (lit pathname);
     Some (AddRulePathBeneath \<lparr>ap_timestamp = KernelTimestamp ts, ap_ruleset_id = r,
       ap_ruleset_version = version, ap_access_rights = FilesystemAccess rights,
       ap_device = device, ap_inode = inode, ap_pathname = path\<rparr>)
   }"

definition ev_add_port :: "u64 \<Rightarrow> ruleset_id \<Rightarrow> u64 \<Rightarrow> u64 \<Rightarrow> u64 \<Rightarrow> event" where
  "ev_add_port ts r version rights port =
     AddRuleNetPort \<lparr>an_timestamp = KernelTimestamp ts, an_ruleset_id = r,
       an_ruleset_version = version, an_access_rights = NetworkAccess rights, an_port = port\<rparr>"

definition ev_deny_fs :: "u64 \<Rightarrow> denial_context \<Rightarrow> event option" where
  "ev_deny_fs ts c = do {
     path \<leftarrow> t_path (lit ''path'');
     Some (DenyAccessFs \<lparr>df_timestamp = KernelTimestamp ts, df_context = c,
       df_blockers_type = BT_FS_ACCESS, df_blockers_access = FilesystemAccess 1, df_device = 1,
       df_inode = 2, df_pathname = path\<rparr>)
   }"

definition ev_create_ruleset :: "u64 \<Rightarrow> ruleset_id \<Rightarrow> u64 \<Rightarrow> u64 \<Rightarrow> u64 \<Rightarrow> u64 \<Rightarrow> event" where
  "ev_create_ruleset ts r version fs net scoped =
     CreateRuleset \<lparr>cr_timestamp = KernelTimestamp ts, cr_ruleset_id = r,
       cr_ruleset_version = version, cr_handled_fs = FilesystemAccess fs,
       cr_handled_net = NetworkAccess net, cr_scoped = ScopeAccess scoped\<rparr>"

definition version_of :: "ruleset_id \<Rightarrow> u64 \<Rightarrow> ruleset_version" where
  "version_of r version = \<lparr>rv_ruleset_id = r, rv_ruleset_version = version\<rparr>"

subsection \<open>Tests\<close>

definition full_ruleset_create_and_access :: test where
  "full_ruleset_create_and_access = do {
     i \<leftarrow> t_ruleset 7;
     let st = apply_event state_new
       (ev_create_ruleset 10 i 0 0x8000000000000001 0x8000000000000002 0x8000000000000001);
     r \<leftarrow> ruleset st i;
     assert_eq (rs_id r) i;
     assert_eq (rs_lifecycle r) Allocated;
     assert_eq (rs_creation_timestamp r) (Some (KernelTimestamp 10));
     assert_eq (rs_max_observed_version r) 0;
     fs \<leftarrow> rs_handled_fs r;
     assert_eq (fs_bits fs) 0x8000000000000001;
     net \<leftarrow> rs_handled_net r;
     assert_eq (net_bits net) 0x8000000000000002;
     scoped \<leftarrow> rs_scoped r;
     assert_eq (scope_bits scoped) 0x8000000000000001;
     assert_eq (display_ruleset_version (version_of (rs_id r) 0)) ''100000007.0'';
     top \<leftarrow> unwrap (landlock_id_new (- 1));
     assert_eq (display_ruleset_version (version_of top (- 1)))
       ''ffffffffffffffff.18446744073709551615'';
     assert_eq (ruleset_count st) 1;
     assert_eq (length (hm_values (st_rulesets st))) 1;
     assert_eq (ruleset_count state_new) 0;
     assert_eq (domain_count state_new) 0
   }"

definition inferred_rules_merge_by_natural_target_and_versions_are_monotonic :: test where
  "inferred_rules_merge_by_natural_target_and_versions_are_monotonic = do {
     i \<leftarrow> t_ruleset 8;
     other \<leftarrow> t_ruleset 9;
     new \<leftarrow> ev_add_path 20 i 5 0x8000000000000001 3 4 ''new'';
     old \<leftarrow> ev_add_path 10 i 2 0x40000002 3 4 ''old'';
     separate \<leftarrow> ev_add_path 30 i 4 4 3 5 ''separate'';
     let st = apply_all state_new
       [new, old, separate, ev_add_port 40 i 8 0x8000000000000001 80,
        ev_add_port 35 i 7 0x40000002 80, ev_add_port 45 i 6 4 81, ev_add_port 50 other 0 8 90];
     r \<leftarrow> ruleset st i;
     assert_eq (rs_lifecycle r) Allocated;
     assert_eq (rs_creation_timestamp r) None;
     assert_eq (rs_max_observed_version r) 8;
     assert_eq (filesystem_rule_count r) 2;
     assert_eq (length (hm_values (rs_filesystem_rules r))) 2;
     fs \<leftarrow> filesystem_rule r 3 4;
     assert_eq (fs_bits (fsr_access_rights fs)) 0x8000000040000003;
     assert_eq (as_bytes (fsr_pathname fs)) (lit ''new'');
     fs' \<leftarrow> filesystem_rule r 3 5;
     assert_eq (fs_bits (fsr_access_rights fs')) 4;
     assert_eq (network_rule_count r) 2;
     assert_eq (length (hm_values (rs_network_rules r))) 2;
     n80 \<leftarrow> network_rule r 80;
     assert_eq (net_bits (nr_access_rights n80)) 0x8000000040000003;
     n81 \<leftarrow> network_rule r 81;
     assert_eq (net_bits (nr_access_rights n81)) 4;
     network_only \<leftarrow> ruleset st other;
     assert_eq (rs_lifecycle network_only) Allocated;
     assert_eq (rs_creation_timestamp network_only) None;
     assert_eq (rs_max_observed_version network_only) 0;
     n90 \<leftarrow> network_rule network_only 90;
     assert_eq (net_bits (nr_access_rights n90)) 8
   }"

definition full_domain_create_distinguishes_root_and_unknown_parent :: test where
  "full_domain_create_distinguishes_root_and_unknown_parent = do {
     r \<leftarrow> t_ruleset 2;
     d4 \<leftarrow> t_domain 4;
     d5 \<leftarrow> t_domain 5;
     create \<leftarrow> ev_create_domain 10 r 3 d4 None 100 ''creator'';
     enforce \<leftarrow> ev_enforce 11 d5 101 False False True;
     let st = apply_all state_new [create, enforce];
     root \<leftarrow> domain st d4;
     assert_eq (dom_lifecycle root) Allocated;
     assert_eq (dom_creation_timestamp root) (Some (KernelTimestamp 10));
     assert_eq (dom_parent root) (Some ParentRoot);
     assert_eq (no_new_privs root) None;
     tgid \<leftarrow> t_pid 100;
     assert_eq (dom_creator_tgid root) (Some tgid);
     comm \<leftarrow> dom_creator_comm root;
     assert_eq (as_bytes comm) (lit ''creator'');
     assert_eq (dom_ruleset root) (Some (version_of r 3));
     assert_eq (dom_cumulative_denial_count root) (Some 0);
     enforced \<leftarrow> domain st d5;
     assert_eq (dom_parent enforced) None;
     assert_eq (domain_count st) 2;
     assert_eq (length (hm_values (st_domains st))) 2
   }"

definition non_root_domain_create_materializes_allocated_cross_references :: test where
  "non_root_domain_create_materializes_allocated_cross_references = do {
     r \<leftarrow> t_ruleset 6;
     p \<leftarrow> t_domain 7;
     d \<leftarrow> t_domain 8;
     create \<leftarrow> ev_create_domain 20 r 9 d (Some p) 100 ''creator'';
     let st = apply_event state_new create;
     child \<leftarrow> domain st d;
     assert_eq (dom_lifecycle child) Allocated;
     assert_eq (dom_parent child) (Some (ParentDomain p));
     assert_eq (dom_ruleset child) (Some (version_of r 9));
     par \<leftarrow> domain st p;
     assert_eq (dom_lifecycle par) Allocated;
     assert_eq (dom_creation_timestamp par) None;
     assert_eq (dom_cumulative_denial_count par) None;
     assert_eq (dom_final_denial_count par) None;
     assert_eq (domain_count st) 2;
     rules \<leftarrow> ruleset st r;
     assert_eq (rs_lifecycle rules) Allocated;
     assert_eq (rs_creation_timestamp rules) None;
     assert_eq (rs_handled_fs rules) None;
     assert_eq (rs_handled_net rules) None;
     assert_eq (rs_scoped rules) None;
     assert_eq (rs_max_observed_version rules) 9;
     assert_eq (rs_final_version rules) None;
     assert_eq (filesystem_rule_count rules) 0;
     assert_eq (network_rule_count rules) 0;
     assert_eq (ruleset_count st) 1
   }"

definition domain_create_does_not_reallocate_deallocated_cross_references :: test where
  "domain_create_does_not_reallocate_deallocated_cross_references = do {
     p \<leftarrow> t_domain 10;
     r \<leftarrow> t_ruleset 11;
     d \<leftarrow> t_domain 12;
     create \<leftarrow> ev_create_domain 22 r 7 d (Some p) 100 ''creator'';
     let st = apply_all state_new [ev_free_domain 20 p 4, ev_free_ruleset 21 r 5, create];
     child \<leftarrow> domain st d;
     assert_eq (dom_lifecycle child) Allocated;
     assert_eq (dom_parent child) (Some (ParentDomain p));
     assert_eq (dom_ruleset child) (Some (version_of r 7));
     par \<leftarrow> domain st p;
     assert_eq (dom_lifecycle par) Deallocated;
     assert_eq (dom_free_timestamp par) (Some (KernelTimestamp 20));
     assert_eq (dom_final_denial_count par) (Some 4);
     assert_eq (dom_cumulative_denial_count par) (Some 4);
     rules \<leftarrow> ruleset st r;
     assert_eq (rs_lifecycle rules) Deallocated;
     assert_eq (rs_free_timestamp rules) (Some (KernelTimestamp 21));
     assert_eq (rs_final_version rules) (Some 5);
     assert_eq (rs_max_observed_version rules) 7;
     assert_eq (domain_count st) 2;
     assert_eq (ruleset_count st) 1
   }"

definition denial_retains_creator_with_empty_command :: test where
  "denial_retains_creator_with_empty_command = do {
     d \<leftarrow> t_domain 9;
     h \<leftarrow> t_hierarchy 9 None 100 [];
     deny \<leftarrow> ev_deny_fs 1 (t_context h 1);
     let st = apply_event state_new deny;
     dm \<leftarrow> domain st d;
     tgid \<leftarrow> t_pid 100;
     assert_eq (dom_creator_tgid dm) (Some tgid);
     comm \<leftarrow> dom_creator_comm dm;
     assert_eq (as_bytes comm) []
   }"

text \<open>The five denials of one sweep over the families, and the assertions on four of them.\<close>

definition denial_families :: "event list option" where
  "denial_families = do {
     task \<leftarrow> t_pid 1;
     target \<leftarrow> t_command (lit ''target'');
     service \<leftarrow> t_abstract_name (lit ''service'');
     h10 \<leftarrow> t_hierarchy 10 (Some 20) 110 [];
     fs \<leftarrow> ev_deny_fs 1 (t_context h10 7);
     h11 \<leftarrow> t_hierarchy 11 None 111 (lit ''net'');
     h12 \<leftarrow> t_hierarchy 12 None 112 (lit ''ptrace'');
     h13 \<leftarrow> t_hierarchy 13 None 113 (lit ''signal'');
     h14 \<leftarrow> t_hierarchy 14 None 114 (lit ''unix'');
     Some
       [fs,
        DenyAccessNet \<lparr>dn_timestamp = KernelTimestamp 2, dn_context = t_context h11 8,
          dn_blockers_type = BT_NET_ACCESS, dn_blockers_access = NetworkAccess 1,
          dn_source_port = 10, dn_destination_port = 20\<rparr>,
        DenyPtrace \<lparr>dp_timestamp = KernelTimestamp 3, dp_context = t_context h12 9,
          dp_tracee_domain = Unsandboxed, dp_tracee_pid = task, dp_tracee_comm = target\<rparr>,
        DenyScopeSignal \<lparr>ds_timestamp = KernelTimestamp 4, ds_context = t_context h13 10,
          ds_target_domain = Unsandboxed, ds_target_pid = task, ds_target_comm = target\<rparr>,
        DenyScopeAbstractUnixSocket \<lparr>du_timestamp = KernelTimestamp 5,
          du_context = t_context h14 11, du_peer_domain = Unsandboxed, du_peer_pid = Some task,
          du_abstract_name = service\<rparr>]
   }"

definition inferred_from_denial :: "state \<Rightarrow> u64 \<Rightarrow> u64 \<Rightarrow> test" where
  "inferred_from_denial st offset cnt = do {
     i \<leftarrow> t_domain offset;
     d \<leftarrow> domain st i;
     assert_eq (dom_lifecycle d) Allocated;
     assert_eq (dom_cumulative_denial_count d) (Some cnt);
     assert_that (dom_creator_tgid d \<noteq> None);
     assert_that (dom_creator_comm d \<noteq> None)
   }"

definition every_denial_family_uses_common_late_start_inference_without_double_counting :: test where
  "every_denial_family_uses_common_late_start_inference_without_double_counting = do {
     events \<leftarrow> denial_families;
     h10 \<leftarrow> t_hierarchy 10 (Some 20) 110 [];
     again \<leftarrow> ev_deny_fs 6 (t_context h10 7);
     let st = apply_event (apply_all state_new events) again;
     d10 \<leftarrow> t_domain 10;
     d20 \<leftarrow> t_domain 20;
     denying \<leftarrow> domain st d10;
     assert_eq (dom_lifecycle denying) Allocated;
     assert_eq (dom_parent denying) (Some (ParentDomain d20));
     tgid \<leftarrow> t_pid 110;
     assert_eq (dom_creator_tgid denying) (Some tgid);
     comm \<leftarrow> dom_creator_comm denying;
     assert_eq (as_bytes comm) [];
     assert_eq (dom_cumulative_denial_count denying) (Some 7);
     par \<leftarrow> domain st d20;
     assert_eq (dom_lifecycle par) Allocated;
     assert_eq (dom_parent par) None;
     assert_eq (dom_cumulative_denial_count par) None;
     inferred_from_denial st 11 8;
     inferred_from_denial st 12 9;
     inferred_from_denial st 13 10;
     inferred_from_denial st 14 11
   }"

definition late_create_upgrades_inference_without_lowering_count_or_reallocating :: test where
  "late_create_upgrades_inference_without_lowering_count_or_reallocating = do {
     d \<leftarrow> t_domain 30;
     r \<leftarrow> t_ruleset 6;
     h \<leftarrow> t_hierarchy 30 (Some 31) 300 (lit ''inferred'');
     deny \<leftarrow> ev_deny_fs 30 (t_context h 50);
     create \<leftarrow> ev_create_domain 10 r 7 d None 301 ''explicit'';
     let st = apply_all state_new [deny, ev_free_domain 40 d 45, create];
     dm \<leftarrow> domain st d;
     assert_eq (dom_lifecycle dm) Deallocated;
     assert_eq (dom_creation_timestamp dm) (Some (KernelTimestamp 10));
     assert_eq (dom_parent dm) (Some ParentRoot);
     tgid \<leftarrow> t_pid 301;
     assert_eq (dom_creator_tgid dm) (Some tgid);
     comm \<leftarrow> dom_creator_comm dm;
     assert_eq (as_bytes comm) (lit ''explicit'');
     assert_eq (dom_ruleset dm) (Some (version_of r 7));
     assert_eq (dom_cumulative_denial_count dm) (Some 50)
   }"

definition unseen_deallocation_tombstones_are_monotonic_and_never_reallocate :: test where
  "unseen_deallocation_tombstones_are_monotonic_and_never_reallocate = do {
     d \<leftarrow> t_domain 40;
     r \<leftarrow> t_ruleset 41;
     let st = apply_all state_new
       [ev_free_domain 30 d 9, ev_free_domain 20 d 7, ev_free_domain 40 d 11,
        ev_free_ruleset 30 r 9, ev_free_ruleset 20 r 7, ev_free_ruleset 40 r 11];
     free_only \<leftarrow> ruleset st r;
     assert_eq (rs_lifecycle free_only) Deallocated;
     assert_eq (rs_max_observed_version free_only) 11;
     enforce \<leftarrow> ev_enforce 50 d 1 True True True;
     let st = apply_all st [enforce, ev_add_port 50 r 12 1 80];
     dm \<leftarrow> domain st d;
     assert_eq (dom_lifecycle dm) Deallocated;
     assert_eq (dom_free_timestamp dm) (Some (KernelTimestamp 40));
     assert_eq (dom_final_denial_count dm) (Some 11);
     assert_eq (dom_cumulative_denial_count dm) (Some 11);
     rules \<leftarrow> ruleset st r;
     assert_eq (rs_lifecycle rules) Deallocated;
     assert_eq (rs_free_timestamp rules) (Some (KernelTimestamp 40));
     assert_eq (rs_final_version rules) (Some 11);
     assert_eq (rs_max_observed_version rules) 12
   }"

text \<open>\<open>enforcement_keeps_latest_per_tid_and_survives_deallocation\<close>, in the order of the source.\<close>

definition enforcement_keeps_latest_per_tid_and_survives_deallocation :: test where
  "enforcement_keeps_latest_per_tid_and_survives_deallocation = do {
     i \<leftarrow> t_domain 50;
     t100 \<leftarrow> t_tid 100;
     t101 \<leftarrow> t_tid 101;
     assert_that (domain state_new i = None);
     e1 \<leftarrow> ev_enforce 20 i 100 True True True;
     e2 \<leftarrow> ev_enforce 10 i 100 False False False;
     e3 \<leftarrow> ev_enforce 25 i 100 False False False;
     e4 \<leftarrow> ev_enforce 10 i 100 True False True;
     let st = apply_all state_new [e1, e2, e3, e4];
     dm \<leftarrow> domain st i;
     chosen \<leftarrow> enforcement_event dm t100;
     assert_eq (ed_timestamp chosen) (KernelTimestamp 25);
     assert_that (\<not> ed_complete chosen);
     assert_that (dom_any_process_wide_enforcement dm);
     e5 \<leftarrow> ev_enforce 25 i 100 True False False;
     e6 \<leftarrow> ev_enforce 30 i 101 False False True;
     let st = apply_all st [e5, e6, ev_free_domain 40 i 0];
     dm \<leftarrow> domain st i;
     assert_eq (dom_lifecycle dm) Deallocated;
     assert_eq (enforcement_event_count dm) 2;
     assert_eq (length (hm_values (dom_enforcement_events dm))) 2;
     first \<leftarrow> enforcement_event dm t100;
     assert_eq (EnforceDomain first) e5;
     snd \<leftarrow> enforcement_event dm t101;
     assert_eq (EnforceDomain snd) e6;
     assert_that (dom_any_process_wide_enforcement dm);
     assert_eq (no_new_privs dm) (Some False);
     e7 \<leftarrow> ev_enforce 50 i 100 True True True;
     dm \<leftarrow> domain (apply_event st e7) i;
     assert_eq (dom_lifecycle dm) Deallocated;
     assert_eq (no_new_privs dm) (Some True)
   }"

definition relational_placeholders_exclude_unsandboxed_zero :: test where
  "relational_placeholders_exclude_unsandboxed_zero = do {
     d61 \<leftarrow> t_domain 61;
     task \<leftarrow> t_pid 2;
     two \<leftarrow> t_command (lit ''two'');
     h60 \<leftarrow> t_hierarchy 60 None 1 (lit ''one'');
     h62 \<leftarrow> t_hierarchy 62 None 1 (lit ''one'');
     let st = apply_all state_new
       [DenyPtrace \<lparr>dp_timestamp = KernelTimestamp 1, dp_context = t_context h60 1,
          dp_tracee_domain = Sandboxed d61, dp_tracee_pid = task, dp_tracee_comm = two\<rparr>,
        DenyScopeSignal \<lparr>ds_timestamp = KernelTimestamp 2, ds_context = t_context h62 1,
          ds_target_domain = Unsandboxed, ds_target_pid = task, ds_target_comm = two\<rparr>];
     other \<leftarrow> domain st d61;
     assert_eq (dom_lifecycle other) Allocated;
     assert_eq (dom_cumulative_denial_count other) None;
     assert_eq (domain_count st) 3
   }"

definition duplicate_lifecycle_events_are_idempotent :: test where
  "duplicate_lifecycle_events_are_idempotent = do {
     i \<leftarrow> t_ruleset 70;
     let create = ev_create_ruleset 2 i 1 1 2 1;
     let st = apply_all state_new [create, create];
     assert_eq (ruleset_count st) 1;
     r \<leftarrow> ruleset st i;
     assert_eq (rs_lifecycle r) Allocated;
     assert_eq (rs_creation_timestamp r) (Some (KernelTimestamp 2));
     assert_eq (rs_max_observed_version r) 1;
     fs \<leftarrow> rs_handled_fs r;
     assert_eq (fs_bits fs) 1;
     net \<leftarrow> rs_handled_net r;
     assert_eq (net_bits net) 2;
     scoped \<leftarrow> rs_scoped r;
     assert_eq (scope_bits scoped) 1;
     assert_eq (filesystem_rule_count r) 0;
     assert_eq (network_rule_count r) 0;
     let free = ev_free_ruleset 3 i 1;
     let st = apply_all st [free, free];
     assert_eq (ruleset_count st) 1;
     r \<leftarrow> ruleset st i;
     assert_eq (rs_lifecycle r) Deallocated;
     assert_eq (rs_free_timestamp r) (Some (KernelTimestamp 3));
     assert_eq (rs_final_version r) (Some 1);
     assert_eq (rs_max_observed_version r) 1
   }"

subsection \<open>All tests pass\<close>

text \<open>The one test that prints numbers is evaluated by the simplifier.\<close>

lemma version_texts:
  "display_ruleset_version (version_of (LandlockId 0x100000007) 0) = ''100000007.0''"
  "display_ruleset_version (version_of (LandlockId (- 1)) (- 1)) =
     ''ffffffffffffffff.18446744073709551615''"
  by (simp_all add: display_ruleset_version_def version_of_def number_texts
      unsigned_minus_1_eq_mask mask_eq_exp_minus_1)

lemma full_ruleset_create_and_access_passes: "full_ruleset_create_and_access = Some ()"
  by (simp add: full_ruleset_create_and_access_def t_ruleset_def landlock_id_new_def
      MIN_LANDLOCK_ID_def ev_create_ruleset_def apply_create_ruleset_def update_ruleset_def
      hm_upsert_def hm_modify_def hm_or_insert_def hm_contains_key_def hm_get_def hm_len_def
      hm_values_def state_new_def create_ruleset_entry_def ruleset_state_new_def use_ruleset_def
      rs_update_version_def rs_mark_allocated_def is_none_or_def ruleset_def ruleset_count_def
      domain_count_def assert_eq_def version_texts)

lemma inferred_rules_merge_by_natural_target_and_versions_are_monotonic_passes: "inferred_rules_merge_by_natural_target_and_versions_are_monotonic = Some ()"
  by code_simp

lemma full_domain_create_distinguishes_root_and_unknown_parent_passes: "full_domain_create_distinguishes_root_and_unknown_parent = Some ()"
  by code_simp

lemma non_root_domain_create_materializes_allocated_cross_references_passes: "non_root_domain_create_materializes_allocated_cross_references = Some ()"
  by code_simp

lemma domain_create_does_not_reallocate_deallocated_cross_references_passes: "domain_create_does_not_reallocate_deallocated_cross_references = Some ()"
  by code_simp

lemma denial_retains_creator_with_empty_command_passes: "denial_retains_creator_with_empty_command = Some ()"
  by code_simp

lemma every_denial_family_uses_common_late_start_inference_without_double_counting_passes: "every_denial_family_uses_common_late_start_inference_without_double_counting = Some ()"
  by code_simp

lemma late_create_upgrades_inference_without_lowering_count_or_reallocating_passes: "late_create_upgrades_inference_without_lowering_count_or_reallocating = Some ()"
  by code_simp

lemma unseen_deallocation_tombstones_are_monotonic_and_never_reallocate_passes: "unseen_deallocation_tombstones_are_monotonic_and_never_reallocate = Some ()"
  by code_simp

lemma enforcement_keeps_latest_per_tid_and_survives_deallocation_passes: "enforcement_keeps_latest_per_tid_and_survives_deallocation = Some ()"
  by code_simp

lemma relational_placeholders_exclude_unsandboxed_zero_passes: "relational_placeholders_exclude_unsandboxed_zero = Some ()"
  by code_simp

lemma duplicate_lifecycle_events_are_idempotent_passes: "duplicate_lifecycle_events_are_idempotent = Some ()"
  by code_simp

end
