(* ===== verification/Captured_Views.thy ===== *)
theory Captured_Views
  imports Captured_Display
begin

text \<open>
  The unescaped views of captured bytes in \<open>src/event/string.rs\<close>: \<open>to_string_lossy\<close>, \<open>as_path\<close>,
  \<open>as_os_str\<close> and \<open>to_socket_addr\<close>. The lossy view replaces a whole invalid sequence by one
  replacement character, so it needs the runs of the standard library's \<open>utf8_chunks\<close>; the escaped
  rendering of \<open>Captured_Display\<close> works byte by byte, and \<open>utf8_units_runs\<close> shows that the two
  agree on what is valid and what is not.
\<close>

subsection \<open>Runs\<close>

datatype utf8_run = RunChar nat | RunInvalid "u8 list"

text \<open>
  The bytes of the invalid sequence at the head of a byte string that starts no character: the
  longest prefix of what could have become one.
\<close>

definition invalid_len :: "u8 \<Rightarrow> u8 list \<Rightarrow> nat" where
  "invalid_len b bs =
     (if 0xE0 \<le> unat b \<and> unat b \<le> 0xEF then
        (case bs of c # _ \<Rightarrow> if second_ok b c then 2 else 1 | [] \<Rightarrow> 1)
      else if 0xF0 \<le> unat b \<and> unat b \<le> 0xF4 then
        (case bs of
           c # r \<Rightarrow>
             if second_ok b c
             then (case r of d # _ \<Rightarrow> if continuation d then 3 else 2 | [] \<Rightarrow> 2) else 1
         | [] \<Rightarrow> 1)
      else 1)"

lemma invalid_len_pos: "0 < invalid_len b bs"
  by (simp add: invalid_len_def split: list.split)

function utf8_runs :: "u8 list \<Rightarrow> utf8_run list" where
  "utf8_runs [] = []"
| "utf8_runs (b # bs) =
     (case utf8_head (b # bs) of
        Some (c, r) \<Rightarrow> RunChar c # utf8_runs r
      | None \<Rightarrow> RunInvalid (take (invalid_len b bs) (b # bs)) #
          utf8_runs (drop (invalid_len b bs) (b # bs)))"
  by pat_completeness auto

termination
  by (relation "measure length")
    (auto dest: utf8_head_shorter simp: invalid_len_pos simp del: utf8_head.simps)

fun run_units :: "utf8_run \<Rightarrow> utf8_unit list" where
  "run_units (RunChar c) = [ValidChar c]"
| "run_units (RunInvalid bs) = map InvalidByte bs"

lemma second_ok_continuation: "second_ok b c \<Longrightarrow> continuation c"
  by (auto simp: second_ok_def continuation_def split: if_splits)

text \<open>A continuation byte starts no character.\<close>

lemma utf8_units_continuation:
  "continuation c \<Longrightarrow> utf8_units (c # bs) = InvalidByte c # utf8_units bs"
  by (simp add: continuation_def)

lemma invalid_len_cases:
  "invalid_len b bs = 1 \<or>
   (\<exists>c r. bs = c # r \<and> continuation c \<and> invalid_len b bs = 2) \<or>
   (\<exists>c d r. bs = c # d # r \<and> continuation c \<and> continuation d \<and> invalid_len b bs = 3)"
  unfolding invalid_len_def by (auto split: list.split dest: second_ok_continuation)

lemma utf8_units_invalid:
  assumes "utf8_head (b # bs) = None"
  shows "utf8_units (b # bs) =
    map InvalidByte (take (invalid_len b bs) (b # bs)) @ utf8_units (drop (invalid_len b bs) (b # bs))"
proof -
  have first: "utf8_units (b # bs) = InvalidByte b # utf8_units bs"
    using assms by (simp del: utf8_head.simps)
  show ?thesis
    using invalid_len_cases [of b bs] first
    by (auto simp: utf8_units_continuation simp del: utf8_units.simps(2) utf8_head.simps)
qed

text \<open>The escaped rendering and the lossy view see the same characters and the same invalid bytes.\<close>

lemma utf8_units_runs: "utf8_units bs = concat (map run_units (utf8_runs bs))"
proof (induction bs rule: utf8_runs.induct)
  case (2 b bs)
  show ?case
  proof (cases "utf8_head (b # bs)")
    case None
    with 2 utf8_units_invalid [OF None] show ?thesis
      by (simp del: utf8_head.simps utf8_units.simps)
  next
    case (Some p)
    with 2 show ?thesis
      by (cases p) (simp del: utf8_head.simps)
  qed
qed simp

subsection \<open>Views\<close>

definition REPLACEMENT_CHARACTER :: nat where "REPLACEMENT_CHARACTER = 0xFFFD"

fun run_text :: "utf8_run \<Rightarrow> nat" where
  "run_text (RunChar c) = c"
| "run_text (RunInvalid _) = REPLACEMENT_CHARACTER"

definition to_string_lossy :: "'k captured_bytes \<Rightarrow> ustring" where
  "to_string_lossy v = map run_text (utf8_runs (as_bytes v))"

definition as_path :: "captured_path \<Rightarrow> u8 list" where
  "as_path v = as_bytes v"

definition as_os_str :: "captured_command \<Rightarrow> u8 list" where
  "as_os_str v = as_bytes v"

text \<open>
  \<open>SocketAddr::from_abstract_name\<close> accepts a name that fits \<open>sun_path\<close> behind the structural NUL;
  an address is the abstract name it was made of.
\<close>

datatype socket_addr = AbstractAddr (as_abstract_name: "u8 list")

definition from_abstract_name :: "u8 list \<Rightarrow> unit + socket_addr" where
  "from_abstract_name name = (if length name + 1 > 108 then Inl () else Inr (AbstractAddr name))"

definition to_socket_addr :: "captured_abstract_name \<Rightarrow> unit + socket_addr" where
  "to_socket_addr v = from_abstract_name (as_bytes v)"

text \<open>No captured abstract name is rejected: the error of \<open>to_socket_addr\<close> cannot occur.\<close>

lemma to_socket_addr_ok: "abstract_name_ok v \<Longrightarrow> to_socket_addr v = Inr (AbstractAddr (as_bytes v))"
  by (simp add: to_socket_addr_def from_abstract_name_def captured_ok_def abstract_name_consts_def)

text \<open>The lossy view of valid UTF-8 loses nothing, and it never has more characters than bytes.\<close>

lemma to_string_lossy_valid:
  assumes "list_all (\<lambda>u. \<exists>c. u = ValidChar c) (utf8_units (as_bytes v))"
  shows "utf8_units (as_bytes v) = map ValidChar (to_string_lossy v)"
proof -
  have "list_all (\<lambda>u. \<exists>c. u = ValidChar c) (utf8_units bs) \<Longrightarrow>
      utf8_units bs = map ValidChar (map run_text (utf8_runs bs))" for bs
  proof (induction bs rule: utf8_runs.induct)
    case (2 b bs)
    then show ?case
      by (cases "utf8_head (b # bs)") (use invalid_len_pos [of b bs] in
          \<open>auto simp: utf8_units_runs take_Cons' simp del: utf8_head.simps\<close>)
  qed simp
  with assms show ?thesis
    by (simp add: to_string_lossy_def)
qed

lemma length_to_string_lossy: "length (to_string_lossy v) \<le> length (as_bytes v)"
proof -
  have "length (utf8_runs bs) \<le> length bs" for bs
  proof (induction bs rule: utf8_runs.induct)
    case (2 b bs)
    show ?case
    proof (cases "utf8_head (b # bs)")
      case None
      then have "length (utf8_runs (drop (invalid_len b bs) (b # bs))) \<le>
          length (drop (invalid_len b bs) (b # bs))"
        by (rule 2)
      also have "\<dots> \<le> length bs"
        using invalid_len_pos [of b bs] by simp
      finally show ?thesis
        using None by (simp del: utf8_head.simps)
    next
      case (Some p)
      then show ?thesis
        using 2 utf8_head_shorter [of "b # bs"] by (cases p) (fastforce simp del: utf8_head.simps)
    qed
  qed simp
  then show ?thesis
    by (simp add: to_string_lossy_def)
qed

end
