(* ===== verification/Event_Tests.thy ===== *)
theory Event_Tests
  imports Unit_Tests Captured_Views Diagnostics
begin

text \<open>
  The unit tests of \<open>src/event/string.rs\<close> and \<open>src/event/mod.rs\<close>, run on the models of captured
  bytes, access masks and identifiers. The Unicode general categories are a parameter of the model;
  the rendering test takes the categories of its characters as a hypothesis.
\<close>

subsection \<open>Debug renderings of identifiers\<close>

definition debug_domain_id :: "domain_id \<Rightarrow> string" where
  "debug_domain_id i = ''DomainId('' @ dec (unat (id_get i)) @ '')''"

definition debug_ruleset_id :: "ruleset_id \<Rightarrow> string" where
  "debug_ruleset_id i = ''RulesetId('' @ dec (unat (id_get i)) @ '')''"

definition debug_process_id :: "process_id \<Rightarrow> string" where
  "debug_process_id p = ''ProcessId('' @ dec (unat (pid_get p)) @ '')''"

definition debug_thread_id :: "thread_id \<Rightarrow> string" where
  "debug_thread_id t = ''ThreadId('' @ dec (unat (tid_get t)) @ '')''"

subsection \<open>Captured bytes\<close>

abbreviation path_new :: "u8 list \<Rightarrow> bool \<Rightarrow> captured_bytes_error + captured_path" where
  "path_new \<equiv> captured_new pathname_consts"

abbreviation command_new :: "u8 list \<Rightarrow> bool \<Rightarrow> captured_bytes_error + captured_command" where
  "command_new \<equiv> captured_new command_consts"

abbreviation name_new :: "u8 list \<Rightarrow> bool \<Rightarrow> captured_bytes_error + captured_abstract_name" where
  "name_new \<equiv> captured_new abstract_name_consts"

definition origins_enforce_nul_invariants_and_views :: test where
  "origins_enforce_nul_invariants_and_views = do {
     assert_eq (path_new (lit ''before'' @ [0] @ lit ''after'') False) (Inl (InteriorNul 6));
     assert_eq (command_new [0] False) (Inl (InteriorNul 0));
     name \<leftarrow> unwrap (name_new (lit ''a'' @ [0] @ lit ''b'') False);
     assert_eq (as_bytes name) (lit ''a'' @ [0] @ lit ''b'');
     path \<leftarrow> unwrap (path_new (lit ''/tmp/non-utf8-'' @ [0xFF]) False);
     assert_eq (as_path path) (as_bytes path);
     command \<leftarrow> unwrap (command_new (lit ''command-'' @ [0xFF]) False);
     assert_eq (as_os_str command) (as_bytes command)
   }"

definition origins_enforce_length_and_omission_invariants :: test where
  "origins_enforce_length_and_omission_invariants = do {
     assert_eq (path_new (replicate 257 0x70) False) (Inl (TooLong 257 256));
     assert_eq (command_new (replicate 16 0x63) False) (Inl (TooLong 16 15));
     assert_eq (name_new (replicate 108 0x61) False) (Inl (TooLong 108 107));
     assert_eq (path_new (lit ''short'') True) (Inl (OmissionRequiresFullCapacity 5 256));
     assert_eq (command_new (lit ''command'') True) (Inl OmissionNotSupported);
     assert_eq (name_new (lit ''socket'') True) (Inl OmissionNotSupported);
     unwrap (path_new (replicate 256 0x70) False);
     unwrap (path_new (replicate 256 0x70) True);
     unwrap (command_new (replicate 15 0x63) False);
     unwrap (name_new (replicate 107 0x61) False);
     unwrap (path_new [] False);
     unwrap (command_new [] False);
     unwrap (name_new [] False);
     Some ()
   }"

definition errors_identify_the_failed_check :: test where
  "errors_identify_the_failed_check = do {
     assert_eq (display_captured_bytes_error (InteriorNul 4))
       ''captured bytes contain a NUL at position 4'';
     assert_eq (display_captured_bytes_error (TooLong 16 15))
       ''captured byte length 16 exceeds the maximum 15'';
     assert_eq (display_captured_bytes_error OmissionNotSupported)
       ''this captured-byte origin cannot omit source bytes'';
     assert_eq (display_captured_bytes_error (OmissionRequiresFullCapacity 5 256))
       ''omitted source bytes require a full 256-byte capture, but length is 5''
   }"

text \<open>
  The sample text of the rendering test in UTF-8: plain text, three characters outside ASCII, a
  backslash, controls, formatting and separator characters, and a byte that is not UTF-8.
\<close>

definition sample_bytes :: "u8 list" where
  "sample_bytes =
     lit ''plain space/'' @ [0xC3, 0xA9] @ [0xE7, 0x95, 0x8C] @ [0xF0, 0x9F, 0x99, 0x82] @
     [0x5C, 0, 9, 0xA, 0xD, 0x1B] @ [0xE2, 0x80, 0xAE] @ [0xE2, 0x81, 0xA6] @ [0xE2, 0x80, 0xA8] @
     [0xC2, 0xA0] @ [0xFF]"

definition sample_categories :: "(nat \<Rightarrow> bool) \<Rightarrow> bool" where
  "sample_categories hazardous \<longleftrightarrow>
     list_all hazardous [0, 9, 0xA, 0xD, 0x1B, 0x202E, 0x2066, 0x2028, 0xA0] \<and>
     list_all (\<lambda>c. \<not> hazardous c) (ascii ''plainsceth/'' @ [0xE9, 0x754C, 0x1F642])"

definition display_preserves_graphical_text_and_escapes_unsafe_data :: "(nat \<Rightarrow> bool) \<Rightarrow> test" where
  "display_preserves_graphical_text_and_escapes_unsafe_data hazardous = do {
     v \<leftarrow> unwrap (name_new sample_bytes False);
     assert_eq (display_captured hazardous abstract_name_consts v)
       (ascii ''@plain space/'' @ [0xE9, 0x754C, 0x1F642, 0x5C, 0x5C] @
        0x5C # ascii ''u{0}'' @ 0x5C # ascii ''u{9}'' @ 0x5C # ascii ''u{a}'' @ 0x5C # ascii ''u{d}'' @
        0x5C # ascii ''u{1b}'' @ 0x5C # ascii ''u{202e}'' @ 0x5C # ascii ''u{2066}'' @
        0x5C # ascii ''u{2028}'' @ 0x5C # ascii ''u{a0}'' @ 0x5C # ascii ''xff'')
   }"

definition omission_and_debug_are_explicit :: "(nat \<Rightarrow> bool) \<Rightarrow> test" where
  "omission_and_debug_are_explicit hazardous = do {
     complete \<leftarrow> unwrap (path_new (lit ''path'') False);
     omitted \<leftarrow> unwrap (path_new (replicate 256 0x70) True);
     assert_eq (display_captured hazardous pathname_consts complete) (ascii ''path'');
     assert_eq (display_captured hazardous pathname_consts omitted) (replicate 256 0x70 @ [0x2026]);
     assert_eq (debug_escaped hazardous pathname_consts omitted) (replicate 256 0x70);
     assert_that (\<not> bytes_omitted complete);
     assert_that (bytes_omitted omitted)
   }"

definition lossy_conversion_remains_unescaped :: test where
  "lossy_conversion_remains_unescaped = do {
     v \<leftarrow> unwrap (name_new (lit ''a'' @ [0, 0xA, 0xFF]) False);
     assert_eq (to_string_lossy v) [0x61, 0, 0xA, 0xFFFD]
   }"

definition abstract_display_prefixes_empty_embedded_nul_and_invalid_utf8 ::
  "(nat \<Rightarrow> bool) \<Rightarrow> test" where
  "abstract_display_prefixes_empty_embedded_nul_and_invalid_utf8 hazardous = do {
     empty \<leftarrow> unwrap (name_new [] False);
     assert_eq (display_captured hazardous abstract_name_consts empty) (ascii ''@'');
     v \<leftarrow> unwrap (name_new (lit ''a'' @ [0, 0xFF]) False);
     assert_eq (display_captured hazardous abstract_name_consts v)
       (ascii ''@a'' @ 0x5C # ascii ''u{0}'' @ 0x5C # ascii ''xff'')
   }"

definition abstract_socket_addr_round_trips :: "u8 list \<Rightarrow> test" where
  "abstract_socket_addr_round_trips name = do {
     captured \<leftarrow> unwrap (name_new name False);
     address \<leftarrow> unwrap (to_socket_addr captured);
     assert_eq (as_abstract_name address) name
   }"

definition abstract_socket_addr_round_trips_empty_and_maximum_names :: test where
  "abstract_socket_addr_round_trips_empty_and_maximum_names = do {
     abstract_socket_addr_round_trips [];
     abstract_socket_addr_round_trips (map of_nat [0..<107])
   }"

subsection \<open>Masks and identifiers\<close>

definition access_names_and_unknown_bits :: test where
  "access_names_and_unknown_bits = do {
     let fs = (- 1 :: u64);
     let network = (0x8000000000000005 :: u64);
     let scope = (0x8000000000000002 :: u64);
     assert_eq (length (all_known_names FILESYSTEM_ACCESS_NAMES)) 17;
     assert_eq (length (all_known_names NETWORK_ACCESS_NAMES)) 4;
     assert_eq (length (all_known_names SCOPE_NAMES)) 2;
     assert_eq (length (known_names FILESYSTEM_ACCESS_NAMES fs)) 17;
     assert_eq (known_bits FILESYSTEM_ACCESS_NAMES fs) 0x1FFFF;
     assert_eq (unknown_bits FILESYSTEM_ACCESS_NAMES fs) 0xFFFFFFFFFFFE0000;
     assert_eq (known_bits NETWORK_ACCESS_NAMES network) 5;
     assert_eq (unknown_bits NETWORK_ACCESS_NAMES network) 0x8000000000000000;
     assert_eq (known_bits SCOPE_NAMES scope) 2;
     assert_eq (unknown_bits SCOPE_NAMES scope) 0x8000000000000000;
     assert_eq (known_names NETWORK_ACCESS_NAMES network) [(1, ''bind_tcp''), (4, ''bind_udp'')]
   }"

definition rejected_landlock_id :: "u64 \<Rightarrow> test" where
  "rejected_landlock_id v =
     assert_eq (landlock_id_new v :: invalid_landlock_id_error + domain_id)
       (Inl (InvalidLandlockIdError v))"

definition landlock_id_boundaries_and_conversions :: test where
  "landlock_id_boundaries_and_conversions = do {
     rejected_landlock_id 0;
     rejected_landlock_id 1;
     rejected_landlock_id 0xFFFFFFFF;
     minimum \<leftarrow> unwrap (landlock_id_new MIN_LANDLOCK_ID :: invalid_landlock_id_error + domain_id);
     maximum \<leftarrow> unwrap (landlock_id_new (- 1) :: invalid_landlock_id_error + domain_id);
     assert_eq (id_get minimum) MIN_LANDLOCK_ID;
     assert_eq (id_get maximum) (- 1);
     assert_that (minimum < maximum);
     assert_eq (display_domain_id minimum) ''100000000'';
     assert_eq (display_domain_id maximum) ''ffffffffffffffff'';
     assert_eq (debug_domain_id minimum) ''DomainId(4294967296)'';
     assert_eq (display_invalid_landlock_id (InvalidLandlockIdError 0xFFFFFFFF))
       ''invalid Landlock ID 4294967295, expected at least 4294967296'';
     r \<leftarrow> unwrap (landlock_id_new MIN_LANDLOCK_ID :: invalid_landlock_id_error + ruleset_id);
     assert_eq (id_get r) (id_get minimum);
     assert_eq (debug_ruleset_id r) ''RulesetId(4294967296)''
   }"

definition task_id_boundaries_and_conversions :: test where
  "task_id_boundaries_and_conversions = do {
     assert_eq (process_id_new 0) (Inl (InvalidTaskIdError 0));
     assert_eq (thread_id_new 0) (Inl (InvalidTaskIdError 0));
     assert_eq (display_invalid_task_id (InvalidTaskIdError 0))
       ''invalid Linux task ID 0, expected a nonzero value'';
     process \<leftarrow> unwrap (process_id_new 1);
     thread \<leftarrow> unwrap (thread_id_new (- 1));
     assert_eq (pid_get process) 1;
     assert_eq (tid_get thread) (- 1);
     assert_eq (debug_process_id process) ''ProcessId(1)'';
     assert_eq (debug_thread_id thread) ''ThreadId(4294967295)''
   }"

definition domain_membership_option_conversions_are_total :: test where
  "domain_membership_option_conversions_are_total = do {
     i \<leftarrow> t_domain 0;
     assert_eq (membership_from None) Unsandboxed;
     assert_eq (membership_domain_id (membership_from (Some i))) (Some i);
     assert_eq (membership_domain_id Unsandboxed) None;
     assert_eq (membership_domain_id (Sandboxed i)) (Some i);
     assert_eq (as_nanoseconds (KernelTimestamp 11)) 11
   }"

subsection \<open>All tests pass\<close>

lemmas captured_eval = captured_new_def captured_omission_def origin_consts_defs position_replicate
  lit_def assert_eq_def

lemma origins_enforce_nul_invariants_and_views_passes:
  "origins_enforce_nul_invariants_and_views = Some ()"
  by (simp add: origins_enforce_nul_invariants_and_views_def captured_eval as_path_def as_os_str_def)

lemma origins_enforce_length_and_omission_invariants_passes:
  "origins_enforce_length_and_omission_invariants = Some ()"
  by (simp add: origins_enforce_length_and_omission_invariants_def captured_eval)

lemma errors_identify_the_failed_check_passes: "errors_identify_the_failed_check = Some ()"
  by (simp add: errors_identify_the_failed_check_def assert_eq_def number_texts)

lemmas display_eval = captured_eval display_captured_def write_escaped_def ascii_def hex2_def
  number_texts second_ok_def continuation_def sample_categories_def

lemma display_preserves_graphical_text_and_escapes_unsafe_data_passes:
  "sample_categories hazardous \<Longrightarrow>
     display_preserves_graphical_text_and_escapes_unsafe_data hazardous = Some ()"
  by (simp add: display_preserves_graphical_text_and_escapes_unsafe_data_def sample_bytes_def display_eval)

lemma utf8_units_replicate: "unat b < 0x80 \<Longrightarrow> utf8_units (replicate n b) = replicate n (ValidChar (unat b))"
  by (induction n) simp_all

lemma omission_and_debug_are_explicit_passes:
  "sample_categories hazardous \<Longrightarrow> omission_and_debug_are_explicit hazardous = Some ()"
  by (simp add: omission_and_debug_are_explicit_def debug_escaped_def ELLIPSIS_def utf8_units_replicate
      display_eval)

lemma lossy_conversion_remains_unescaped_passes: "lossy_conversion_remains_unescaped = Some ()"
  by (simp add: lossy_conversion_remains_unescaped_def captured_eval to_string_lossy_def invalid_len_def
      REPLACEMENT_CHARACTER_def)

lemma abstract_display_prefixes_empty_embedded_nul_and_invalid_utf8_passes:
  "sample_categories hazardous \<Longrightarrow>
     abstract_display_prefixes_empty_embedded_nul_and_invalid_utf8 hazardous = Some ()"
  by (simp add: abstract_display_prefixes_empty_embedded_nul_and_invalid_utf8_def display_eval)

lemma abstract_socket_addr_round_trips_empty_and_maximum_names_passes:
  "abstract_socket_addr_round_trips_empty_and_maximum_names = Some ()"
  by (simp add: abstract_socket_addr_round_trips_empty_and_maximum_names_def
      abstract_socket_addr_round_trips_def to_socket_addr_def from_abstract_name_def captured_eval)

lemma access_names_and_unknown_bits_passes: "access_names_and_unknown_bits = Some ()"
  by code_simp

lemma landlock_id_boundaries_and_conversions_passes: "landlock_id_boundaries_and_conversions = Some ()"
  by (simp add: landlock_id_boundaries_and_conversions_def rejected_landlock_id_def landlock_id_new_def
      MIN_LANDLOCK_ID_def one_below_minimum display_domain_id_def debug_domain_id_def debug_ruleset_id_def
      less_landlock_id_def assert_eq_def number_texts unsigned_minus_1_eq_mask mask_eq_exp_minus_1)

lemma task_id_boundaries_and_conversions_passes: "task_id_boundaries_and_conversions = Some ()"
  by (simp add: task_id_boundaries_and_conversions_def process_id_new_def thread_id_new_def
      debug_process_id_def debug_thread_id_def assert_eq_def number_texts unsigned_minus_1_eq_mask
      mask_eq_exp_minus_1)

lemma domain_membership_option_conversions_are_total_passes:
  "domain_membership_option_conversions_are_total = Some ()"
  by code_simp

text \<open>The hypothesis on the categories can hold.\<close>

lemma sample_categories_hold:
  "sample_categories (\<lambda>c. c \<in> set [0, 9, 0xA, 0xD, 0x1B, 0x202E, 0x2066, 0x2028, 0xA0])"
  by (simp add: sample_categories_def ascii_def)

end
