(* ===== verification/Aggregate_Tests.thy ===== *)
theory Aggregate_Tests
  imports Unit_Tests Builders Diagnostics
begin

text \<open>
  The unit tests of \<open>src/aggregate.rs\<close>, run on the aggregator of \<open>Aggregate\<close>: what identifies a
  denial, what an entry keeps of its events, the capacity, the numeric limits of the counters and the
  eviction of the least recently observed entry.
\<close>

subsection \<open>Fixtures\<close>

definition ag_context :: "u64 \<Rightarrow> u64 \<Rightarrow> bool \<Rightarrow> bool \<Rightarrow> denial_context option" where
  "ag_context domain_offset cumulative same lg = do {
     d \<leftarrow> t_domain domain_offset;
     tgid \<leftarrow> t_pid 10;
     comm \<leftarrow> t_command (lit ''creator'');
     Some \<lparr>hierarchy = \<lparr>h_domain_id = d, h_parent_id = None, h_creator_tgid = tgid,
             h_creator_comm = comm\<rparr>,
           cumulative_denial_count = cumulative, same_exec = same, logged = lg\<rparr>
   }"

definition fs_with_type ::
  "u64 \<Rightarrow> u64 \<Rightarrow> u64 \<Rightarrow> blocker_type \<Rightarrow> u64 \<Rightarrow> u32 \<times> u64 \<times> string \<Rightarrow> bool \<times> bool \<Rightarrow> event option" where
  "fs_with_type ts domain_offset cumulative bt access target flags = do {
     c \<leftarrow> ag_context domain_offset cumulative (fst flags) (snd flags);
     path \<leftarrow> t_path (lit (snd (snd target)));
     Some (DenyAccessFs \<lparr>df_timestamp = KernelTimestamp ts, df_context = c, df_blockers_type = bt,
       df_blockers_access = FilesystemAccess access, df_device = fst target,
       df_inode = fst (snd target), df_pathname = path\<rparr>)
   }"

definition ag_fs ::
  "u64 \<Rightarrow> u64 \<Rightarrow> u64 \<Rightarrow> u64 \<Rightarrow> u32 \<times> u64 \<times> string \<Rightarrow> bool \<times> bool \<Rightarrow> event option" where
  "ag_fs ts domain_offset cumulative access target flags =
     fs_with_type ts domain_offset cumulative BT_FS_ACCESS access target flags"

definition ag_network :: "u64 \<Rightarrow> u64 \<Rightarrow> u64 \<Rightarrow> u64 \<times> u64 \<Rightarrow> event option" where
  "ag_network ts domain_offset access ports = do {
     c \<leftarrow> ag_context domain_offset 1 False True;
     Some (DenyAccessNet \<lparr>dn_timestamp = KernelTimestamp ts, dn_context = c,
       dn_blockers_type = BT_NET_ACCESS, dn_blockers_access = NetworkAccess access,
       dn_source_port = fst ports, dn_destination_port = snd ports\<rparr>)
   }"

definition ag_ptrace ::
  "u64 \<Rightarrow> u64 \<Rightarrow> domain_membership \<Rightarrow> u32 \<Rightarrow> string \<Rightarrow> event option" where
  "ag_ptrace ts domain_offset tracee pid comm = do {
     c \<leftarrow> ag_context domain_offset 1 False False;
     p \<leftarrow> t_pid pid;
     cm \<leftarrow> t_command (lit comm);
     Some (DenyPtrace \<lparr>dp_timestamp = KernelTimestamp ts, dp_context = c, dp_tracee_domain = tracee,
       dp_tracee_pid = p, dp_tracee_comm = cm\<rparr>)
   }"

definition ag_signal ::
  "u64 \<Rightarrow> u64 \<Rightarrow> domain_membership \<Rightarrow> u32 \<Rightarrow> string \<Rightarrow> event option" where
  "ag_signal ts domain_offset target pid comm = do {
     c \<leftarrow> ag_context domain_offset 1 False False;
     p \<leftarrow> t_pid pid;
     cm \<leftarrow> t_command (lit comm);
     Some (DenyScopeSignal \<lparr>ds_timestamp = KernelTimestamp ts, ds_context = c,
       ds_target_domain = target, ds_target_pid = p, ds_target_comm = cm\<rparr>)
   }"

definition ag_unix ::
  "u64 \<Rightarrow> u64 \<Rightarrow> domain_membership \<Rightarrow> u32 \<Rightarrow> u8 list \<Rightarrow> event option" where
  "ag_unix ts domain_offset peer pid name = do {
     c \<leftarrow> ag_context domain_offset 1 False False;
     p \<leftarrow> t_pid pid;
     n \<leftarrow> t_abstract_name name;
     Some (DenyScopeAbstractUnixSocket \<lparr>du_timestamp = KernelTimestamp ts, du_context = c,
       du_peer_domain = peer, du_peer_pid = Some p, du_abstract_name = n\<rparr>)
   }"

definition observe_all :: "denial_aggregator \<Rightarrow> event list \<Rightarrow> denial_aggregator" where
  "observe_all a es = foldl observe a es"

definition fs_key :: "domain_id \<Rightarrow> u64 \<Rightarrow> u32 \<Rightarrow> u64 \<Rightarrow> denial_key" where
  "fs_key d access device inode = FilesystemKey
     \<lparr>fk_domain_id = d, fk_blockers_type = BT_FS_ACCESS, fk_blockers_access = FilesystemAccess access,
      fk_device = device, fk_inode = inode\<rparr>"

text \<open>A builder over an allocator that grants every reservation.\<close>

definition built :: "nat \<Rightarrow> unit build_error + denial_aggregator" where
  "built capacity = db_build (\<lambda>_. None) (db_set_capacity capacity denial_aggregator_builder)"

subsection \<open>Tests\<close>

definition keys_cover_all_denial_families_and_fields :: test where
  "keys_cover_all_denial_families_and_fields = do {
     d10 \<leftarrow> t_domain 10;
     d11 \<leftarrow> t_domain 11;
     d12 \<leftarrow> t_domain 12;
     d13 \<leftarrow> t_domain 13;
     d14 \<leftarrow> t_domain 14;
     d20 \<leftarrow> t_domain 20;
     d21 \<leftarrow> t_domain 21;
     p30 \<leftarrow> t_pid 30;
     p31 \<leftarrow> t_pid 31;
     tracee \<leftarrow> t_command (lit ''tracee'');
     target \<leftarrow> t_command (lit ''target'');
     service \<leftarrow> t_abstract_name (lit ''service'' @ [0] @ lit ''v1'');
     fs \<leftarrow> ag_fs 1 10 1 0x8000000000000001 (2, 3, ''/a'') (False, False);
     network \<leftarrow> ag_network 2 11 0x8000000000000002 (100, 200);
     ptrace \<leftarrow> ag_ptrace 3 12 (Sandboxed d20) 30 ''tracee'';
     signal \<leftarrow> ag_signal 4 13 Unsandboxed 31 ''target'';
     unix \<leftarrow> ag_unix 5 14 (Sandboxed d21) 32 (lit ''service'' @ [0] @ lit ''v1'');
     let a = observe_all aggregator_new [fs, network, ptrace, signal, unix];
     assert_eq (agg_len a) 5;
     let k_fs = fs_key d10 0x8000000000000001 2 3;
     let k_net = NetworkKey
       \<lparr>nk_domain_id = d11, nk_blockers_type = BT_NET_ACCESS,
        nk_blockers_access = NetworkAccess 0x8000000000000002, nk_source_port = 100,
        nk_destination_port = 200\<rparr>;
     let k_ptrace = PtraceKey
       \<lparr>pk_domain_id = d12, pk_tracee_domain = Sandboxed d20, pk_tracee_pid = p30,
        pk_tracee_comm = tracee\<rparr>;
     let k_signal = SignalKey
       \<lparr>sk_domain_id = d13, sk_target_domain = Unsandboxed, sk_target_pid = p31,
        sk_target_comm = target\<rparr>;
     let k_unix = AbstractUnixSocketKey
       \<lparr>uk_domain_id = d14, uk_peer_domain = Sandboxed d21, uk_abstract_name = service\<rparr>;
     assert_that (agg_get a k_fs \<noteq> None);
     assert_that (agg_get a k_net \<noteq> None);
     assert_that (agg_get a k_ptrace \<noteq> None);
     assert_that (agg_get a k_signal \<noteq> None);
     assert_that (agg_get a k_unix \<noteq> None);
     assert_eq (denial_key_domain_id k_fs) d10;
     fs \<leftarrow> (case k_fs of FilesystemKey k \<Rightarrow> Some k | _ \<Rightarrow> None);
     assert_eq (fk_blockers_type fs) BT_FS_ACCESS;
     assert_eq (fk_blockers_access fs) (FilesystemAccess 0x8000000000000001);
     assert_eq (fk_device fs, fk_inode fs) (2, 3);
     network \<leftarrow> (case k_net of NetworkKey k \<Rightarrow> Some k | _ \<Rightarrow> None);
     assert_eq (nk_blockers_type network) BT_NET_ACCESS;
     assert_eq (nk_blockers_access network) (NetworkAccess 0x8000000000000002);
     assert_eq (nk_source_port network, nk_destination_port network) (100, 200);
     ptrace \<leftarrow> (case k_ptrace of PtraceKey k \<Rightarrow> Some k | _ \<Rightarrow> None);
     assert_eq (pk_tracee_domain ptrace) (Sandboxed d20);
     assert_eq (pk_tracee_pid ptrace) p30;
     assert_eq (as_bytes (pk_tracee_comm ptrace)) (lit ''tracee'');
     signal \<leftarrow> (case k_signal of SignalKey k \<Rightarrow> Some k | _ \<Rightarrow> None);
     assert_eq (sk_target_domain signal) Unsandboxed;
     assert_eq (sk_target_pid signal) p31;
     assert_eq (as_bytes (sk_target_comm signal)) (lit ''target'');
     unix \<leftarrow> (case k_unix of AbstractUnixSocketKey k \<Rightarrow> Some k | _ \<Rightarrow> None);
     assert_eq (uk_peer_domain unix) (Sandboxed d21);
     assert_eq (as_bytes (uk_abstract_name unix)) (lit ''service'' @ [0] @ lit ''v1'')
   }"

definition blocker_type_is_aggregation_identity :: test where
  "blocker_type_is_aggregation_identity = do {
     access \<leftarrow> ag_fs 1 7 1 0 (2, 3, ''/target'') (True, True);
     topology \<leftarrow> fs_with_type 2 7 2 BT_FS_CHANGE_TOPOLOGY 0 (2, 3, ''/target'') (True, True);
     unknown \<leftarrow> fs_with_type 3 7 3 (BlockerType (- 1)) 0 (2, 3, ''/target'') (True, True);
     let a = observe_all aggregator_new [access, topology, unknown];
     assert_eq (agg_len a) 3;
     let fs_keys = List.map_filter (\<lambda>e. case ag_key e of FilesystemKey k \<Rightarrow> Some k | _ \<Rightarrow> None)
       (hm_values (agg_entries a));
     assert_eq (length fs_keys) 3;
     assert_eq (set (map (raw \<circ> fk_blockers_type) fs_keys)) {2, 3, - 1};
     k \<leftarrow> List.find (\<lambda>k. fk_blockers_type k = BT_FS_CHANGE_TOPOLOGY) fs_keys;
     assert_eq (fk_blockers k) FsChangeTopology
   }"

definition matching_filesystem_events_keep_ingestion_order_and_latest_path :: test where
  "matching_filesystem_events_keep_ingestion_order_and_latest_path = do {
     first \<leftarrow> ag_fs 50 7 900 1 (2, 3, ''/old'') (False, True);
     latest \<leftarrow> ag_fs 40 7 4 1 (2, 3, ''/new'') (True, False);
     equal \<leftarrow> ag_fs 40 7 1000 1 (2, 3, ''/equal'') (False, True);
     entry \<leftarrow> snd (observe_entry (observe_all aggregator_new [first, latest]) equal);
     assert_eq (ag_occurrence_count entry) 3;
     assert_eq (as_nanoseconds (ag_first_timestamp entry)) 50;
     assert_eq (as_nanoseconds (ag_latest_timestamp entry)) 40;
     assert_that (\<not> ag_same_exec entry);
     assert_that (ag_logged entry);
     v \<leftarrow> (case ag_latest_event entry of DenyAccessFs v \<Rightarrow> Some v | _ \<Rightarrow> None);
     assert_eq (as_nanoseconds (df_timestamp v)) 40;
     assert_eq (as_bytes (df_pathname v)) (lit ''/equal'');
     assert_eq (cumulative_denial_count (df_context v)) 1000
   }"

definition identity_dimensions_remain_distinct :: test where
  "identity_dimensions_remain_distinct = do {
     d2 \<leftarrow> t_domain 2;
     f1 \<leftarrow> ag_fs 1 1 1 1 (1, 1, ''/a'') (False, False);
     f2 \<leftarrow> ag_fs 1 2 1 1 (1, 1, ''/a'') (False, False);
     f3 \<leftarrow> ag_fs 1 1 1 2 (1, 1, ''/a'') (False, False);
     f4 \<leftarrow> ag_fs 1 1 1 1 (2, 1, ''/a'') (False, False);
     f5 \<leftarrow> ag_fs 1 1 1 1 (1, 2, ''/a'') (False, False);
     n1 \<leftarrow> ag_network 1 1 1 (1, 1);
     n2 \<leftarrow> ag_network 1 1 1 (2, 1);
     n3 \<leftarrow> ag_network 1 1 1 (1, 2);
     t1 \<leftarrow> ag_ptrace 1 1 Unsandboxed 1 ''task'';
     t2 \<leftarrow> ag_signal 1 1 Unsandboxed 1 ''task'';
     t3 \<leftarrow> ag_ptrace 1 1 (Sandboxed d2) 1 ''task'';
     t4 \<leftarrow> ag_ptrace 1 1 Unsandboxed 2 ''task'';
     t5 \<leftarrow> ag_ptrace 1 1 Unsandboxed 1 ''other'';
     u1 \<leftarrow> ag_unix 1 1 Unsandboxed 1 (lit ''service'' @ [0] @ lit ''one'');
     u2 \<leftarrow> ag_unix 1 1 (Sandboxed d2) 1 (lit ''service'' @ [0] @ lit ''one'');
     u3 \<leftarrow> ag_unix 1 1 Unsandboxed 1 (lit ''service'' @ [0] @ lit ''two'');
     let events = [f1, f2, f3, f4, f5, n1, n2, n3, t1, t2, t3, t4, t5, u1, u2, u3];
     assert_eq (agg_len (observe_all aggregator_new events)) (length events)
   }"

definition abstract_name_is_identity_while_peer_pid_is_descriptive :: test where
  "abstract_name_is_identity_while_peer_pid_is_descriptive = do {
     u1 \<leftarrow> ag_unix 1 1 Unsandboxed 10 (lit ''service'' @ [0] @ lit ''one'');
     u2 \<leftarrow> ag_unix 2 1 Unsandboxed 20 (lit ''service'' @ [0] @ lit ''one'');
     u3 \<leftarrow> ag_unix 3 1 Unsandboxed 20 (lit ''service'' @ [0] @ lit ''two'');
     let (a, entry) = observe_entry (observe aggregator_new u1) u2;
     merged \<leftarrow> entry;
     assert_eq (ag_occurrence_count merged) 2;
     v \<leftarrow> (case ag_latest_event merged of DenyScopeAbstractUnixSocket v \<Rightarrow> Some v | _ \<Rightarrow> None);
     p20 \<leftarrow> t_pid 20;
     assert_eq (du_peer_pid v) (Some p20);
     assert_eq (agg_len (observe a u3)) 2
   }"

definition unknown_bits_and_domain_membership_are_identity :: test where
  "unknown_bits_and_domain_membership_are_identity = do {
     d2 \<leftarrow> t_domain 2;
     f1 \<leftarrow> ag_fs 1 1 1 1 (1, 1, ''/a'') (False, False);
     f2 \<leftarrow> ag_fs 1 1 1 0x8000000000000001 (1, 1, ''/a'') (False, False);
     s1 \<leftarrow> ag_signal 1 1 Unsandboxed 2 ''target'';
     s2 \<leftarrow> ag_signal 1 1 (Sandboxed d2) 2 ''target'';
     assert_eq (agg_len (observe_all aggregator_new [f1, f2, s1, s2])) 4
   }"

definition non_denials_are_ignored :: test where
  "non_denials_are_ignored = do {
     d \<leftarrow> t_domain 1;
     let a = observe aggregator_new
       (FreeDomain \<lparr>fd_timestamp = KernelTimestamp 1, fd_domain_id = d, fd_denial_count = 2\<rparr>);
     assert_that (agg_is_empty a);
     assert_eq (agg_len a) 0;
     assert_eq (agg_capacity a) 1000
   }"

definition capacity_is_checked_and_exact :: test where
  "capacity_is_checked_and_exact = do {
     invalid \<leftarrow> (case built 0 of Inl e \<Rightarrow> Some e | Inr _ \<Rightarrow> None);
     assert_eq (be_kind invalid) InvalidCapacity;
     assert_eq (be_configured invalid) 0;
     assert_eq (display_aggregator_build_error (\<lambda>_. []) invalid)
       ''denial aggregation capacity must be nonzero'';
     assert_that (be_source invalid = None);
     default \<leftarrow> unwrap (db_build (\<lambda>_. None :: unit option) denial_aggregator_builder);
     assert_eq (agg_capacity default) 1000;
     a \<leftarrow> unwrap (built 1);
     assert_eq (agg_capacity a) 1;
     f1 \<leftarrow> ag_fs 1 1 1 1 (1, 1, ''/a'') (False, False);
     f2 \<leftarrow> ag_fs 1 2 1 1 (1, 1, ''/b'') (False, False);
     let a = observe_all a [f1, f2];
     assert_eq (agg_len a) 1;
     d2 \<leftarrow> t_domain 2;
     assert_eq (map (denial_key_domain_id \<circ> ag_key) (hm_values (agg_entries a))) [d2]
   }"

text \<open>
  An allocator refuses \<open>usize::MAX\<close> entries; any refusal becomes a structured error with its source.
\<close>

definition reservation_failure_is_structured_and_retains_its_source ::
  "(nat \<Rightarrow> 'e option) \<Rightarrow> test" where
  "reservation_failure_is_structured_and_retains_its_source try_reserve = do {
     e \<leftarrow> (case db_build try_reserve (db_set_capacity usize_max denial_aggregator_builder) of
       Inl e \<Rightarrow> Some e | Inr _ \<Rightarrow> None);
     assert_eq (be_kind e) Reservation;
     assert_eq (be_configured e) usize_max;
     assert_that (be_source e \<noteq> None)
   }"

definition counters_do_not_panic_at_their_numeric_limits :: test where
  "counters_do_not_panic_at_their_numeric_limits = do {
     first \<leftarrow> ag_fs 1 1 1 1 (1, 1, ''/first'') (False, False);
     snd \<leftarrow> ag_fs 1 2 1 1 (1, 1, ''/second'') (False, False);
     third \<leftarrow> ag_fs 1 3 1 1 (1, 1, ''/third'') (False, False);
     d1 \<leftarrow> t_domain 1;
     d2 \<leftarrow> t_domain 2;
     a \<leftarrow> unwrap (built 2);
     let a = observe_all a [first, snd];
     let a = a\<lparr>agg_entries :=
       hm_modify (fs_key d1 1 1 1) (\<lambda>e. e\<lparr>ag_occurrence_count := - 1\<rparr>) (agg_entries a)\<rparr>;
     let a = (observe a first)\<lparr>agg_ingestion_sequence := - 1\<rparr>;
     let a = observe a third;
     entry \<leftarrow> agg_get a (fs_key d1 1 1 1);
     assert_eq (ag_occurrence_count entry) (- 1);
     assert_that (agg_get a (fs_key d2 1 1 1) = None)
   }"

definition lru_hits_refresh_recency_independently_of_timestamps :: test where
  "lru_hits_refresh_recency_independently_of_timestamps = do {
     first \<leftarrow> ag_fs 7 1 1 1 (1, 1, ''/first'') (False, False);
     snd \<leftarrow> ag_fs 7 2 1 1 (1, 1, ''/second'') (False, False);
     third \<leftarrow> ag_fs 7 3 1 1 (1, 1, ''/third'') (False, False);
     d1 \<leftarrow> t_domain 1;
     d2 \<leftarrow> t_domain 2;
     d3 \<leftarrow> t_domain 3;
     a \<leftarrow> unwrap (built 2);
     let a = observe_all a [first, snd, first, third];
     assert_eq (agg_len a) 2;
     entry \<leftarrow> agg_get a (fs_key d1 1 1 1);
     assert_that (agg_get a (fs_key d2 1 1 1) = None);
     assert_that (agg_get a (fs_key d3 1 1 1) \<noteq> None);
     assert_eq (ag_occurrence_count entry) 2
   }"

subsection \<open>All tests pass\<close>

lemma keys_cover_all_denial_families_and_fields_passes:
  "keys_cover_all_denial_families_and_fields = Some ()"
  by code_simp

lemma blocker_type_is_aggregation_identity_passes:
  "blocker_type_is_aggregation_identity = Some ()"
  by code_simp

lemma matching_filesystem_events_keep_ingestion_order_and_latest_path_passes:
  "matching_filesystem_events_keep_ingestion_order_and_latest_path = Some ()"
  by code_simp

lemma identity_dimensions_remain_distinct_passes:
  "identity_dimensions_remain_distinct = Some ()"
  by code_simp

lemma abstract_name_is_identity_while_peer_pid_is_descriptive_passes:
  "abstract_name_is_identity_while_peer_pid_is_descriptive = Some ()"
  by code_simp

lemma unknown_bits_and_domain_membership_are_identity_passes:
  "unknown_bits_and_domain_membership_are_identity = Some ()"
  by code_simp

lemma non_denials_are_ignored_passes:
  "non_denials_are_ignored = Some ()"
  by code_simp

lemma capacity_is_checked_and_exact_passes:
  "capacity_is_checked_and_exact = Some ()"
  by code_simp

lemma counters_do_not_panic_at_their_numeric_limits_passes:
  "counters_do_not_panic_at_their_numeric_limits = Some ()"
  by code_simp

lemma lru_hits_refresh_recency_independently_of_timestamps_passes:
  "lru_hits_refresh_recency_independently_of_timestamps = Some ()"
  by code_simp

lemma reservation_failure_is_structured_and_retains_its_source_passes:
  "try_reserve usize_max = Some e \<Longrightarrow>
     reservation_failure_is_structured_and_retains_its_source try_reserve = Some ()"
  by (simp add: reservation_failure_is_structured_and_retains_its_source_def db_build_def
      db_set_capacity_def aggregator_build_def assert_eq_def)

end
