(* ===== verification/Batch_Tests.thy ===== *)
theory Batch_Tests
  imports Unit_Tests Batch
begin

unbundle bit_operations_syntax

text \<open>
  The unit tests of \<open>lltop/src/batch.rs\<close>, run on the batch model of \<open>Batch\<close>: the exact lines of
  every record kind, the deduplication of unchanged facts, late objects, the escaping of captured
  bytes, the direction of network targets, ages, and the saturation of the counters.
\<close>

subsection \<open>Evaluating the access tables\<close>

lemma names_code [code]:
  "FILESYSTEM_ACCESS_NAMES =
    [(1, ''execute''), (2, ''write_file''), (4, ''read_file''), (8, ''read_dir''),
     (0x10, ''remove_dir''), (0x20, ''remove_file''), (0x40, ''make_char''), (0x80, ''make_dir''),
     (0x100, ''make_reg''), (0x200, ''make_sock''), (0x400, ''make_fifo''), (0x800, ''make_block''),
     (0x1000, ''make_sym''), (0x2000, ''refer''), (0x4000, ''truncate''), (0x8000, ''ioctl_dev''),
     (0x10000, ''resolve_unix'')]"
  "NETWORK_ACCESS_NAMES =
    [(1, ''bind_tcp''), (2, ''connect_tcp''), (4, ''bind_udp''), (8, ''connect_send_udp'')]"
  by (simp_all add: FILESYSTEM_ACCESS_NAMES_def NETWORK_ACCESS_NAMES_def)

lemma fs_unknown_bits_code [code]: "fs_unknown_bits a = fs_bits a AND - 131072"
  by (simp add: fs_unknown_bits_def unknown_bits_def table_bits_def FILESYSTEM_ACCESS_NAMES_def)

subsection \<open>Fixtures\<close>

definition seconds :: "u64 \<Rightarrow> kernel_timestamp" where
  "seconds n = KernelTimestamp (n * 1000000000)"

definition bt_parent :: "u64 option \<Rightarrow> domain_id option option" where
  "bt_parent offset = (case offset of None \<Rightarrow> Some None | Some q \<Rightarrow> map_option Some (t_domain q))"

definition bt_flagged_context :: "u64 \<Rightarrow> u64 option \<Rightarrow> u64 \<Rightarrow> bool \<Rightarrow> bool \<Rightarrow> denial_context option" where
  "bt_flagged_context domain_offset parent_offset cnt same lg = do {
     d \<leftarrow> t_domain domain_offset;
     p \<leftarrow> bt_parent parent_offset;
     tgid \<leftarrow> t_pid 10;
     comm \<leftarrow> t_command (lit ''creator'');
     Some \<lparr>hierarchy = \<lparr>h_domain_id = d, h_parent_id = p, h_creator_tgid = tgid, h_creator_comm = comm\<rparr>,
           cumulative_denial_count = cnt, same_exec = same, logged = lg\<rparr>
   }"

definition bt_context :: "u64 \<Rightarrow> u64 option \<Rightarrow> u64 \<Rightarrow> denial_context option" where
  "bt_context domain_offset parent_offset cnt =
     bt_flagged_context domain_offset parent_offset cnt True False"

definition fs_of_context ::
  "u64 \<Rightarrow> denial_context \<Rightarrow> blocker_type \<Rightarrow> u64 \<Rightarrow> u8 list \<Rightarrow> event option" where
  "fs_of_context secs c bt blockers path = do {
     p \<leftarrow> t_path path;
     Some (DenyAccessFs \<lparr>df_timestamp = seconds secs, df_context = c, df_blockers_type = bt,
       df_blockers_access = FilesystemAccess blockers, df_device = 1, df_inode = 2, df_pathname = p\<rparr>)
   }"

definition bt_fs_type :: "u64 \<Rightarrow> blocker_type \<Rightarrow> u64 \<Rightarrow> string \<Rightarrow> event option" where
  "bt_fs_type secs bt blockers path = do {
     c \<leftarrow> bt_context 0x10 None secs;
     fs_of_context secs c bt blockers (lit path)
   }"

definition bt_fs :: "u64 \<Rightarrow> u64 \<Rightarrow> string \<Rightarrow> event option" where
  "bt_fs secs blockers path = bt_fs_type secs BT_FS_ACCESS blockers path"

definition bt_net :: "u64 \<Rightarrow> u64 \<Rightarrow> u64 \<Rightarrow> u64 \<Rightarrow> u64 \<Rightarrow> event option" where
  "bt_net secs domain_offset access sport dport = do {
     c \<leftarrow> bt_context domain_offset None secs;
     Some (DenyAccessNet \<lparr>dn_timestamp = seconds secs, dn_context = c,
       dn_blockers_type = BT_NET_ACCESS, dn_blockers_access = NetworkAccess access,
       dn_source_port = sport, dn_destination_port = dport\<rparr>)
   }"

definition bt_create_domain ::
  "u64 \<Rightarrow> u64 \<Rightarrow> u64 \<Rightarrow> u64 \<Rightarrow> u64 option \<Rightarrow> u32 \<Rightarrow> u8 list \<Rightarrow> event option" where
  "bt_create_domain secs rid version did par tgid comm = do {
     r \<leftarrow> t_ruleset rid;
     d \<leftarrow> t_domain did;
     p \<leftarrow> bt_parent par;
     tgid \<leftarrow> t_pid tgid;
     comm \<leftarrow> t_command comm;
     Some (CreateDomain \<lparr>cd_timestamp = seconds secs, cd_ruleset_id = r,
       cd_ruleset_version = version, cd_domain_id = d, cd_parent_id = p, cd_creator_tgid = tgid,
       cd_creator_comm = comm\<rparr>)
   }"

definition bt_enforce :: "u64 \<Rightarrow> u32 \<Rightarrow> bool \<Rightarrow> bool \<Rightarrow> event option" where
  "bt_enforce secs thread complete nnp = do {
     d \<leftarrow> t_domain 0x10;
     t \<leftarrow> t_tid thread;
     Some (EnforceDomain \<lparr>ed_timestamp = seconds secs, ed_domain_id = d, ed_enforcing_tid = t,
       ed_complete = complete, ed_process_wide = True, ed_no_new_privs = nnp\<rparr>)
   }"

definition bt_signal :: "u64 \<Rightarrow> denial_context \<Rightarrow> domain_id \<Rightarrow> u32 \<Rightarrow> string \<Rightarrow> event option" where
  "bt_signal secs c target tpid comm = do {
     p \<leftarrow> t_pid tpid;
     cm \<leftarrow> t_command (lit comm);
     Some (DenyScopeSignal \<lparr>ds_timestamp = seconds secs, ds_context = c,
       ds_target_domain = Sandboxed target, ds_target_pid = p, ds_target_comm = cm\<rparr>)
   }"

text \<open>\<open>str::contains\<close>, and the lines of a sequence of events.\<close>

fun contains :: "string \<Rightarrow> string \<Rightarrow> bool" where
  "contains [] sub = (sub = [])"
| "contains (c # s) sub = (starts_with sub (c # s) \<or> contains s sub)"

definition line_of :: "string list \<Rightarrow> nat \<Rightarrow> string option" where
  "line_of ls i = (if i < length ls then Some (ls ! i) else None)"

fun process_all :: "batch \<Rightarrow> event list \<Rightarrow> batch \<times> string list" where
  "process_all b [] = (b, [])"
| "process_all b (e # es) =
     (let (b', ls) = process b e; (b'', ls') = process_all b' es in (b'', ls @ ls'))"

subsection \<open>Tests\<close>

definition non_denial_field_fallback_is_total :: test where
  "non_denial_field_fallback_is_total = do {
     d \<leftarrow> t_domain 1;
     assert_that (denial_fields
       (FreeDomain \<lparr>fd_timestamp = seconds 1, fd_domain_id = d, fd_denial_count = 0\<rparr>) = None)
   }"

definition lifecycle_records_are_identity_deduplicated_and_accept_late_objects :: test where
  "lifecycle_records_are_identity_deduplicated_and_accept_late_objects = do {
     create \<leftarrow> bt_create_domain 1 0x20 3 0x10 None 42 (lit ''shell'');
     let (b, ls) = process batch_new create;
     assert_eq ls
       [''DOMAIN domain=100000010 parent=0 ruleset=100000020.3 creator=shell[42] no_new_privs=?'',
        ''STATS domains=1/1 denials=0 (fs=0 net=0 ptrace=0 signal=0 abstract_unix=0)''];
     let (b, ls) = process b create;
     assert_eq ls [];
     late_create \<leftarrow> bt_create_domain 2 0x30 4 0x10 (Some 0x11) 43 (lit ''upgraded'');
     let (b, ls) = process b late_create;
     assert_eq ls
       [''DOMAIN domain=100000010 parent=100000011 ruleset=100000030.4 creator=upgraded[43] no_new_privs=?'',
        ''DOMAIN domain=100000011 parent=? ruleset=? creator=? no_new_privs=?'',
        ''STATS domains=2/2 denials=0 (fs=0 net=0 ptrace=0 signal=0 abstract_unix=0)''];
     let (b, ls) = process b late_create;
     assert_eq ls [];
     r \<leftarrow> t_ruleset 0xAB;
     let late_free = FreeRuleset
       \<lparr>fr_timestamp = seconds 2, fr_ruleset_id = r, fr_ruleset_version = 7\<rparr>;
     let (b, ls) = process b late_free;
     assert_eq ls
       [''DROP_RULESET ruleset=1000000ab.7'',
        ''STATS domains=2/2 denials=0 (fs=0 net=0 ptrace=0 signal=0 abstract_unix=0)''];
     let (b, ls) = process b late_free;
     assert_eq ls [];
     d \<leftarrow> t_domain 0xCD;
     let (b, ls) = process b
       (FreeDomain \<lparr>fd_timestamp = seconds 3, fd_domain_id = d, fd_denial_count = 0\<rparr>);
     assert_eq ls
       [''DOMAIN domain=1000000cd parent=? ruleset=? creator=? no_new_privs=?'',
        ''STATS domains=2/3 denials=0 (fs=0 net=0 ptrace=0 signal=0 abstract_unix=0)'']
   }"

definition enforcement_reports_weakest_observed_no_new_privs_fact :: test where
  "enforcement_reports_weakest_observed_no_new_privs_fact = do {
     first \<leftarrow> bt_enforce 1 100 False True;
     weakest \<leftarrow> bt_enforce 2 101 True False;
     updated \<leftarrow> bt_enforce 3 101 True True;
     let (b, ls) = process batch_new first;
     assert_eq ls
       [''DOMAIN domain=100000010 parent=? ruleset=? creator=? no_new_privs=1'',
        ''STATS domains=1/1 denials=0 (fs=0 net=0 ptrace=0 signal=0 abstract_unix=0)''];
     let (b, ls) = process b weakest;
     assert_eq ls
       [''DOMAIN domain=100000010 parent=? ruleset=? creator=? no_new_privs=0'',
        ''STATS domains=1/1 denials=0 (fs=0 net=0 ptrace=0 signal=0 abstract_unix=0)''];
     let (b, ls) = process b updated;
     assert_eq ls
       [''DOMAIN domain=100000010 parent=? ruleset=? creator=? no_new_privs=1'',
        ''STATS domains=1/1 denials=0 (fs=0 net=0 ptrace=0 signal=0 abstract_unix=0)'']
   }"

definition all_denial_kinds_have_lines_relations_and_independent_counters :: test where
  "all_denial_kinds_have_lines_relations_and_independent_counters = do {
     e1 \<leftarrow> bt_fs 1 4 ''/tmp/file'';
     e2 \<leftarrow> bt_net 2 0x10 2 0 443;
     c3 \<leftarrow> bt_context 0x10 None 3;
     p20 \<leftarrow> t_pid 20;
     tracee \<leftarrow> t_command (lit ''tracee'');
     let e3 = DenyPtrace \<lparr>dp_timestamp = seconds 3, dp_context = c3, dp_tracee_domain = Unsandboxed,
       dp_tracee_pid = p20, dp_tracee_comm = tracee\<rparr>;
     c4 \<leftarrow> bt_context 0x10 None 4;
     d22 \<leftarrow> t_domain 0x22;
     e4 \<leftarrow> bt_signal 4 c4 d22 21 ''tar:get'';
     c5 \<leftarrow> bt_context 0x10 None 5;
     p22 \<leftarrow> t_pid 22;
     name \<leftarrow> t_abstract_name (lit ''service'' @ [0] @ lit ''v1'');
     let e5 = DenyScopeAbstractUnixSocket \<lparr>du_timestamp = seconds 5, du_context = c5,
       du_peer_domain = Unsandboxed, du_peer_pid = Some p22, du_abstract_name = name\<rparr>;
     let (b, ls) = process_all batch_new [e1, e2, e3, e4, e5];
     assert_eq (filter (starts_with ''DENIAL '') ls)
       [''DENIAL type=FS domain=100000010 blockers=FS:read_file target=/tmp/file count=1 age=0s same_exec=1 logged=0'',
        ''DENIAL type=NET domain=100000010 blockers=Net:connect_tcp target=dport:443 count=1 age=0s same_exec=1 logged=0'',
        ''DENIAL type=PTRACE domain=100000010 blockers=ptrace target=pid:20:tracee count=1 age=0s same_exec=1 logged=0 tracee_domain=0'',
        ''DENIAL type=SIGNAL domain=100000010 blockers=Scope:signal target=pid:21:tar'' @ [CHR 0x5C] @
          ''x3aget count=1 age=0s same_exec=1 logged=0 target_domain=100000022'',
        ''DENIAL type=ABSTRACT_UNIX domain=100000010 blockers=Scope:abstract_unix_socket target=@service'' @ [CHR 0x5C] @
          ''x00v1 count=1 age=0s same_exec=1 logged=0 peer_domain=0''];
     assert_that (ls \<noteq> []);
     assert_eq (last ls)
       ''STATS domains=2/2 denials=5 (fs=1 net=1 ptrace=1 signal=1 abstract_unix=1)''
   }"

definition denial_flags_are_rendered_exactly :: test where
  "denial_flags_are_rendered_exactly = do {
     c \<leftarrow> bt_flagged_context 0x10 None 1 False True;
     e \<leftarrow> fs_of_context 1 c BT_FS_ACCESS 4 (lit ''/tmp/file'');
     l \<leftarrow> line_of (snd (process batch_new e)) 1;
     assert_eq l
       ''DENIAL type=FS domain=100000010 blockers=FS:read_file target=/tmp/file count=1 age=0s same_exec=0 logged=1''
   }"

definition unknown_access_bits_are_numeric_alongside_semantic_names :: test where
  "unknown_access_bits_are_numeric_alongside_semantic_names = do {
     fs \<leftarrow> bt_fs 1 0x8000000000000004 ''/x'';
     let (b, ls) = process batch_new fs;
     l \<leftarrow> line_of ls 1;
     assert_that (contains l ''blockers=FS:read_file,0x8000000000000000'');
     network \<leftarrow> bt_net 2 0x10 0x8000000000000001 7 9;
     let (b, ls) = process b network;
     l \<leftarrow> line_of ls 0;
     assert_that (contains l ''blockers=Net:bind_tcp,0x8000000000000000'')
   }"

definition backslash :: "string \<Rightarrow> string" where
  "backslash s = CHR 0x5C # s"

text \<open>The three parts of the next test: a path, an omitted path and a creator.\<close>

definition escaped_path :: test where
  "escaped_path = do {
     path \<leftarrow> t_path (lit ''safe/path A=%,'' @ [0x5C, 0x0A, 0x1B, 0xFF]);
     assert_eq (escape path)
       (''safe/path'' @ backslash ''x20'' @ ''A'' @ backslash ''x3d'' @ backslash ''x25'' @
        backslash ''x2c'' @ backslash ''x5c'' @ backslash ''x0a'' @ backslash ''x1b'' @
        backslash ''xff'')
   }"

definition escaped_omission :: test where
  "escaped_omission = do {
     omitted \<leftarrow> unwrap (captured_new pathname_consts (replicate 256 0x70) True ::
       captured_bytes_error + captured_path);
     assert_eq (escape omitted) (replicate 256 (CHR ''p'') @ ellipsis)
   }"

definition escaped_creator :: test where
  "escaped_creator = do {
     create \<leftarrow> bt_create_domain 1 1 0 2 None 3 (lit ''a b]'' @ [0x5C, 0x1B]);
     l \<leftarrow> line_of (snd (process batch_new create)) 0;
     assert_that (contains l
       (''creator=a'' @ backslash ''x20'' @ ''b'' @ backslash ''x5d'' @ backslash ''x5c'' @
        backslash ''x1b'' @ ''[3]''))
   }"

definition kernel_bytes_are_escaped_without_utf8_or_terminal_interpretation :: test where
  "kernel_bytes_are_escaped_without_utf8_or_terminal_interpretation = do {
     escaped_path;
     escaped_omission;
     escaped_creator
   }"

definition blocker_types_are_not_access_masks :: test where
  "blocker_types_are_not_access_masks = do {
     e1 \<leftarrow> bt_fs_type 1 BT_FS_CHANGE_TOPOLOGY 0 ''/'';
     let (b, topology) = process batch_new e1;
     e2 \<leftarrow> bt_fs_type 2 (BlockerType 0xFEED) 4 ''/unknown'';
     let (b, unknown) = process b e2;
     assert_that (list_ex (\<lambda>l. contains l ''blockers=FS:change_topology target=/'') topology);
     assert_that (list_ex (\<lambda>l. contains l ''blockers=FS:request_type=0xfeed,access=0x4'') unknown);
     assert_eq (filesystem_blockers_text (classify BT_FS_CHANGE_TOPOLOGY (FilesystemAccess 4)))
       ''FS:change_topology,access=0x4'';
     assert_eq (network_blockers (BlockerType 0xBEEF) (NetworkAccess 2))
       ''Net:request_type=0xbeef,access=0x2''
   }"

definition network_target_direction_comes_from_access_even_for_zero_ports :: test where
  "network_target_direction_comes_from_access_even_for_zero_ports = do {
     bind \<leftarrow> bt_net 1 1 4 0 99;
     let (b, ls) = process batch_new bind;
     l \<leftarrow> line_of ls 1;
     assert_that (contains l ''target=sport:0'');
     connect \<leftarrow> bt_net 2 1 8 99 0;
     let (b, ls) = process b connect;
     l \<leftarrow> line_of ls 0;
     assert_that (contains l ''target=dport:0'');
     unknown \<leftarrow> bt_net 3 1 0x8000000000000000 7 8;
     let (b, ls) = process b unknown;
     l \<leftarrow> line_of ls 0;
     assert_that (contains l ''target=sport:7,dport:8'')
   }"

definition aggregation_updates_count_age_and_latest_flags :: test where
  "aggregation_updates_count_age_and_latest_flags = do {
     e1 \<leftarrow> bt_fs 2 4 ''/same'';
     e2 \<leftarrow> bt_fs 67 4 ''/new-description'';
     let (b, _) = process batch_new e1;
     let (b, ls) = process b e2;
     l0 \<leftarrow> line_of ls 0;
     l1 \<leftarrow> line_of ls 1;
     assert_that (contains l0 ''count=2 age=1m5s same_exec=1 logged=0'');
     assert_that (contains l0 ''target=/new-description'');
     assert_that (contains l1 ''denials=2 (fs=2'');
     e3 \<leftarrow> bt_fs 67 4 ''/same'';
     let (b, _) = process batch_new e3;
     let (b, ls) = process b e1;
     l0 \<leftarrow> line_of ls 0;
     assert_that (contains l0 ''count=2 age=0s same_exec=1 logged=0'')
   }"

definition irrelevant_events_are_silent_and_stats_use_reconstructed_lifecycle :: test where
  "irrelevant_events_are_silent_and_stats_use_reconstructed_lifecycle = do {
     c \<leftarrow> bt_context 1 None 1;
     d1 \<leftarrow> t_domain 1;
     d2 \<leftarrow> t_domain 2;
     relational \<leftarrow> bt_signal 2 c d2 3 ''target'';
     let (b, ls) = process batch_new relational;
     assert_eq ls
       [''DOMAIN domain=100000001 parent=0 ruleset=? creator=creator[10] no_new_privs=?'',
        ''DOMAIN domain=100000002 parent=? ruleset=? creator=? no_new_privs=?'',
        ''DENIAL type=SIGNAL domain=100000001 blockers=Scope:signal target=pid:3:target count=1 age=0s same_exec=1 logged=0 target_domain=100000002'',
        ''STATS domains=2/2 denials=1 (fs=0 net=0 ptrace=0 signal=1 abstract_unix=0)''];
     let (b, ls) = process b
       (FreeDomain \<lparr>fd_timestamp = seconds 3, fd_domain_id = d1, fd_denial_count = 1\<rparr>);
     assert_eq ls [''STATS domains=1/2 denials=1 (fs=0 net=0 ptrace=0 signal=1 abstract_unix=0)'']
   }"

definition output_and_flush_errors_are_propagated :: test where
  "output_and_flush_errors_are_propagated = do {
     e \<leftarrow> bt_fs 1 4 ''/x'';
     let (_, _, result) = process_and_write (\<lambda>w _. (w, Inr ())) (\<lambda>w. (w, Inl ''flush failed''))
       batch_new e ();
     assert_eq result (Inl ''flush failed'')
   }"

definition observed_stats_counters_saturate_independently :: test where
  "observed_stats_counters_saturate_independently = do {
     let s = stats_observe Fs \<lparr>total_denials = - 1, denials = [- 1, 7, 8, 9, 10]\<rparr>;
     assert_eq (total_denials s) (- 1);
     assert_eq (denials s) [- 1, 7, 8, 9, 10];
     assert_eq (denials (stats_observe Net s)) [- 1, 8, 8, 9, 10]
   }"

subsection \<open>All tests pass\<close>

lemma non_denial_field_fallback_is_total_passes:
  "non_denial_field_fallback_is_total = Some ()"
  by code_simp

lemma lifecycle_records_are_identity_deduplicated_and_accept_late_objects_passes:
  "lifecycle_records_are_identity_deduplicated_and_accept_late_objects = Some ()"
  by code_simp

lemma enforcement_reports_weakest_observed_no_new_privs_fact_passes:
  "enforcement_reports_weakest_observed_no_new_privs_fact = Some ()"
  by code_simp

lemma all_denial_kinds_have_lines_relations_and_independent_counters_passes:
  "all_denial_kinds_have_lines_relations_and_independent_counters = Some ()"
  by code_simp

lemma denial_flags_are_rendered_exactly_passes:
  "denial_flags_are_rendered_exactly = Some ()"
  by code_simp

lemma unknown_access_bits_are_numeric_alongside_semantic_names_passes:
  "unknown_access_bits_are_numeric_alongside_semantic_names = Some ()"
  by code_simp

lemma escaped_omission_passes: "escaped_omission = Some ()"
proof -
  have "escape_byte 0x70 = ''p''"
    by code_simp
  then have "concat (map escape_byte (replicate n 0x70)) = replicate n (CHR ''p'')" for n
    by (induction n) simp_all
  then show ?thesis
    by (simp add: escaped_omission_def captured_new_def captured_omission_def origin_consts_defs
        position_replicate escape_def assert_eq_def)
qed

lemma kernel_bytes_are_escaped_without_utf8_or_terminal_interpretation_passes:
  "kernel_bytes_are_escaped_without_utf8_or_terminal_interpretation = Some ()"
proof -
  have parts: "escaped_path = Some ()" "escaped_creator = Some ()"
    by code_simp+
  show ?thesis
    unfolding kernel_bytes_are_escaped_without_utf8_or_terminal_interpretation_def parts escaped_omission_passes
    by simp
qed

lemma blocker_types_are_not_access_masks_passes:
  "blocker_types_are_not_access_masks = Some ()"
  by code_simp

lemma network_target_direction_comes_from_access_even_for_zero_ports_passes:
  "network_target_direction_comes_from_access_even_for_zero_ports = Some ()"
  by code_simp

lemma aggregation_updates_count_age_and_latest_flags_passes:
  "aggregation_updates_count_age_and_latest_flags = Some ()"
  by code_simp

lemma irrelevant_events_are_silent_and_stats_use_reconstructed_lifecycle_passes:
  "irrelevant_events_are_silent_and_stats_use_reconstructed_lifecycle = Some ()"
  by code_simp

lemma output_and_flush_errors_are_propagated_passes:
  "output_and_flush_errors_are_propagated = Some ()"
  by code_simp

lemma observed_stats_counters_saturate_independently_passes:
  "observed_stats_counters_saturate_independently = Some ()"
  by code_simp

end
