(* ===== verification/Wire_Fixtures.thy ===== *)
theory Wire_Fixtures
  imports Unit_Tests Bpf_Records
begin

text \<open>
  The 24 record fixtures of \<open>tests/fixtures/wire\<close>, which the tests of \<open>src/wire.rs\<close> include, and the
  events that the test \<open>decodes_all_fixture_fields\<close> expects of them. A fixture is the content of a
  binary file, written as the blocks that are not zero and their offsets; the first alternative is
  the file of a little-endian producer, the second the file of a big-endian one. The files come from
  a generator that shares no code with the decoder, so the lemmas \<open>decode_fixture_\<dots>\<close> test the
  model of the decoder against independent data, in both byte orders.
\<close>

definition blank :: "u8 list" where
  "blank = replicate 352 0"

definition fixture_01 :: "endian \<Rightarrow> u8 list" where
  "fixture_01 en = stores
     (case en of
        LittleEndian \<Rightarrow>
        [(0, [1, 0, 0, 0, 0, 0, 0, 0x11]), (8, [1]), (16, [1, 0, 0, 0, 0, 0, 0, 0xA1]),
         (24, [1, 0, 0, 0x12, 1, 0, 0, 0x12]), (32, [5, 0, 1, 0x80, 0, 0, 0, 0x80]),
         (40, [0x0A, 0, 0, 0x80, 0, 0, 0, 0x80]), (48, [3, 0, 0, 0x80, 0, 0, 0, 0x80])]
      | BigEndian \<Rightarrow>
        [(0, [0x11, 0, 0, 0, 0, 0, 0, 1]), (8, [1]), (16, [0xA1, 0, 0, 0, 0, 0, 0, 1]),
         (24, [0x12, 0, 0, 1, 0x12, 0, 0, 1]), (32, [0x80, 0, 0, 0, 0x80, 1, 0, 5]),
         (40, [0x80, 0, 0, 0, 0x80, 0, 0, 0x0A]), (48, [0x80, 0, 0, 0, 0x80, 0, 0, 3])])
     blank"

definition fixture_02 :: "endian \<Rightarrow> u8 list" where
  "fixture_02 en = stores
     (case en of
        LittleEndian \<Rightarrow>
        [(0, [2, 0, 0, 0, 0, 0, 0, 0x22]), (8, [2]), (16, [2, 0, 0, 0, 0, 0, 0, 0xA2]),
         (24, [2, 0, 0, 0x23, 2, 0, 0, 0x23]), (32, [6, 0x40, 0, 0x80, 0, 0, 0, 0x80]),
         (40, [2, 0, 0, 0x34]), (44, [0]), (48, [2, 0, 0, 0, 0, 0, 0, 0x45]),
         (56, [0x2F, 0x66, 0x69, 0x78, 0x74, 0x75, 0x72, 0x65, 0x2F, 0xFF, 0x1B, 0, 0x69, 0x67, 0x6E, 0x6F, 0x72, 0x65, 0x64, 0x2D, 0x73, 0x75, 0x66, 0x66, 0x69, 0x78] @ replicate 230 0x5A)]
      | BigEndian \<Rightarrow>
        [(0, [0x22, 0, 0, 0, 0, 0, 0, 2]), (8, [2]), (16, [0xA2, 0, 0, 0, 0, 0, 0, 2]),
         (24, [0x23, 0, 0, 2, 0x23, 0, 0, 2]), (32, [0x80, 0, 0, 0, 0x80, 0, 0x40, 6]),
         (40, [0x34, 0, 0, 2]), (44, [0]), (48, [0x45, 0, 0, 0, 0, 0, 0, 2]),
         (56, [0x2F, 0x66, 0x69, 0x78, 0x74, 0x75, 0x72, 0x65, 0x2F, 0xFF, 0x1B, 0, 0x69, 0x67, 0x6E, 0x6F, 0x72, 0x65, 0x64, 0x2D, 0x73, 0x75, 0x66, 0x66, 0x69, 0x78] @ replicate 230 0x5A)])
     blank"

definition fixture_03 :: "endian \<Rightarrow> u8 list" where
  "fixture_03 en = stores
     (case en of
        LittleEndian \<Rightarrow>
        [(0, [3, 0, 0, 0, 0, 0, 0, 0x33]), (8, [3]), (16, [3, 0, 0, 0, 0, 0, 0, 0xA3]),
         (24, [3, 0, 0, 0x34, 3, 0, 0, 0x34]), (32, [9, 0, 0, 0x80, 0, 0, 0, 0x80]),
         (40, [3, 0, 0, 0, 0, 0, 0, 0x56])]
      | BigEndian \<Rightarrow>
        [(0, [0x33, 0, 0, 0, 0, 0, 0, 3]), (8, [3]), (16, [0xA3, 0, 0, 0, 0, 0, 0, 3]),
         (24, [0x34, 0, 0, 3, 0x34, 0, 0, 3]), (32, [0x80, 0, 0, 0, 0x80, 0, 0, 9]),
         (40, [0x56, 0, 0, 0, 0, 0, 0, 3])])
     blank"

definition fixture_04 :: "endian \<Rightarrow> u8 list" where
  "fixture_04 en = stores
     (case en of
        LittleEndian \<Rightarrow>
        [(0, [4, 0, 0, 0, 0, 0, 0, 0x44]), (8, [4]), (16, [4, 0, 0, 0, 0, 0, 0, 0xA4]),
         (24, [4, 0, 0, 0x45, 4, 0, 0, 0x45]), (32, [4, 0, 0, 0, 0, 0, 0, 0xD4]),
         (40, [0, 0, 0, 0, 0, 0, 0, 0]), (48, [4, 0, 0, 0x56]),
         (52, [0x31, 0x35, 0x2D, 0x62, 0x79, 0x74, 0x65, 0x2D, 0x63, 0x6F, 0x6D, 0x6D, 0x61, 0x6E, 0x64, 0])]
      | BigEndian \<Rightarrow>
        [(0, [0x44, 0, 0, 0, 0, 0, 0, 4]), (8, [4]), (16, [0xA4, 0, 0, 0, 0, 0, 0, 4]),
         (24, [0x45, 0, 0, 4, 0x45, 0, 0, 4]), (32, [0xD4, 0, 0, 0, 0, 0, 0, 4]),
         (40, [0, 0, 0, 0, 0, 0, 0, 0]), (48, [0x56, 0, 0, 4]),
         (52, [0x31, 0x35, 0x2D, 0x62, 0x79, 0x74, 0x65, 0x2D, 0x63, 0x6F, 0x6D, 0x6D, 0x61, 0x6E, 0x64, 0])])
     blank"

definition fixture_05 :: "endian \<Rightarrow> u8 list" where
  "fixture_05 en = stores
     (case en of
        LittleEndian \<Rightarrow>
        [(0, [5, 0, 0, 0, 0, 0, 0, 0x55]), (8, [5]), (16, [5, 0, 0, 0, 0, 0, 0, 0xD0]),
         (24, [0, 0, 0, 0, 0, 0, 0, 0]), (32, [5, 0, 0, 0x51]),
         (36, [0x63, 0x72, 0x65, 0x61, 0x74, 0x6F, 0x72, 0x2D, 0x35, 0, 0x74, 0x61, 0x69, 0x6C, 0x21, 0x21]),
         (52, [3, 0, 0, 0]), (56, [5, 0, 0, 0, 0, 0, 0, 0xC1]),
         (64, [5, 0, 1, 0x80, 0, 0, 0, 0x80]), (72, [1]), (73, [0]), (80, [5, 0, 0, 0x72]),
         (84, [1]), (88, [5, 0, 0, 0, 0, 0, 0, 0x83]), (96, replicate 256 0x50)]
      | BigEndian \<Rightarrow>
        [(0, [0x55, 0, 0, 0, 0, 0, 0, 5]), (8, [5]), (16, [0xD0, 0, 0, 0, 0, 0, 0, 5]),
         (24, [0, 0, 0, 0, 0, 0, 0, 0]), (32, [0x51, 0, 0, 5]),
         (36, [0x63, 0x72, 0x65, 0x61, 0x74, 0x6F, 0x72, 0x2D, 0x35, 0, 0x74, 0x61, 0x69, 0x6C, 0x21, 0x21]),
         (52, [0, 0, 0, 3]), (56, [0xC1, 0, 0, 0, 0, 0, 0, 5]),
         (64, [0x80, 0, 0, 0, 0x80, 1, 0, 5]), (72, [1]), (73, [0]), (80, [0x72, 0, 0, 5]),
         (84, [1]), (88, [0x83, 0, 0, 0, 0, 0, 0, 5]), (96, replicate 256 0x50)])
     blank"

definition fixture_06 :: "endian \<Rightarrow> u8 list" where
  "fixture_06 en = stores
     (case en of
        LittleEndian \<Rightarrow>
        [(0, [6, 0, 0, 0, 0, 0, 0, 0x66]), (8, [6]), (16, [6, 0, 0, 0, 0, 0, 0, 0xD0]),
         (24, [6, 0, 0, 0, 0, 0, 0, 0xA0]), (32, [6, 0, 0, 0x51]),
         (36, [0x63, 0x72, 0x65, 0x61, 0x74, 0x6F, 0x72, 0x2D, 0x36, 0, 0x74, 0x61, 0x69, 0x6C, 0x21, 0x21]),
         (52, [4, 0, 0, 0]), (56, [6, 0, 0, 0, 0, 0, 0, 0xC1]),
         (64, [6, 0, 1, 0x80, 0, 0, 0, 0x80]), (72, [0]), (73, [1]),
         (80, [6, 0, 0, 0, 0, 0, 0, 0x74]), (88, [6, 0, 0, 0, 0, 0, 0, 0x85])]
      | BigEndian \<Rightarrow>
        [(0, [0x66, 0, 0, 0, 0, 0, 0, 6]), (8, [6]), (16, [0xD0, 0, 0, 0, 0, 0, 0, 6]),
         (24, [0xA0, 0, 0, 0, 0, 0, 0, 6]), (32, [0x51, 0, 0, 6]),
         (36, [0x63, 0x72, 0x65, 0x61, 0x74, 0x6F, 0x72, 0x2D, 0x36, 0, 0x74, 0x61, 0x69, 0x6C, 0x21, 0x21]),
         (52, [0, 0, 0, 4]), (56, [0xC1, 0, 0, 0, 0, 0, 0, 6]),
         (64, [0x80, 0, 0, 0, 0x80, 1, 0, 6]), (72, [0]), (73, [1]),
         (80, [0x74, 0, 0, 0, 0, 0, 0, 6]), (88, [0x85, 0, 0, 0, 0, 0, 0, 6])])
     blank"

definition fixture_07 :: "endian \<Rightarrow> u8 list" where
  "fixture_07 en = stores
     (case en of
        LittleEndian \<Rightarrow>
        [(0, [7, 0, 0, 0, 0, 0, 0, 0x77]), (8, [7]), (16, [7, 0, 0, 0, 0, 0, 0, 0xD0]),
         (24, [7, 0, 0, 0, 0, 0, 0, 0xA0]), (32, [7, 0, 0, 0x51]),
         (36, [0x63, 0x72, 0x65, 0x61, 0x74, 0x6F, 0x72, 0x2D, 0x37, 0, 0x74, 0x61, 0x69, 0x6C, 0x21, 0x21]),
         (52, [0, 0, 0, 0]), (56, [7, 0, 0, 0, 0, 0, 0, 0xC1]),
         (64, [7, 0, 1, 0x80, 0, 0, 0, 0x80]), (72, [1]), (73, [1]),
         (80, [0, 0, 0, 0, 0, 0, 0, 0]), (88, [7, 0, 0, 0x86]),
         (92, [0x70, 0x74, 0x72, 0x61, 0x63, 0x65, 0x2D, 0x74, 0x61, 0x72, 0x67, 0x65, 0x74, 0, 0x78, 0x79])]
      | BigEndian \<Rightarrow>
        [(0, [0x77, 0, 0, 0, 0, 0, 0, 7]), (8, [7]), (16, [0xD0, 0, 0, 0, 0, 0, 0, 7]),
         (24, [0xA0, 0, 0, 0, 0, 0, 0, 7]), (32, [0x51, 0, 0, 7]),
         (36, [0x63, 0x72, 0x65, 0x61, 0x74, 0x6F, 0x72, 0x2D, 0x37, 0, 0x74, 0x61, 0x69, 0x6C, 0x21, 0x21]),
         (52, [0, 0, 0, 0]), (56, [0xC1, 0, 0, 0, 0, 0, 0, 7]),
         (64, [0x80, 0, 0, 0, 0x80, 1, 0, 7]), (72, [1]), (73, [1]),
         (80, [0, 0, 0, 0, 0, 0, 0, 0]), (88, [0x86, 0, 0, 7]),
         (92, [0x70, 0x74, 0x72, 0x61, 0x63, 0x65, 0x2D, 0x74, 0x61, 0x72, 0x67, 0x65, 0x74, 0, 0x78, 0x79])])
     blank"

definition fixture_08 :: "endian \<Rightarrow> u8 list" where
  "fixture_08 en = stores
     (case en of
        LittleEndian \<Rightarrow>
        [(0, [8, 0, 0, 0, 0, 0, 0, 0x88]), (8, [8]), (16, [8, 0, 0, 0, 0, 0, 0, 0xD0]),
         (24, [8, 0, 0, 0, 0, 0, 0, 0xA0]), (32, [8, 0, 0, 0x51]),
         (36, [0x63, 0x72, 0x65, 0x61, 0x74, 0x6F, 0x72, 0x2D, 0x38, 0, 0x74, 0x61, 0x69, 0x6C, 0x21, 0x21]),
         (52, [0, 0, 0, 0]), (56, [8, 0, 0, 0, 0, 0, 0, 0xC1]),
         (64, [8, 0, 1, 0x80, 0, 0, 0, 0x80]), (72, [0]), (73, [0]),
         (80, [8, 0, 0, 0, 0, 0, 0, 0xE8]), (88, [8, 0, 0, 0x97]),
         (92, [0x73, 0x69, 0x67, 0x6E, 0x61, 0x6C, 0x2D, 0x74, 0x61, 0x72, 0x67, 0x65, 0x74, 0, 0x78, 0x79])]
      | BigEndian \<Rightarrow>
        [(0, [0x88, 0, 0, 0, 0, 0, 0, 8]), (8, [8]), (16, [0xD0, 0, 0, 0, 0, 0, 0, 8]),
         (24, [0xA0, 0, 0, 0, 0, 0, 0, 8]), (32, [0x51, 0, 0, 8]),
         (36, [0x63, 0x72, 0x65, 0x61, 0x74, 0x6F, 0x72, 0x2D, 0x38, 0, 0x74, 0x61, 0x69, 0x6C, 0x21, 0x21]),
         (52, [0, 0, 0, 0]), (56, [0xC1, 0, 0, 0, 0, 0, 0, 8]),
         (64, [0x80, 0, 0, 0, 0x80, 1, 0, 8]), (72, [0]), (73, [0]),
         (80, [0xE8, 0, 0, 0, 0, 0, 0, 8]), (88, [0x97, 0, 0, 8]),
         (92, [0x73, 0x69, 0x67, 0x6E, 0x61, 0x6C, 0x2D, 0x74, 0x61, 0x72, 0x67, 0x65, 0x74, 0, 0x78, 0x79])])
     blank"

definition fixture_09 :: "endian \<Rightarrow> u8 list" where
  "fixture_09 en = stores
     (case en of
        LittleEndian \<Rightarrow>
        [(0, [9, 0, 0, 0, 0, 0, 0, 0x99]), (8, [9]), (16, [9, 0, 0, 0, 0, 0, 0, 0xD0]),
         (24, [9, 0, 0, 0, 0, 0, 0, 0xA0]), (32, [9, 0, 0, 0x51]),
         (36, [0x31, 0x35, 0x2D, 0x62, 0x79, 0x74, 0x65, 0x2D, 0x63, 0x6F, 0x6D, 0x6D, 0x61, 0x6E, 0x64, 0]),
         (52, [0, 0, 0, 0]), (56, [9, 0, 0, 0, 0, 0, 0, 0xC1]),
         (64, [9, 0, 1, 0x80, 0, 0, 0, 0x80]), (72, [1]), (73, [0]),
         (80, [9, 0, 0, 0, 0, 0, 0, 0xE9]), (88, [9, 0, 0, 0xA8]), (92, [0x0A, 0, 0, 0]),
         (96, [0x73, 0x65, 0x72, 0x76, 0x69, 0x63, 0x65, 0, 0xFF, 0]), (106, replicate 97 0x5A)]
      | BigEndian \<Rightarrow>
        [(0, [0x99, 0, 0, 0, 0, 0, 0, 9]), (8, [9]), (16, [0xD0, 0, 0, 0, 0, 0, 0, 9]),
         (24, [0xA0, 0, 0, 0, 0, 0, 0, 9]), (32, [0x51, 0, 0, 9]),
         (36, [0x31, 0x35, 0x2D, 0x62, 0x79, 0x74, 0x65, 0x2D, 0x63, 0x6F, 0x6D, 0x6D, 0x61, 0x6E, 0x64, 0]),
         (52, [0, 0, 0, 0]), (56, [0xC1, 0, 0, 0, 0, 0, 0, 9]),
         (64, [0x80, 0, 0, 0, 0x80, 1, 0, 9]), (72, [1]), (73, [0]),
         (80, [0xE9, 0, 0, 0, 0, 0, 0, 9]), (88, [0xA8, 0, 0, 9]), (92, [0, 0, 0, 0x0A]),
         (96, [0x73, 0x65, 0x72, 0x76, 0x69, 0x63, 0x65, 0, 0xFF, 0]), (106, replicate 97 0x5A)])
     blank"

definition fixture_10 :: "endian \<Rightarrow> u8 list" where
  "fixture_10 en = stores
     (case en of
        LittleEndian \<Rightarrow>
        [(0, [0x0A, 0, 0, 0, 0, 0, 0, 0xAA]), (8, [0x0A]), (16, [0x0A, 0, 0, 0, 0, 0, 0, 0xDA]),
         (24, [0x0A, 0, 0, 0, 0, 0, 0, 0xAB])]
      | BigEndian \<Rightarrow>
        [(0, [0xAA, 0, 0, 0, 0, 0, 0, 0x0A]), (8, [0x0A]), (16, [0xDA, 0, 0, 0, 0, 0, 0, 0x0A]),
         (24, [0xAB, 0, 0, 0, 0, 0, 0, 0x0A])])
     blank"

definition fixture_11 :: "endian \<Rightarrow> u8 list" where
  "fixture_11 en = stores
     (case en of
        LittleEndian \<Rightarrow>
        [(0, [0x0B, 0, 0, 0, 0, 0, 0, 0xBB]), (8, [0x0B]), (16, [0x0B, 0, 0, 0, 0, 0, 0, 0xAB]),
         (24, [0x0B, 0, 0, 0xBC, 0x0B, 0, 0, 0xBC])]
      | BigEndian \<Rightarrow>
        [(0, [0xBB, 0, 0, 0, 0, 0, 0, 0x0B]), (8, [0x0B]), (16, [0xAB, 0, 0, 0, 0, 0, 0, 0x0B]),
         (24, [0xBC, 0, 0, 0x0B, 0xBC, 0, 0, 0x0B])])
     blank"

definition fixture_12 :: "endian \<Rightarrow> u8 list" where
  "fixture_12 en = stores
     (case en of
        LittleEndian \<Rightarrow>
        [(0, [0x0C, 0, 0, 0, 0, 0, 0, 0xCC]), (8, [0x0C]), (16, [0x0C, 0, 0, 0, 0, 0, 0, 0xDC]),
         (24, [0x0C, 0, 0, 0xCD]), (28, [1]), (29, [0]), (30, [1])]
      | BigEndian \<Rightarrow>
        [(0, [0xCC, 0, 0, 0, 0, 0, 0, 0x0C]), (8, [0x0C]), (16, [0xDC, 0, 0, 0, 0, 0, 0, 0x0C]),
         (24, [0xCD, 0, 0, 0x0C]), (28, [1]), (29, [0]), (30, [1])])
     blank"

subsection \<open>Expected events\<close>

text \<open>\<open>DomainId::new(v).unwrap()\<close> on a literal, and \<open>context\<close> of the test module.\<close>

definition w_domain :: "u64 \<Rightarrow> domain_id option" where
  "w_domain v = unwrap (landlock_id_new v)"

definition w_ruleset :: "u64 \<Rightarrow> ruleset_id option" where
  "w_ruleset v = unwrap (landlock_id_new v)"

definition w_parent :: "u64 option \<Rightarrow> domain_id option option" where
  "w_parent v = (case v of None \<Rightarrow> Some None | Some p \<Rightarrow> map_option Some (w_domain p))"

definition w_context ::
  "u64 \<Rightarrow> u64 option \<Rightarrow> u32 \<Rightarrow> string \<Rightarrow> u64 \<Rightarrow> bool \<Rightarrow> bool \<Rightarrow> denial_context option" where
  "w_context domain_id parent_id creator_tgid creator_comm cnt same lg = do {
     d \<leftarrow> w_domain domain_id;
     p \<leftarrow> w_parent parent_id;
     tgid \<leftarrow> t_pid creator_tgid;
     comm \<leftarrow> t_command (lit creator_comm);
     Some \<lparr>hierarchy = \<lparr>h_domain_id = d, h_parent_id = p, h_creator_tgid = tgid, h_creator_comm = comm\<rparr>,
           cumulative_denial_count = cnt, same_exec = same, logged = lg\<rparr>
   }"

definition expected_01 :: "event option" where
  "expected_01 = do {
     r \<leftarrow> w_ruleset 0xA100000000000001;
     Some (CreateRuleset \<lparr>cr_timestamp = KernelTimestamp 0x1100000000000001, cr_ruleset_id = r,
       cr_ruleset_version = 0x1200000112000001, cr_handled_fs = FilesystemAccess 0x8000000080010005,
       cr_handled_net = NetworkAccess 0x800000008000000A, cr_scoped = ScopeAccess 0x8000000080000003\<rparr>)
   }"

definition expected_02 :: "event option" where
  "expected_02 = do {
     r \<leftarrow> w_ruleset 0xA200000000000002;
     path \<leftarrow> t_path (lit ''/fixture/'' @ [0xFF, 0x1B]);
     Some (AddRulePathBeneath \<lparr>ap_timestamp = KernelTimestamp 0x2200000000000002, ap_ruleset_id = r,
       ap_ruleset_version = 0x2300000223000002, ap_access_rights = FilesystemAccess 0x8000000080004006,
       ap_device = 0x34000002, ap_inode = 0x4500000000000002, ap_pathname = path\<rparr>)
   }"

definition expected_03 :: "event option" where
  "expected_03 = do {
     r \<leftarrow> w_ruleset 0xA300000000000003;
     Some (AddRuleNetPort \<lparr>an_timestamp = KernelTimestamp 0x3300000000000003, an_ruleset_id = r,
       an_ruleset_version = 0x3400000334000003, an_access_rights = NetworkAccess 0x8000000080000009,
       an_port = 0x5600000000000003\<rparr>)
   }"

definition expected_04 :: "event option" where
  "expected_04 = do {
     r \<leftarrow> w_ruleset 0xA400000000000004;
     d \<leftarrow> w_domain 0xD400000000000004;
     tgid \<leftarrow> t_pid 0x56000004;
     comm \<leftarrow> t_command (lit ''15-byte-command'');
     Some (CreateDomain \<lparr>cd_timestamp = KernelTimestamp 0x4400000000000004, cd_ruleset_id = r,
       cd_ruleset_version = 0x4500000445000004, cd_domain_id = d, cd_parent_id = None,
       cd_creator_tgid = tgid, cd_creator_comm = comm\<rparr>)
   }"

definition expected_05 :: "event option" where
  "expected_05 = do {
     c \<leftarrow> w_context 0xD000000000000005 None 0x51000005 ''creator-5'' 0xC100000000000005 True False;
     path \<leftarrow> unwrap (captured_new pathname_consts (replicate 256 0x50) True);
     Some (DenyAccessFs \<lparr>df_timestamp = KernelTimestamp 0x5500000000000005, df_context = c,
       df_blockers_type = BT_FS_ACCESS, df_blockers_access = FilesystemAccess 0x8000000080010005,
       df_device = 0x72000005, df_inode = 0x8300000000000005, df_pathname = path\<rparr>)
   }"

definition expected_06 :: "event option" where
  "expected_06 = do {
     c \<leftarrow> w_context 0xD000000000000006 (Some 0xA000000000000006) 0x51000006 ''creator-6''
       0xC100000000000006 False True;
     Some (DenyAccessNet \<lparr>dn_timestamp = KernelTimestamp 0x6600000000000006, dn_context = c,
       dn_blockers_type = BT_NET_ACCESS, dn_blockers_access = NetworkAccess 0x8000000080010006,
       dn_source_port = 0x7400000000000006, dn_destination_port = 0x8500000000000006\<rparr>)
   }"

definition expected_07 :: "event option" where
  "expected_07 = do {
     c \<leftarrow> w_context 0xD000000000000007 (Some 0xA000000000000007) 0x51000007 ''creator-7''
       0xC100000000000007 True True;
     tracee \<leftarrow> t_pid 0x86000007;
     comm \<leftarrow> t_command (lit ''ptrace-target'');
     Some (DenyPtrace \<lparr>dp_timestamp = KernelTimestamp 0x7700000000000007, dp_context = c,
       dp_tracee_domain = Unsandboxed, dp_tracee_pid = tracee, dp_tracee_comm = comm\<rparr>)
   }"

definition expected_08 :: "event option" where
  "expected_08 = do {
     c \<leftarrow> w_context 0xD000000000000008 (Some 0xA000000000000008) 0x51000008 ''creator-8''
       0xC100000000000008 False False;
     d \<leftarrow> w_domain 0xE800000000000008;
     target \<leftarrow> t_pid 0x97000008;
     comm \<leftarrow> t_command (lit ''signal-target'');
     Some (DenyScopeSignal \<lparr>ds_timestamp = KernelTimestamp 0x8800000000000008, ds_context = c,
       ds_target_domain = Sandboxed d, ds_target_pid = target, ds_target_comm = comm\<rparr>)
   }"

definition expected_09 :: "event option" where
  "expected_09 = do {
     c \<leftarrow> w_context 0xD000000000000009 (Some 0xA000000000000009) 0x51000009 ''15-byte-command''
       0xC100000000000009 True False;
     d \<leftarrow> w_domain 0xE900000000000009;
     peer \<leftarrow> t_pid 0xA8000009;
     name \<leftarrow> t_abstract_name (lit ''service'' @ [0, 0xFF, 0]);
     Some (DenyScopeAbstractUnixSocket \<lparr>du_timestamp = KernelTimestamp 0x9900000000000009,
       du_context = c, du_peer_domain = Sandboxed d, du_peer_pid = Some peer,
       du_abstract_name = name\<rparr>)
   }"

definition expected_10 :: "event option" where
  "expected_10 = do {
     d \<leftarrow> w_domain 0xDA0000000000000A;
     Some (FreeDomain \<lparr>fd_timestamp = KernelTimestamp 0xAA0000000000000A, fd_domain_id = d,
       fd_denial_count = 0xAB0000000000000A\<rparr>)
   }"

definition expected_11 :: "event option" where
  "expected_11 = do {
     r \<leftarrow> w_ruleset 0xAB0000000000000B;
     Some (FreeRuleset \<lparr>fr_timestamp = KernelTimestamp 0xBB0000000000000B, fr_ruleset_id = r,
       fr_ruleset_version = 0xBC00000BBC00000B\<rparr>)
   }"

definition expected_12 :: "event option" where
  "expected_12 = do {
     d \<leftarrow> w_domain 0xDC0000000000000C;
     thread \<leftarrow> t_tid 0xCD00000C;
     Some (EnforceDomain \<lparr>ed_timestamp = KernelTimestamp 0xCC0000000000000C, ed_domain_id = d,
       ed_enforcing_tid = thread, ed_complete = True, ed_process_wide = False,
       ed_no_new_privs = True\<rparr>)
   }"

subsection \<open>Decoding the fixtures\<close>

lemma length_blank [simp]: "length blank = 352"
  by (simp add: blank_def)

lemma captured_new_literal:
  "captured_ok K (CapturedBytes bs om :: 'k captured_bytes) \<Longrightarrow>
     captured_new K bs om = Inr (CapturedBytes bs om :: 'k captured_bytes)"
  by (simp add: captured_new_ok_iff)

lemma decode_framed:
  assumes "length r = 352" "slice_get r 8 = Some t" "slice_at r 0 8 ''timestamp'' = Inr bs"
    "length bs = 8"
  shows "decode en r = decode_body en r t (KernelTimestamp (from_ne_bytes en bs))"
  using assms by (simp add: decode_def reader_defs)

lemma from_ne_bytes_literal: "from_ne_bytes en (b # bs) = of_nat (le_value (ne_order en (b # bs)))"
  by (simp add: from_ne_bytes_def)

lemmas expected_eval = w_domain_def w_ruleset_def w_parent_def w_context_def fixture_defs
  landlock_id_new_def MIN_LANDLOCK_ID_def process_id_new_def thread_id_new_def captured_new_literal
  captured_ok_def origin_consts_defs blocker_type_defs

lemmas fixture_eval = decode_framed slice_at_stores slice_get_stores decode_body_def decode_arm_defs
  reader_defs wire_denial_context_def wire_id_def wire_parent_def wire_process_id_def
  wire_thread_id_def wire_domain_membership_def optional_process_id_def
  abstract_unix_socket_name_at_def captured_at_def captured_c_string_eq from_ne_bytes_literal ne_order_def

lemma decode_fixture_01: "map_option Inr expected_01 = Some (decode en (fixture_01 en))"
  by (cases en) (simp_all add: fixture_01_def expected_01_def expected_eval fixture_eval
      del: stores.simps)

lemma decode_fixture_02: "map_option Inr expected_02 = Some (decode en (fixture_02 en))"
  by (cases en) (simp_all add: fixture_02_def expected_02_def expected_eval fixture_eval
      del: stores.simps)

lemma decode_fixture_03: "map_option Inr expected_03 = Some (decode en (fixture_03 en))"
  by (cases en) (simp_all add: fixture_03_def expected_03_def expected_eval fixture_eval
      del: stores.simps)

lemma decode_fixture_04: "map_option Inr expected_04 = Some (decode en (fixture_04 en))"
  by (cases en) (simp_all add: fixture_04_def expected_04_def expected_eval fixture_eval
      del: stores.simps)

lemma decode_fixture_05: "map_option Inr expected_05 = Some (decode en (fixture_05 en))"
  by (cases en) (simp_all add: fixture_05_def expected_05_def expected_eval fixture_eval
      del: stores.simps)

lemma decode_fixture_06: "map_option Inr expected_06 = Some (decode en (fixture_06 en))"
  by (cases en) (simp_all add: fixture_06_def expected_06_def expected_eval fixture_eval
      del: stores.simps)

lemma decode_fixture_07: "map_option Inr expected_07 = Some (decode en (fixture_07 en))"
  by (cases en) (simp_all add: fixture_07_def expected_07_def expected_eval fixture_eval
      del: stores.simps)

lemma decode_fixture_08: "map_option Inr expected_08 = Some (decode en (fixture_08 en))"
  by (cases en) (simp_all add: fixture_08_def expected_08_def expected_eval fixture_eval
      del: stores.simps)

lemma decode_fixture_09: "map_option Inr expected_09 = Some (decode en (fixture_09 en))"
  by (cases en) (simp_all add: fixture_09_def expected_09_def expected_eval fixture_eval
      del: stores.simps)

lemma decode_fixture_10: "map_option Inr expected_10 = Some (decode en (fixture_10 en))"
  by (cases en) (simp_all add: fixture_10_def expected_10_def expected_eval fixture_eval
      del: stores.simps)

lemma decode_fixture_11: "map_option Inr expected_11 = Some (decode en (fixture_11 en))"
  by (cases en) (simp_all add: fixture_11_def expected_11_def expected_eval fixture_eval
      del: stores.simps)

lemma decode_fixture_12: "map_option Inr expected_12 = Some (decode en (fixture_12 en))"
  by (cases en) (simp_all add: fixture_12_def expected_12_def expected_eval fixture_eval
      del: stores.simps)

end
