(* ===== verification/Wire_Tests.thy ===== *)
theory Wire_Tests
  imports Wire_Fixtures Diagnostics Captured_Views
begin

text \<open>
  The unit tests of \<open>src/wire.rs\<close>, run on the decoder of \<open>Wire\<close> in both byte orders. They patch the
  fixtures at fixed offsets, as the sources do, and cover the accepted and the rejected values of
  every checked field: lengths, kinds, identifiers, task numbers, booleans, names and strings.
\<close>

definition FIXTURES :: "endian \<Rightarrow> u8 list list" where
  "FIXTURES en =
     [fixture_01 en, fixture_02 en, fixture_03 en, fixture_04 en, fixture_05 en, fixture_06 en,
      fixture_07 en, fixture_08 en, fixture_09 en, fixture_10 en, fixture_11 en, fixture_12 en]"

definition expected_events :: "event option list" where
  "expected_events =
     [expected_01, expected_02, expected_03, expected_04, expected_05, expected_06, expected_07,
      expected_08, expected_09, expected_10, expected_11, expected_12]"

text \<open>\<open>let Event::X(value) = decode(data).unwrap() else { panic!() }\<close>, one selector per family.\<close>

fun as_create_ruleset :: "event \<Rightarrow> create_ruleset_event option" where
  "as_create_ruleset (CreateRuleset v) = Some v"
| "as_create_ruleset _ = None"

fun as_add_rule_path_beneath :: "event \<Rightarrow> add_rule_path_beneath_event option" where
  "as_add_rule_path_beneath (AddRulePathBeneath v) = Some v"
| "as_add_rule_path_beneath _ = None"

fun as_add_rule_net_port :: "event \<Rightarrow> add_rule_net_port_event option" where
  "as_add_rule_net_port (AddRuleNetPort v) = Some v"
| "as_add_rule_net_port _ = None"

fun as_create_domain :: "event \<Rightarrow> create_domain_event option" where
  "as_create_domain (CreateDomain v) = Some v"
| "as_create_domain _ = None"

fun as_deny_access_fs :: "event \<Rightarrow> deny_access_fs_event option" where
  "as_deny_access_fs (DenyAccessFs v) = Some v"
| "as_deny_access_fs _ = None"

fun as_deny_access_net :: "event \<Rightarrow> deny_access_net_event option" where
  "as_deny_access_net (DenyAccessNet v) = Some v"
| "as_deny_access_net _ = None"

fun as_deny_ptrace :: "event \<Rightarrow> deny_ptrace_event option" where
  "as_deny_ptrace (DenyPtrace v) = Some v"
| "as_deny_ptrace _ = None"

fun as_deny_scope_signal :: "event \<Rightarrow> deny_scope_signal_event option" where
  "as_deny_scope_signal (DenyScopeSignal v) = Some v"
| "as_deny_scope_signal _ = None"

fun as_deny_scope_abstract_unix_socket :: "event \<Rightarrow> deny_scope_abstract_unix_socket_event option" where
  "as_deny_scope_abstract_unix_socket (DenyScopeAbstractUnixSocket v) = Some v"
| "as_deny_scope_abstract_unix_socket _ = None"

fun as_free_domain :: "event \<Rightarrow> free_domain_event option" where
  "as_free_domain (FreeDomain v) = Some v"
| "as_free_domain _ = None"

fun as_free_ruleset :: "event \<Rightarrow> free_ruleset_event option" where
  "as_free_ruleset (FreeRuleset v) = Some v"
| "as_free_ruleset _ = None"

fun as_enforce_domain :: "event \<Rightarrow> enforce_domain_event option" where
  "as_enforce_domain (EnforceDomain v) = Some v"
| "as_enforce_domain _ = None"

definition decoded :: "endian \<Rightarrow> (event \<Rightarrow> 'a option) \<Rightarrow> u8 list \<Rightarrow> 'a option" where
  "decoded en select data = Option.bind (unwrap (decode en data)) select"

subsection \<open>Whole records\<close>

text \<open>The timestamp through the concrete event type, against the one through the event enum.\<close>

fun concrete_timestamp :: "event \<Rightarrow> kernel_timestamp" where
  "concrete_timestamp (CreateRuleset v) = cr_timestamp v"
| "concrete_timestamp (AddRulePathBeneath v) = ap_timestamp v"
| "concrete_timestamp (AddRuleNetPort v) = an_timestamp v"
| "concrete_timestamp (CreateDomain v) = cd_timestamp v"
| "concrete_timestamp (DenyAccessFs v) = (let _ = df_context v in df_timestamp v)"
| "concrete_timestamp (DenyAccessNet v) = (let _ = dn_context v in dn_timestamp v)"
| "concrete_timestamp (DenyPtrace v) = (let _ = dp_context v in dp_timestamp v)"
| "concrete_timestamp (DenyScopeSignal v) = (let _ = ds_context v in ds_timestamp v)"
| "concrete_timestamp (DenyScopeAbstractUnixSocket v) = (let _ = du_context v in du_timestamp v)"
| "concrete_timestamp (FreeDomain v) = fd_timestamp v"
| "concrete_timestamp (FreeRuleset v) = fr_timestamp v"
| "concrete_timestamp (EnforceDomain v) = ed_timestamp v"

definition assert_concrete_trait_dispatch :: "event \<Rightarrow> test" where
  "assert_concrete_trait_dispatch e = assert_eq (timestamp e) (concrete_timestamp e)"

definition traits_dispatch_every_event_family :: "endian \<Rightarrow> test" where
  "traits_dispatch_every_event_family en = for_each (FIXTURES en) (\<lambda>fixture. do {
     e \<leftarrow> unwrap (decode en fixture);
     assert_concrete_trait_dispatch e
   })"

definition decodes_all_fixture_fields :: "endian \<Rightarrow> test" where
  "decodes_all_fixture_fields en =
     for_each (zip (FIXTURES en) expected_events) (\<lambda>(fixture, expected). do {
       e \<leftarrow> expected;
       v \<leftarrow> unwrap (decode en fixture);
       assert_eq (timestamp v) (timestamp e);
       assert_eq v e
     })"

definition requires_exact_record_length_before_kind :: "endian \<Rightarrow> test" where
  "requires_exact_record_length_before_kind en = do {
     assert_eq (decode en (take (RECORD_SIZE - 1) (fixture_01 en)))
       (Inl (LengthError RECORD_SIZE (RECORD_SIZE - 1)));
     assert_eq (decode en (fixture_01 en @ [0])) (Inl (LengthError RECORD_SIZE (RECORD_SIZE + 1)))
   }"

definition rejects_unknown_private_event_kind :: "endian \<Rightarrow> test" where
  "rejects_unknown_private_event_kind en = do {
     assert_eq (decode en (store TYPE_OFFSET [0xF3] (fixture_01 en))) (Inl (EventKindError 0xF3));
     assert_eq (display_decode_error (EventKindError 0xF3)) ''unrecognized event kind 243''
   }"

definition checked_field_errors_expose_only_semantic_context :: test where
  "checked_field_errors_expose_only_semantic_context = do {
     assert_eq (bytes_at 8 (replicate 7 0) 0 ''semantic_field'') (Inl (FieldError ''semantic_field''));
     assert_eq (bytes_at 1 [0] usize_max ''semantic_field'') (Inl (FieldError ''semantic_field''));
     assert_eq (display_decode_error (FieldError ''semantic_field'')) ''invalid field semantic_field''
   }"

subsection \<open>Fields\<close>

definition preserves_unknown_blocker_types :: "endian \<Rightarrow> test" where
  "preserves_unknown_blocker_types en = do {
     e \<leftarrow> decoded en as_deny_access_fs (store 52 (c_u32 en (- 1)) (fixture_05 en));
     assert_eq (raw (df_blockers_type e)) (- 1);
     assert_eq (fs_bits (df_blockers_access e)) 0x8000000080010005
   }"

definition decodes_both_no_new_privs_values :: "endian \<Rightarrow> test" where
  "decodes_both_no_new_privs_values en = do {
     one \<leftarrow> decoded en as_enforce_domain (fixture_12 en);
     assert_that (ed_no_new_privs one);
     zero \<leftarrow> decoded en as_enforce_domain (store 30 [0] (fixture_12 en));
     assert_that (\<not> ed_no_new_privs zero)
   }"

definition validates_id_boundaries_and_zero_sentinels :: "endian \<Rightarrow> test" where
  "validates_id_boundaries_and_zero_sentinels en = do {
     assert_eq (decode en (store 16 (c_u64 en 0xFFFFFFFF) (fixture_01 en)))
       (Inl (IdError ''ruleset_id'' 0xFFFFFFFF));
     assert_eq (display_decode_error (IdError ''ruleset_id'' 0xFFFFFFFF))
       ''invalid Landlock ID ruleset_id: 4294967295'';
     lowest \<leftarrow> decoded en as_create_ruleset (store 16 (c_u64 en 0x100000000) (fixture_01 en));
     assert_eq (id_get (cr_ruleset_id lowest)) 0x100000000;
     for_each [(fixture_04 en, 32, ''domain_id''), (fixture_06 en, 24, ''parent_id''),
         (fixture_08 en, 80, ''target_domain'')]
       (\<lambda>(fixture, offset, field).
         assert_eq (decode en (store offset (c_u64 en 1) fixture)) (Inl (IdError field 1)));
     root \<leftarrow> decoded en as_create_domain (store 40 (c_u64 en 0) (fixture_04 en));
     assert_eq (cd_parent_id root) None;
     unsandboxed \<leftarrow> decoded en as_deny_scope_signal (store 80 (c_u64 en 0) (fixture_08 en));
     assert_eq (ds_target_domain unsandboxed) Unsandboxed
   }"

definition validates_mandatory_task_ids_and_optional_peer_pid :: "endian \<Rightarrow> test" where
  "validates_mandatory_task_ids_and_optional_peer_pid en = do {
     for_each [(fixture_04 en, 48, ''creator_tgid''), (fixture_05 en, 32, ''creator_tgid''),
         (fixture_06 en, 32, ''creator_tgid''), (fixture_07 en, 32, ''creator_tgid''),
         (fixture_08 en, 32, ''creator_tgid''), (fixture_09 en, 32, ''creator_tgid''),
         (fixture_07 en, 88, ''tracee_pid''), (fixture_08 en, 88, ''target_pid''),
         (fixture_12 en, 24, ''enforcing_tid'')]
       (\<lambda>(fixture, offset, field).
         assert_eq (decode en (store offset (c_u32 en 0) fixture)) (Inl (TaskIdError field)));
     assert_eq (display_decode_error (TaskIdError ''tracee_pid'')) ''invalid task ID tracee_pid: 0'';
     e \<leftarrow> decoded en as_deny_scope_abstract_unix_socket (store 88 (c_u32 en 0) (fixture_09 en));
     assert_eq (du_peer_pid e) None
   }"

definition abstract_unix_socket_name_length_is_exact_and_bounded :: "endian \<Rightarrow> test" where
  "abstract_unix_socket_name_length_is_exact_and_bounded en = do {
     empty \<leftarrow> decoded en as_deny_scope_abstract_unix_socket (store 92 (c_u32 en 0) (fixture_09 en));
     assert_eq (as_bytes (du_abstract_name empty)) [];
     maximum \<leftarrow> decoded en as_deny_scope_abstract_unix_socket (store 96 (replicate 107 0xA5) (store 92 (c_u32 en 107) (fixture_09 en)));
     assert_eq (as_bytes (du_abstract_name maximum)) (replicate 107 0xA5);
     for_each [108, - 1] (\<lambda>invalid.
       assert_eq (decode en (store 92 (c_u32 en invalid) (fixture_09 en)))
         (Inl (AbstractUnixSocketNameLengthError invalid 107)))
   }"

definition rejects_every_invalid_boolean_value :: "endian \<Rightarrow> test" where
  "rejects_every_invalid_boolean_value en =
     for_each [(fixture_05 en, 72, ''same_exec''), (fixture_05 en, 73, ''logged''),
         (fixture_02 en, 44, ''pathname_bytes_omitted''),
         (fixture_05 en, 84, ''pathname_bytes_omitted''), (fixture_12 en, 28, ''complete''),
         (fixture_12 en, 29, ''process_wide''), (fixture_12 en, 30, ''no_new_privs'')]
       (\<lambda>(fixture, offset, field). for_each [2, 255] (\<lambda>v. do {
         assert_eq (decode en (store offset [v] fixture)) (Inl (BooleanError field v));
         assert_eq (display_decode_error (BooleanError field v))
           (''invalid boolean '' @ field @ '': '' @ dec (unat v))
       }))"

definition strings_preserve_bytes_and_bounds :: "endian \<Rightarrow> test" where
  "strings_preserve_bytes_and_bounds en = do {
     e \<leftarrow> decoded en as_add_rule_path_beneath (fixture_02 en);
     assert_eq (as_bytes (ap_pathname e)) (lit ''/fixture/'' @ [0xFF, 0x1B]);
     assert_that (\<not> bytes_omitted (ap_pathname e));
     assert_eq (to_string_lossy (ap_pathname e)) (ascii ''/fixture/'' @ [0xFFFD, 0x1B]);
     omitted \<leftarrow> decoded en as_deny_access_fs (fixture_05 en);
     assert_eq (as_bytes (df_pathname omitted)) (replicate PATH_SIZE 0x50);
     assert_that (bytes_omitted (df_pathname omitted));
     exact_fit \<leftarrow> decoded en as_add_rule_path_beneath (store 44 [0] (store 56 (replicate PATH_SIZE 0x45) (fixture_02 en)));
     assert_eq (as_bytes (ap_pathname exact_fit)) (replicate PATH_SIZE 0x45);
     assert_that (\<not> bytes_omitted (ap_pathname exact_fit));
     command \<leftarrow> decoded en as_create_domain (fixture_04 en);
     assert_eq (as_bytes (cd_creator_comm command)) (lit ''15-byte-command'');
     assert_that (\<not> bytes_omitted (cd_creator_comm command))
   }"

definition rejects_producer_impossible_fixed_captures :: "endian \<Rightarrow> test" where
  "rejects_producer_impossible_fixed_captures en = do {
     assert_eq (decode en (store 52 (replicate COMM_SIZE 0x43) (fixture_04 en)))
       (Inl (CapturedBytesError ''creator_comm'' (TooLong 16 15)));
     assert_eq (display_decode_error (CapturedBytesError ''creator_comm'' (TooLong 16 15)))
       ''invalid captured bytes for creator_comm: captured byte length 16 exceeds the maximum 15'';
     assert_eq (display_captured_bytes_error (TooLong 16 15))
       ''captured byte length 16 exceeds the maximum 15'';
     assert_eq (decode en (store 44 [1]
         (store 56 (lit ''short'') (store 56 (replicate PATH_SIZE 0) (fixture_02 en)))))
       (Inl (CapturedBytesError ''pathname'' (OmissionRequiresFullCapacity 5 256)))
   }"

subsection \<open>Accessors\<close>

definition assert_context ::
  "denial_context \<Rightarrow> u64 \<Rightarrow> u64 option \<Rightarrow> u32 \<Rightarrow> string \<Rightarrow> u64 \<Rightarrow> bool \<Rightarrow> bool \<Rightarrow> test" where
  "assert_context c domain_id parent_id creator_tgid creator_comm cnt same lg = do {
     d \<leftarrow> w_domain domain_id;
     assert_eq (h_domain_id (hierarchy c)) d;
     p \<leftarrow> w_parent parent_id;
     assert_eq (h_parent_id (hierarchy c)) p;
     assert_eq (pid_get (h_creator_tgid (hierarchy c))) creator_tgid;
     assert_eq (as_bytes (h_creator_comm (hierarchy c))) (lit creator_comm);
     assert_that (\<not> bytes_omitted (h_creator_comm (hierarchy c)));
     assert_eq (cumulative_denial_count c) cnt;
     assert_eq (same_exec c) same;
     assert_eq (logged c) lg
   }"

definition ruleset_accessors :: "endian \<Rightarrow> test" where
  "ruleset_accessors en = do {
     v1 \<leftarrow> decoded en as_create_ruleset (fixture_01 en);
     assert_eq (as_nanoseconds (cr_timestamp v1)) 0x1100000000000001;
     r1 \<leftarrow> w_ruleset 0xA100000000000001;
     assert_eq (cr_ruleset_id v1) r1;
     assert_eq (cr_ruleset_version v1) 0x1200000112000001;
     assert_eq (fs_bits (cr_handled_fs v1)) 0x8000000080010005;
     assert_eq (net_bits (cr_handled_net v1)) 0x800000008000000A;
     assert_eq (scope_bits (cr_scoped v1)) 0x8000000080000003;
     v2 \<leftarrow> decoded en as_add_rule_path_beneath (fixture_02 en);
     assert_eq (as_nanoseconds (ap_timestamp v2)) 0x2200000000000002;
     r2 \<leftarrow> w_ruleset 0xA200000000000002;
     assert_eq (ap_ruleset_id v2) r2;
     assert_eq (ap_ruleset_version v2) 0x2300000223000002;
     assert_eq (fs_bits (ap_access_rights v2)) 0x8000000080004006;
     assert_eq (ap_device v2) 0x34000002;
     assert_eq (ap_inode v2) 0x4500000000000002;
     assert_eq (as_bytes (ap_pathname v2)) (lit ''/fixture/'' @ [0xFF, 0x1B]);
     v3 \<leftarrow> decoded en as_add_rule_net_port (fixture_03 en);
     assert_eq (as_nanoseconds (an_timestamp v3)) 0x3300000000000003;
     r3 \<leftarrow> w_ruleset 0xA300000000000003;
     assert_eq (an_ruleset_id v3) r3;
     assert_eq (an_ruleset_version v3) 0x3400000334000003;
     assert_eq (net_bits (an_access_rights v3)) 0x8000000080000009;
     assert_eq (an_port v3) 0x5600000000000003
   }"

definition domain_create_accessors :: "endian \<Rightarrow> test" where
  "domain_create_accessors en = do {
     v \<leftarrow> decoded en as_create_domain (fixture_04 en);
     assert_eq (as_nanoseconds (cd_timestamp v)) 0x4400000000000004;
     r \<leftarrow> w_ruleset 0xA400000000000004;
     assert_eq (cd_ruleset_id v) r;
     assert_eq (cd_ruleset_version v) 0x4500000445000004;
     d \<leftarrow> w_domain 0xD400000000000004;
     assert_eq (cd_domain_id v) d;
     assert_eq (cd_parent_id v) None;
     assert_eq (pid_get (cd_creator_tgid v)) 0x56000004;
     assert_eq (as_bytes (cd_creator_comm v)) (lit ''15-byte-command'')
   }"

definition access_denial_accessors :: "endian \<Rightarrow> test" where
  "access_denial_accessors en = do {
     v5 \<leftarrow> decoded en as_deny_access_fs (fixture_05 en);
     assert_eq (as_nanoseconds (df_timestamp v5)) 0x5500000000000005;
     assert_context (df_context v5) 0xD000000000000005 None 0x51000005 ''creator-5''
       0xC100000000000005 True False;
     assert_eq (df_blockers_type v5) BT_FS_ACCESS;
     assert_eq (fs_bits (df_blockers_access v5)) 0x8000000080010005;
     assert_eq (df_device v5) 0x72000005;
     assert_eq (df_inode v5) 0x8300000000000005;
     assert_eq (as_bytes (df_pathname v5)) (replicate 256 0x50);
     v6 \<leftarrow> decoded en as_deny_access_net (fixture_06 en);
     assert_eq (as_nanoseconds (dn_timestamp v6)) 0x6600000000000006;
     assert_context (dn_context v6) 0xD000000000000006 (Some 0xA000000000000006) 0x51000006
       ''creator-6'' 0xC100000000000006 False True;
     assert_eq (dn_blockers_type v6) BT_NET_ACCESS;
     assert_eq (net_bits (dn_blockers_access v6)) 0x8000000080010006;
     assert_eq (dn_source_port v6) 0x7400000000000006;
     assert_eq (dn_destination_port v6) 0x8500000000000006
   }"

definition scope_denial_accessors :: "endian \<Rightarrow> test" where
  "scope_denial_accessors en = do {
     v7 \<leftarrow> decoded en as_deny_ptrace (fixture_07 en);
     assert_eq (as_nanoseconds (dp_timestamp v7)) 0x7700000000000007;
     assert_context (dp_context v7) 0xD000000000000007 (Some 0xA000000000000007) 0x51000007
       ''creator-7'' 0xC100000000000007 True True;
     assert_eq (dp_tracee_domain v7) Unsandboxed;
     assert_eq (pid_get (dp_tracee_pid v7)) 0x86000007;
     assert_eq (as_bytes (dp_tracee_comm v7)) (lit ''ptrace-target'');
     v8 \<leftarrow> decoded en as_deny_scope_signal (fixture_08 en);
     assert_eq (as_nanoseconds (ds_timestamp v8)) 0x8800000000000008;
     assert_context (ds_context v8) 0xD000000000000008 (Some 0xA000000000000008) 0x51000008
       ''creator-8'' 0xC100000000000008 False False;
     d8 \<leftarrow> w_domain 0xE800000000000008;
     assert_eq (ds_target_domain v8) (Sandboxed d8);
     assert_eq (pid_get (ds_target_pid v8)) 0x97000008;
     assert_eq (as_bytes (ds_target_comm v8)) (lit ''signal-target'');
     v9 \<leftarrow> decoded en as_deny_scope_abstract_unix_socket (fixture_09 en);
     assert_eq (as_nanoseconds (du_timestamp v9)) 0x9900000000000009;
     assert_context (du_context v9) 0xD000000000000009 (Some 0xA000000000000009) 0x51000009
       ''15-byte-command'' 0xC100000000000009 True False;
     d9 \<leftarrow> w_domain 0xE900000000000009;
     assert_eq (du_peer_domain v9) (Sandboxed d9);
     assert_eq (map_option pid_get (du_peer_pid v9)) (Some 0xA8000009);
     assert_eq (as_bytes (du_abstract_name v9)) (lit ''service'' @ [0, 0xFF, 0])
   }"

definition lifecycle_accessors :: "endian \<Rightarrow> test" where
  "lifecycle_accessors en = do {
     v10 \<leftarrow> decoded en as_free_domain (fixture_10 en);
     assert_eq (as_nanoseconds (fd_timestamp v10)) 0xAA0000000000000A;
     d10 \<leftarrow> w_domain 0xDA0000000000000A;
     assert_eq (fd_domain_id v10) d10;
     assert_eq (fd_denial_count v10) 0xAB0000000000000A;
     v11 \<leftarrow> decoded en as_free_ruleset (fixture_11 en);
     assert_eq (as_nanoseconds (fr_timestamp v11)) 0xBB0000000000000B;
     r11 \<leftarrow> w_ruleset 0xAB0000000000000B;
     assert_eq (fr_ruleset_id v11) r11;
     assert_eq (fr_ruleset_version v11) 0xBC00000BBC00000B;
     v12 \<leftarrow> decoded en as_enforce_domain (fixture_12 en);
     assert_eq (as_nanoseconds (ed_timestamp v12)) 0xCC0000000000000C;
     d12 \<leftarrow> w_domain 0xDC0000000000000C;
     assert_eq (ed_domain_id v12) d12;
     assert_eq (tid_get (ed_enforcing_tid v12)) 0xCD00000C;
     assert_that (ed_complete v12);
     assert_that (\<not> ed_process_wide v12);
     assert_that (ed_no_new_privs v12)
   }"

definition decoded_public_accessors :: "endian \<Rightarrow> test" where
  "decoded_public_accessors en = do {
     ruleset_accessors en;
     domain_create_accessors en;
     access_denial_accessors en;
     scope_denial_accessors en;
     lifecycle_accessors en
   }"

subsection \<open>All tests pass\<close>

lemma decode_fixture:
  assumes "map_option Inr expected = Some (decode en data)"
  shows "decode en data = Inr (the expected)"
  using assms by auto

lemmas decode_fixtures = decode_fixture_01 [THEN decode_fixture] decode_fixture_02 [THEN decode_fixture]
  decode_fixture_03 [THEN decode_fixture] decode_fixture_04 [THEN decode_fixture]
  decode_fixture_05 [THEN decode_fixture] decode_fixture_06 [THEN decode_fixture]
  decode_fixture_07 [THEN decode_fixture] decode_fixture_08 [THEN decode_fixture]
  decode_fixture_09 [THEN decode_fixture] decode_fixture_10 [THEN decode_fixture]
  decode_fixture_11 [THEN decode_fixture] decode_fixture_12 [THEN decode_fixture]

lemmas expected_events_defs = expected_01_def expected_02_def expected_03_def expected_04_def
  expected_05_def expected_06_def expected_07_def expected_08_def expected_09_def expected_10_def
  expected_11_def expected_12_def

lemmas fixtures_defs = fixture_01_def fixture_02_def fixture_03_def fixture_04_def fixture_05_def
  fixture_06_def fixture_07_def fixture_08_def fixture_09_def fixture_10_def fixture_11_def
  fixture_12_def

lemmas test_eval = assert_eq_def decoded_def decode_fixtures expected_events_defs expected_eval

lemma traits_dispatch_every_event_family_passes: "traits_dispatch_every_event_family en = Some ()"
  by (simp add: traits_dispatch_every_event_family_def FIXTURES_def assert_concrete_trait_dispatch_def
      test_eval)

lemma decodes_all_fixture_fields_passes: "decodes_all_fixture_fields en = Some ()"
  by (simp add: decodes_all_fixture_fields_def FIXTURES_def expected_events_def test_eval)

lemma ruleset_accessors_pass: "ruleset_accessors en = Some ()"
  by (simp add: ruleset_accessors_def test_eval)

lemma domain_create_accessors_pass: "domain_create_accessors en = Some ()"
  by (simp add: domain_create_accessors_def test_eval)

lemma access_denial_accessors_pass: "access_denial_accessors en = Some ()"
  by (simp add: access_denial_accessors_def assert_context_def test_eval)

lemma scope_denial_accessors_pass: "scope_denial_accessors en = Some ()"
  by (simp add: scope_denial_accessors_def assert_context_def test_eval)

lemma lifecycle_accessors_pass: "lifecycle_accessors en = Some ()"
  by (simp add: lifecycle_accessors_def test_eval)

lemma decoded_public_accessors_passes: "decoded_public_accessors en = Some ()"
  by (simp add: decoded_public_accessors_def ruleset_accessors_pass domain_create_accessors_pass
      access_denial_accessors_pass scope_denial_accessors_pass lifecycle_accessors_pass)

text \<open>The patched fixtures.\<close>

lemma length_fixtures [simp]:
  "length (fixture_01 en) = 352" "length (fixture_02 en) = 352" "length (fixture_03 en) = 352"
  "length (fixture_04 en) = 352" "length (fixture_05 en) = 352" "length (fixture_06 en) = 352"
  "length (fixture_07 en) = 352" "length (fixture_08 en) = 352" "length (fixture_09 en) = 352"
  "length (fixture_10 en) = 352" "length (fixture_11 en) = 352" "length (fixture_12 en) = 352"
  by (cases en; simp add: fixtures_defs del: stores.simps)+

lemma requires_exact_record_length_before_kind_passes:
  "requires_exact_record_length_before_kind en = Some ()"
  by (simp add: requires_exact_record_length_before_kind_def assert_eq_def decode_def RECORD_SIZE_def)

lemma slice_at_empty: "off \<le> length data \<Longrightarrow> off \<le> usize_max \<Longrightarrow> slice_at data off 0 f = Inr []"
  by (simp add: slice_at_def slice_range_def)

lemmas patch_eval = slice_at_empty assert_eq_def decoded_def expected_eval fixture_eval store_reads

lemma rejects_unknown_private_event_kind_passes: "rejects_unknown_private_event_kind en = Some ()"
  by (cases en) (simp_all add: rejects_unknown_private_event_kind_def fixture_01_def patch_eval number_texts
      del: stores.simps)

lemma checked_field_errors_expose_only_semantic_context_passes:
  "checked_field_errors_expose_only_semantic_context = Some ()"
  by (simp add: checked_field_errors_expose_only_semantic_context_def assert_eq_def bytes_at_def
      slice_at_def slice_range_def)

lemma preserves_unknown_blocker_types_passes: "preserves_unknown_blocker_types en = Some ()"
  by (cases en) (simp_all add: preserves_unknown_blocker_types_def fixture_05_def patch_eval del: stores.simps)

lemma decodes_both_no_new_privs_values_passes: "decodes_both_no_new_privs_values en = Some ()"
  by (cases en) (simp_all add: decodes_both_no_new_privs_values_def fixture_12_def patch_eval del: stores.simps)

lemma below_minimum_ruleset_id:
  "decode en (store 16 (c_u64 en 0xFFFFFFFF) (fixture_01 en)) = Inl (IdError ''ruleset_id'' 0xFFFFFFFF)"
  by (cases en) (simp_all add: fixture_01_def patch_eval one_below_minimum del: stores.simps)

lemma below_minimum_domain_id:
  "decode en (store 32 (c_u64 en 1) (fixture_04 en)) = Inl (IdError ''domain_id'' 1)"
  by (cases en) (simp_all add: fixture_04_def patch_eval one_below_minimum del: stores.simps)

lemma below_minimum_parent_id:
  "decode en (store 24 (c_u64 en 1) (fixture_06 en)) = Inl (IdError ''parent_id'' 1)"
  by (cases en) (simp_all add: fixture_06_def patch_eval one_below_minimum del: stores.simps)

lemma below_minimum_target_domain:
  "decode en (store 80 (c_u64 en 1) (fixture_08 en)) = Inl (IdError ''target_domain'' 1)"
  by (cases en) (simp_all add: fixture_08_def patch_eval one_below_minimum del: stores.simps)

lemma minimum_ruleset_id:
  "\<exists>v. decoded en as_create_ruleset (store 16 (c_u64 en 0x100000000) (fixture_01 en)) = Some v \<and> id_get (cr_ruleset_id v) = 0x100000000"
  by (cases en) (simp_all add: fixture_01_def patch_eval del: stores.simps)

lemma root_parent_id:
  "\<exists>v. decoded en as_create_domain (store 40 (c_u64 en 0) (fixture_04 en)) = Some v \<and> cd_parent_id v = None"
  by (cases en) (simp_all add: fixture_04_def patch_eval del: stores.simps)

lemma unsandboxed_target:
  "\<exists>v. decoded en as_deny_scope_signal (store 80 (c_u64 en 0) (fixture_08 en)) = Some v \<and> ds_target_domain v = Unsandboxed"
  by (cases en) (simp_all add: fixture_08_def patch_eval del: stores.simps)

lemmas id_checks = below_minimum_ruleset_id below_minimum_domain_id below_minimum_parent_id
  below_minimum_target_domain

lemma validates_id_boundaries_and_zero_sentinels_passes:
  "validates_id_boundaries_and_zero_sentinels en = Some ()"
  using minimum_ruleset_id [of en] root_parent_id [of en] unsandboxed_target [of en]
  by (auto simp: validates_id_boundaries_and_zero_sentinels_def assert_eq_def id_checks number_texts)

text \<open>A zero task number, one record at a time.\<close>

lemma zero_creator_tgid_04: "decode en (store 48 (c_u32 en 0) (fixture_04 en)) = Inl (TaskIdError ''creator_tgid'')"
  by (cases en) (simp_all add: fixture_04_def patch_eval del: stores.simps)

lemma zero_creator_tgid_05: "decode en (store 32 (c_u32 en 0) (fixture_05 en)) = Inl (TaskIdError ''creator_tgid'')"
  by (cases en) (simp_all add: fixture_05_def patch_eval del: stores.simps)

lemma zero_creator_tgid_06: "decode en (store 32 (c_u32 en 0) (fixture_06 en)) = Inl (TaskIdError ''creator_tgid'')"
  by (cases en) (simp_all add: fixture_06_def patch_eval del: stores.simps)

lemma zero_creator_tgid_07: "decode en (store 32 (c_u32 en 0) (fixture_07 en)) = Inl (TaskIdError ''creator_tgid'')"
  by (cases en) (simp_all add: fixture_07_def patch_eval del: stores.simps)

lemma zero_creator_tgid_08: "decode en (store 32 (c_u32 en 0) (fixture_08 en)) = Inl (TaskIdError ''creator_tgid'')"
  by (cases en) (simp_all add: fixture_08_def patch_eval del: stores.simps)

lemma zero_creator_tgid_09: "decode en (store 32 (c_u32 en 0) (fixture_09 en)) = Inl (TaskIdError ''creator_tgid'')"
  by (cases en) (simp_all add: fixture_09_def patch_eval del: stores.simps)

lemma zero_tracee_pid_07: "decode en (store 88 (c_u32 en 0) (fixture_07 en)) = Inl (TaskIdError ''tracee_pid'')"
  by (cases en) (simp_all add: fixture_07_def patch_eval del: stores.simps)

lemma zero_target_pid_08: "decode en (store 88 (c_u32 en 0) (fixture_08 en)) = Inl (TaskIdError ''target_pid'')"
  by (cases en) (simp_all add: fixture_08_def patch_eval del: stores.simps)

lemma zero_enforcing_tid_12: "decode en (store 24 (c_u32 en 0) (fixture_12 en)) = Inl (TaskIdError ''enforcing_tid'')"
  by (cases en) (simp_all add: fixture_12_def patch_eval del: stores.simps)

lemmas zero_task_ids = zero_creator_tgid_04 zero_creator_tgid_05 zero_creator_tgid_06 zero_creator_tgid_07
  zero_creator_tgid_08 zero_creator_tgid_09 zero_tracee_pid_07 zero_target_pid_08
  zero_enforcing_tid_12

lemma absent_peer_pid:
  "\<exists>v. decoded en as_deny_scope_abstract_unix_socket (store 88 (c_u32 en 0) (fixture_09 en)) = Some v \<and>
     du_peer_pid v = None"
  by (cases en) (simp_all add: fixture_09_def patch_eval del: stores.simps)

lemma validates_mandatory_task_ids_and_optional_peer_pid_passes:
  "validates_mandatory_task_ids_and_optional_peer_pid en = Some ()"
  using absent_peer_pid [of en]
  by (auto simp: validates_mandatory_task_ids_and_optional_peer_pid_def zero_task_ids assert_eq_def)

text \<open>Names by length.\<close>

lemma empty_name:
  "\<exists>v. decoded en as_deny_scope_abstract_unix_socket (store 92 (c_u32 en 0) (fixture_09 en)) = Some v \<and>
     as_bytes (du_abstract_name v) = []"
  by (cases en) (simp_all add: fixture_09_def patch_eval del: stores.simps)

lemma longest_name:
  "\<exists>v. decoded en as_deny_scope_abstract_unix_socket
       (store 96 (replicate 107 0xA5) (store 92 (c_u32 en 107) (fixture_09 en))) = Some v \<and>
     as_bytes (du_abstract_name v) = replicate 107 0xA5"
  by (cases en) (simp_all add: fixture_09_def patch_eval del: stores.simps)

lemma overlong_name:
  "107 < n \<Longrightarrow> decode en (store 92 (c_u32 en n) (fixture_09 en)) =
     Inl (AbstractUnixSocketNameLengthError n 107)"
  by (cases en) (simp_all add: fixture_09_def patch_eval del: stores.simps)

lemma abstract_unix_socket_name_length_is_exact_and_bounded_passes:
  "abstract_unix_socket_name_length_is_exact_and_bounded en = Some ()"
  using empty_name [of en] longest_name [of en]
  by (auto simp: abstract_unix_socket_name_length_is_exact_and_bounded_def assert_eq_def overlong_name)

text \<open>Any boolean byte other than 0 and 1 is rejected; the tests take 2 and 255.\<close>

lemma bad_same_exec_05:
  "1 < v \<Longrightarrow> decode en (store 72 [v] (fixture_05 en)) = Inl (BooleanError ''same_exec'' v)"
  by (cases en) (auto simp: fixture_05_def patch_eval simp del: stores.simps)

lemma bad_logged_05:
  "1 < v \<Longrightarrow> decode en (store 73 [v] (fixture_05 en)) = Inl (BooleanError ''logged'' v)"
  by (cases en) (auto simp: fixture_05_def patch_eval simp del: stores.simps)

lemma bad_pathname_bytes_omitted_02:
  "1 < v \<Longrightarrow> decode en (store 44 [v] (fixture_02 en)) = Inl (BooleanError ''pathname_bytes_omitted'' v)"
  by (cases en) (auto simp: fixture_02_def patch_eval simp del: stores.simps)

lemma bad_pathname_bytes_omitted_05:
  "1 < v \<Longrightarrow> decode en (store 84 [v] (fixture_05 en)) = Inl (BooleanError ''pathname_bytes_omitted'' v)"
  by (cases en) (auto simp: fixture_05_def patch_eval simp del: stores.simps)

lemma bad_complete_12:
  "1 < v \<Longrightarrow> decode en (store 28 [v] (fixture_12 en)) = Inl (BooleanError ''complete'' v)"
  by (cases en) (auto simp: fixture_12_def patch_eval simp del: stores.simps)

lemma bad_process_wide_12:
  "1 < v \<Longrightarrow> decode en (store 29 [v] (fixture_12 en)) = Inl (BooleanError ''process_wide'' v)"
  by (cases en) (auto simp: fixture_12_def patch_eval simp del: stores.simps)

lemma bad_no_new_privs_12:
  "1 < v \<Longrightarrow> decode en (store 30 [v] (fixture_12 en)) = Inl (BooleanError ''no_new_privs'' v)"
  by (cases en) (auto simp: fixture_12_def patch_eval simp del: stores.simps)

lemmas bad_booleans = bad_same_exec_05 bad_logged_05 bad_pathname_bytes_omitted_02
  bad_pathname_bytes_omitted_05 bad_complete_12 bad_process_wide_12
  bad_no_new_privs_12

lemma rejects_every_invalid_boolean_value_passes: "rejects_every_invalid_boolean_value en = Some ()"
  by (simp add: rejects_every_invalid_boolean_value_def bad_booleans assert_eq_def)

lemma exact_fit_path:
  "\<exists>v. decode en (store 44 [0] (store 56 (replicate PATH_SIZE 0x45) (fixture_02 en))) =
       Inr (AddRulePathBeneath v) \<and>
     ap_pathname v = CapturedBytes (replicate PATH_SIZE 0x45) False"
  by (cases en) (simp_all add: fixture_02_def patch_eval del: stores.simps)

lemma strings_preserve_bytes_and_bounds_passes: "strings_preserve_bytes_and_bounds en = Some ()"
  using exact_fit_path [of en]
  by (auto simp: strings_preserve_bytes_and_bounds_def test_eval PATH_SIZE_def to_string_lossy_def
      ascii_def invalid_len_def REPLACEMENT_CHARACTER_def)

lemma store_within:
  assumes "length bs \<le> length cs" "off + length cs \<le> length ev"
  shows "store off bs (store off cs ev) = store off (bs @ drop (length bs) cs) ev"
proof -
  have "length ev \<le> off \<Longrightarrow> cs = []"
    using assms by (cases cs) auto
  with assms show ?thesis
    by (auto simp: store_def min_def add.commute)
qed

lemma oversized_command:
  "decode en (store 52 (replicate COMM_SIZE 0x43) (fixture_04 en)) =
     Inl (CapturedBytesError ''creator_comm'' (TooLong 16 15))"
  by (cases en) (simp_all add: fixture_04_def patch_eval captured_new_def position_replicate
      del: stores.simps)

lemma short_omitted_path:
  "decode en (store 44 [1]
     (store 56 (lit ''short'') (store 56 (replicate PATH_SIZE 0) (fixture_02 en)))) =
   Inl (CapturedBytesError ''pathname'' (OmissionRequiresFullCapacity 5 256))"
proof -
  have "store 56 (lit ''short'') (store 56 (replicate PATH_SIZE 0) (fixture_02 en)) =
      store 56 (lit ''short'' @ replicate 251 0) (fixture_02 en)"
    by (simp add: store_within lit_def PATH_SIZE_def)
  then show ?thesis
    by (cases en) (simp_all add: fixture_02_def patch_eval captured_new_def captured_omission_def
        del: stores.simps)
qed

lemma rejects_producer_impossible_fixed_captures_passes:
  "rejects_producer_impossible_fixed_captures en = Some ()"
  by (simp add: rejects_producer_impossible_fixed_captures_def assert_eq_def oversized_command
      short_omitted_path number_texts)

end
