(* ===== verification/Collector_Tests.thy ===== *)
theory Collector_Tests
  imports Wire_Tests Builders
begin

text \<open>
  The unit tests of \<open>src/collector.rs\<close> on the delivery path, run on the model \<open>system\<close> of the two
  threads. Where a test starts a thread, the model takes the schedule that the test waits for; what it
  asserts of elapsed time and of the dropping of panic payloads is left out. The errors of the polling
  library are texts here.
\<close>

subsection \<open>Fixtures\<close>

type_synonym t_system = "string system"

definition fake_collector :: "nat \<Rightarrow> t_system" where
  "fake_collector capacity =
     \<lparr>sy_deliveries = sync_channel capacity, sy_terminal = sync_channel 1,
      sy_running = True, sy_output_full_pending = False, sy_callback_panic = None,
      sy_worker = WPoll, sy_pending_delivery = None, sy_consumer = CIdle,
      sy_history = [], sy_log = []\<rparr>"

text \<open>
  The test's worker function has the delivery sender and one of the two terminal senders; \<open>run_with\<close>
  keeps the other. There is no ring buffer.
\<close>

definition start_with_worker :: "nat \<Rightarrow> t_system" where
  "start_with_worker capacity =
     (fake_collector capacity)\<lparr>sy_terminal := ch_clone_sender (sync_channel 3)\<rparr>"

definition ct_event :: "u64 \<Rightarrow> event option" where
  "ct_event id_offset = do {
     r \<leftarrow> t_ruleset id_offset;
     Some (FreeRuleset
       \<lparr>fr_timestamp = KernelTimestamp id_offset, fr_ruleset_id = r, fr_ruleset_version = id_offset\<rparr>)
   }"

definition sample :: "endian \<Rightarrow> u64 \<Rightarrow> u8 list" where
  "sample en ts = store 0 (c_u64 en ts) (fixture_11 en)"

text \<open>A receive call from its start to its result, with no step of the worker in between.\<close>

definition receive :: "bool \<Rightarrow> t_system \<Rightarrow> t_system \<times> string outcome" where
  "receive timed s =
     (let s = recv_begin timed s;
          s = recv_terminal (sy_consumer s) s;
          s = recv_terminal (sy_consumer s) s
      in (s, last (sy_log s)))"

definition expect_event :: "bool \<Rightarrow> event \<Rightarrow> t_system \<Rightarrow> t_system option" where
  "expect_event timed e s = do {
     let (s, r) = receive timed s;
     assert_eq r (Delivered (Inr e));
     Some s
   }"

text \<open>The call returns an error of the collector of the given kind; the error is returned too.\<close>

definition expect_error ::
  "bool \<Rightarrow> receive_error_kind \<Rightarrow> t_system \<Rightarrow> (t_system \<times> string receive_error) option" where
  "expect_error timed k s = do {
     let (s, r) = receive timed s;
     er \<leftarrow> (case r of Delivered (Inl er) \<Rightarrow> Some er | Terminal er \<Rightarrow> Some er | _ \<Rightarrow> None);
     assert_eq (re_kind er) k;
     Some (s, er)
   }"

definition expect_nothing :: "bool \<Rightarrow> t_system \<Rightarrow> t_system option" where
  "expect_nothing timed s = do {
     let (s, r) = receive timed s;
     assert_eq r NotReady;
     Some s
   }"

text \<open>\<open>assert_eq!(queue.deliver(&running, &data), 0)\<close> for each sample.\<close>

fun deliver_all :: "endian \<Rightarrow> u8 list list \<Rightarrow> t_system \<Rightarrow> t_system option" where
  "deliver_all en [] s = Some s"
| "deliver_all en (data # rest) s = do {
     let (s, r) = deliver en s data;
     assert_eq r 0;
     deliver_all en rest s
   }"

definition next_entry :: "t_system \<Rightarrow> (t_system \<times> string delivery_entry) option" where
  "next_entry s = (case ch_try_recv (sy_deliveries s) of
       (c, RecvOk entry) \<Rightarrow> Some (s\<lparr>sy_deliveries := c\<rparr>, entry)
     | _ \<Rightarrow> None)"

definition send_entry :: "string delivery_entry \<Rightarrow> t_system \<Rightarrow> t_system option" where
  "send_entry entry s = do {
     let (c, r) = ch_try_send (sy_deliveries s) entry;
     assert_that (r = SendOk);
     Some (s\<lparr>sy_deliveries := c\<rparr>)
   }"

definition send_terminal :: "string receive_error \<Rightarrow> t_system \<Rightarrow> t_system option" where
  "send_terminal er s = do {
     let (c, r) = ch_try_send (sy_terminal s) er;
     assert_that (r = SendOk);
     Some (s\<lparr>sy_terminal := c\<rparr>)
   }"

definition drop_senders :: "t_system \<Rightarrow> t_system" where
  "drop_senders s = s\<lparr>sy_deliveries := ch_drop_sender (sy_deliveries s),
     sy_terminal := ch_drop_sender (sy_terminal s)\<rparr>"

text \<open>
  The worker function panics: unwinding drops its terminal sender and the delivery sender, which
  leaves \<open>run_with\<close> about to report; \<open>joined\<close> is the thread run to its end.
\<close>

fun worker_steps :: "nat \<Rightarrow> t_system \<Rightarrow> t_system option" where
  "worker_steps 0 s = Some s"
| "worker_steps (Suc n) s = Option.bind (worker_step s (sy_worker s)) (worker_steps n)"

definition torn_down :: "panic_payload \<Rightarrow> t_system \<Rightarrow> t_system option" where
  "torn_down payload s = worker_steps 2 (s\<lparr>sy_worker := WDropTerminal (Some payload)\<rparr>)"

definition joined :: "t_system \<Rightarrow> t_system option" where
  "joined s = do {
     s \<leftarrow> worker_steps 2 s;
     assert_that (sy_worker s = WDone);
     Some s
   }"

subsection \<open>Configuration\<close>

definition rejected_capacity :: "nat \<Rightarrow> test" where
  "rejected_capacity capacity =
     (case cb_build (cb_set_event_capacity capacity collector_config_builder) of
        Inr _ \<Rightarrow> None
      | Inl (InvalidEventCapacity configured) \<Rightarrow> do {
          assert_eq configured capacity;
          assert_eq MIN_EVENT_CAPACITY 1;
          assert_eq MAX_EVENT_CAPACITY 65536
        })"

definition capacities_are_validated_without_preparation :: test where
  "capacities_are_validated_without_preparation = do {
     for_each [0, MAX_EVENT_CAPACITY + 1, usize_max] rejected_capacity;
     for_each [1, MAX_EVENT_CAPACITY] (\<lambda>capacity. do {
       config \<leftarrow> unwrap (cb_build (cb_set_event_capacity capacity collector_config_builder));
       assert_eq (event_capacity config) capacity
     });
     assert_eq (event_capacity config_default) 1024
   }"

subsection \<open>The delivery queue\<close>

definition empty_and_timeout_are_distinct :: test where
  "empty_and_timeout_are_distinct = do {
     s \<leftarrow> expect_nothing False (fake_collector 1);
     expect_nothing True s;
     Some ()
   }"

fun entries_in_order :: "endian \<Rightarrow> u64 list \<Rightarrow> t_system \<Rightarrow> t_system option" where
  "entries_in_order en [] s = Some s"
| "entries_in_order en (ts # rest) s = do {
     (s, entry) \<leftarrow> next_entry s;
     assert_that (\<not> de_output_full_before entry);
     got \<leftarrow> unwrap (de_delivery entry);
     expected \<leftarrow> unwrap (decode en (sample en ts));
     assert_eq got expected;
     entries_in_order en rest s
   }"

definition capacity_n_preserves_accepted_delivery_order :: "endian \<Rightarrow> test" where
  "capacity_n_preserves_accepted_delivery_order en = do {
     s \<leftarrow> deliver_all en [sample en 1, sample en 2, sample en 3] (fake_collector 3);
     s \<leftarrow> deliver_all en [sample en 4] s;
     s \<leftarrow> entries_in_order en [1, 2, 3] s;
     assert_that (snd (ch_try_recv (sy_deliveries s)) = RecvEmpty);
     assert_that (sy_output_full_pending s)
   }"

definition capacity_one_pairs_notice_with_next_accepted_delivery :: "endian \<Rightarrow> test" where
  "capacity_one_pairs_notice_with_next_accepted_delivery en = do {
     s \<leftarrow> deliver_all en [sample en 1, sample en 2, sample en 3] (fake_collector 1);
     e1 \<leftarrow> unwrap (decode en (sample en 1));
     s \<leftarrow> expect_event False e1 s;
     s \<leftarrow> deliver_all en [sample en 4] s;
     assert_that (\<not> sy_output_full_pending s);
     (s, notice) \<leftarrow> expect_error False OutputQueueFull s;
     assert_eq (re_detail notice) (StaticDetail ''one or more delivery entries were omitted'');
     e4 \<leftarrow> unwrap (decode en (sample en 4));
     s \<leftarrow> expect_event False e4 s;
     expect_nothing False s;
     Some ()
   }"

definition malformed_samples_preserve_private_sources :: "endian \<Rightarrow> test" where
  "malformed_samples_preserve_private_sources en = do {
     s \<leftarrow> deliver_all en [[0], store 8 [0xFF] (sample en 1)] (fake_collector 2);
     (s, length_entry) \<leftarrow> next_entry s;
     (s, kind_entry) \<leftarrow> next_entry s;
     assert_eq (de_delivery length_entry)
       (Inl (ReceiveError MalformedSample (DecodeSource (LengthError RECORD_SIZE 1))));
     assert_eq (de_delivery kind_entry)
       (Inl (ReceiveError MalformedSample (DecodeSource (EventKindError 0xFF))));
     assert_eq (display_decode_error (EventKindError 0xFF)) ''unrecognized event kind 255''
   }"

definition paired_malformed_delivery_precedes_terminal_error :: "endian \<Rightarrow> test" where
  "paired_malformed_delivery_precedes_terminal_error en = do {
     s \<leftarrow> deliver_all en [sample en 1, sample en 2] (fake_collector 1);
     e1 \<leftarrow> unwrap (decode en (sample en 1));
     s \<leftarrow> expect_event False e1 s;
     s \<leftarrow> deliver_all en [[0]] s;
     s \<leftarrow> send_terminal (poll_failure ''fake poll failure'') s;
     let s = drop_senders s;
     (s, _) \<leftarrow> expect_error False OutputQueueFull s;
     (s, er) \<leftarrow> expect_error False MalformedSample s;
     assert_eq (re_detail er) (DecodeSource (LengthError RECORD_SIZE 1));
     expect_error False PollFailure s;
     Some ()
   }"

definition buffered_item_precedes_terminal_poll_error_and_stop :: test where
  "buffered_item_precedes_terminal_poll_error_and_stop = do {
     e \<leftarrow> ct_event 1;
     s \<leftarrow> send_entry \<lparr>de_delivery = Inr e, de_output_full_before = False\<rparr> (fake_collector 1);
     s \<leftarrow> send_terminal (poll_failure ''fake poll failure'') s;
     s \<leftarrow> expect_event False e (drop_senders s);
     (s, er) \<leftarrow> expect_error False PollFailure s;
     assert_eq (re_detail er) (PollSource ''fake poll failure'');
     (s, er) \<leftarrow> expect_error False WorkerStop s;
     assert_eq er worker_stop
   }"

definition queued_delivery_accepts_maximum_timeout :: test where
  "queued_delivery_accepts_maximum_timeout = do {
     e \<leftarrow> ct_event 1;
     s \<leftarrow> send_entry \<lparr>de_delivery = Inr e, de_output_full_before = False\<rparr> (fake_collector 1);
     expect_event True e s;
     Some ()
   }"

definition callback_stops_during_shutdown_and_disconnection_under_traffic :: "endian \<Rightarrow> test" where
  "callback_stops_during_shutdown_and_disconnection_under_traffic en = do {
     s \<leftarrow> deliver_all en (replicate 100 (fixture_11 en)) (fake_collector 8);
     let (s, r) = deliver en (s\<lparr>sy_running := False\<rparr>) (fixture_11 en);
     assert_eq r (- 1);
     let s = s\<lparr>sy_running := True, sy_deliveries := ch_drop_receiver (sy_deliveries s)\<rparr>;
     let (s, r) = deliver en s (fixture_11 en);
     assert_eq r (- 1);
     assert_that (\<not> sy_running s)
   }"

subsection \<open>Panics\<close>

definition callback_panic_is_retained_after_the_callback_returns :: test where
  "callback_panic_is_retained_after_the_callback_returns = do {
     let (s, result) = callback_panicked (StrPayload ''callback panic'') (fake_collector 1);
     assert_eq result (- 1);
     payload \<leftarrow> sy_callback_panic s;
     assert_eq (panic_message payload) (Some ''callback panic'');
     (s, _) \<leftarrow> report_callback_panic s;
     assert_that (sy_callback_panic s = None)
   }"

definition callback_panic_report_follows_pending_queue_loss :: test where
  "callback_panic_report_follows_pending_queue_loss = do {
     let (s, result) = callback_panicked (StrPayload ''callback panic'') (fake_collector 1);
     assert_eq result (- 1);
     (s, errors) \<leftarrow> report_callback_panic (s\<lparr>sy_output_full_pending := True\<rparr>);
     assert_that (\<not> sy_output_full_pending s);
     assert_eq (map re_kind errors) [OutputQueueFull, WorkerPanic];
     assert_eq (re_detail (last errors)) (PanicSource (Some ''callback panic''));
     assert_that (report_callback_panic s = None)
   }"

definition replacing_a_hostile_callback_payload_does_not_unwind :: test where
  "replacing_a_hostile_callback_payload_does_not_unwind = do {
     let (s, result) = callback_panicked OpaquePayload (fake_collector 1);
     assert_eq result (- 1);
     let (s, replacement) = callback_panicked (StrPayload ''replacement panic'') s;
     assert_eq replacement (- 1);
     payload \<leftarrow> sy_callback_panic s;
     assert_eq (panic_message payload) (Some ''replacement panic'')
   }"

definition worker_panic_follows_buffered_deliveries :: test where
  "worker_panic_follows_buffered_deliveries = do {
     e1 \<leftarrow> ct_event 1;
     e2 \<leftarrow> ct_event 2;
     s \<leftarrow> send_entry \<lparr>de_delivery = Inr e1, de_output_full_before = False\<rparr> (start_with_worker 2);
     s \<leftarrow> send_entry \<lparr>de_delivery = Inr e2, de_output_full_before = False\<rparr> s;
     s \<leftarrow> torn_down (StringPayload ''panic after deliveries'') s;
     s \<leftarrow> joined s;
     s \<leftarrow> expect_event True e1 s;
     s \<leftarrow> expect_event True e2 s;
     (s, er) \<leftarrow> expect_error True WorkerPanic s;
     assert_eq (re_detail er) (PanicSource (Some ''panic after deliveries''));
     expect_error False WorkerStop s;
     Some ()
   }"

definition terminal_poll_error_precedes_worker_panic :: test where
  "terminal_poll_error_precedes_worker_panic = do {
     s \<leftarrow> send_terminal (poll_failure ''fake poll failure'') (start_with_worker (event_capacity config_default));
     s \<leftarrow> torn_down (StrPayload ''panic after terminal error'') s;
     s \<leftarrow> joined s;
     (s, _) \<leftarrow> expect_error True PollFailure s;
     expect_error True WorkerPanic s;
     Some ()
   }"

text \<open>The worker is still being torn down: both senders of the worker function are gone.\<close>

definition disconnected_try_recv_does_not_join_unwinding_worker :: test where
  "disconnected_try_recv_does_not_join_unwinding_worker = do {
     s \<leftarrow> torn_down (StrPayload ''panic before delayed teardown'') (start_with_worker (event_capacity config_default));
     s \<leftarrow> expect_nothing False s;
     s \<leftarrow> joined s;
     (s, _) \<leftarrow> expect_error False WorkerPanic s;
     expect_error False WorkerStop s;
     Some ()
   }"

definition recv_timeout_budget_includes_unfinished_worker_teardown :: test where
  "recv_timeout_budget_includes_unfinished_worker_teardown = do {
     s \<leftarrow> torn_down (StrPayload ''panic before delayed teardown'') (start_with_worker (event_capacity config_default));
     s \<leftarrow> expect_nothing True s;
     s \<leftarrow> expect_nothing True s;
     s \<leftarrow> joined s;
     (s, er) \<leftarrow> expect_error True WorkerPanic s;
     assert_eq (re_detail er) (PanicSource (Some ''panic before delayed teardown''));
     expect_error True WorkerStop s;
     Some ()
   }"

definition opaque_panic_payload_is_dropped :: test where
  "opaque_panic_payload_is_dropped = do {
     s \<leftarrow> torn_down OpaquePayload (start_with_worker (event_capacity config_default));
     s \<leftarrow> joined s;
     (s, er) \<leftarrow> expect_error True WorkerPanic s;
     assert_eq (re_detail er) (PanicSource None);
     assert_eq (display_worker_panic None) ''collector worker panicked with an opaque payload''
   }"

text \<open>The second part drops the collector first; the report then has no receiver.\<close>

definition hostile_panic_payload_does_not_escape_receive_or_drop :: test where
  "hostile_panic_payload_does_not_escape_receive_or_drop = do {
     s \<leftarrow> torn_down OpaquePayload (start_with_worker (event_capacity config_default));
     s \<leftarrow> joined s;
     expect_error True WorkerPanic s;
     let s = drop_collector CIdle (start_with_worker (event_capacity config_default));
     let s = drop_collector (sy_consumer s) s;
     let s = drop_collector (sy_consumer s) s;
     assert_that (\<not> sy_running s);
     s \<leftarrow> torn_down OpaquePayload s;
     joined s;
     Some ()
   }"

subsection \<open>All tests pass\<close>

lemma decode_sample:
  "decode en (sample en ts) = Inr (FreeRuleset \<lparr>fr_timestamp = KernelTimestamp ts,
     fr_ruleset_id = LandlockId 0xAB0000000000000B, fr_ruleset_version = 0xBC00000BBC00000B\<rparr>)"
  by (cases en) (simp_all add: sample_def fixture_11_def patch_eval del: stores.simps)

lemma decode_unknown_kind: "decode en (store 8 [0xFF] (sample en ts)) = Inl (EventKindError 0xFF)"
  by (cases en) (simp_all add: sample_def fixture_11_def patch_eval del: stores.simps)

lemma decode_short: "decode en [0] = Inl (LengthError RECORD_SIZE 1)"
  by (simp add: decode_def RECORD_SIZE_def)

lemmas channel_defs = sync_channel_def ch_try_send_def ch_try_recv_def ch_clone_sender_def ch_drop_sender_def
  ch_drop_receiver_def

lemmas collector_eval = fake_collector_def start_with_worker_def receive_def expect_event_def expect_error_def
  expect_nothing_def next_entry_def send_entry_def send_terminal_def drop_senders_def torn_down_def joined_def
  channel_defs deliver_def deliver_entry_def delivery_of_def recv_begin_def unpair_def finish_call_def
  output_queue_full_def poll_failure_def worker_stop_def worker_receive_panic_def assert_eq_def Let_def
  numeral_2_eq_2 decode_sample decode_unknown_kind decode_short

lemma capacities_are_validated_without_preparation_passes:
  "capacities_are_validated_without_preparation = Some ()"
  by (simp add: capacities_are_validated_without_preparation_def rejected_capacity_def cb_build_def
      cb_set_event_capacity_def config_build_def MIN_EVENT_CAPACITY_def MAX_EVENT_CAPACITY_def
      config_default_def DEFAULT_EVENT_CAPACITY_def assert_eq_def)

lemma empty_and_timeout_are_distinct_passes: "empty_and_timeout_are_distinct = Some ()"
  by (simp add: empty_and_timeout_are_distinct_def collector_eval)

lemma capacity_n_preserves_accepted_delivery_order_passes:
  "capacity_n_preserves_accepted_delivery_order en = Some ()"
  by (simp add: capacity_n_preserves_accepted_delivery_order_def collector_eval)

lemma capacity_one_pairs_notice_with_next_accepted_delivery_passes:
  "capacity_one_pairs_notice_with_next_accepted_delivery en = Some ()"
  by (simp add: capacity_one_pairs_notice_with_next_accepted_delivery_def collector_eval)

lemma malformed_samples_preserve_private_sources_passes:
  "malformed_samples_preserve_private_sources en = Some ()"
proof -
  have "display_decode_error (EventKindError 0xFF) = ''unrecognized event kind 255''"
    by (simp add: number_texts)
  then show ?thesis
    by (simp add: malformed_samples_preserve_private_sources_def collector_eval del: display_decode_error.simps)
qed

lemma paired_malformed_delivery_precedes_terminal_error_passes:
  "paired_malformed_delivery_precedes_terminal_error en = Some ()"
  by (simp add: paired_malformed_delivery_precedes_terminal_error_def collector_eval)

lemma ct_event_Some: "ct_event 1 \<noteq> None" "ct_event 2 \<noteq> None"
  by code_simp+

lemma buffered_item_precedes_terminal_poll_error_and_stop_passes:
  "buffered_item_precedes_terminal_poll_error_and_stop = Some ()"
  using ct_event_Some(1)
  by (cases "ct_event 1") (simp_all add: buffered_item_precedes_terminal_poll_error_and_stop_def collector_eval)

lemma queued_delivery_accepts_maximum_timeout_passes: "queued_delivery_accepts_maximum_timeout = Some ()"
  using ct_event_Some(1)
  by (cases "ct_event 1") (simp_all add: queued_delivery_accepts_maximum_timeout_def collector_eval)

text \<open>Under traffic, a running collector accepts or omits every sample and keeps running.\<close>

lemma deliver_all_running:
  "sy_running s \<Longrightarrow> ch_receiver (sy_deliveries s) \<Longrightarrow>
     \<exists>s'. deliver_all en ds s = Some s' \<and> sy_running s' \<and> ch_receiver (sy_deliveries s')"
proof (induction ds arbitrary: s)
  case (Cons d ds)
  then obtain s1 where "deliver en s d = (s1, 0)" "sy_running s1" "ch_receiver (sy_deliveries s1)"
    by (cases "ch_capacity (sy_deliveries s) \<le> length (ch_buffer (sy_deliveries s))")
      (auto simp: deliver_def deliver_entry_def ch_try_send_def Let_def)
  with Cons.IH [of s1] show ?case
    by (simp add: assert_eq_def)
qed simp

lemma callback_stops_during_shutdown_and_disconnection_under_traffic_passes:
  "callback_stops_during_shutdown_and_disconnection_under_traffic en = Some ()"
proof -
  obtain s where "deliver_all en (replicate 100 (fixture_11 en)) (fake_collector 8) = Some s"
    using deliver_all_running [of "fake_collector 8" en "replicate 100 (fixture_11 en)"]
    by (auto simp: fake_collector_def sync_channel_def)
  then show ?thesis
    unfolding callback_stops_during_shutdown_and_disconnection_under_traffic_def
    by (simp add: deliver_def deliver_entry_def channel_defs assert_eq_def Let_def)
qed

lemma callback_panic_is_retained_after_the_callback_returns_passes:
  "callback_panic_is_retained_after_the_callback_returns = Some ()"
  by (simp add: callback_panic_is_retained_after_the_callback_returns_def callback_panicked_def
      report_callback_panic_def collector_eval)

lemma callback_panic_report_follows_pending_queue_loss_passes:
  "callback_panic_report_follows_pending_queue_loss = Some ()"
  by (simp add: callback_panic_report_follows_pending_queue_loss_def callback_panicked_def
      report_callback_panic_def collector_eval)

lemma replacing_a_hostile_callback_payload_does_not_unwind_passes:
  "replacing_a_hostile_callback_payload_does_not_unwind = Some ()"
  by (simp add: replacing_a_hostile_callback_payload_does_not_unwind_def callback_panicked_def collector_eval)

lemma worker_panic_follows_buffered_deliveries_passes: "worker_panic_follows_buffered_deliveries = Some ()"
  by code_simp

lemma terminal_poll_error_precedes_worker_panic_passes: "terminal_poll_error_precedes_worker_panic = Some ()"
  by (simp add: terminal_poll_error_precedes_worker_panic_def collector_eval)

lemma disconnected_try_recv_does_not_join_unwinding_worker_passes:
  "disconnected_try_recv_does_not_join_unwinding_worker = Some ()"
  by (simp add: disconnected_try_recv_does_not_join_unwinding_worker_def collector_eval)

lemma recv_timeout_budget_includes_unfinished_worker_teardown_passes:
  "recv_timeout_budget_includes_unfinished_worker_teardown = Some ()"
  by (simp add: recv_timeout_budget_includes_unfinished_worker_teardown_def collector_eval)

lemma opaque_panic_payload_is_dropped_passes: "opaque_panic_payload_is_dropped = Some ()"
  by code_simp

lemma hostile_panic_payload_does_not_escape_receive_or_drop_passes:
  "hostile_panic_payload_does_not_escape_receive_or_drop = Some ()"
  by (simp add: hostile_panic_payload_does_not_escape_receive_or_drop_def collector_eval)

end
