(* ===== verification/Privilege_Tests.thy ===== *)
theory Privilege_Tests
  imports Unit_Tests Privilege Diagnostics
begin

text \<open>
  The unit tests of \<open>src/privilege.rs\<close>, run on \<open>Privilege\<close>. The finalization is driven with fake
  operations that log themselves and fail at a chosen position; the tests against the running
  process are stated for every kernel and world, with what they arrange as a hypothesis.
\<close>

definition unwrap_err :: "'e + 'a \<Rightarrow> 'e option" where
  "unwrap_err r = (case r of Inl er \<Rightarrow> Some er | Inr _ \<Rightarrow> None)"

subsection \<open>Fake operations\<close>

datatype finalization_operation =
  CheckThread | ClearAmbient | ClearBounding | ClearCapabilities | Verify_op

record fake_finalization_ops =
  fake_operations :: "finalization_operation list"
  fake_fail_at :: "nat option"

definition fake_new :: "nat option \<Rightarrow> fake_finalization_ops" where
  "fake_new fail_at = \<lparr>fake_operations = [], fake_fail_at = fail_at\<rparr>"

definition perform :: "finalization_operation \<Rightarrow> (fake_finalization_ops, unit, unit, unit) io" where
  "perform operation w =
     (let w' = w\<lparr>fake_operations := fake_operations w @ [operation]\<rparr> in
      if fake_fail_at w' = Some (length (fake_operations w') - 1)
      then (w', Inl (message Transition ''injected finalization failure''))
      else (w', Inr ()))"

definition fake_ops :: "(fake_finalization_ops, unit, unit) finalization_ops" where
  "fake_ops =
     \<lparr>fo_check_thread = perform CheckThread, fo_clear_ambient = perform ClearAmbient,
      fo_clear_bounding = perform ClearBounding, fo_clear_capabilities = perform ClearCapabilities,
      fo_verify = perform Verify_op\<rparr>"

definition FINALIZATION_OPERATIONS :: "finalization_operation list" where
  "FINALIZATION_OPERATIONS =
     [CheckThread, ClearAmbient, CheckThread, ClearBounding, CheckThread, ClearCapabilities, Verify_op]"

subsection \<open>Tests\<close>

definition capability_bit_shifts_are_checked :: test where
  "capability_bit_shifts_are_checked = do {
     assert_that (capability (KNOWN_CAPABILITY_BITS - 1) \<noteq> None);
     assert_that (capability KNOWN_CAPABILITY_BITS = None);
     assert_that (capability (2 ^ 32 - 1) = None)
   }"

text \<open>\<open>os_tasks\<close> lists the threads: the test arranges for a second one.\<close>

definition detects_an_additional_thread :: "('w, 'io, 'n) os \<Rightarrow> 'w \<Rightarrow> test" where
  "detects_an_additional_thread k w = do {
     error \<leftarrow> unwrap_err (snd (check_single_threaded k w));
     assert_eq (pe_kind error) NotSingleThreaded
   }"

definition syscall_errors_retain_their_source :: "'n \<Rightarrow> test" where
  "syscall_errors_retain_their_source perm =
     (case pe_detail (transition_errno ''fake transition'' perm :: (unit, 'n) privilege_error) of
        Errno _ source \<Rightarrow> assert_eq source perm
      | _ \<Rightarrow> None)"

definition finalization_uses_the_required_order :: test where
  "finalization_uses_the_required_order = do {
     let (ops, policy, r) = finish_policy_with Minimized Explicit fake_ops (fake_new None);
     unwrap r;
     assert_eq (fake_operations ops) FINALIZATION_OPERATIONS;
     assert_that (policy = Finished)
   }"

definition failures_through_capability_removal_remain_retryable :: test where
  "failures_through_capability_removal_remain_retryable = for_each [0..<6] (\<lambda>fail_at. do {
     let (ops, policy, r) = finish_policy_with Minimized Explicit fake_ops (fake_new (Some fail_at));
     unwrap_err r;
     assert_eq (fake_operations ops) (take (fail_at + 1) FINALIZATION_OPERATIONS);
     assert_that (policy = Minimized)
   })"

definition verification_failure_is_not_retryable_by_preparation :: test where
  "verification_failure_is_not_retryable_by_preparation = do {
     let (ops, policy, r) = finish_policy_with Minimized Explicit fake_ops (fake_new (Some 6));
     unwrap_err r;
     assert_eq (fake_operations ops) FINALIZATION_OPERATIONS;
     assert_that (policy = VerificationPending)
   }"

definition non_reusable_privileges_reject_another_preparation :: test where
  "non_reusable_privileges_reject_another_preparation =
     for_each [VerificationPending, Finished] (\<lambda>policy. do {
       error \<leftarrow> unwrap_err (ensure_can_prepare policy :: (unit, unit) privilege_error + unit);
       assert_eq (pe_kind error) AlreadyFinalized;
       assert_eq (display_privilege_error (\<lambda>_. []) (\<lambda>_. []) error)
         (''failed to manage collector privileges: minimized privileges cannot be '' @
          ''reused after final capability removal'')
     })"

definition explicit_pending_finalization_does_not_retry_verification :: test where
  "explicit_pending_finalization_does_not_retry_verification = do {
     let (ops, policy, r) = finish_policy_with VerificationPending Explicit fake_ops (fake_new None);
     error \<leftarrow> unwrap_err r;
     assert_eq (pe_kind error) AlreadyFinalized;
     assert_that (fake_operations ops = []);
     assert_that (policy = VerificationPending)
   }"

definition cleanup_pending_retries_only_verification :: test where
  "cleanup_pending_retries_only_verification = do {
     let (ops, policy, r) = finish_policy_with VerificationPending Cleanup fake_ops (fake_new None);
     unwrap r;
     assert_eq (fake_operations ops) [Verify_op];
     assert_that (policy = Finished);
     let (ops, policy, r) = finish_policy_with VerificationPending Cleanup fake_ops (fake_new (Some 0));
     unwrap_err r;
     assert_eq (fake_operations ops) [Verify_op];
     assert_that (policy = VerificationPending)
   }"

definition supported_external_sets :: "('w, 'io, 'n) os \<Rightarrow> ('w, 'io, 'n, (bool \<times> bool) list) io" where
  "supported_external_sets k =
     each_supported_capability k (\<lambda>c sets.
       bind_io (ambient_contains k c) (\<lambda>a. bind_io (bounding_contains k c) (\<lambda>b.
         return_io (sets @ [(a, b = Some True)])))) []"

text \<open>Reading credentials twice, with the drop of preserved privileges between.\<close>

definition read_credentials ::
  "('w, 'io, 'n) os \<Rightarrow> 'w \<Rightarrow> ('w \<times> capability_sets \<times> bool \<times> (bool \<times> bool) list) option" where
  "read_credentials k w = do {
     let (w, r) = current_capabilities k w;
     capabilities \<leftarrow> unwrap r;
     let (w, r) = current_no_new_privs k w;
     nnp \<leftarrow> unwrap r;
     let (w, r) = supported_external_sets k w;
     sets \<leftarrow> unwrap r;
     Some (w, capabilities, nnp, sets)
   }"

definition preserve_does_not_change_credentials :: "('w, 'io, 'n) os \<Rightarrow> 'w \<Rightarrow> test" where
  "preserve_does_not_change_credentials k w = do {
     (w, before) \<leftarrow> read_credentials k w;
     let (w, _) = drop_privileges k preserve w;
     (_, after) \<leftarrow> read_credentials k w;
     assert_eq after before
   }"

subsection \<open>All tests pass\<close>

lemma capability_bit_shifts_are_checked_passes: "capability_bit_shifts_are_checked = Some ()"
  by (simp add: capability_bit_shifts_are_checked_def capability_def KNOWN_CAPABILITY_BITS_def)

lemma detects_an_additional_thread_passes:
  assumes "snd (os_tasks k w) = Inr (Inr a # Inr b # ts)"
  shows "detects_an_additional_thread k w = Some ()"
  using assms
  by (cases "os_tasks k w")
    (simp add: detects_an_additional_thread_def check_single_threaded_def unwrap_err_def assert_eq_def message_def)

lemma syscall_errors_retain_their_source_passes: "syscall_errors_retain_their_source n = Some ()"
  by (simp add: syscall_errors_retain_their_source_def transition_errno_def assert_eq_def)

lemma finalization_uses_the_required_order_passes:
  "finalization_uses_the_required_order = Some ()"
  by code_simp

lemma failures_through_capability_removal_remain_retryable_passes:
  "failures_through_capability_removal_remain_retryable = Some ()"
  by code_simp

lemma verification_failure_is_not_retryable_by_preparation_passes:
  "verification_failure_is_not_retryable_by_preparation = Some ()"
  by code_simp

lemma non_reusable_privileges_reject_another_preparation_passes:
  "non_reusable_privileges_reject_another_preparation = Some ()"
  by code_simp

lemma explicit_pending_finalization_does_not_retry_verification_passes:
  "explicit_pending_finalization_does_not_retry_verification = Some ()"
  by code_simp

lemma cleanup_pending_retries_only_verification_passes:
  "cleanup_pending_retries_only_verification = Some ()"
  by code_simp

text \<open>
  The test against the live process: where reading the credentials leaves them as they are, so that
  a second reading in the world the first one leaves gives the same, preserving changes nothing.
\<close>

lemma preserve_does_not_change_credentials_passes:
  assumes "read_credentials k w = Some (w', seen)" and "read_credentials k w' = Some (w'', seen)"
  shows "preserve_does_not_change_credentials k w = Some ()"
  using assms
  by (simp add: preserve_does_not_change_credentials_def drop_privileges_def cleanup_def preserve_def assert_eq_def)

end
