(* ===== verification/Interactive_Tests.thy ===== *)
theory Interactive_Tests
  imports Event_Tests Tui_Format Observation_Model Lltop_Main
begin

text \<open>
  The unit tests of \<open>lltop/src/tui/format.rs\<close>, \<open>lltop/src/tui/model.rs\<close> and \<open>lltop/src/main.rs\<close>. The
  column widths of the texts are a parameter of the model; the wrapping test uses the widths the
  Unicode tables give the characters of its texts.
\<close>

subsection \<open>Formatting\<close>

definition access_rights_support_prefixed_denials_and_unprefixed_fields :: test where
  "access_rights_support_prefixed_denials_and_unprefixed_fields = do {
     let fs_access = FilesystemAccess 0x8000000000000004;
     let net_access = NetworkAccess 0x8000000000000002;
     let scoped = ScopeAccess 0x8000000000000002;
     assert_eq (filesystem_rights fs_access) (ascii ''read_file, 0x8000000000000000'');
     assert_eq (network_rights net_access) (ascii ''connect_tcp, 0x8000000000000000'');
     assert_eq (scope_rights scoped) (ascii ''signal, 0x8000000000000000'');
     assert_eq (filesystem_label fs_access) (ascii ''FS: read_file, 0x8000000000000000'');
     assert_eq (network_label net_access) (ascii ''Net: connect_tcp, 0x8000000000000000'');
     assert_eq (scope_label scoped) (ascii ''Scope: signal, 0x8000000000000000'');
     assert_eq (filesystem_blocker (classify BT_FS_CHANGE_TOPOLOGY (FilesystemAccess 0)))
       (ascii ''FS: change_topology'');
     assert_eq (filesystem_blocker (classify BT_FS_CHANGE_TOPOLOGY (FilesystemAccess 4)))
       (ascii ''FS: change_topology, access=0x4'');
     assert_eq (filesystem_blocker (classify (BlockerType 0xFEED) fs_access))
       (ascii ''FS: request_type=0xfeed, access=0x8000000000000004'');
     assert_eq (network_blocker (BlockerType 0xBEEF) net_access)
       (ascii ''Net: request_type=0xbeef, access=0x8000000000000002'')
   }"

text \<open>Rendering, where control characters are the hazardous ones among those of the test.\<close>

definition escaping_blocks_terminal_control_and_marks_omission :: test where
  "escaping_blocks_terminal_control_and_marks_omission = do {
     v \<leftarrow> unwrap (command_new (lit ''a b,'' @ [0x5C, 0xA, 0x1B, 0xFF]) False);
     assert_eq (display_captured (\<lambda>c. c < 32) command_consts v)
       (ascii ''a b,'' @ [0x5C, 0x5C] @ 0x5C # ascii ''u{a}'' @ 0x5C # ascii ''u{1b}'' @ 0x5C # ascii ''xff'');
     omitted \<leftarrow> unwrap (path_new (replicate 256 0x70) True);
     assert_eq (last (display_captured (\<lambda>c. c < 32) pathname_consts omitted)) ELLIPSIS
   }"

text \<open>Texts of the tests with characters outside ASCII, as code points.\<close>

definition narrow_letter :: nat where "narrow_letter = 0xE9"
definition wide_letter :: nat where "wide_letter = 0x754C"
definition bell :: nat where "bell = 0x1F514"
definition bell_off :: nat where "bell_off = 0x1F515"

definition sample_width :: "ustring \<Rightarrow> nat" where
  "sample_width t = sum_list (map (\<lambda>c. if c = wide_letter \<or> c = bell \<or> c = bell_off then 2 else 1) t)"

definition wrapping_prefers_semantic_boundaries_and_is_utf8_safe :: test where
  "wrapping_prefers_semantic_boundaries_and_is_utf8_safe = do {
     assert_eq (wrap sample_width (ascii ''read_file, write_file'') 12 10)
       [ascii ''read_file, '', ascii ''write_file''];
     assert_eq (wrap sample_width (ascii ''/long/path/name'') 10 8)
       [ascii ''/long/'', ascii ''path/'', ascii ''name''];
     assert_eq (wrap sample_width [narrow_letter, narrow_letter, narrow_letter, narrow_letter] 2 2)
       [[narrow_letter, narrow_letter], [narrow_letter, narrow_letter]];
     assert_eq (wrap sample_width [wide_letter, wide_letter] 2 2) [[wide_letter], [wide_letter]];
     assert_eq (wrap sample_width (wide_letter # ascii ''x'') 1 1) [[wide_letter], ascii ''x''];
     assert_eq (wrap sample_width (bell_off # ascii ''x'') 2 2) [[bell_off], ascii ''x''];
     assert_eq (wrap sample_width (bell # ascii ''x'') 2 2) [[bell], ascii ''x''];
     assert_eq (wrap sample_width (ascii ''abcdef'') 3 2) [ascii ''abc'', ascii ''de'', ascii ''f'']
   }"

subsection \<open>The observation model\<close>

definition create_event :: "nat \<Rightarrow> nat option \<Rightarrow> event option" where
  "create_event id_offset parent_offset = do {
     r \<leftarrow> t_ruleset 1;
     d \<leftarrow> t_domain (of_nat id_offset);
     parent \<leftarrow> (case parent_offset of
       None \<Rightarrow> Some None
     | Some off \<Rightarrow> map_option Some (t_domain (of_nat off)));
     creator \<leftarrow> t_pid 1;
     comm \<leftarrow> t_command (lit ''x'');
     Some (CreateDomain
       \<lparr>cd_timestamp = KernelTimestamp (of_nat id_offset), cd_ruleset_id = r, cd_ruleset_version = 0,
        cd_domain_id = d, cd_parent_id = parent, cd_creator_tgid = creator, cd_creator_comm = comm\<rparr>)
   }"

fun observe_created :: "observation_model \<Rightarrow> (nat \<times> nat option) list \<Rightarrow> observation_model option" where
  "observe_created m [] = Some m"
| "observe_created m ((i, p) # rest) = do {
     e \<leftarrow> create_event i p;
     observe_created (model_observe m e) rest
   }"

definition tree_retains_ancestor_last_child_metadata :: test where
  "tree_retains_ancestor_last_child_metadata = do {
     m \<leftarrow> observe_created model_new [(1, None), (2, Some 1), (3, Some 1), (4, Some 2)];
     d1 \<leftarrow> t_domain 1;
     d2 \<leftarrow> t_domain 2;
     d3 \<leftarrow> t_domain 3;
     d4 \<leftarrow> t_domain 4;
     d5 \<leftarrow> t_domain 5;
     tid \<leftarrow> t_tid 1;
     let m = model_observe m (EnforceDomain
       \<lparr>ed_timestamp = KernelTimestamp 5, ed_domain_id = d5, ed_enforcing_tid = tid,
        ed_complete = True, ed_process_wide = False, ed_no_new_privs = True\<rparr>);
     assert_eq (allocated_domains m) 5;
     assert_eq (allocated_rulesets m) 1;
     assert_eq (domain_tree m)
       [(d1, [False]), (d2, [False, False]), (d4, [False, False, True]), (d3, [False, True]), (d5, [True])]
   }"

definition cyclic_observations_are_rendered_once_without_recursion :: test where
  "cyclic_observations_are_rendered_once_without_recursion = do {
     m \<leftarrow> observe_created model_new [(1, Some 2), (2, Some 1)];
     d1 \<leftarrow> t_domain 1;
     d2 \<leftarrow> t_domain 2;
     assert_eq (domain_tree m) [(d1, [True]), (d2, [True, True])]
   }"

subsection \<open>The program entry\<close>

text \<open>The errors of these tests carry a text only. A byte vector stands for the diagnostic stream.\<close>

type_synonym test_error = "(unit, unit, unit, unit) lltop_error"

definition failure :: "string \<Rightarrow> test_error + unit" where
  "failure diagnosis = Inl (UsageError diagnosis)"

definition no_texts :: "(unit, unit, unit, unit) texts" where
  "no_texts = \<lparr>tx_bpf = (\<lambda>_. []), tx_poll = (\<lambda>_. []), tx_io = (\<lambda>_. []), tx_errno = (\<lambda>_. [])\<rparr>"

definition diagnostics_use_fallible_writes_and_flushes :: test where
  "diagnostics_use_fallible_writes_and_flushes = do {
     let (out, r) = write_diagnostic (\<lambda>w t. (w @ t, Inr () :: unit + unit)) (\<lambda>w. (w, Inr ()))
       ''warning: '' (display_lltop_error no_texts (UsageError ''problem'')) [];
     unwrap r;
     assert_eq out (''lltop: warning: problem'' @ [CHR 0x0A])
   }"

definition combines_successful_results :: test where
  "combines_successful_results = do {
     unwrap (combine_execution_and_worker_results (Inr () :: test_error + unit) (Inr ()));
     Some ()
   }"

definition preserves_primary_error :: test where
  "preserves_primary_error =
     assert_eq (combine_execution_and_worker_results (failure ''primary failure'') (Inr ()))
       (failure ''primary failure'')"

definition preserves_worker_error :: test where
  "preserves_worker_error =
     assert_eq (combine_execution_and_worker_results (Inr ()) (failure ''worker failure''))
       (failure ''worker failure'')"

definition reports_both_errors_with_primary_source :: test where
  "reports_both_errors_with_primary_source =
     (case combine_execution_and_worker_results (failure ''primary failure'') (failure ''worker failure'') of
        Inr _ \<Rightarrow> None
      | Inl error \<Rightarrow> do {
          assert_eq (display_lltop_error no_texts error)
            (''primary execution failure: primary failure; '' @
             ''additional worker shutdown/join failure: worker failure'');
          source \<leftarrow> error_source error;
          assert_eq source (UsageError ''primary failure'')
        })"

subsection \<open>All tests pass\<close>

lemma access_rights_support_prefixed_denials_and_unprefixed_fields_passes:
  "access_rights_support_prefixed_denials_and_unprefixed_fields = Some ()"
  by code_simp

lemma escaping_blocks_terminal_control_and_marks_omission_passes:
  "escaping_blocks_terminal_control_and_marks_omission = Some ()"
  by (simp add: escaping_blocks_terminal_control_and_marks_omission_def utf8_units_replicate display_eval)

lemmas wrap_eval = wrap_def wrap_loop.simps split_point_def sample_width_def display_width_def
  ascii_def or_else_def assert_eq_def narrow_letter_def wide_letter_def bell_def bell_off_def
  Let_def

lemma wrapping_prefers_semantic_boundaries_and_is_utf8_safe_passes:
  "wrapping_prefers_semantic_boundaries_and_is_utf8_safe = Some ()"
  by (simp add: wrapping_prefers_semantic_boundaries_and_is_utf8_safe_def wrap_eval)

lemma tree_retains_ancestor_last_child_metadata_passes:
  "tree_retains_ancestor_last_child_metadata = Some ()"
  by code_simp

lemma cyclic_observations_are_rendered_once_without_recursion_passes:
  "cyclic_observations_are_rendered_once_without_recursion = Some ()"
  by code_simp

lemma diagnostics_use_fallible_writes_and_flushes_passes:
  "diagnostics_use_fallible_writes_and_flushes = Some ()"
  by code_simp

lemma combines_successful_results_passes: "combines_successful_results = Some ()"
  by code_simp

lemma preserves_primary_error_passes: "preserves_primary_error = Some ()"
  by code_simp

lemma preserves_worker_error_passes: "preserves_worker_error = Some ()"
  by code_simp

lemma reports_both_errors_with_primary_source_passes:
  "reports_both_errors_with_primary_source = Some ()"
  by code_simp

end
