(* ===== verification/Tui_App_Tests.thy ===== *)
theory Tui_App_Tests
  imports Unit_Tests Tui_Loop
begin

text \<open>
  The unit tests of \<open>lltop/src/tui/mod.rs\<close> and those of \<open>lltop/src/tui/ui.rs\<close> about the application
  state: tabs, selection, viewport, clicks, the scrollbar and the draining of ready events.
\<close>

subsection \<open>Evaluation\<close>

text \<open>The checked sum and the saturating product, decided without counting up to the bound.\<close>

lemma u16_checked_add_code [code]: "u16_checked_add a b = (if a \<le> a + b then Some (a + b) else None)"
  using no_olen_add_nat [of a b] by (simp add: u16_checked_add_def)

lemma usize_saturating_mul_code [code]:
  "usize_saturating_mul x y =
     (if int x * int y \<le> 0xFFFFFFFFFFFFFFFF then x * y else 2 ^ 64 - 1)"
proof -
  have "int x * int y \<le> 0xFFFFFFFFFFFFFFFF \<longleftrightarrow> x * y \<le> 0xFFFFFFFFFFFFFFFF"
    by (metis of_nat_le_iff of_nat_mult of_nat_numeral)
  then show ?thesis
    by (simp add: usize_saturating_mul_def min_def)
qed

definition rect_new :: "u16 \<Rightarrow> u16 \<Rightarrow> u16 \<Rightarrow> u16 \<Rightarrow> rect" where
  "rect_new x y width height = \<lparr>rx = x, ry = y, rwidth = width, rheight = height\<rparr>"

text \<open>Assignments to fields of \<open>app.hit\<close>.\<close>

definition with_list :: "rect \<Rightarrow> app \<Rightarrow> app" where
  "with_list area a = a\<lparr>app_hit := (app_hit a)\<lparr>hit_list := area\<rparr>\<rparr>"

definition with_rows :: "row_kind list \<Rightarrow> app \<Rightarrow> app" where
  "with_rows rows a = a\<lparr>app_hit := (app_hit a)\<lparr>hit_rows := rows\<rparr>\<rparr>"

definition with_header_rows :: "u16 \<Rightarrow> app \<Rightarrow> app" where
  "with_header_rows n a = a\<lparr>app_hit := (app_hit a)\<lparr>hit_header_rows := n\<rparr>\<rparr>"

definition t_row :: "u64 \<Rightarrow> row_kind option" where
  "t_row offset = map_option RowDomain (t_domain offset)"

subsection \<open>Tabs and selection\<close>

fun cycles_through :: "app \<Rightarrow> tab list \<Rightarrow> test" where
  "cycles_through a [] = Some ()"
| "cycles_through a (expected # rest) = do {
     let a = cycle_tab a;
     assert_eq (app_tab a) expected;
     cycles_through a rest
   }"

definition layout_helpers_and_tab_cycle_cover_every_total_case :: test where
  "layout_helpers_and_tab_cycle_cover_every_total_case = do {
     let first = rect_new 0 0 1 1;
     let second = rect_new 1 1 2 2;
     let third = rect_new 3 3 3 3;
     assert_eq (vertical_areas [first, second, third]) (Some (first, second, third));
     assert_eq (vertical_areas [first, second]) None;
     assert_eq (pane_areas []) None;
     assert_eq (pane_areas [first]) (Some (first, None));
     assert_eq (pane_areas [first, second]) (Some (first, Some second));
     assert_eq (tree_prefix [False, False, True]) [0x2502, 32, 32, 0x2514, 0x2500, 32];
     assert_eq (tree_prefix [False, True, False]) [32, 32, 32, 0x251C, 0x2500, 32];
     cycles_through app_new [TabDenials, TabRulesets, TabStats, TabDomains]
   }"

definition closing_detail_retains_semantic_selection :: test where
  "closing_detail_retains_semantic_selection = do {
     d7 \<leftarrow> t_row 7;
     let a = close_detail (app_new\<lparr>app_selected := Some d7, app_detail := True\<rparr>);
     assert_that (\<not> app_detail a);
     assert_eq (app_selected a) (Some d7)
   }"

definition keyboard_selection_resumes_following_after_manual_scroll :: test where
  "keyboard_selection_resumes_following_after_manual_scroll = do {
     d1 \<leftarrow> t_row 1;
     d2 \<leftarrow> t_row 2;
     d3 \<leftarrow> t_row 3;
     d4 \<leftarrow> t_row 4;
     d5 \<leftarrow> t_row 5;
     let rows = [d1, d1, d2, d3, d3, d4, d5];
     let a = scroll_to ((with_rows rows app_new)\<lparr>app_selected := Some d5\<rparr>) 2;
     let a = adjust_viewport a (length rows) 3 (Some 6);
     assert_eq (app_scroll a) 2;
     let a = move_selection a (- 1);
     assert_eq (app_selected a) (Some d4);
     let a = adjust_viewport a (length rows) 3 (Some 5);
     assert_eq (app_scroll a) 3;
     let a = move_selection (a\<lparr>app_selected := None\<rparr>) (- 1);
     assert_eq (app_selected a) (Some d5);
     let a = move_selection (a\<lparr>app_selected := None\<rparr>) 1;
     assert_eq (app_selected a) (Some d1);
     let a = move_selection a 1;
     assert_eq (app_selected a) (Some d2)
   }"

definition mouse_tab_mapping_matches_rendered_titles :: test where
  "mouse_tab_mapping_matches_rendered_titles = do {
     let area = rect_new 0 0 80 3;
     assert_eq (clicked_tab area 2 1) (Some TabDomains);
     assert_eq (clicked_tab area 16 1) (Some TabDenials);
     assert_eq (clicked_tab area 1 0) None
   }"

subsection \<open>Mouse and keys\<close>

definition row_click_uses_scroll_and_ignores_headings :: test where
  "row_click_uses_scroll_and_ignores_headings = do {
     d2 \<leftarrow> t_row 2;
     let a = (with_rows [RowHeading, d2] (with_header_rows 1 (with_list (rect_new 5 5 20 10) app_new)))
       \<lparr>app_scroll := 1\<rparr>;
     let a = click_row a 6 6;
     assert_eq (app_selected a) (Some d2);
     let a = click_row (a\<lparr>app_selected := None, app_detail := False\<rparr>) 6 5;
     assert_eq (app_selected a) None;
     assert_that (\<not> app_detail a);
     let a = click_row a 6 14;
     assert_eq (app_selected a) None;
     let a = click_row (with_list (rect_new (- 1) 0 2 2) a) (- 1) 1;
     assert_eq (app_selected a) None;
     let a = click_row (with_list (rect_new 0 (- 1) 2 2) a) 1 (- 1);
     assert_eq (app_selected a) None;
     let a = click_row (with_header_rows 2 (with_list (rect_new 5 5 20 10) a)) 6 6;
     assert_eq (app_selected a) None
   }"

definition scrollbar_hit_testing_and_dragging_are_bounded :: test where
  "scrollbar_hit_testing_and_dragging_are_bounded = do {
     let area = rect_new 5 5 20 10;
     assert_that (scrollbar_hit area 24 6);
     assert_that (\<not> scrollbar_hit area 23 6);
     assert_that (\<not> scrollbar_hit (rect_new 5 5 0 10) 5 6);
     assert_that (\<not> scrollbar_hit (rect_new (- 1) 0 2 2) (- 1) 1);
     assert_that (\<not> scrollbar_hit (rect_new 0 (- 1) 2 2) 1 (- 1));
     let a = with_rows (replicate 20 RowHeading) (with_list (rect_new 0 10 10 6) app_new);
     let a = drag_scrollbar a 12;
     assert_eq (app_scroll a) 5;
     let a = drag_scrollbar ((with_list (rect_new 0 (- 1) 10 2) a)\<lparr>app_scroll := 99\<rparr>) (- 1);
     assert_eq (app_scroll a) 0
   }"

definition following_requires_a_selected_observed_domain :: test where
  "following_requires_a_selected_observed_domain = do {
     let a = follow_domain app_new model_new;
     d1 \<leftarrow> t_row 1;
     let a = follow_domain (a\<lparr>app_selected := Some d1\<rparr>) model_new;
     assert_eq (app_tab a) TabDomains;
     assert_that (\<not> app_detail a)
   }"

subsection \<open>Collector errors and draining\<close>

definition only_nonterminal_collector_errors_are_recoverable :: test where
  "only_nonterminal_collector_errors_are_recoverable = do {
     assert_that (recoverable_collector_error (Some OutputQueueFull));
     assert_that (recoverable_collector_error (Some MalformedSample));
     assert_that (\<not> recoverable_collector_error (Some PollFailure));
     assert_that (\<not> recoverable_collector_error (Some WorkerPanic));
     assert_that (\<not> recoverable_collector_error (Some WorkerStop));
     assert_that (\<not> recoverable_collector_error None)
   }"

definition ready_event :: "nat \<Rightarrow> event option" where
  "ready_event i = do {
     d \<leftarrow> t_domain (of_nat i);
     Some (FreeDomain
       \<lparr>fd_timestamp = KernelTimestamp (of_nat i), fd_domain_id = d, fd_denial_count = 0\<rparr>)
   }"

text \<open>The closure \<open>|| events.pop_front().ok_or(Empty)\<close>.\<close>

fun pop_front :: "event list \<Rightarrow> event list \<times> unit received" where
  "pop_front [] = ([], Inl NoEntry)"
| "pop_front (e # es) = (es, Inr e)"

definition ready_events_are_drained_with_a_rendering_bound :: test where
  "ready_events_are_drained_with_a_rendering_bound = do {
     events \<leftarrow> those (map ready_event [0..<MAX_READY_EVENTS_PER_CYCLE + 1]);
     (events, r) \<leftarrow> drain_ready_events (\<lambda>_. []) pop_front events app_new model_new;
     (a, m, drained) \<leftarrow> unwrap r;
     assert_eq drained MAX_READY_EVENTS_PER_CYCLE;
     assert_eq (length events) 1
   }"

subsection \<open>All tests pass\<close>

lemma layout_helpers_and_tab_cycle_cover_every_total_case_passes:
  "layout_helpers_and_tab_cycle_cover_every_total_case = Some ()"
  by (simp add: layout_helpers_and_tab_cycle_cover_every_total_case_def assert_eq_def tree_prefix_def
      cycle_tab_def set_tab_def app_new_def)

lemma closing_detail_retains_semantic_selection_passes:
  "closing_detail_retains_semantic_selection = Some ()"
  by code_simp

lemma keyboard_selection_resumes_following_after_manual_scroll_passes:
  "keyboard_selection_resumes_following_after_manual_scroll = Some ()"
  by code_simp

lemma mouse_tab_mapping_matches_rendered_titles_passes:
  "mouse_tab_mapping_matches_rendered_titles = Some ()"
  by code_simp

lemma row_click_uses_scroll_and_ignores_headings_passes:
  "row_click_uses_scroll_and_ignores_headings = Some ()"
  by code_simp

lemma scrollbar_hit_testing_and_dragging_are_bounded_passes:
  "scrollbar_hit_testing_and_dragging_are_bounded = Some ()"
  by code_simp

lemma following_requires_a_selected_observed_domain_passes:
  "following_requires_a_selected_observed_domain = Some ()"
  by code_simp

lemma only_nonterminal_collector_errors_are_recoverable_passes:
  "only_nonterminal_collector_errors_are_recoverable = Some ()"
  by code_simp

text \<open>A queue with enough events is drained to the bound, whatever the events are.\<close>

lemma drain_pop_front:
  "n + k = MAX_READY_EVENTS_PER_CYCLE \<Longrightarrow> k \<le> length es \<Longrightarrow>
     \<exists>m'. drain_loop sp pop_front es a m n = Some (drop k es, Inr (a, m', MAX_READY_EVENTS_PER_CYCLE))"
proof (induction k arbitrary: es m n)
  case 0
  then show ?case
    by (simp add: drain_loop.simps [of _ _ es])
next
  case (Suc k)
  then obtain e es' where "es = e # es'"
    by (cases es) auto
  with Suc.prems Suc.IH [of "n + 1" es' "model_observe m e"] show ?case
    by (subst drain_loop.simps) simp
qed

lemma t_domain_small: "n < 2 ^ 32 \<Longrightarrow> t_domain (of_nat n) = Some (LandlockId (MIN_LANDLOCK_ID + of_nat n))"
proof -
  assume n: "n < 2 ^ 32"
  then have small: "unat (of_nat n :: u64) = n"
    by (simp add: unat_of_nat)
  then have sum: "unat (MIN_LANDLOCK_ID + of_nat n) = 0x100000000 + n"
    using n by (simp add: MIN_LANDLOCK_ID_def unat_word_ariths)
  then have "MIN_LANDLOCK_ID \<le> MIN_LANDLOCK_ID + of_nat n" "MIN_LANDLOCK_ID + of_nat n \<noteq> (0 :: u64)"
    by (simp add: word_le_nat_alt MIN_LANDLOCK_ID_def, metis add_is_0 unat_0 zero_neq_numeral)
  then show ?thesis
    by (simp add: t_domain_def landlock_id_new_def)
qed

lemma those_map_Some: "list_all (\<lambda>x. f x \<noteq> None) xs \<Longrightarrow> those (map f xs) = Some (map (the \<circ> f) xs)"
  by (induction xs) auto

lemma ready_events_are_drained_with_a_rendering_bound_passes:
  "ready_events_are_drained_with_a_rendering_bound = Some ()"
proof -
  let ?is = "[0..<MAX_READY_EVENTS_PER_CYCLE + 1]"
  have "ready_event i \<noteq> None" if "i \<in> set ?is" for i
    using that by (simp add: ready_event_def t_domain_small MAX_READY_EVENTS_PER_CYCLE_def)
  then have events: "those (map ready_event ?is) = Some (map (the \<circ> ready_event) ?is)"
    by (intro those_map_Some) (simp add: list_all_iff)
  obtain m' where "drain_loop (\<lambda>_. []) pop_front (map (the \<circ> ready_event) ?is) app_new model_new 0 =
      Some (drop MAX_READY_EVENTS_PER_CYCLE (map (the \<circ> ready_event) ?is),
        Inr (app_new, m', MAX_READY_EVENTS_PER_CYCLE))"
    using drain_pop_front [of 0 MAX_READY_EVENTS_PER_CYCLE "map (the \<circ> ready_event) ?is" "\<lambda>_. []"
        app_new model_new] by auto
  with events show ?thesis
    unfolding ready_events_are_drained_with_a_rendering_bound_def drain_ready_events_def
    by (simp add: assert_eq_def del: upt_Suc)
qed

end
