(* ===== verification/Tui_View_Tests.thy ===== *)
theory Tui_View_Tests
  imports Unit_Tests Tui_App
begin

text \<open>
  Unit tests of \<open>lltop/src/tui/ui.rs\<close> about what the tabs, the detail pane and the status line show.
  The two tables of other crates, column widths and character categories, are those of the
  characters the tests use: every one takes one column, and controls are hazardous.
\<close>

definition plain_tables :: tui_env where
  "plain_tables = \<lparr>te_width = length, te_hazardous = (\<lambda>c. c < 32)\<rparr>"

text \<open>\<open>str::contains\<close> and the first row of a listing.\<close>

fun text_contains :: "'a list \<Rightarrow> 'a list \<Rightarrow> bool" where
  "text_contains [] sub = (sub = [])"
| "text_contains (c # s) sub = (take (length sub) (c # s) = sub \<or> text_contains s sub)"

definition has_text :: "ustring \<Rightarrow> string \<Rightarrow> bool" where
  "has_text t sub = text_contains t (ascii sub)"

fun first_text :: "display_row list \<Rightarrow> ustring option" where
  "first_text [] = None"
| "first_text (r # _) = Some (dr_text r)"

definition details_of :: "observation_model \<Rightarrow> row_kind \<Rightarrow> nat \<Rightarrow> ustring" where
  "details_of m selected width = concat (detail_lines plain_tables m (Some selected) width)"

subsection \<open>Fixtures\<close>

definition vt_context :: "u64 \<Rightarrow> u64 \<Rightarrow> string \<Rightarrow> bool \<Rightarrow> denial_context option" where
  "vt_context domain_offset cumulative comm lg = do {
     d \<leftarrow> t_domain domain_offset;
     creator \<leftarrow> t_pid 1;
     c \<leftarrow> t_command (lit comm);
     Some \<lparr>hierarchy = \<lparr>h_domain_id = d, h_parent_id = None, h_creator_tgid = creator,
             h_creator_comm = c\<rparr>,
           cumulative_denial_count = cumulative, same_exec = True, logged = lg\<rparr>
   }"

definition abstract_denial :: "process_id option \<Rightarrow> event option" where
  "abstract_denial peer_pid = do {
     ctx \<leftarrow> vt_context 1 1 ''creator'' False;
     name \<leftarrow> t_abstract_name (lit ''service'' @ [0] @ lit ''v1'');
     Some (DenyScopeAbstractUnixSocket
       \<lparr>du_timestamp = KernelTimestamp 1, du_context = ctx, du_peer_domain = Unsandboxed,
        du_peer_pid = peer_pid, du_abstract_name = name\<rparr>)
   }"

subsection \<open>Labels, rows and details\<close>

definition lifecycle_labels_cover_the_closed_statuses :: test where
  "lifecycle_labels_cover_the_closed_statuses = do {
     assert_eq (lifecycle_text Allocated) ''allocated'';
     assert_eq (lifecycle_text Deallocated) ''deallocated''
   }"

definition non_denial_rendering_fallback_is_total :: test where
  "non_denial_rendering_fallback_is_total = do {
     d \<leftarrow> t_domain 1;
     let e = FreeDomain \<lparr>fd_timestamp = KernelTimestamp 1, fd_domain_id = d, fd_denial_count = 0\<rparr>;
     assert_eq (blockers_event e) (ascii ''unknown'');
     assert_eq (target_event plain_tables e) (ascii ''unknown'')
   }"

definition entry_of :: "(event \<Rightarrow> bool) \<Rightarrow> observation_model \<Rightarrow> aggregated_denial option" where
  "entry_of p m = find (\<lambda>e. p (ag_latest_event e)) (hm_values (agg_entries (om_denials m)))"

definition typed_process_ids_render_in_domain_and_denial_targets :: test where
  "typed_process_ids_render_in_domain_and_denial_targets = do {
     d \<leftarrow> t_domain 7;
     r \<leftarrow> t_ruleset 8;
     creator \<leftarrow> t_pid 17;
     comm \<leftarrow> t_command (lit ''creator'');
     let m = model_observe model_new (CreateDomain
       \<lparr>cd_timestamp = KernelTimestamp 1, cd_ruleset_id = r, cd_ruleset_version = 9,
        cd_domain_id = d, cd_parent_id = None, cd_creator_tgid = creator, cd_creator_comm = comm\<rparr>);
     t \<leftarrow> first_text (domain_rows plain_tables m);
     assert_that (has_text t ''creator[17]'');
     assert_that (has_text (details_of m (RowDomain d) 120) ''Ruleset: 100000008.9'');
     ctx \<leftarrow> vt_context 1 1 ''creator'' False;
     tracee_pid \<leftarrow> t_pid 42;
     tracee \<leftarrow> t_command (lit ''tracee'');
     let m = model_observe m (DenyPtrace
       \<lparr>dp_timestamp = KernelTimestamp 2, dp_context = ctx, dp_tracee_domain = Unsandboxed,
        dp_tracee_pid = tracee_pid, dp_tracee_comm = tracee\<rparr>);
     ptrace \<leftarrow> entry_of (\<lambda>e. case e of DenyPtrace _ \<Rightarrow> True | _ \<Rightarrow> False) m;
     assert_eq (target_of plain_tables ptrace) (ascii ''pid:42 tracee'');
     target_pid \<leftarrow> t_pid 43;
     target \<leftarrow> t_command (lit ''target'');
     let m = model_observe m (DenyScopeSignal
       \<lparr>ds_timestamp = KernelTimestamp 3, ds_context = ctx, ds_target_domain = Unsandboxed,
        ds_target_pid = target_pid, ds_target_comm = target\<rparr>);
     signal \<leftarrow> entry_of (\<lambda>e. case e of DenyScopeSignal _ \<Rightarrow> True | _ \<Rightarrow> False) m;
     assert_eq (target_of plain_tables signal) (ascii ''pid:43 target'')
   }"

text \<open>What the three places of the warning show of a model: the first row, the status, the details.\<close>

definition warning_texts :: "observation_model \<Rightarrow> domain_id \<Rightarrow> ustring option \<times> string \<times> ustring" where
  "warning_texts m d =
     (first_text (domain_rows plain_tables m), status_line False None m, details_of m (RowDomain d) 120)"

definition enforced_model :: "domain_id \<Rightarrow> thread_id \<Rightarrow> observation_model" where
  "enforced_model d tid = model_observe model_new (EnforceDomain
     \<lparr>ed_timestamp = KernelTimestamp 1, ed_domain_id = d, ed_enforcing_tid = tid,
      ed_complete = True, ed_process_wide = True, ed_no_new_privs = False\<rparr>)"

definition freed_model :: "domain_id \<Rightarrow> thread_id \<Rightarrow> observation_model" where
  "freed_model d tid = model_observe (enforced_model d tid) (FreeDomain
     \<lparr>fd_timestamp = KernelTimestamp 2, fd_domain_id = d, fd_denial_count = 0\<rparr>)"

definition missing_no_new_privs_has_precise_status_and_detail_warning :: test where
  "missing_no_new_privs_has_precise_status_and_detail_warning = do {
     d \<leftarrow> t_domain 7;
     tid \<leftarrow> t_tid 10;
     let (row, status, detail) = warning_texts (enforced_model d tid) d;
     t \<leftarrow> row;
     assert_that (has_text t ''WARNING: missing no_new_privs means privilege gain is possible'');
     assert_that (text_contains status ''WARNING: missing no_new_privs means privilege gain is possible'');
     assert_that (has_text detail ''WARNING: missing no_new_privs means privilege gain is possible'');
     assert_that (\<not> has_text detail ''capability'');
     assert_that (\<not> has_text detail ''escape'');
     let (row, status, detail) = warning_texts (freed_model d tid) d;
     t \<leftarrow> row;
     assert_that (\<not> has_text t ''WARNING'');
     assert_that (\<not> text_contains status ''missing no_new_privs means'');
     assert_that (has_text detail
       ''historical observation: missing no_new_privs; privilege gain was possible'');
     assert_that (\<not> has_text detail ''WARNING'')
   }"

definition collector_warning_persists_in_status :: test where
  "collector_warning_persists_in_status = do {
     let a = set_collector_warning app_new ''collector output queue is full'';
     assert_that (text_contains (status_line (app_paused a) (app_collector_warning a) model_new)
       ''COLLECTOR WARNING: collector output queue is full'');
     let a = set_tab a TabDenials;
     assert_that (text_contains (status_line (app_paused a) (app_collector_warning a) model_new)
       ''COLLECTOR WARNING: collector output queue is full'')
   }"

definition ruleset_details_use_one_access_family_prefix :: test where
  "ruleset_details_use_one_access_family_prefix = do {
     r \<leftarrow> t_ruleset 7;
     path \<leftarrow> t_path (lit ''/tmp/file'');
     let m = model_observe model_new (CreateRuleset
       \<lparr>cr_timestamp = KernelTimestamp 1, cr_ruleset_id = r, cr_ruleset_version = 0,
        cr_handled_fs = FilesystemAccess 4, cr_handled_net = NetworkAccess 2, cr_scoped = ScopeAccess 2\<rparr>);
     let m = model_observe m (AddRulePathBeneath
       \<lparr>ap_timestamp = KernelTimestamp 2, ap_ruleset_id = r, ap_ruleset_version = 1,
        ap_access_rights = FilesystemAccess 2, ap_device = 1, ap_inode = 2, ap_pathname = path\<rparr>);
     let m = model_observe m (AddRuleNetPort
       \<lparr>an_timestamp = KernelTimestamp 3, an_ruleset_id = r, an_ruleset_version = 2,
        an_access_rights = NetworkAccess 2, an_port = 443\<rparr>);
     assert_eq (length (ruleset_rows m)) 1;
     assert_eq (detail_lines plain_tables m (Some (RowRuleset r)) 80)
       [ascii ''Ruleset: 100000007.2'', ascii ''Status: allocated'', ascii ''Handled FS: read_file'',
        ascii ''Handled Net: connect_tcp'', ascii ''Scoped: signal'', ascii ''FS: write_file'',
        ascii ''    /tmp/file'', ascii ''Net: connect_tcp'', ascii ''    port 443'']
   }"

text \<open>The first row of the denials tab that stands for a denial.\<close>

definition is_denial :: "display_row \<Rightarrow> bool" where
  "is_denial r = (case dr_kind r of RowDenial _ \<Rightarrow> True | _ \<Rightarrow> False)"

definition found_denial :: "observation_model \<Rightarrow> display_row option" where
  "found_denial m = find is_denial (denial_rows plain_tables m)"

definition escaped_name :: ustring where
  "escaped_name = ascii ''@service'' @ 0x5C # ascii ''u{0}v1''"

definition abstract_unix_target :: "process_id option \<Rightarrow> string \<Rightarrow> test" where
  "abstract_unix_target peer_pid expected_pid = do {
     e \<leftarrow> abstract_denial peer_pid;
     let m = model_observe model_new e;
     row \<leftarrow> found_denial m;
     assert_that (text_contains (dr_text row) escaped_name);
     let details = details_of m (dr_kind row) 120;
     assert_that (text_contains details (ascii ''Target: '' @ escaped_name));
     assert_that (text_contains details (ascii ''Latest peer PID: '' @ ascii expected_pid))
   }"

definition abstract_unix_target_is_name_and_peer_pid_is_separate_detail :: test where
  "abstract_unix_target_is_name_and_peer_pid_is_separate_detail = do {
     p \<leftarrow> t_pid 42;
     abstract_unix_target (Some p) ''42'';
     abstract_unix_target None ''unknown''
   }"

definition vt_denial :: "u64 \<Rightarrow> u64 \<Rightarrow> u64 \<Rightarrow> u64 \<Rightarrow> event option" where
  "vt_denial domain_offset cumulative ts inode = do {
     ctx \<leftarrow> vt_context domain_offset cumulative ''x'' (cumulative AND 1 = 0);
     path \<leftarrow> t_path (lit (''/p/'' @ dec (unat inode)));
     Some (DenyAccessFs
       \<lparr>df_timestamp = KernelTimestamp ts, df_context = ctx, df_blockers_type = BT_FS_ACCESS,
        df_blockers_access = FilesystemAccess 4, df_device = 1, df_inode = inode, df_pathname = path\<rparr>)
   }"

definition vt_net_denial :: "event option" where
  "vt_net_denial = do {
     ctx \<leftarrow> vt_context 1 1 ''x'' False;
     Some (DenyAccessNet
       \<lparr>dn_timestamp = KernelTimestamp 1, dn_context = ctx, dn_blockers_type = BT_NET_ACCESS,
        dn_blockers_access = NetworkAccess 2, dn_source_port = 0, dn_destination_port = 443\<rparr>)
   }"

definition blocked_line :: "event option \<Rightarrow> ustring \<Rightarrow> test" where
  "blocked_line ev expected = do {
     e \<leftarrow> ev;
     let m = model_observe model_new e;
     blocked \<leftarrow> find (\<lambda>l. take 9 l = ascii ''Blocked: '')
       (detail_lines plain_tables m (map_option dr_kind (found_denial m)) 80);
     assert_eq blocked expected
   }"

definition denial_details_keep_access_family_prefix :: test where
  "denial_details_keep_access_family_prefix = do {
     blocked_line (vt_denial 1 1 1 1) (ascii ''Blocked: FS: read_file'');
     blocked_line vt_net_denial (ascii ''Blocked: Net: connect_tcp'')
   }"

subsection \<open>These tests pass\<close>

lemma lifecycle_labels_cover_the_closed_statuses_passes:
  "lifecycle_labels_cover_the_closed_statuses = Some ()"
  by code_simp

lemma non_denial_rendering_fallback_is_total_passes:
  "non_denial_rendering_fallback_is_total = Some ()"
  by code_simp

lemma collector_warning_persists_in_status_passes:
  "collector_warning_persists_in_status = Some ()"
  by code_simp

lemma typed_process_ids_render_in_domain_and_denial_targets_passes:
  "typed_process_ids_render_in_domain_and_denial_targets = Some ()"
  by code_simp

text \<open>A search in a text of ASCII characters is a search in the string it comes from.\<close>

lemma ascii_eq: "ascii s = ascii t \<longleftrightarrow> s = t"
  by (simp add: ascii_def inj_def inj_map_eq_map)

lemma text_contains_ascii: "has_text (ascii s) sub = text_contains s sub"
proof (induction s)
  case Nil
  then show ?case
    by (simp add: has_text_def ascii_def)
next
  case (Cons c s)
  have "take (length (ascii sub)) (ascii (c # s)) = ascii (take (length sub) (c # s))"
    unfolding ascii_def length_map by (rule take_map)
  with Cons show ?case
    by (simp add: has_text_def ascii_eq) (simp add: ascii_def inj_def inj_map_eq_map)
qed

definition enforced_texts :: "ustring option \<times> string \<times> ustring" where
  "enforced_texts =
     (Some (ascii (''100000007  ?  denials=?  allocated; WARNING: missing no_new_privs means '' @
        ''privilege gain is possible'')),
      '' 1 domains (1 allocated) | 0 denials | WARNING: missing no_new_privs means privilege gain '' @
      ''is possible'',
      ascii (''Domain: 100000007Status: allocatedParent: ?Ruleset: ?Created: ?Observed enforcing TIDs: 1'' @
        ''no_new_privs: WARNING: missing no_new_privs means privilege gain is possible''))"

definition freed_texts :: "ustring option \<times> string \<times> ustring" where
  "freed_texts =
     (Some (ascii ''100000007  ?  denials=0  deallocated''),
      '' 1 domains (0 allocated) | 0 denials'',
      ascii (''Domain: 100000007Status: deallocatedParent: ?Ruleset: ?Created: ?Observed enforcing TIDs: 1'' @
        ''no_new_privs: historical observation: missing no_new_privs; privilege gain was possible''))"

lemma enforced_model_texts:
  "warning_texts (enforced_model (LandlockId 0x100000007) (ThreadId 10)) (LandlockId 0x100000007) =
     enforced_texts"
  by code_simp

lemma freed_model_texts:
  "warning_texts (freed_model (LandlockId 0x100000007) (ThreadId 10)) (LandlockId 0x100000007) =
     freed_texts"
  by code_simp

lemma missing_no_new_privs_has_precise_status_and_detail_warning_passes:
  "missing_no_new_privs_has_precise_status_and_detail_warning = Some ()"
proof -
  have "t_domain 7 = Some (LandlockId 0x100000007)" "t_tid 10 = Some (ThreadId 10)"
    by code_simp+
  then show ?thesis
    by (simp add: missing_no_new_privs_has_precise_status_and_detail_warning_def enforced_model_texts
        freed_model_texts enforced_texts_def freed_texts_def text_contains_ascii)
qed

lemma ruleset_details_use_one_access_family_prefix_passes:
  "ruleset_details_use_one_access_family_prefix = Some ()"
  by code_simp

subsection \<open>A model with one denial\<close>

text \<open>
  The rows of a single denial: its domain, the heading of the blocked right and the denial. The
  icons in the texts are single characters outside ASCII, so the texts are not evaluated.
\<close>

lemma observe_first:
  assumes "denial_key_context ev = Some (key, ctx)"
  shows "hm_values (agg_entries (om_denials (model_observe model_new ev))) =
      [new_entry ev key (same_exec ctx) (logged ctx) 1]"
    and "model_denial (model_observe model_new ev) key =
      Some (new_entry ev key (same_exec ctx) (logged ctx) 1)"
  using assms
  by (simp_all add: model_observe_def model_new_def observe_def observe_entry_def denial_facts_def
      next_ingestion_sequence_def compact_sequences_def aggregator_new_def insert_entry_def
      saturating_add_def DEFAULT_CAPACITY_def hm_contains_key_def hm_len_def hm_or_insert_def hm_get_def
      hm_values_def model_denial_def agg_get_def)

lemma denial_rows_single:
  assumes "hm_values (agg_entries (om_denials m)) = [e]"
  shows "denial_rows env m =
    [denial_domain_row env m (denial_key_domain_id (ag_key e)),
     heading_row (ascii ''  '' @ blockers_of e), denial_row env e]"
  using assms
  by (simp add: denial_rows_def group_by_def sort_by_def domain_block_def group_rows_def hm_upsert_def hm_modify_def
      hm_or_insert_def hm_contains_key_def)

lemma found_denial_first:
  assumes "denial_key_context ev = Some (key, ctx)"
  shows "found_denial (model_observe model_new ev) =
    Some (denial_row plain_tables (new_entry ev key (same_exec ctx) (logged ctx) 1))"
  using denial_rows_single [OF observe_first(1) [OF assms], of plain_tables]
  by (simp add: found_denial_def is_denial_def denial_domain_row_def heading_row_def denial_row_def Let_def
      split: prod.split)

lemma field_lines_short:
  "length (snd f) \<le> width - length (fst f) \<Longrightarrow> field_lines plain_tables width f = [fst f @ snd f]"
  by (simp add: field_lines_def plain_tables_def wrap_def wrap_loop.simps [of _ _ _ "snd f"] display_width_def Let_def)

lemma text_contains_iff: "text_contains t sub \<longleftrightarrow> (\<exists>a b. t = a @ sub @ b)"
proof (induction t)
  case (Cons c t)
  have "take (length sub) (c # t) = sub \<longleftrightarrow> (\<exists>b. c # t = sub @ b)"
    by (metis append_eq_conv_conj append_take_drop_id)
  moreover have "(\<exists>a b. c # t = a @ sub @ b) \<longleftrightarrow> (\<exists>b. c # t = sub @ b) \<or> (\<exists>a b. t = a @ sub @ b)"
    by (metis (no_types, lifting) append_Cons append_Nil list.inject neq_Nil_conv)
  ultimately show ?case
    using Cons.IH by simp
qed simp

lemma text_contains_append: "text_contains (a @ sub @ b) sub"
  by (auto simp: text_contains_iff)

lemma text_contains_self: "text_contains sub sub"
  using text_contains_append [of "[]" sub "[]"] by simp

lemma text_contains_right: "text_contains t sub \<Longrightarrow> text_contains (s @ t) sub"
  by (auto simp: text_contains_iff) (metis append_assoc)

subsection \<open>The tests with one denial pass\<close>

text \<open>The fields of a single denial, and that a field which fits is shown.\<close>

lemma first_denial_lines:
  assumes "denial_key_context ev = Some (key, ctx)"
  shows "detail_lines plain_tables (model_observe model_new ev) (Some (RowDenial key)) width =
    concat (map (field_lines plain_tables width)
      (denial_detail plain_tables key (new_entry ev key (same_exec ctx) (logged ctx) 1)))"
  by (simp add: detail_lines_def detail_fields_def observe_first(2) [OF assms] denial_detail_def)

lemma field_shown:
  assumes "f \<in> set fs" "length (snd f) \<le> width - length (fst f)"
  shows "text_contains (concat (concat (map (field_lines plain_tables width) fs))) (fst f @ snd f)"
proof -
  obtain xs ys where "fs = xs @ f # ys"
    using split_list [OF assms(1)] by blast
  then show ?thesis
    using text_contains_append [of "concat (concat (map (field_lines plain_tables width) xs))" "fst f @ snd f"]
    by (simp add: field_lines_short [OF assms(2)])
qed

lemma abstract_unix_target_passes:
  assumes e: "abstract_denial p = Some e"
    and key: "denial_key_context e = Some (key, ctx)"
    and target: "target_event plain_tables e = escaped_name"
    and peer: "(ascii ''Latest peer PID: '', ascii expected) \<in> set (peer_fields e)"
    and fits: "length expected \<le> 100"
  shows "abstract_unix_target p expected = Some ()"
proof -
  let ?entry = "new_entry e key (same_exec ctx) (logged ctx) 1"
  have kind: "dr_kind (denial_row plain_tables ?entry) = RowDenial key"
    by (simp add: denial_row_def new_entry_def split: prod.split)
  have row: "text_contains (dr_text (denial_row plain_tables ?entry)) escaped_name"
    by (simp add: denial_row_def denial_row_text_def target_of_def new_entry_def target Let_def)
      (intro text_contains_right text_contains_self)
  have "(ascii ''Target: '', escaped_name) \<in> set (denial_detail plain_tables key ?entry)"
    "(ascii ''Latest peer PID: '', ascii expected) \<in> set (denial_detail plain_tables key ?entry)"
    using peer by (simp_all add: denial_detail_def target_of_def new_entry_def target)
  then have "text_contains (details_of (model_observe model_new e) (RowDenial key) 120)
      (ascii ''Target: '' @ escaped_name)"
    "text_contains (details_of (model_observe model_new e) (RowDenial key) 120)
      (ascii ''Latest peer PID: '' @ ascii expected)"
    using field_shown [of _ _ 120] fits
    by (fastforce simp: details_of_def first_denial_lines [OF key] escaped_name_def ascii_def)+
  with row kind show ?thesis
    by (simp add: abstract_unix_target_def e found_denial_first [OF key])
qed

definition texts_of :: "event \<Rightarrow> (domain_id \<times> ustring \<times> ustring \<times> field list) option" where
  "texts_of e = map_option (\<lambda>(key, _).
     (denial_key_domain_id key, blockers_event e, target_event plain_tables e, peer_fields e))
     (denial_key_context e)"

lemma texts_of_abstract:
  "Option.bind (abstract_denial (Some (ProcessId 42))) texts_of =
     Some (LandlockId 0x100000001, ascii ''Scope: abstract_unix_socket'', escaped_name,
       [(ascii ''Latest peer PID: '', ascii ''42'')])"
  "Option.bind (abstract_denial None) texts_of =
     Some (LandlockId 0x100000001, ascii ''Scope: abstract_unix_socket'', escaped_name,
       [(ascii ''Latest peer PID: '', ascii ''unknown'')])"
  by code_simp+

lemma texts_of_access:
  "Option.bind (vt_denial 1 1 1 1) texts_of =
     Some (LandlockId 0x100000001, ascii ''FS: read_file'', ascii ''/p/1'', [])"
  "Option.bind vt_net_denial texts_of =
     Some (LandlockId 0x100000001, ascii ''Net: connect_tcp'', ascii ''dport:443'', [])"
  by code_simp+

lemma abstract_unix_target_is_name_and_peer_pid_is_separate_detail_passes:
  "abstract_unix_target_is_name_and_peer_pid_is_separate_detail = Some ()"
proof -
  have "abstract_unix_target p expected = Some ()"
    if "Option.bind (abstract_denial p) texts_of =
        Some (d, b, escaped_name, [(ascii ''Latest peer PID: '', ascii expected)])"
      and "length expected \<le> 100" for p expected d b
    using that by (auto simp: Option.bind_eq_Some_conv texts_of_def intro!: abstract_unix_target_passes)
  then have "abstract_unix_target (Some (ProcessId 42)) ''42'' = Some ()"
    "abstract_unix_target None ''unknown'' = Some ()"
    using texts_of_abstract by fastforce+
  then show ?thesis
    by (simp add: abstract_unix_target_is_name_and_peer_pid_is_separate_detail_def t_pid_def process_id_new_def)
qed

lemma blocked_line_passes:
  assumes "Option.bind ev texts_of = Some (LandlockId 0x100000001, ascii b, t, pf)" "length b \<le> 70"
  shows "blocked_line ev (ascii ''Blocked: '' @ ascii b) = Some ()"
proof -
  from assms obtain e key ctx where e: "ev = Some e" "denial_key_context e = Some (key, ctx)"
    "denial_key_domain_id key = LandlockId 0x100000001" "blockers_event e = ascii b"
    by (auto simp: Option.bind_eq_Some_conv texts_of_def)
  let ?entry = "new_entry e key (same_exec ctx) (logged ctx) 1"
  have head: "\<exists>rest. denial_detail plain_tables key ?entry =
      (ascii ''Domain: '', ascii ''100000001'') # (ascii ''Blocked: '', ascii b) # rest"
    using e by (simp add: denial_detail_def blockers_of_def new_entry_def display_domain_id_def number_texts)
  have kind: "dr_kind (denial_row plain_tables ?entry) = RowDenial key"
    by (simp add: denial_row_def new_entry_def split: prod.split)
  have "field_lines plain_tables 80 (ascii ''Domain: '', ascii ''100000001'') = [ascii ''Domain: 100000001'']"
    "field_lines plain_tables 80 (ascii ''Blocked: '', ascii b) = [ascii ''Blocked: '' @ ascii b]"
    using assms(2) by (subst field_lines_short; simp add: ascii_def)+
  then obtain rest where "detail_lines plain_tables (model_observe model_new e) (Some (RowDenial key)) 80 =
      (ascii ''Domain: 100000001'') # (ascii ''Blocked: '' @ ascii b) # rest"
    using head by (auto simp: first_denial_lines [OF e(2)])
  then show ?thesis
    by (simp add: blocked_line_def e found_denial_first kind) (simp add: ascii_def assert_eq_def)
qed

lemma denial_details_keep_access_family_prefix_passes:
  "denial_details_keep_access_family_prefix = Some ()"
proof -
  have "blocked_line (vt_denial 1 1 1 1) (ascii ''Blocked: '' @ ascii ''FS: read_file'') = Some ()"
    "blocked_line vt_net_denial (ascii ''Blocked: '' @ ascii ''Net: connect_tcp'') = Some ()"
    using blocked_line_passes [OF texts_of_access(1)] blocked_line_passes [OF texts_of_access(2)] by simp_all
  then show ?thesis
    by (simp add: denial_details_keep_access_family_prefix_def ascii_def)
qed

end
