(* ===== verification/Spec2Isabelle.thy ===== *)
theory Spec2Isabelle
  imports Recon_Properties Wire_Properties Aggregate_Properties Batch_Properties Collector_Properties
    Privilege_Properties Prepare_Properties Model_Properties Display_Properties Tui_Loop_Properties
    Main_Properties Tui_Style Live_Drain Receive_Deadline Builders State_Tests Event_Tests Aggregate_Tests
    Batch_Tests Collector_Tests Privilege_Tests Interactive_Tests Tui_App_Tests Tui_View_Tests
begin

text \<open>
  A verification development for \<open>landlock-observability\<close>: a Rust library that observes Landlock
  (rulesets, domains, denied accesses) through BPF programs attached to kernel tracepoints, and
  \<open>lltop\<close>, a program that prints or shows what the library reports. Paths below are relative to the
  repository's root, its library crate in \<open>src/\<close> and \<open>lltop\<close> in \<open>lltop/src/\<close>.

  \<^bold>\<open>How the program works.\<close> \<open>lltop\<close> (\<open>main.rs\<close>) first reduces its credentials to what loading BPF needs
  (\<open>privilege.rs\<close>), prepares the collector (\<open>collector.rs\<close>, \<open>collector/tracepoint.rs\<close>) and drops the rest.
  The BPF programs (\<open>bpf/landlock_observability.bpf.c\<close>) write fixed-size records into a ring buffer
  (\<open>bpf/event.h\<close>). A worker thread polls it;
  its callback decodes each record (\<open>wire.rs\<close>) into an event (\<open>event/mod.rs\<close>, \<open>event/access_names.rs\<close>,
  \<open>event/string.rs\<close>) and offers it to a bounded queue; terminal conditions use a second channel. The
  consumer takes events with \<open>try_recv\<close> or \<open>recv_timeout\<close> and folds them into a reconstructed state
  (\<open>state.rs\<close>) and a bounded aggregation of denials (\<open>aggregate.rs\<close>). The batch mode (\<open>batch.rs\<close>) prints
  the changes each event makes; the interactive mode (\<open>tui/\<close>) keeps a model, draws it and reacts to keys
  and the mouse.

  \<^bold>\<open>Theories, in the order of the layers.\<close> Model theories translate the sources, one definition per
  function, record or enum; the others hold lemmas and the properties.
  \<^item> \<open>Obs_Prelude\<close>: machine integers, \<open>Result\<close>, slices, saturating arithmetic, and the interfaces
    \<open>event_sink\<close> (a consumer that keeps an invariant), \<open>monotone_fact\<close> (a fact that events only join
    information to) and \<open>latest_wins\<close> (a slot that the newest event determines). \<open>Hash_Map\<close>: the hash map
    operations as a locale with its laws, interpreted on association lists.
  \<^item> \<open>Captured_Bytes\<close>, \<open>Access_Masks\<close>, \<open>Events\<close>: the event model with its validation. \<open>Captured_Display\<close>,
    \<open>Display_Properties\<close>: the escaped rendering of captured bytes, and that it is unambiguous and free of
    hazardous characters for every table of character categories. \<open>Captured_Views\<close>: the lossy text, which
    agrees with the decoding of valid input, and the views as a path, an OS string and a socket address.
  \<^item> \<open>Wire\<close> is the decoder, \<open>Wire_Layout\<close> the producer's record, \<open>Wire_Properties\<close> the round trip, the types
    of decoded events and the classification of errors.
  \<^item> \<open>Bpf_Programs\<close> is the producer: the twelve tracepoint programs as stores into the bytes of a record,
    over the kernel structures of \<open>bpf/vmlinux.h\<close> and the kernel's helpers as a parameter. \<open>Bpf_Records\<close>
    says which event a tracepoint stands for and what the capture functions leave in the record,
    \<open>Bpf_Decode\<close> shows program by program that decoding gives that event, \<open>Bpf_Properties\<close> collects it.
  \<^item> \<open>Recon_State\<close> is \<open>State::apply\<close> and its parts. \<open>Recon_Facts\<close> states what one event does to one object
    and that the state refines it; \<open>Recon_Invariant\<close> is the representation invariant; \<open>Recon_Order\<close> and
    \<open>Recon_Properties\<close> say what a run leaves, independent of the order of delivery where that is so.
  \<^item> \<open>Aggregate\<close> is the aggregator; \<open>Aggregate_LRU\<close> shows that it refines a list in order of last
    observation, \<open>Aggregate_Properties\<close> derives what is retained and counted.
  \<^item> \<open>Text_Format\<close>, \<open>Batch\<close>, \<open>Batch_Properties\<close>: the batch mode, its counters and its records.
  \<^item> \<open>Channel\<close> (the contract of the bounded channels), \<open>Collector\<close> (worker and consumer as control points
    and steps), \<open>Collector_Safety\<close> (invariants over every interleaving), \<open>Collector_Properties\<close> (what the
    consumer sees, shutdown), \<open>Receive_Deadline\<close> (the waiting time of a receive call).
  \<^item> \<open>Privilege\<close>, \<open>Privilege_Properties\<close>: the credential transitions over the system calls as parameters.
    \<open>Prepare\<close>, \<open>Prepare_Properties\<close>: preparation with a trace of the BPF resources acquired and released.
  \<^item> \<open>Observation_Model\<close>, \<open>Domain_Tree\<close>, \<open>Model_Properties\<close>: \<open>tui/model.rs\<close>, the depth-first listing of the
    domains and its agreement with the batch mode.
  \<^item> \<open>Tui_Format\<close> (\<open>tui/format.rs\<close>), \<open>Tui_Rows\<close> and \<open>Tui_Detail\<close> (rows, details, statistics and status line
    of \<open>tui/ui.rs\<close>), \<open>Row_Listing\<close> (the denials tab is complete and ordered; the locale \<open>comparison\<close> is what
    \<open>sort_by\<close> asks of a comparison), \<open>Tui_Style\<close> (\<open>tui/theme.rs\<close> and the styles of the rows), \<open>Tui_App\<close> (\<open>App\<close>, drawing and input), \<open>Tui_App_Properties\<close> (folding,
    viewport, clicks), \<open>Tui_Loop\<close> (\<open>tui/mod.rs\<close>, \<open>tui/terminal.rs\<close>) and \<open>Tui_Loop_Properties\<close> (states of the
    loop, what it observes of the results it receives, restoring the terminal).
  \<^item> \<open>Diagnostics\<close>: the texts of errors. \<open>Lltop_Main\<close>, \<open>Main_Properties\<close>: \<open>main.rs\<close>, the composition of
    privileges, preparation and mode, and the transcript of a batch run.
  \<^item> \<open>Builders\<close>: the typestate builders of the events and the two configuration builders. The decoder's
    events are record literals: \<open>builder_any_order\<close> says that a chain of setters gives just that.
  \<^item> \<open>Pipeline\<close>: programs, collector and batch mode in sequence, from the tracepoints to the printed lines.
    \<open>Live_Drain\<close>: the interactive mode's drain over the collector with a running worker.
  \<^item> \<open>Unit_Tests\<close> and the theories named \<open>\<dots>_Tests\<close>: the unit tests of the sources, translated and run on the
    model, each with a lemma \<open>\<dots>_passes\<close>. A test is a computation in the option monad whose \<open>None\<close> is a panic.
    They compare the model with what the authors of the program expect of it on concrete inputs.
    \<open>Wire_Fixtures\<close> has the 24 record files of \<open>tests/fixtures/wire\<close>, which an independent generator
    wrote, and decodes them in both byte orders.

  \<^bold>\<open>State and effects.\<close> A struct is a record, an enum a datatype, \<open>&mut self\<close> a state that is passed and
  returned, \<open>Result\<close> a sum with the error on the left. Fixed-width integers are words where the source
  relies on their width (masks, counters with saturation, sequence numbers, screen coordinates); a
  \<open>usize\<close> is a natural number with its bound \<open>usize_max\<close> written where the code saturates. System calls,
  libbpf, terminal, threads and streams are functions on a world that the definitions take as parameters;
  what a theorem needs of them is a named predicate such as \<open>inspections_truthful\<close>, \<open>no_new_privs_isolated\<close>,
  \<open>helpers_ok\<close> (the documented behaviour of the BPF helpers), \<open>tracepoint_ok\<close> (what the kernel
  guarantees of a tracepoint's arguments) or \<open>errors_use_up\<close>, and each such theorem has a witness on a concrete instance.
  Nothing is assumed of the terminal library's width function: what is shown of folded lines is in terms of
  the widths of their characters, which the code adds up.

  \<^bold>\<open>Termination.\<close> The domain traversal and the folding of lines are total functions with a termination
  proof, also for cyclic parents and for zero widths. The interactive loop, the draining of ready
  events and the batch loop may run forever and are partial functions whose \<open>None\<close> is not returning;
  \<open>drain_returns\<close> gives the condition under which a drain returns and what it has observed of the results
  it received, \<open>drain_starved\<close> a case in which it does not return, and \<open>live_drain_returns\<close> that this cannot
  happen with records of the tracepoint programs, from any state of the collector. No
  definition uses fuel. The worker's shutdown is shown by a rank that every step lowers.

  \<^bold>\<open>Not modelled.\<close> The kernel behind the tracepoints, and the CO-RE relocation of the programs: a field
  read gives the field, and zero through a null pointer. \<open>build.rs\<close> and \<open>lib.rs\<close> (build and module
  structure), the styles of single detail fields, and the widgets, borders and layout arithmetic of the
  terminal library, whose areas are parameters; memory allocation failures other than the aggregator's
  reservation, and panics outside the worker thread; the early return of a worker that has no resources,
  which the public interface cannot start.
  Of the unit tests: the chains of builder calls of \<open>event/mod.rs\<close> (\<open>builder_any_order\<close> covers every chain);
  a worker without resources, a poisoned mutex and the two tests of error sources in \<open>collector.rs\<close>; drawing
  with the terminal library, and the four tests of \<open>tui/ui.rs\<close> that search rows of several denials. The
  integration tests of \<open>tests/\<close> need a kernel.
  Rust leaves the iteration order of hash maps open: an association list stands for one such order.
\<close>

end
